(* ===== verification/Prelude.thy ===== *)
theory Prelude
  imports Main "HOL-Library.List_Lexorder" "HOL-Library.Char_ord" "HOL-Library.Product_Lexorder"
    "HOL-Library.Sublist"
begin

text \<open>
  Shared vocabulary of the development: the exceptions the program raises, results and
  stateful results, the order of SQL queries, and the Python string operations the
  sources use, with the generic facts about them.

  A Python \<open>str\<close> is represented by its UTF-8 encoding, a \<^typ>\<open>string\<close> (a list of bytes).
  Equality, concatenation, search for and replacement of a substring, splitting at ASCII
  characters and comparison commute with that encoding, and \<open>len(s.encode("utf-8"))\<close>
  is \<^term>\<open>length s\<close>. Where the source counts or slices code points the model does so
  explicitly.
\<close>

section \<open>Collections of facts\<close>

named_theorems row_simps \<open>unfolding of the relational operations\<close>
named_theorems op_defs \<open>definitions of the store operations\<close>
named_theorems wf_intros \<open>preservation of the component invariants\<close>

section \<open>Exceptions and results\<close>

datatype exn =
    QueueError string
  | ProtocolError string
  | WorkspaceError string
  | DetectionError string
  | PackageManagerDetectionError string
  | PackageJsonError string
  | CacheError string
  | DockerError string
  | ArtifactError string
  | ArtifactUploadError string
  | OutputValidationError string
  | NetworkPolicyError string
  | AuthError string
  | ValueError string
  | TypeError string
  | AttributeError string
  | IntegrityError string
  | OperationalError string
  | OSError string
  | OverflowError string
  | ConnectionClosed string
  | StopIteration
  | InvalidSpecifier string
  | TimeoutExpired string
  | HTTPError int string
  | BuildExecutionError string string string \<comment> \<open>class, code and message\<close>

type_synonym 'a result = "exn + 'a"

text \<open>Sequencing of fallible computations: the first exception propagates.\<close>

definition rbind :: "'e + 'a \<Rightarrow> ('a \<Rightarrow> 'e + 'b) \<Rightarrow> 'e + 'b" where
  "rbind m f = (case m of Inl e \<Rightarrow> Inl e | Inr x \<Rightarrow> f x)"

lemma rbind_simps [simp]:
  "rbind (Inl e) f = Inl e"
  "rbind (Inr x) f = f x"
  by (simp_all add: rbind_def)

lemma rbind_Inr_iff:
  "rbind m f = Inr y \<longleftrightarrow> (\<exists>x. m = Inr x \<and> f x = Inr y)"
  by (cases m) auto

lemma rbind_Inl_iff:
  "rbind m f = Inl e \<longleftrightarrow> m = Inl e \<or> (\<exists>x. m = Inr x \<and> f x = Inl e)"
  by (cases m) auto

text \<open>\<open>raise e unless c\<close>: the guards of the sources.\<close>

definition ensure :: "bool \<Rightarrow> 'e \<Rightarrow> 'e + unit" where
  "ensure c e = (if c then Inr () else Inl e)"

lemma ensure_Inr_iff [simp]: "ensure c e = Inr u \<longleftrightarrow> c"
  by (simp add: ensure_def)

lemma ensure_Inl_iff [simp]: "ensure c e = Inl e' \<longleftrightarrow> \<not> c \<and> e' = e"
  by (auto simp: ensure_def)

lemma ensure_simps [simp]: "ensure True e = Inr ()" "ensure False e = Inl e"
  by (simp_all add: ensure_def)

text \<open>\<open>all\<close> over an iterable whose check may raise, stopping at the first exception.\<close>

fun each :: "('a \<Rightarrow> 'e + 'b) \<Rightarrow> 'a list \<Rightarrow> 'e + 'b list" where
  "each f [] = Inr []"
| "each f (x # xs) = rbind (f x) (\<lambda>y. rbind (each f xs) (\<lambda>ys. Inr (y # ys)))"

lemma each_Inr_length: "each f xs = Inr ys \<Longrightarrow> length ys = length xs"
  by (induction xs arbitrary: ys) (auto simp: rbind_Inr_iff)

lemma each_Inr_iff: "each f xs = Inr ys \<longleftrightarrow> map f xs = map Inr ys"
  by (induction xs arbitrary: ys) (auto simp: rbind_Inr_iff)

section \<open>Relational operations\<close>

text \<open>\<open>UPDATE ... SET f WHERE c\<close>, \<open>DELETE ... WHERE c\<close>, \<open>cursor.rowcount\<close>, and
  \<open>SELECT ... ORDER BY k LIMIT 1\<close>.\<close>

definition sql_update :: "('r \<Rightarrow> bool) \<Rightarrow> ('r \<Rightarrow> 'r) \<Rightarrow> 'r list \<Rightarrow> 'r list" where
  "sql_update c f rs = map (\<lambda>r. if c r then f r else r) rs"

definition sql_delete :: "('r \<Rightarrow> bool) \<Rightarrow> 'r list \<Rightarrow> 'r list" where
  "sql_delete c rs = filter (\<lambda>r. \<not> c r) rs"

definition rowcount :: "('r \<Rightarrow> bool) \<Rightarrow> 'r list \<Rightarrow> nat" where
  "rowcount c rs = length (filter c rs)"

definition order_by :: "('r \<Rightarrow> 'k::linorder) \<Rightarrow> 'r list \<Rightarrow> 'r list" where
  "order_by k rs = sort_key k rs"

definition fetchone :: "'r list \<Rightarrow> 'r option" where
  "fetchone rs = (case rs of [] \<Rightarrow> None | r # _ \<Rightarrow> Some r)"

lemma fetchone_simps [simp]:
  "fetchone [] = None"
  "fetchone (r # rs) = Some r"
  by (simp_all add: fetchone_def)

lemma fetchone_None_iff [simp]: "fetchone rs = None \<longleftrightarrow> rs = []"
  by (cases rs) auto

lemma fetchone_Some_in: "fetchone rs = Some r \<Longrightarrow> r \<in> set rs"
  by (cases rs) auto

lemma set_order_by [simp]: "set (order_by k rs) = set rs"
  by (simp add: order_by_def)

lemma order_by_Nil_iff [simp]: "order_by k rs = [] \<longleftrightarrow> rs = []"
  by (metis set_empty set_order_by)

lemma sorted_order_by [simp]: "sorted (map k (order_by k rs))"
  by (simp add: order_by_def)

lemma fetchone_filter_find: "fetchone (filter c rs) = find c rs"
  by (induction rs) auto

lemma fetchone_order_by_least:
  assumes "fetchone (order_by k rs) = Some r" and "x \<in> set rs"
  shows "k r \<le> k x"
proof -
  obtain rs' where rs': "order_by k rs = r # rs'"
    using assms(1) by (cases "order_by k rs") auto
  have "x \<in> set (r # rs')" using assms(2) rs' by (metis set_order_by)
  moreover have "sorted (map k (r # rs'))" using rs' by (metis sorted_order_by)
  ultimately show ?thesis by auto
qed

lemma sql_update_length [simp]: "length (sql_update c f rs) = length rs"
  by (simp add: sql_update_def)

lemma sql_update_Nil_iff [simp]: "sql_update c f rs = [] \<longleftrightarrow> rs = []"
  by (simp add: sql_update_def)

lemma set_sql_update: "set (sql_update c f rs) = (\<lambda>r. if c r then f r else r) ` set rs"
  by (simp add: sql_update_def)

lemma set_sql_delete [simp]: "set (sql_delete c rs) = {r \<in> set rs. \<not> c r}"
  by (simp add: sql_delete_def)

text \<open>A column that the update does not assign keeps its values in order.\<close>

lemma map_sql_update_col: "(\<And>r. col (f r) = col r) \<Longrightarrow> map col (sql_update c f rs) = map col rs"
  by (simp add: sql_update_def)

lemma distinct_map_sql_delete: "distinct (map col rs) \<Longrightarrow> distinct (map col (sql_delete c rs))"
  by (simp add: sql_delete_def distinct_map_filter)

lemma sql_update_id: "(\<And>r. r \<in> set rs \<Longrightarrow> \<not> c r) \<Longrightarrow> sql_update c f rs = rs"
  by (simp add: sql_update_def map_idI)

text \<open>Lookup by a key column.\<close>

lemma find_Some_in: "find c rs = Some r \<Longrightarrow> r \<in> set rs \<and> c r"
  by (induction rs) (auto split: if_splits)

lemma find_key_unique:
  assumes "distinct (map key rs)" and "r \<in> set rs" and "key r = k"
  shows "find (\<lambda>r. key r = k) rs = Some r"
  using assms by (induction rs) auto

lemma find_key_sql_update:
  assumes "\<And>r. key (f r) = key r"
  shows "find (\<lambda>r. key r = k) (sql_update c f rs) =
    map_option (\<lambda>r. if c r then f r else r) (find (\<lambda>r. key r = k) rs)"
  using assms by (induction rs) (auto simp: sql_update_def)

lemma distinct_key_eq:
  "distinct (map key rs) \<Longrightarrow> r \<in> set rs \<Longrightarrow> r' \<in> set rs \<Longrightarrow> key r = key r' \<Longrightarrow> r = r'"
  by (auto simp: distinct_map inj_on_def)

lemma filter_key_absent: "k \<notin> key ` set rs \<Longrightarrow> filter (\<lambda>r. key r = k \<and> c r) rs = []"
  by (auto simp: filter_empty_conv)

lemma rowcount_key_le1: "distinct (map key rs) \<Longrightarrow> rowcount (\<lambda>r. key r = k \<and> c r) rs \<le> 1"
proof (induction rs)
  case (Cons a rs)
  have "filter (\<lambda>r. key r = k \<and> c r) rs = []" if "key a = k"
    using Cons.prems that by (intro filter_key_absent) auto
  with Cons show ?case by (auto simp: rowcount_def)
qed (simp add: rowcount_def)

lemma rowcount_key:
  assumes "distinct (map key rs)"
  shows "rowcount (\<lambda>r. key r = k \<and> c r) rs =
    (case find (\<lambda>r. key r = k) rs of Some r \<Rightarrow> (if c r then 1 else 0) | None \<Rightarrow> 0)"
  using assms
proof (induction rs)
  case (Cons a rs)
  have "filter (\<lambda>r. key r = k \<and> c r) rs = []" if "key a = k"
    using Cons.prems that by (intro filter_key_absent) auto
  with Cons show ?case by (auto simp: rowcount_def)
qed (simp add: rowcount_def)

section \<open>Python strings\<close>

text \<open>\<open>s.replace(old, new)\<close> for a non-empty \<open>old\<close>: leftmost, non-overlapping.\<close>

fun py_replace :: "'a list \<Rightarrow> 'a list \<Rightarrow> 'a list \<Rightarrow> 'a list" where
  "py_replace old new [] = []"
| "py_replace old new (c # cs) =
     (if old \<noteq> [] \<and> prefix old (c # cs)
      then new @ py_replace old new (drop (length old - 1) cs)
      else c # py_replace old new cs)"

lemma py_replace_absent:
  assumes "old \<noteq> []" and "hd old \<notin> set s"
  shows "py_replace old new s = s"
  using assms(2)
proof (induction s)
  case (Cons c cs)
  have "\<not> prefix old (c # cs)" using assms(1) Cons.prems by (cases old) auto
  with Cons show ?case by simp
qed simp

text \<open>\<open>s.strip(chars)\<close>.\<close>

definition py_strip :: "('a \<Rightarrow> bool) \<Rightarrow> 'a list \<Rightarrow> 'a list" where
  "py_strip p s = rev (dropWhile p (rev (dropWhile p s)))"

lemma dropWhile_none: "\<forall>c \<in> set s. \<not> p c \<Longrightarrow> dropWhile p s = s"
  by (cases s) auto

lemma py_strip_none: "\<forall>c \<in> set s. \<not> p c \<Longrightarrow> py_strip p s = s"
  by (simp add: py_strip_def dropWhile_none)

text \<open>ASCII white space, as \<open>str.strip()\<close> and \<open>str.split()\<close> see it.\<close>

definition is_ws :: "char \<Rightarrow> bool" where
  "is_ws c = (let n = of_char c :: nat in (9 \<le> n \<and> n \<le> 13) \<or> (28 \<le> n \<and> n \<le> 32))"

text \<open>\<open>s.split(sep)\<close> at one character.\<close>

fun split_at :: "'a \<Rightarrow> 'a list \<Rightarrow> 'a list list" where
  "split_at d [] = [[]]"
| "split_at d (c # cs) =
     (if c = d then [] # split_at d cs
      else (case split_at d cs of [] \<Rightarrow> [[c]] | w # ws \<Rightarrow> (c # w) # ws))"

text \<open>\<open>sep.join(parts)\<close>.\<close>

fun join :: "'a list \<Rightarrow> 'a list list \<Rightarrow> 'a list" where
  "join sep [] = []"
| "join sep [x] = x"
| "join sep (x # y # ys) = x @ sep @ join sep (y # ys)"

lemma split_at_nonempty [simp]: "split_at d s \<noteq> []"
  by (induction s) (auto split: list.split)

lemma join_split_at: "join [d] (split_at d s) = s"
proof (induction s)
  case (Cons c cs)
  obtain w ws where w: "split_at d cs = w # ws" by (cases "split_at d cs") auto
  show ?case using Cons w by (cases ws) auto
qed simp

text \<open>Decimal digits: \<open>str(n)\<close> for an integer.\<close>

definition digit_char :: "nat \<Rightarrow> char" where
  "digit_char d = char_of (48 + d)"

fun nat_digits :: "nat \<Rightarrow> string" where
  "nat_digits n = (if n < 10 then [digit_char n] else nat_digits (n div 10) @ [digit_char (n mod 10)])"

declare nat_digits.simps [simp del]

definition int_str :: "int \<Rightarrow> string" where
  "int_str i = (if i < 0 then CHR ''-'' # nat_digits (nat (- i)) else nat_digits (nat i))"

lemma nat_digits_nonempty [simp]: "nat_digits n \<noteq> []"
  by (subst nat_digits.simps) simp

end
