(* ===== verification/Json.thy ===== *)
theory Json
  imports Prelude
begin

text \<open>
  JSON documents and Python's \<open>json\<close> module as the sources use it: \<open>json.dumps\<close> with
  compact separators, \<open>sort_keys=True\<close> and the default \<open>ensure_ascii\<close>, and
  \<open>json.loads\<close>. Objects keep Python's insertion order.

  A finite float is identified with the shortest decimal that denotes it (what
  \<open>repr\<close> prints); decimal literals are not rounded to binary64, which is exact for
  literals of up to 15 significant digits. A string escape that denotes a lone surrogate
  has no UTF-8 encoding and is rejected. The interpreter's recursion limit is not modelled.
\<close>

section \<open>Documents\<close>

datatype pyfloat =
    FNum bool nat int \<comment> \<open>sign, digits, decimal exponent\<close>
  | FInf bool
  | FNan

datatype json =
    JNull
  | JBool bool
  | JInt int
  | JFloat pyfloat
  | JStr string
  | JArr "json list"
  | JObj "(string \<times> json) list"

type_synonym payload = "(string \<times> json) list"

text \<open>\<open>d.get(k)\<close>, \<open>k in d\<close>, \<open>d[k] = v\<close>, \<open>d | e\<close> and \<open>d.setdefault(k, v)\<close> on dictionaries.\<close>

definition jget :: "payload \<Rightarrow> string \<Rightarrow> json option" where
  "jget d k = map_of d k"

definition jhas :: "payload \<Rightarrow> string \<Rightarrow> bool" where
  "jhas d k = (k \<in> fst ` set d)"

fun jput :: "string \<Rightarrow> 'v \<Rightarrow> (string \<times> 'v) list \<Rightarrow> (string \<times> 'v) list" where
  "jput k v [] = [(k, v)]"
| "jput k v ((k', v') # d) = (if k' = k then (k, v) # d else (k', v') # jput k v d)"

definition jmerge :: "(string \<times> 'v) list \<Rightarrow> (string \<times> 'v) list \<Rightarrow> (string \<times> 'v) list" where
  "jmerge d e = foldl (\<lambda>acc (k, v). jput k v acc) d e"

definition jsetdefault :: "payload \<Rightarrow> string \<Rightarrow> json \<Rightarrow> payload" where
  "jsetdefault d k v = (if jhas d k then d else d @ [(k, v)])"

text \<open>\<open>d.get(k)\<close> where an absent key and a JSON \<open>null\<close> both read as \<open>None\<close>.\<close>

definition jget_opt :: "payload \<Rightarrow> string \<Rightarrow> json option" where
  "jget_opt d k = (case jget d k of Some JNull \<Rightarrow> None | r \<Rightarrow> r)"

lemma jhas_jget: "jhas d k \<longleftrightarrow> jget d k \<noteq> None"
  by (simp add: jhas_def jget_def map_of_eq_None_iff)

lemma map_of_jput [simp]: "map_of (jput k v d) = (map_of d)(k \<mapsto> v)"
  by (induction d) (auto simp: fun_eq_iff)

lemma fst_set_jput [simp]: "fst ` set (jput k v d) = insert k (fst ` set d)"
  by (induction k v d rule: jput.induct) (simp_all add: insert_commute)

lemma distinct_jput [simp]: "distinct (map fst (jput k v d)) \<longleftrightarrow> distinct (map fst d)"
  by (induction k v d rule: jput.induct) simp_all

lemma jget_jput [simp]: "jget (jput k v d) k' = (if k' = k then Some v else jget d k')"
  by (simp add: jget_def)

text \<open>Python equality of a JSON value with the integer \<open>n\<close>: \<open>2.0 == 2\<close> and \<open>True == 1\<close>.\<close>

definition float_is_int :: "pyfloat \<Rightarrow> int \<Rightarrow> bool" where
  "float_is_int x n = (case x of
      FNum neg m e \<Rightarrow> 0 \<le> e \<and> n = (if neg then -1 else 1) * int m * 10 ^ nat e
    | _ \<Rightarrow> False)"

definition py_eq_int :: "json \<Rightarrow> int \<Rightarrow> bool" where
  "py_eq_int v n = (case v of
      JInt i \<Rightarrow> i = n
    | JBool b \<Rightarrow> (if b then 1 else 0) = n
    | JFloat x \<Rightarrow> float_is_int x n
    | _ \<Rightarrow> False)"

section \<open>UTF-8\<close>

definition utf8_encode1 :: "nat \<Rightarrow> string" where
  "utf8_encode1 u =
     (if u < 128 then [char_of u]
      else if u < 2048 then [char_of (192 + u div 64), char_of (128 + u mod 64)]
      else if u < 65536 then
        [char_of (224 + u div 4096), char_of (128 + u div 64 mod 64), char_of (128 + u mod 64)]
      else
        [char_of (240 + u div 262144), char_of (128 + u div 4096 mod 64),
         char_of (128 + u div 64 mod 64), char_of (128 + u mod 64)])"

text \<open>A Unicode scalar value: a code point that is not a surrogate.\<close>

definition is_scalar :: "nat \<Rightarrow> bool" where
  "is_scalar u \<longleftrightarrow> u < 55296 \<or> (57344 \<le> u \<and> u < 1114112)"

definition utf8_encode :: "nat list \<Rightarrow> string" where
  "utf8_encode us = concat (map utf8_encode1 us)"

definition is_cont :: "char \<Rightarrow> bool" where
  "is_cont c \<longleftrightarrow> 128 \<le> (of_char c :: nat) \<and> (of_char c :: nat) < 192"

definition cont :: "char \<Rightarrow> nat" where
  "cont c = of_char c - 128"

text \<open>Strict decoding: \<open>None\<close> is \<open>UnicodeDecodeError\<close>. Overlong forms, surrogates and
  code points beyond U+10FFFF are rejected.\<close>

fun utf8_decode :: "string \<Rightarrow> nat list option" where
  "utf8_decode [] = Some []"
| "utf8_decode (c # cs) =
     (let b = of_char c :: nat in
      if b < 128 then map_option ((#) b) (utf8_decode cs)
      else if 194 \<le> b \<and> b < 224 then
        (case cs of
           c1 # cs' \<Rightarrow>
             if is_cont c1 then map_option ((#) ((b - 192) * 64 + cont c1)) (utf8_decode cs') else None
         | _ \<Rightarrow> None)
      else if 224 \<le> b \<and> b < 240 then
        (case cs of
           c1 # c2 # cs' \<Rightarrow>
             (let u = (b - 224) * 4096 + cont c1 * 64 + cont c2 in
              if is_cont c1 \<and> is_cont c2 \<and> 2048 \<le> u \<and> is_scalar u
              then map_option ((#) u) (utf8_decode cs') else None)
         | _ \<Rightarrow> None)
      else if 240 \<le> b \<and> b < 245 then
        (case cs of
           c1 # c2 # c3 # cs' \<Rightarrow>
             (let u = (b - 240) * 262144 + cont c1 * 4096 + cont c2 * 64 + cont c3 in
              if is_cont c1 \<and> is_cont c2 \<and> is_cont c3 \<and> 65536 \<le> u \<and> is_scalar u
              then map_option ((#) u) (utf8_decode cs') else None)
         | _ \<Rightarrow> None)
      else None)"

definition valid_utf8 :: "string \<Rightarrow> bool" where
  "valid_utf8 s \<longleftrightarrow> utf8_decode s \<noteq> None"

section \<open>Printing\<close>

definition hex_char :: "nat \<Rightarrow> char" where
  "hex_char d = (if d < 10 then char_of (48 + d) else char_of (87 + d))"

definition hex4 :: "nat \<Rightarrow> string" where
  "hex4 n = [hex_char (n div 4096 mod 16), hex_char (n div 256 mod 16),
     hex_char (n div 16 mod 16), hex_char (n mod 16)]"

definition esc1 :: "nat \<Rightarrow> string" where
  "esc1 u =
     (if u = 34 then [char_of (92::nat), char_of (34::nat)]
      else if u = 92 then [char_of (92::nat), char_of (92::nat)]
      else if u = 10 then [char_of (92::nat), CHR ''n'']
      else if u = 13 then [char_of (92::nat), CHR ''r'']
      else if u = 9 then [char_of (92::nat), CHR ''t'']
      else if u = 12 then [char_of (92::nat), CHR ''f'']
      else if u = 8 then [char_of (92::nat), CHR ''b'']
      else if 32 \<le> u \<and> u < 127 then [char_of u]
      else if u < 65536 then char_of (92::nat) # CHR ''u'' # hex4 u
      else let w = u - 65536 in
        (char_of (92::nat) # CHR ''u'' # hex4 (55296 + w div 1024)) @
        (char_of (92::nat) # CHR ''u'' # hex4 (56320 + w mod 1024)))"

definition dump_str :: "string \<Rightarrow> string" where
  "dump_str s = CHR 0x22 #
     concat (map esc1 (case utf8_decode s of Some us \<Rightarrow> us | None \<Rightarrow> map of_char s)) @ [CHR 0x22]"

text \<open>\<open>repr\<close> of a float: fixed notation for decimal exponents from -4 to 15.\<close>

definition exp_str :: "int \<Rightarrow> string" where
  "exp_str x = (if x < 0 then CHR ''-'' else CHR ''+'') #
     (let ds = nat_digits (nat \<bar>x\<bar>) in if length ds < 2 then CHR ''0'' # ds else ds)"

definition float_repr :: "pyfloat \<Rightarrow> string" where
  "float_repr x = (case x of
      FNan \<Rightarrow> ''NaN''
    | FInf neg \<Rightarrow> (if neg then ''-Infinity'' else ''Infinity'')
    | FNum neg m e \<Rightarrow>
        (let ds = nat_digits m; n = int (length ds); p = n + e in
         (if neg then ''-'' else '''') @
         (if p \<le> -4 \<or> 16 < p then
            take 1 ds @ (if n = 1 then '''' else CHR ''.'' # drop 1 ds) @ CHR ''e'' # exp_str (p - 1)
          else if p \<le> 0 then ''0.'' @ replicate (nat (- p)) (CHR ''0'') @ ds
          else if n \<le> p then ds @ replicate (nat (p - n)) (CHR ''0'') @ ''.0''
          else take (nat p) ds @ CHR ''.'' # drop (nat p) ds)))"

text \<open>\<open>sp\<close> is what the separators put after a comma and a colon: nothing in the compact
  form, one blank in the default one.\<close>

fun dump_sp :: "string \<Rightarrow> json \<Rightarrow> string" where
  "dump_sp sp JNull = ''null''"
| "dump_sp sp (JBool b) = (if b then ''true'' else ''false'')"
| "dump_sp sp (JInt i) = int_str i"
| "dump_sp sp (JFloat x) = float_repr x"
| "dump_sp sp (JStr s) = dump_str s"
| "dump_sp sp (JArr vs) = CHR ''['' # join (CHR '','' # sp) (map (dump_sp sp) vs) @ '']''"
| "dump_sp sp (JObj kvs) =
     CHR ''{'' # join (CHR '','' # sp) (map (\<lambda>(k, v). dump_str k @ CHR '':'' # sp @ dump_sp sp v) kvs) @ ''}''"

abbreviation dump :: "json \<Rightarrow> string" where
  "dump \<equiv> dump_sp []"

text \<open>\<open>sort_keys=True\<close> sorts the keys of every object.\<close>

fun sort_keys :: "json \<Rightarrow> json" where
  "sort_keys (JArr vs) = JArr (map sort_keys vs)"
| "sort_keys (JObj kvs) = JObj (sort_key fst (map (\<lambda>(k, v). (k, sort_keys v)) kvs))"
| "sort_keys v = v"

definition json_dumps :: "json \<Rightarrow> string" where
  "json_dumps v = dump (sort_keys v)"

text \<open>\<open>json.dumps(v, sort_keys=True)\<close> with the default separators.\<close>

definition json_dumps_default :: "json \<Rightarrow> string" where
  "json_dumps_default v = dump_sp '' '' (sort_keys v)"

text \<open>\<open>json.loads(_json_dumps(doc))\<close>: the document with every object's keys sorted.\<close>

definition stored_payload :: "payload \<Rightarrow> payload" where
  "stored_payload p = (case sort_keys (JObj p) of JObj d \<Rightarrow> d | _ \<Rightarrow> [])"

section \<open>Parsing\<close>

datatype json_error =
    JSONDecodeError
  | IntTooLong \<comment> \<open>\<open>ValueError\<close>: an integer literal of more than 4300 digits\<close>

definition json_ws :: "char \<Rightarrow> bool" where
  "json_ws c \<longleftrightarrow> c = CHR '' '' \<or> c = CHR 0x09 \<or> c = CHR 0x0A \<or> c = CHR 0x0D"

definition skip_ws :: "string \<Rightarrow> string" where
  "skip_ws s = dropWhile json_ws s"

definition is_digit :: "char \<Rightarrow> bool" where
  "is_digit c \<longleftrightarrow> 48 \<le> (of_char c :: nat) \<and> (of_char c :: nat) < 58"

definition digit_val :: "char \<Rightarrow> nat" where
  "digit_val c = of_char c - 48"

definition hex_val :: "char \<Rightarrow> nat option" where
  "hex_val c = (let n = of_char c :: nat in
     if 48 \<le> n \<and> n < 58 then Some (n - 48)
     else if 97 \<le> n \<and> n < 103 then Some (n - 87)
     else if 65 \<le> n \<and> n < 71 then Some (n - 55)
     else None)"

definition hex4_val :: "string \<Rightarrow> nat option" where
  "hex4_val s = (case map hex_val s of
      [Some a, Some b, Some c, Some d] \<Rightarrow> Some (((a * 16 + b) * 16 + c) * 16 + d)
    | _ \<Rightarrow> None)"

definition simple_escape :: "char \<Rightarrow> char option" where
  "simple_escape c =
     (if c = CHR 0x22 then Some c
      else if c = CHR 0x5C then Some c
      else if c = CHR ''/'' then Some c
      else if c = CHR ''b'' then Some (CHR 0x08)
      else if c = CHR ''f'' then Some (CHR 0x0C)
      else if c = CHR ''n'' then Some (CHR 0x0A)
      else if c = CHR ''r'' then Some (CHR 0x0D)
      else if c = CHR ''t'' then Some (CHR 0x09)
      else None)"

text \<open>The code point of a \<open>\u\<close> escape whose digits start the text, and what follows it.\<close>

definition unicode_escape :: "string \<Rightarrow> (nat \<times> string) option" where
  "unicode_escape s = (case hex4_val (take 4 s) of
      None \<Rightarrow> None
    | Some u \<Rightarrow>
        if 55296 \<le> u \<and> u < 56320 then
          (if take 2 (drop 4 s) = [CHR 0x5C, CHR ''u''] then
             (case hex4_val (take 4 (drop 6 s)) of
                Some w \<Rightarrow>
                  if 56320 \<le> w \<and> w < 57344
                  then Some (65536 + (u - 55296) * 1024 + (w - 56320), drop 10 s) else None
              | None \<Rightarrow> None)
           else None)
        else if 56320 \<le> u \<and> u < 57344 then None
        else Some (u, drop 4 s))"

lemma unicode_escape_length [termination_simp]:
  "unicode_escape s = Some (u, r) \<Longrightarrow> length r \<le> length s"
  by (auto simp: unicode_escape_def split: option.splits if_splits)

text \<open>The characters of a string literal after its opening quote.\<close>

fun parse_str :: "string \<Rightarrow> (string \<times> string) option" where
  "parse_str [] = None"
| "parse_str (c # cs) =
     (if c = CHR 0x22 then Some ([], cs)
      else if c = CHR 0x5C then
        (case cs of
           [] \<Rightarrow> None
         | e # r \<Rightarrow>
             if e = CHR ''u'' then
               (case unicode_escape r of
                  None \<Rightarrow> None
                | Some (u, r') \<Rightarrow> map_option (\<lambda>(t, r''). (utf8_encode1 u @ t, r'')) (parse_str r'))
             else
               (case simple_escape e of
                  None \<Rightarrow> None
                | Some x \<Rightarrow> map_option (\<lambda>(t, r''). (x # t, r'')) (parse_str r)))
      else if (of_char c :: nat) < 32 then None
      else map_option (\<lambda>(t, r''). (c # t, r'')) (parse_str cs))"

definition digits_val :: "string \<Rightarrow> nat" where
  "digits_val ds = foldl (\<lambda>acc c. acc * 10 + digit_val c) 0 ds"

fun strip_zeros :: "nat \<Rightarrow> int \<Rightarrow> nat \<times> int" where
  "strip_zeros m e = (if m \<noteq> 0 \<and> m mod 10 = 0 then strip_zeros (m div 10) (e + 1) else (m, e))"

declare strip_zeros.simps [simp del]

definition mk_float :: "bool \<Rightarrow> nat \<Rightarrow> int \<Rightarrow> pyfloat" where
  "mk_float neg m e = (if m = 0 then FNum neg 0 0 else let (m', e') = strip_zeros m e in FNum neg m' e')"

text \<open>A number literal: optional sign, integer part, optional fraction, optional exponent.\<close>

definition parse_frac :: "string \<Rightarrow> string \<times> string" where
  "parse_frac s = (case s of
      d # r \<Rightarrow> if d = CHR ''.'' \<and> takeWhile is_digit r \<noteq> []
               then (takeWhile is_digit r, dropWhile is_digit r) else ([], s)
    | [] \<Rightarrow> ([], s))"

definition parse_exp :: "string \<Rightarrow> int option \<times> string" where
  "parse_exp s = (case s of
      x # r \<Rightarrow>
        if x = CHR ''e'' \<or> x = CHR ''E'' then
          (let (sg, r') = (case r of
               y # r' \<Rightarrow> if y = CHR ''-'' then (-1, r') else if y = CHR ''+'' then (1, r') else (1, r)
             | [] \<Rightarrow> (1, r))
           in if takeWhile is_digit r' \<noteq> []
              then (Some (sg * int (digits_val (takeWhile is_digit r'))), dropWhile is_digit r')
              else (None, s))
        else (None, s)
    | [] \<Rightarrow> (None, s))"

definition parse_number :: "bool \<Rightarrow> string \<Rightarrow> json_error + (json \<times> string)" where
  "parse_number neg s =
     (let ip = (case s of c # _ \<Rightarrow> if c = CHR ''0'' then ''0'' else takeWhile is_digit s | [] \<Rightarrow> []) in
      if ip = [] then Inl JSONDecodeError
      else let (fr, r1) = parse_frac (drop (length ip) s); (ex, r2) = parse_exp r1 in
        if fr = [] \<and> ex = None then
          (if 4300 < length ip then Inl IntTooLong
           else Inr (JInt ((if neg then -1 else 1) * int (digits_val ip)), r2))
        else Inr (JFloat (mk_float neg (digits_val (ip @ fr))
                   ((case ex of Some x \<Rightarrow> x | None \<Rightarrow> 0) - int (length fr))), r2))"

definition expect :: "string \<Rightarrow> json \<Rightarrow> string \<Rightarrow> json_error + (json \<times> string)" where
  "expect w v s = (if prefix w s then Inr (v, drop (length w) s) else Inl JSONDecodeError)"

definition parse_minus :: "string \<Rightarrow> json_error + (json \<times> string)" where
  "parse_minus cs = (if prefix ''Infinity'' cs then Inr (JFloat (FInf True), drop 8 cs)
     else parse_number True cs)"

text \<open>
  One value at the head of the text. \<open>fuel\<close> bounds the nesting of calls; every call
  consumes at least one character, so the length of the text is enough.
\<close>

fun parse_value :: "nat \<Rightarrow> string \<Rightarrow> json_error + (json \<times> string)"
and parse_elems :: "nat \<Rightarrow> string \<Rightarrow> json_error + (json list \<times> string)"
and parse_members :: "nat \<Rightarrow> payload \<Rightarrow> string \<Rightarrow> json_error + (payload \<times> string)" where
  "parse_value 0 s = Inl JSONDecodeError"
| "parse_value (Suc n) s =
     (case s of
        [] \<Rightarrow> Inl JSONDecodeError
      | c # cs \<Rightarrow>
          if c = CHR 0x22 then
            (case parse_str cs of None \<Rightarrow> Inl JSONDecodeError | Some (t, r) \<Rightarrow> Inr (JStr t, r))
          else if c = CHR ''{'' then
            (if prefix ''}'' (skip_ws cs) then Inr (JObj [], drop 1 (skip_ws cs))
             else (case parse_members n [] (skip_ws cs) of Inl e \<Rightarrow> Inl e | Inr (d, r) \<Rightarrow> Inr (JObj d, r)))
          else if c = CHR ''['' then
            (if prefix '']'' (skip_ws cs) then Inr (JArr [], drop 1 (skip_ws cs))
             else (case parse_elems n (skip_ws cs) of Inl e \<Rightarrow> Inl e | Inr (vs, r) \<Rightarrow> Inr (JArr vs, r)))
          else if c = CHR ''n'' then expect ''null'' JNull s
          else if c = CHR ''t'' then expect ''true'' (JBool True) s
          else if c = CHR ''f'' then expect ''false'' (JBool False) s
          else if c = CHR ''N'' then expect ''NaN'' (JFloat FNan) s
          else if c = CHR ''I'' then expect ''Infinity'' (JFloat (FInf False)) s
          else if c = CHR ''-'' then parse_minus cs
          else parse_number False s)"
| "parse_elems 0 s = Inl JSONDecodeError"
| "parse_elems (Suc n) s =
     (case parse_value n s of
        Inl e \<Rightarrow> Inl e
      | Inr (v, r) \<Rightarrow>
          (case skip_ws r of
             [] \<Rightarrow> Inl JSONDecodeError
           | c # r' \<Rightarrow>
               if c = CHR '']'' then Inr ([v], r')
               else if c = CHR '','' then
                 (case parse_elems n (skip_ws r') of
                    Inl e \<Rightarrow> Inl e
                  | Inr (vs, r'') \<Rightarrow> Inr (v # vs, r''))
               else Inl JSONDecodeError))"
| "parse_members 0 d s = Inl JSONDecodeError"
| "parse_members (Suc n) d s =
     (case s of
        [] \<Rightarrow> Inl JSONDecodeError
      | q # cs \<Rightarrow>
          if q \<noteq> CHR 0x22 then Inl JSONDecodeError
          else
            (case parse_str cs of
               None \<Rightarrow> Inl JSONDecodeError
             | Some (k, r) \<Rightarrow>
                 (case skip_ws r of
                    [] \<Rightarrow> Inl JSONDecodeError
                  | c # r1 \<Rightarrow>
                      if c \<noteq> CHR '':'' then Inl JSONDecodeError
                      else
                        (case parse_value n (skip_ws r1) of
                           Inl e \<Rightarrow> Inl e
                         | Inr (v, r2) \<Rightarrow>
                             (case skip_ws r2 of
                                [] \<Rightarrow> Inl JSONDecodeError
                              | c2 # r3 \<Rightarrow>
                                  if c2 = CHR ''}'' then Inr (jput k v d, r3)
                                  else if c2 = CHR '','' then parse_members n (jput k v d) (skip_ws r3)
                                  else Inl JSONDecodeError)))))"

definition json_loads :: "string \<Rightarrow> json_error + json" where
  "json_loads s =
     (case parse_value (Suc (length s)) (skip_ws s) of
        Inl e \<Rightarrow> Inl e
      | Inr (v, r) \<Rightarrow> if skip_ws r = [] then Inr v else Inl JSONDecodeError)"

end
