(* ===== verification/Json_Round.thy ===== *)
theory Json_Round
  imports Json
begin

text \<open>
  Reading back what was printed: UTF-8 texts, string literals with their escapes,
  integers, and whole documents. \<open>json_loads (json_dumps v)\<close> is \<open>v\<close> with every object's keys
  sorted, for documents without floats.
\<close>

section \<open>String literals\<close>

lemma char_of_eq_iff: "u < 256 \<Longrightarrow> char_of u = c \<longleftrightarrow> u = (of_char c :: nat)"
  by (metis char_of_char mod_less of_char_of)

lemma of_char_lt: "(of_char c :: nat) < 256"
  by (metis char_of_char mod_less_divisor of_char_of zero_less_numeral nat_of_char_less_256)

lemma hex_val_hex_char [simp]: "d < 16 \<Longrightarrow> hex_val (hex_char d) = Some d"
  by (auto simp: hex_val_def hex_char_def Let_def)

lemma hex4_val_hex4: "u < 65536 \<Longrightarrow> hex4_val (hex4 u) = Some u"
proof -
  assume u: "u < 65536"
  define p q r where "p = u div 16" and "q = p div 16" and "r = q div 16"
  have "u div 256 = q" "u div 4096 = r" by (simp_all add: p_def q_def r_def div_mult2_eq [symmetric])
  moreover have "r < 16" using u by (simp add: p_def q_def r_def)
  moreover have "r * 16 + q mod 16 = q" "q * 16 + p mod 16 = p" "p * 16 + u mod 16 = u"
    by (simp_all add: p_def q_def r_def)
  ultimately show ?thesis by (simp add: hex4_val_def hex4_def p_def [symmetric])
qed

lemma hex4_length [simp]: "length (hex4 u) = 4"
  by (simp add: hex4_def)

lemma unicode_escape_bmp:
  "u < 65536 \<Longrightarrow> is_scalar u \<Longrightarrow> unicode_escape (hex4 u @ r) = Some (u, r)"
  by (auto simp: unicode_escape_def hex4_val_hex4 is_scalar_def)

lemma take_drop_pair:
  assumes "length xs = 4" "length ys = 4"
  shows "take 2 (drop 4 (xs @ x # y # ys @ r)) = [x, y]" "take 4 (drop 6 (xs @ x # y # ys @ r)) = ys"
    "drop 10 (xs @ x # y # ys @ r) = r" "take 4 (xs @ x # y # ys @ r) = xs"
proof -
  have "drop 6 (xs @ x # y # ys @ r) = drop 2 (x # y # ys @ r)" "drop 10 (xs @ x # y # ys @ r) = drop 6 (x # y # ys @ r)"
    using assms by simp_all
  moreover have "drop 2 (x # y # zs) = zs" "drop 6 (x # y # zs) = drop 4 zs" "take 2 (x # y # zs) = [x, y]" for zs
    by (simp_all add: numeral_eq_Suc)
  ultimately show "take 2 (drop 4 (xs @ x # y # ys @ r)) = [x, y]" "take 4 (drop 6 (xs @ x # y # ys @ r)) = ys"
    "drop 10 (xs @ x # y # ys @ r) = r" "take 4 (xs @ x # y # ys @ r) = xs"
    using assms by simp_all
qed

lemma unicode_escape_pair:
  assumes "65536 \<le> u" "u < 1114112"
  shows "unicode_escape (hex4 (55296 + (u - 65536) div 1024) @
    CHR 0x5C # CHR ''u'' # hex4 (56320 + (u - 65536) mod 1024) @ r) = Some (u, r)"
proof -
  let ?a = "55296 + (u - 65536) div 1024" and ?b = "56320 + (u - 65536) mod 1024"
  have a: "?a < 56320" and b: "?b < 57344" using assms by auto
  have "65536 + (?a - 55296) * 1024 + (?b - 56320) = u" using assms by simp
  then show ?thesis
    using a b by (simp add: unicode_escape_def hex4_val_hex4 take_drop_pair)
qed

lemma control_chars:
  "char_of (8::nat) = CHR 0x08" "char_of (12::nat) = CHR 0x0C" "char_of (9::nat) = CHR 0x09"
  "char_of (13::nat) = CHR 0x0D" "char_of (10::nat) = CHR 0x0A"
  "char_of (92::nat) = CHR 0x5C" "char_of (34::nat) = CHR 0x22" "char_of (48::nat) = CHR ''0''"
  by (simp_all add: char_of_eq_iff)

lemma parse_str_esc1:
  assumes "is_scalar u"
  shows "parse_str (esc1 u @ r) = map_option (\<lambda>(t, r'). (utf8_encode1 u @ t, r')) (parse_str r)"
proof -
  consider "u < 127" | "127 \<le> u" "u < 65536" | "65536 \<le> u" by linarith
  then show ?thesis
  proof cases
    case 1
    then show ?thesis
      by (auto simp: esc1_def utf8_encode1_def simple_escape_def char_of_eq_iff is_scalar_def
          unicode_escape_bmp control_chars)
  next
    case 2
    then show ?thesis using assms by (simp add: esc1_def unicode_escape_bmp control_chars)
  next
    case 3
    then show ?thesis using assms unicode_escape_pair [of u r]
      by (simp add: esc1_def is_scalar_def Let_def control_chars)
  qed
qed

lemma parse_str_dump:
  assumes "list_all is_scalar us"
  shows "parse_str (concat (map esc1 us) @ CHR 0x22 # r) = Some (utf8_encode us, r)"
  using assms by (induction us) (simp_all add: parse_str_esc1 utf8_encode_def)


section \<open>UTF-8\<close>

lemma is_cont_bounds: "is_cont c \<longleftrightarrow> 128 \<le> (of_char c :: nat) \<and> (of_char c :: nat) < 192"
  by (rule is_cont_def)

lemma char_of_cont: "is_cont c \<Longrightarrow> char_of (128 + cont c) = c"
  by (simp add: is_cont_def cont_def)

lemma cont_lt: "is_cont c \<Longrightarrow> cont c < 64"
  by (auto simp: is_cont_def cont_def)

lemma base64_digit: "y < 64 \<Longrightarrow> (x * 64 + y) div 64 = x" "y < 64 \<Longrightarrow> (x * 64 + y) mod 64 = (y::nat)"
  by simp_all

lemma utf8_encode1_two:
  assumes "194 \<le> b" "b < 224" "is_cont c1" "b = of_char c"
  shows "utf8_encode1 ((b - 192) * 64 + cont c1) = [c, c1]"
proof -
  let ?u = "(b - 192) * 64 + cont c1"
  have "?u div 64 = b - 192" "?u mod 64 = cont c1" "128 \<le> ?u" "?u < 2048"
    using assms cont_lt [OF assms(3)] by auto
  then show ?thesis using assms by (simp add: utf8_encode1_def char_of_cont)
qed

lemma utf8_encode1_three:
  assumes "224 \<le> b" "b < 240" "is_cont c1" "is_cont c2" "b = of_char c"
    "2048 \<le> (b - 224) * 4096 + cont c1 * 64 + cont c2"
  shows "utf8_encode1 ((b - 224) * 4096 + cont c1 * 64 + cont c2) = [c, c1, c2]"
proof -
  let ?u = "(b - 224) * 4096 + cont c1 * 64 + cont c2"
  have "?u = ((b - 224) * 64 + cont c1) * 64 + cont c2" by simp
  then have d: "?u div 64 = (b - 224) * 64 + cont c1" "?u mod 64 = cont c2"
    using base64_digit [OF cont_lt [OF assms(4)]] by metis+
  have "?u div 4096 = ?u div 64 div 64" by (simp add: div_mult2_eq [symmetric])
  then have "?u div 4096 = b - 224" "?u div 64 mod 64 = cont c1" "?u < 65536"
    using assms(1,2) cont_lt [OF assms(3)] cont_lt [OF assms(4)] unfolding d by auto
  then show ?thesis using assms d(2) by (simp add: utf8_encode1_def char_of_cont)
qed

lemma utf8_encode1_four:
  assumes "240 \<le> b" "is_cont c1" "is_cont c2" "is_cont c3" "b = of_char c"
    "65536 \<le> (b - 240) * 262144 + cont c1 * 4096 + cont c2 * 64 + cont c3"
  shows "utf8_encode1 ((b - 240) * 262144 + cont c1 * 4096 + cont c2 * 64 + cont c3) = [c, c1, c2, c3]"
proof -
  let ?u = "(b - 240) * 262144 + cont c1 * 4096 + cont c2 * 64 + cont c3"
  have "?u = ((b - 240) * 4096 + cont c1 * 64 + cont c2) * 64 + cont c3"
    "(b - 240) * 4096 + cont c1 * 64 + cont c2 = ((b - 240) * 64 + cont c1) * 64 + cont c2" by simp_all
  then have d: "?u div 64 = ((b - 240) * 64 + cont c1) * 64 + cont c2" "?u mod 64 = cont c3"
    using base64_digit [OF cont_lt [OF assms(4)]] by metis+
  have "?u div 4096 = ?u div 64 div 64" "?u div 262144 = ?u div 64 div 64 div 64"
    by (simp_all add: div_mult2_eq [symmetric])
  moreover have "?u div 64 div 64 = (b - 240) * 64 + cont c1" "?u div 64 mod 64 = cont c2"
    unfolding d using base64_digit [OF cont_lt [OF assms(3)]] by metis+
  ultimately have "?u div 262144 = b - 240" "?u div 4096 mod 64 = cont c1" "?u div 64 mod 64 = cont c2"
    using cont_lt [OF assms(2)] by auto
  then show ?thesis using assms d(2) by (simp add: utf8_encode1_def char_of_cont)
qed

lemma utf8_encode_Cons [simp]: "utf8_encode (u # us) = utf8_encode1 u @ utf8_encode us"
  by (simp add: utf8_encode_def)

lemma utf8_decode_encode:
  "utf8_decode s = Some us \<Longrightarrow> utf8_encode us = s \<and> list_all is_scalar us"
proof (induction s arbitrary: us rule: length_induct)
  case (1 s)
  show ?case
  proof (cases s)
    case Nil
    then show ?thesis using 1(2) by (simp add: utf8_encode_def)
  next
    case (Cons c cs)
    define b where "b = (of_char c :: nat)"
    note dec = 1(2) [unfolded Cons utf8_decode.simps Let_def b_def [symmetric]]
    have IH: "utf8_decode t = Some us' \<Longrightarrow> length t \<le> length cs \<Longrightarrow>
        utf8_encode us' = t \<and> list_all is_scalar us'" for t us'
      using 1(1) Cons by (simp add: less_Suc_eq_le)
    consider "b < 128" | "194 \<le> b" "b < 224" | "224 \<le> b" "b < 240" | "240 \<le> b" "b < 245"
      using dec by (auto split: if_splits)
    then show ?thesis
    proof cases
      case 1
      then obtain us' where "utf8_decode cs = Some us'" "us = b # us'" using dec by auto
      moreover have "is_scalar b" using 1 by (simp add: is_scalar_def)
      ultimately show ?thesis using IH [of cs us'] 1 Cons by (simp add: utf8_encode1_def b_def)
    next
      case 2
      then obtain c1 cs' us' where *: "cs = c1 # cs'" "is_cont c1" "utf8_decode cs' = Some us'"
        "us = ((b - 192) * 64 + cont c1) # us'"
        using dec by (auto split: list.splits if_splits)
      have "is_scalar ((b - 192) * 64 + cont c1)" using 2 cont_lt [OF *(2)] by (auto simp: is_scalar_def)
      then show ?thesis
        using IH [OF *(3)] utf8_encode1_two [OF 2 *(2) b_def] * Cons by simp
    next
      case 3
      then obtain c1 c2 cs' us' where *: "cs = c1 # c2 # cs'" "is_cont c1" "is_cont c2"
        "2048 \<le> (b - 224) * 4096 + cont c1 * 64 + cont c2" "is_scalar ((b - 224) * 4096 + cont c1 * 64 + cont c2)"
        "utf8_decode cs' = Some us'" "us = ((b - 224) * 4096 + cont c1 * 64 + cont c2) # us'"
        using dec by (auto split: list.splits if_splits)
      then show ?thesis
        using IH [OF *(6)] utf8_encode1_three [OF 3 *(2,3) b_def *(4)] Cons by simp
    next
      case 4
      then obtain c1 c2 c3 cs' us' where *: "cs = c1 # c2 # c3 # cs'" "is_cont c1" "is_cont c2" "is_cont c3"
        "65536 \<le> (b - 240) * 262144 + cont c1 * 4096 + cont c2 * 64 + cont c3"
        "is_scalar ((b - 240) * 262144 + cont c1 * 4096 + cont c2 * 64 + cont c3)"
        "utf8_decode cs' = Some us'" "us = ((b - 240) * 262144 + cont c1 * 4096 + cont c2 * 64 + cont c3) # us'"
        using dec by (auto split: list.splits if_splits)
      then show ?thesis
        using IH [OF *(7)] utf8_encode1_four [OF 4(1) *(2,3,4) b_def *(5)] Cons by simp
    qed
  qed
qed


text \<open>Printable ASCII without quotes and backslashes is printed as it stands.\<close>

definition plain_char :: "char \<Rightarrow> bool" where
  "plain_char c = (let n = of_char c :: nat in 32 \<le> n \<and> n < 127 \<and> n \<noteq> 34 \<and> n \<noteq> 92)"

lemma utf8_decode_ascii:
  "\<forall>c \<in> set s. (of_char c :: nat) < 128 \<Longrightarrow> utf8_decode s = Some (map of_char s)"
  by (induction s) simp_all

lemma plain_utf8: "list_all plain_char s \<Longrightarrow> utf8_decode s = Some (map of_char s)"
  by (rule utf8_decode_ascii) (auto simp: plain_char_def list_all_iff Let_def)

lemma plain_valid_utf8: "list_all plain_char s \<Longrightarrow> valid_utf8 s"
  by (simp add: valid_utf8_def plain_utf8)

lemma esc1_plain: "plain_char c \<Longrightarrow> esc1 (of_char c) = [c]"
  by (simp add: plain_char_def Let_def esc1_def)

lemma dump_str_plain: "list_all plain_char s \<Longrightarrow> dump_str s = CHR 0x22 # s @ [CHR 0x22]"
proof -
  assume s: "list_all plain_char s"
  then have "concat (map esc1 (map of_char s)) = s" by (induction s) (simp_all add: esc1_plain)
  then show ?thesis by (simp add: dump_str_def plain_utf8 [OF s])
qed

section \<open>Numbers\<close>

lemma is_digit_digit_char [simp]: "d < 10 \<Longrightarrow> is_digit (digit_char d)"
  by (simp add: is_digit_def digit_char_def)

lemma digit_val_digit_char [simp]: "d < 10 \<Longrightarrow> digit_val (digit_char d) = d"
  by (simp add: digit_val_def digit_char_def)

lemma nat_digits_all: "c \<in> set (nat_digits n) \<Longrightarrow> is_digit c"
proof (induction n rule: nat_digits.induct)
  case (1 n)
  then show ?case by (cases "n < 10") (auto simp: nat_digits.simps [of n])
qed

lemma digits_val_append: "digits_val (xs @ [c]) = digits_val xs * 10 + digit_val c"
  by (simp add: digits_val_def)

lemma digits_val_nat_digits [simp]: "digits_val (nat_digits n) = n"
proof (induction n rule: nat_digits.induct)
  case (1 n)
  show ?case
  proof (cases "n < 10")
    case True
    then show ?thesis by (simp add: nat_digits.simps [of n] digits_val_def)
  next
    case False
    then show ?thesis using 1 by (simp add: nat_digits.simps [of n] digits_val_append)
  qed
qed

lemma nat_digits_leading_zero: "hd (nat_digits n) = CHR ''0'' \<longleftrightarrow> n = 0"
proof (induction n rule: nat_digits.induct)
  case (1 n)
  show ?case
  proof (cases "n < 10")
    case True
    then show ?thesis by (simp add: nat_digits.simps [of n] digit_char_def char_of_eq_iff)
  next
    case False
    then show ?thesis using 1 by (simp add: nat_digits.simps [of n] hd_append)
  qed
qed

text \<open>What may follow a number without being read as part of it.\<close>

definition ends_number :: "string \<Rightarrow> bool" where
  "ends_number r = (case r of [] \<Rightarrow> True | c # _ \<Rightarrow> \<not> is_digit c \<and> c \<notin> {CHR ''.'', CHR ''e'', CHR ''E''})"

lemma takeWhile_digits: "ends_number r \<Longrightarrow> takeWhile is_digit (nat_digits n @ r) = nat_digits n"
  using nat_digits_all [of _ n]
  by (simp add: takeWhile_append ends_number_def split: list.splits)

lemma parse_number_digits:
  assumes r: "ends_number r" and len: "length (nat_digits n) \<le> 4300"
  shows "parse_number neg (nat_digits n @ r) = Inr (JInt ((if neg then -1 else 1) * int n), r)"
proof -
  obtain c cs where ds: "nat_digits n = c # cs" by (cases "nat_digits n") auto
  have "(case nat_digits n @ r of c # _ \<Rightarrow> if c = CHR ''0'' then ''0'' else takeWhile is_digit (nat_digits n @ r)
      | [] \<Rightarrow> []) = nat_digits n"
  proof (cases "n = 0")
    case True
    then show ?thesis by (simp add: nat_digits.simps digit_char_def control_chars)
  next
    case False
    then have "c \<noteq> CHR ''0''" using nat_digits_leading_zero [of n] ds by simp
    then show ?thesis using ds takeWhile_digits [OF r, of n] by simp
  qed
  moreover have "parse_frac r = ([], r)" "parse_exp r = (None, r)"
    using r by (auto simp: parse_frac_def parse_exp_def ends_number_def split: list.splits)
  ultimately show ?thesis using len by (simp add: parse_number_def Let_def)
qed


section \<open>Documents\<close>

text \<open>What \<open>json.dumps\<close> prints and \<open>json.loads\<close> reads back exactly: no floats, integers
  within the interpreter's digit limit, dictionaries with distinct keys.\<close>

fun printable :: "json \<Rightarrow> bool" where
  "printable (JInt i) \<longleftrightarrow> length (nat_digits (nat \<bar>i\<bar>)) \<le> 4300"
| "printable (JFloat x) \<longleftrightarrow> False"
| "printable (JStr s) \<longleftrightarrow> valid_utf8 s"
| "printable (JArr vs) \<longleftrightarrow> list_all printable vs"
| "printable (JObj kvs) \<longleftrightarrow> distinct (map fst kvs) \<and> list_all (\<lambda>(k, v). valid_utf8 k \<and> printable v) kvs"
| "printable v \<longleftrightarrow> True"

lemma dump_str_parse:
  "valid_utf8 s \<Longrightarrow> \<exists>t. dump_str s = CHR 0x22 # t \<and> (\<forall>r. parse_str (t @ r) = Some (s, r))"
  using utf8_decode_encode [of s] parse_str_dump
  by (auto simp: valid_utf8_def dump_str_def)

lemma digit_head: "\<exists>c cs. nat_digits n = c # cs \<and> is_digit c"
  using nat_digits_all [of "hd (nat_digits n)" n] by (cases "nat_digits n") auto

lemma digit_not_special:
  "is_digit c \<Longrightarrow> \<not> json_ws c \<and> c \<notin> {CHR 0x22, CHR ''{'', CHR ''}'', CHR ''['', CHR '']'', CHR ''n'', CHR ''t'',
     CHR ''f'', CHR ''N'', CHR ''I'', CHR ''-'', CHR '',''}"
  by (auto simp: is_digit_def json_ws_def)

lemma dump_head: "printable v \<Longrightarrow> \<exists>c cs. dump_sp sp v = c # cs \<and> \<not> json_ws c \<and> c \<noteq> CHR '']''"
  using digit_head digit_not_special
  by (cases v) (fastforce simp: int_str_def json_ws_def dump_str_def)+

lemma skip_ws_dump: "printable v \<Longrightarrow> skip_ws (dump_sp sp v @ r) = dump_sp sp v @ r"
  using dump_head [of v sp] by (auto simp: skip_ws_def)

lemma skip_ws_blank: "list_all json_ws sp \<Longrightarrow> skip_ws (sp @ r) = skip_ws r"
  by (induction sp) (simp_all add: skip_ws_def)

lemma skip_ws_char [simp]: "\<not> json_ws c \<Longrightarrow> skip_ws (c # r) = c # r"
  by (simp add: skip_ws_def)

lemma json_ws_simps [simp]: "\<not> json_ws (CHR '','')" "\<not> json_ws (CHR '']'')" "\<not> json_ws (CHR ''}'')" 
  "\<not> json_ws (CHR '':'')" "\<not> json_ws (CHR 0x22)"
  by (simp_all add: json_ws_def)

lemma ends_number_simps [simp]: "ends_number []" "ends_number (CHR '','' # r)" "ends_number (CHR '']'' # r)"
  "ends_number (CHR ''}'' # r)"
  by (simp_all add: ends_number_def is_digit_def)

lemma join_cons: "ys \<noteq> [] \<Longrightarrow> join sep (x # ys) = x @ sep @ join sep ys"
  by (cases ys) auto

text \<open>One value, read back from its text with enough fuel.\<close>

definition reads_back :: "string \<Rightarrow> json \<Rightarrow> bool" where
  "reads_back sp v \<longleftrightarrow> (\<forall>n r. ends_number r \<longrightarrow> length (dump_sp sp v) \<le> n \<longrightarrow> parse_value n (dump_sp sp v @ r) = Inr (v, r))"

lemma parse_elems_dump:
  assumes blank: "list_all json_ws sp" and "vs \<noteq> []" and "list_all (\<lambda>v. printable v \<and> reads_back sp v) vs"
    and "length (join (CHR '','' # sp) (map (dump_sp sp) vs)) < n"
  shows "parse_elems n (join (CHR '','' # sp) (map (dump_sp sp) vs) @ CHR '']'' # r) = Inr (vs, r)"
  using assms(2-)
proof (induction vs arbitrary: n)
  case (Cons v vs)
  obtain m where n: "n = Suc m" using Cons.prems(3) by (cases n) auto
  show ?case
  proof (cases "vs = []")
    case True
    then show ?thesis using Cons.prems n by (simp add: reads_back_def)
  next
    case False
    then obtain w ws where vs: "vs = w # ws" by (cases vs) auto
    have j: "join (CHR '','' # sp) (map (dump_sp sp) (v # vs)) = dump_sp sp v @ CHR '','' # sp @ join (CHR '','' # sp) (map (dump_sp sp) vs)"
      using False by (simp add: join_cons)
    have "parse_value m (dump_sp sp v @ CHR '','' # sp @ join (CHR '','' # sp) (map (dump_sp sp) vs) @ CHR '']'' # r) =
        Inr (v, CHR '','' # sp @ join (CHR '','' # sp) (map (dump_sp sp) vs) @ CHR '']'' # r)"
      using Cons.prems n unfolding j by (simp add: reads_back_def)
    moreover have "skip_ws (join (CHR '','' # sp) (map (dump_sp sp) vs) @ CHR '']'' # r) = join (CHR '','' # sp) (map (dump_sp sp) vs) @ CHR '']'' # r"
      using Cons.prems(2) skip_ws_dump [of w sp] unfolding vs by (cases ws) simp_all
    moreover have "parse_elems m (join (CHR '','' # sp) (map (dump_sp sp) vs) @ CHR '']'' # r) = Inr (vs, r)"
      using Cons.IH [OF False] Cons.prems n unfolding j by simp
    ultimately show ?thesis unfolding j n by (simp add: skip_ws_blank [OF blank])
  qed
qed simp


abbreviation member :: "string \<Rightarrow> string \<times> json \<Rightarrow> string" where
  "member sp \<equiv> \<lambda>(k, v). dump_str k @ CHR '':'' # sp @ dump_sp sp v"

lemma jput_fresh: "k \<notin> fst ` set d \<Longrightarrow> jput k v d = d @ [(k, v)]"
  by (induction k v d rule: jput.induct) auto

lemma member_head: "\<exists>cs. (member sp) kv = CHR 0x22 # cs"
  by (cases kv) (simp add: dump_str_def)

lemma parse_member:
  assumes blank: "list_all json_ws sp" and "valid_utf8 k" and "printable v" and "reads_back sp v" and "length (dump_sp sp v) \<le> m" and "ends_number r"
  shows "parse_members (Suc m) d ((member sp) (k, v) @ r) =
    (case skip_ws r of
       [] \<Rightarrow> Inl JSONDecodeError
     | c # r' \<Rightarrow>
         if c = CHR ''}'' then Inr (jput k v d, r')
         else if c = CHR '','' then parse_members m (jput k v d) (skip_ws r')
         else Inl JSONDecodeError)"
proof -
  obtain t where t: "dump_str k = CHR 0x22 # t" "parse_str (t @ x) = Some (k, x)" for x
    using dump_str_parse [OF assms(2)] by blast
  have "parse_value m (skip_ws (sp @ dump_sp sp v @ r)) = Inr (v, r)"
    using assms by (simp add: skip_ws_dump skip_ws_blank reads_back_def)
  then show ?thesis by (simp add: t)
qed

lemma parse_members_dump:
  assumes blank: "list_all json_ws sp" and "kvs \<noteq> []" and "list_all (\<lambda>(k, v). valid_utf8 k \<and> printable v \<and> reads_back sp v) kvs"
    and "distinct (map fst (d @ kvs))" and "length (join (CHR '','' # sp) (map (member sp) kvs)) < n"
  shows "parse_members n d (join (CHR '','' # sp) (map (member sp) kvs) @ CHR ''}'' # r) = Inr (d @ kvs, r)"
  using assms(2-)
proof (induction kvs arbitrary: n d)
  case (Cons kv kvs)
  obtain k v where kv: "kv = (k, v)" by force
  obtain m where n: "n = Suc m" using Cons.prems(4) by (cases n) auto
  have put: "jput k v d = d @ [(k, v)]" using Cons.prems(3) kv by (intro jput_fresh) auto
  have v: "valid_utf8 k" "printable v" "reads_back sp v" using Cons.prems(2) kv by auto
  show ?case
  proof (cases "kvs = []")
    case True
    then have "length (dump_sp sp v) \<le> m" using Cons.prems(4) n kv by simp
    then show ?thesis using parse_member [OF blank v, of m "CHR ''}'' # r" d] True n kv put by simp
  next
    case False
    then obtain w ws where kvs: "kvs = w # ws" by (cases kvs) auto
    have j: "join (CHR '','' # sp) (map (member sp) (kv # kvs)) = (member sp) kv @ CHR '','' # sp @ join (CHR '','' # sp) (map (member sp) kvs)"
      using False by (simp add: join_cons)
    have "length (dump_sp sp v) \<le> m" using Cons.prems(4) unfolding j by (simp add: n kv)
    moreover have "skip_ws (join (CHR '','' # sp) (map (member sp) kvs) @ CHR ''}'' # r) = join (CHR '','' # sp) (map (member sp) kvs) @ CHR ''}'' # r"
      using member_head [of sp w] unfolding kvs by (cases ws) auto
    moreover have "parse_members m (d @ [kv]) (join (CHR '','' # sp) (map (member sp) kvs) @ CHR ''}'' # r) = Inr (d @ kv # kvs, r)"
      using Cons.IH [OF False, of "d @ [kv]" m] Cons.prems n unfolding j by simp
    ultimately show ?thesis
      using parse_member [OF blank v, of m "CHR '','' # sp @ join (CHR '','' # sp) (map (member sp) kvs) @ CHR ''}'' # r" d] put
      unfolding j n by (simp add: kv skip_ws_blank [OF blank] del: parse_members.simps)
  qed
qed simp

lemma dump_JArr: "dump_sp sp (JArr vs) = CHR ''['' # join (CHR '','' # sp) (map (dump_sp sp) vs) @ '']''"
  and dump_JObj: "dump_sp sp (JObj kvs) = CHR ''{'' # join (CHR '','' # sp) (map (member sp) kvs) @ ''}''"
  by simp_all

lemma reads_back_number: "printable (JInt i) \<Longrightarrow> reads_back sp (JInt i)"
  unfolding reads_back_def
proof (intro allI impI)
  fix n r assume i: "printable (JInt i)" and r: "ends_number r" and n: "length (dump_sp sp (JInt i)) \<le> n"
  then obtain m where m: "n = Suc m" by (cases n) (auto simp: int_str_def split: if_splits)
  obtain c cs where c: "nat_digits (nat \<bar>i\<bar>) = c # cs" "is_digit c" using digit_head by blast
  note num = parse_number_digits [OF r, of "nat \<bar>i\<bar>"]
  have "\<not> prefix ''Infinity'' (nat_digits (nat \<bar>i\<bar>) @ r)" using c digit_not_special [OF c(2)] by auto
  then show "parse_value n (dump_sp sp (JInt i) @ r) = Inr (JInt i, r)"
    using i num [of "i < 0"] c digit_not_special [OF c(2)]
    by (cases "i < 0") (simp_all add: m int_str_def parse_minus_def)
qed

lemma reads_back_word: "reads_back sp JNull" "reads_back sp (JBool b)"
  unfolding reads_back_def
proof (intro allI impI)
  show "parse_value n (dump_sp sp JNull @ r) = Inr (JNull, r)" if "length (dump_sp sp JNull) \<le> n" for n r
    using that by (cases n) (simp_all add: expect_def)
next
  show "\<forall>n r. ends_number r \<longrightarrow> length (dump_sp sp (JBool b)) \<le> n \<longrightarrow>
      parse_value n (dump_sp sp (JBool b) @ r) = Inr (JBool b, r)"
  proof (intro allI impI)
    fix n r assume "length (dump_sp sp (JBool b)) \<le> n"
    then show "parse_value n (dump_sp sp (JBool b) @ r) = Inr (JBool b, r)"
      by (cases n; cases b) (simp_all add: expect_def)
  qed
qed

lemma parse_value_dump:
  assumes blank: "list_all json_ws sp"
  shows "printable v \<Longrightarrow> reads_back sp v"
proof (induction v)
  case (JStr s)
  then obtain t where t: "dump_str s = CHR 0x22 # t" "parse_str (t @ r) = Some (s, r)" for r
    using dump_str_parse [of s] by auto
  then have "parse_value n (dump_sp sp (JStr s) @ r) = Inr (JStr s, r)" if "length (dump_sp sp (JStr s)) \<le> n" for n r
    using that by (cases n) auto
  then show ?case by (simp add: reads_back_def del: dump_sp.simps)
next
  case (JArr vs)
  show ?case
    unfolding reads_back_def
  proof (intro allI impI)
    fix n r assume "length (dump_sp sp (JArr vs)) \<le> n"
    then obtain m where n: "n = Suc m" "length (join (CHR '','' # sp) (map (dump_sp sp) vs)) < m" by (cases n) auto
    have all: "list_all (\<lambda>v. printable v \<and> reads_back sp v) vs" using JArr by (auto simp: list_all_iff)
    show "parse_value n (dump_sp sp (JArr vs) @ r) = Inr (JArr vs, r)"
    proof (cases vs)
      case (Cons w ws)
      have "printable w" using JArr.prems Cons by simp
      then obtain c cs where "dump_sp sp w = c # cs" "\<not> json_ws c" "c \<noteq> CHR '']''" using dump_head by blast
      then have "\<exists>t. join (CHR '','' # sp) (map (dump_sp sp) vs) = c # t \<and> \<not> json_ws c \<and> c \<noteq> CHR '']''"
        unfolding Cons by (cases ws) auto
      then show ?thesis
        using parse_elems_dump [OF blank _ all n(2), of r] Cons unfolding dump_JArr n(1) by auto
    qed (simp add: n)
  qed
next
  case (JObj kvs)
  show ?case
    unfolding reads_back_def
  proof (intro allI impI)
    fix n r assume "length (dump_sp sp (JObj kvs)) \<le> n"
    then obtain m where n: "n = Suc m" "length (join (CHR '','' # sp) (map (member sp) kvs)) < m" by (cases n) auto
    have all: "list_all (\<lambda>(k, v). valid_utf8 k \<and> printable v \<and> reads_back sp v) kvs"
      using JObj by (fastforce simp: list_all_iff)
    show "parse_value n (dump_sp sp (JObj kvs) @ r) = Inr (JObj kvs, r)"
    proof (cases kvs)
      case (Cons w ws)
      have "\<exists>t. join (CHR '','' # sp) (map (member sp) kvs) = CHR 0x22 # t"
        using member_head [of sp w] unfolding Cons by (cases ws) auto
      then show ?thesis
        using parse_members_dump [OF blank _ all _ n(2), of "[]" r] JObj.prems Cons unfolding dump_JObj n(1) by auto
    qed (simp add: n)
  qed
qed (simp_all add: reads_back_number reads_back_word)

lemma loads_dump: "list_all json_ws sp \<Longrightarrow> printable v \<Longrightarrow> json_loads (dump_sp sp v) = Inr v"
proof -
  assume sp: "list_all json_ws sp" and v: "printable v"
  then have "parse_value (Suc (length (dump_sp sp v))) (dump_sp sp v @ []) = Inr (v, [])"
    using parse_value_dump [OF sp v] unfolding reads_back_def by (metis ends_number_simps(1) le_SucI order_refl)
  then show ?thesis
    using skip_ws_dump [OF v, of sp "[]"] by (simp add: json_loads_def skip_ws_def del: parse_value.simps)
qed

lemma printable_sort_keys: "printable v \<Longrightarrow> printable (sort_keys v)"
proof (induction v)
  case (JObj kvs)
  let ?kvs = "map (\<lambda>(k, v). (k, sort_keys v)) kvs"
  have "map fst ?kvs = map fst kvs" by (induction kvs) auto
  then have "distinct (map fst ?kvs)" using JObj.prems by (metis printable.simps(5))
  then have "distinct ?kvs" "inj_on fst (set ?kvs)" by (simp_all only: distinct_map [of fst])
  then have "distinct (map fst (sort_key fst ?kvs))" by (simp add: distinct_map [of fst])
  then show ?case using JObj by (fastforce simp: list_all_iff)
qed (auto simp: list_all_iff)

lemma loads_dumps: "printable v \<Longrightarrow> json_loads (json_dumps v) = Inr (sort_keys v)"
  by (simp add: json_dumps_def loads_dump printable_sort_keys)

lemma loads_dumps_default: "printable v \<Longrightarrow> json_loads (json_dumps_default v) = Inr (sort_keys v)"
  by (simp add: json_dumps_default_def loads_dump printable_sort_keys json_ws_def)

section \<open>Printed texts are ASCII\<close>

abbreviation ascii :: "char \<Rightarrow> bool" where
  "ascii \<equiv> \<lambda>c. (of_char c :: nat) < 128"

lemma hex_char_ascii: "d < 16 \<Longrightarrow> ascii (hex_char d)"
  by (simp add: hex_char_def)

lemma esc1_ascii: "c \<in> set (esc1 u) \<Longrightarrow> ascii c"
  by (auto simp: esc1_def hex4_def hex_char_ascii Let_def split: if_splits)

lemma dump_str_ascii: "c \<in> set (dump_str s) \<Longrightarrow> ascii c"
  by (auto simp: dump_str_def dest: esc1_ascii split: option.splits)

lemma int_str_ascii: "c \<in> set (int_str i) \<Longrightarrow> ascii c"
  by (auto simp: int_str_def is_digit_def dest!: nat_digits_all split: if_splits)

lemma list_all_join: "list_all P sep \<Longrightarrow> (\<And>x. x \<in> set xs \<Longrightarrow> list_all P x) \<Longrightarrow> list_all P (join sep xs)"
  by (induction sep xs rule: join.induct) simp_all

lemma dump_ascii: "printable v \<Longrightarrow> list_all ascii sp \<Longrightarrow> list_all ascii (dump_sp sp v)"
proof (induction v)
  case (JArr vs)
  then have "list_all ascii x" if "x \<in> set (map (dump_sp sp) vs)" for x
    using that by (auto simp: list_all_iff)
  then show ?case using list_all_join [of ascii "CHR '','' # sp" "map (dump_sp sp) vs"] JArr.prems(2) by simp
next
  case (JObj kvs)
  have each: "list_all ascii (member sp kv)" if kv: "kv \<in> set kvs" for kv
  proof (cases kv)
    case (Pair k v)
    then have "printable v" using JObj.prems(1) kv by (auto simp: list_all_iff)
    then have "list_all ascii (dump_sp sp v)" using JObj.IH [OF kv, of v] JObj.prems(2) Pair by simp
    then show ?thesis using Pair JObj.prems(2) dump_str_ascii by (auto simp: list_all_iff)
  qed
  have "list_all ascii (join (CHR '','' # sp) (map (member sp) kvs))"
  proof (rule list_all_join)
    fix x assume "x \<in> set (map (member sp) kvs)"
    then obtain kv where "kv \<in> set kvs" "x = member sp kv" by auto
    then show "list_all ascii x" using each by blast
  qed (simp add: JObj.prems(2))
  then show ?case by simp
qed (auto simp: int_str_ascii dump_str_ascii list_all_iff split: if_splits)

lemma dump_valid_utf8: "printable v \<Longrightarrow> list_all ascii sp \<Longrightarrow> valid_utf8 (dump_sp sp v)"
  using utf8_decode_ascii [of "dump_sp sp v"] dump_ascii [of v sp] by (simp add: valid_utf8_def list_all_iff)

end
