(* ===== verification/Project.thy ===== *)
theory Project
  imports Json_Round
begin

text \<open>
  Reading a project: \<open>detect/package_json.py\<close> and \<open>detect/lockfiles.py\<close>. A source tree is
  seen through \<open>Path\<close> lookups: what is at a path below the project root, links resolved by
  the operating system. Error messages leave out the interpolated path.
\<close>

section \<open>Source trees\<close>

datatype entry = Reg string | Direc

type_synonym tree = "string list \<Rightarrow> entry option"

definition exists_at :: "tree \<Rightarrow> string list \<Rightarrow> bool" where
  "exists_at t p \<longleftrightarrow> t p \<noteq> None"

definition is_file_at :: "tree \<Rightarrow> string list \<Rightarrow> bool" where
  "is_file_at t p \<longleftrightarrow> (case t p of Some (Reg _) \<Rightarrow> True | _ \<Rightarrow> False)"

section \<open>package.json\<close>

type_synonym str_map = "(string \<times> string) list"

record package_json =
  pj_raw :: payload
  pj_scripts :: str_map
  pj_dependencies :: str_map
  pj_dev_dependencies :: str_map
  pj_optional_dependencies :: str_map
  pj_peer_dependencies :: str_map
  pj_package_manager :: "string option"
  pj_engines_node :: "string option"

definition all_dependencies :: "package_json \<Rightarrow> str_map" where
  "all_dependencies pj =
     jmerge (jmerge (jmerge (jmerge [] (pj_peer_dependencies pj)) (pj_optional_dependencies pj))
       (pj_dev_dependencies pj)) (pj_dependencies pj)"

definition has_dependency :: "package_json \<Rightarrow> string list \<Rightarrow> bool" where
  "has_dependency pj names \<longleftrightarrow> (\<exists>name \<in> set names. name \<in> fst ` set (all_dependencies pj))"

definition script :: "package_json \<Rightarrow> string \<Rightarrow> string option" where
  "script pj name = (case map_of (pj_scripts pj) name of
      Some v \<Rightarrow> if v = [] then None else Some v
    | None \<Rightarrow> None)"

definition string_map :: "json option \<Rightarrow> string \<Rightarrow> str_map result" where
  "string_map value field = (case value of
      None \<Rightarrow> Inr []
    | Some JNull \<Rightarrow> Inr []
    | Some (JObj d) \<Rightarrow>
        each (\<lambda>(k, v). case v of
            JStr s \<Rightarrow> Inr (k, s)
          | _ \<Rightarrow> Inl (PackageJsonError (''field '' @ field @ '' must map strings to strings''))) d
    | Some _ \<Rightarrow> Inl (PackageJsonError (''field '' @ field @ '' must be an object'')))"

definition optional_string :: "json option \<Rightarrow> string \<Rightarrow> string option result" where
  "optional_string value field = (case value of
      None \<Rightarrow> Inr None
    | Some JNull \<Rightarrow> Inr None
    | Some (JStr s) \<Rightarrow> Inr (Some s)
    | Some _ \<Rightarrow> Inl (PackageJsonError (''field '' @ field @ '' must be a string'')))"

definition engine_node :: "json option \<Rightarrow> string option result" where
  "engine_node value = (case value of
      None \<Rightarrow> Inr None
    | Some JNull \<Rightarrow> Inr None
    | Some (JObj engines) \<Rightarrow> optional_string (jget engines ''node'') ''engines.node''
    | Some _ \<Rightarrow> Inl (PackageJsonError ''field engines must be an object''))"

definition package_json_of :: "payload \<Rightarrow> package_json result" where
  "package_json_of raw =
     rbind (string_map (jget raw ''scripts'') ''scripts'') (\<lambda>sc.
     rbind (string_map (jget raw ''dependencies'') ''dependencies'') (\<lambda>deps.
     rbind (string_map (jget raw ''devDependencies'') ''devDependencies'') (\<lambda>dev.
     rbind (string_map (jget raw ''optionalDependencies'') ''optionalDependencies'') (\<lambda>opt.
     rbind (string_map (jget raw ''peerDependencies'') ''peerDependencies'') (\<lambda>peer.
     rbind (optional_string (jget raw ''packageManager'') ''packageManager'') (\<lambda>pm.
     rbind (engine_node (jget raw ''engines'')) (\<lambda>node.
       Inr \<lparr>pj_raw = raw, pj_scripts = sc, pj_dependencies = deps, pj_dev_dependencies = dev,
            pj_optional_dependencies = opt, pj_peer_dependencies = peer, pj_package_manager = pm,
            pj_engines_node = node\<rparr>)))))))"

definition load_package_json :: "tree \<Rightarrow> package_json option result" where
  "load_package_json t = (case t [''package.json''] of
      None \<Rightarrow> Inr None
    | Some Direc \<Rightarrow> Inl (OSError ''Is a directory'')
    | Some (Reg text) \<Rightarrow>
        if \<not> valid_utf8 text then Inl (ValueError ''invalid start byte'')
        else (case json_loads text of
            Inl JSONDecodeError \<Rightarrow> Inl (PackageJsonError ''is not valid JSON'')
          | Inl IntTooLong \<Rightarrow> Inl (ValueError ''Exceeds the limit for integer string conversion'')
          | Inr (JObj raw) \<Rightarrow> rbind (package_json_of raw) (\<lambda>pj. Inr (Some pj))
          | Inr _ \<Rightarrow> Inl (PackageJsonError ''must contain a JSON object'')))"

section \<open>Package managers and lockfiles\<close>

datatype package_manager = Npm | Pnpm | No_Manager

definition manager_str :: "package_manager \<Rightarrow> string" where
  "manager_str m = (case m of Npm \<Rightarrow> ''npm'' | Pnpm \<Rightarrow> ''pnpm'' | No_Manager \<Rightarrow> ''none'')"

definition LOCKFILE_PRIORITY :: "(string \<times> package_manager) list" where
  "LOCKFILE_PRIORITY = [(''pnpm-lock.yaml'', Pnpm), (''package-lock.json'', Npm), (''npm-shrinkwrap.json'', Npm)]"

definition UNSUPPORTED_LOCKFILES :: "string list" where
  "UNSUPPORTED_LOCKFILES = [''bun.lockb'', ''bun.lock'', ''yarn.lock'']"

record package_manager_detection =
  pm_manager :: package_manager
  pm_source :: string
  pm_version :: "string option"
  pm_lockfile :: "string option"

text \<open>\<open>repr\<close> of a text without quotes, backslashes and control characters.\<close>

definition py_repr :: "string \<Rightarrow> string" where
  "py_repr s = CHR 0x27 # s @ [CHR 0x27]"

text \<open>\<open>value.partition("@")\<close>: what is before the first separator, and what follows it, if any.\<close>

definition partition_at :: "char \<Rightarrow> string \<Rightarrow> string \<times> string option" where
  "partition_at c s = (takeWhile (\<lambda>x. x \<noteq> c) s,
     (case dropWhile (\<lambda>x. x \<noteq> c) s of [] \<Rightarrow> None | _ # r \<Rightarrow> Some r))"

definition parse_package_manager :: "string \<Rightarrow> (package_manager \<times> string option) result" where
  "parse_package_manager value =
     (let (name, rest) = partition_at (CHR ''@'') value;
          version = (case rest of Some v \<Rightarrow> if v = [] then None else Some v | None \<Rightarrow> None) in
      if name = [] then Inl (PackageManagerDetectionError ''packageManager must name npm or pnpm'')
      else if name = ''npm'' then Inr (Npm, version)
      else if name = ''pnpm'' then Inr (Pnpm, version)
      else Inl (PackageManagerDetectionError (''Unsupported packageManager '' @ py_repr name @
             ''; supported managers: npm, pnpm'')))"

definition detect_package_manager ::
  "tree \<Rightarrow> package_json option \<Rightarrow> package_manager_detection result" where
  "detect_package_manager t package_json =
     rbind (case package_json of Some pj \<Rightarrow> Inr (Some pj) | None \<Rightarrow> load_package_json t) (\<lambda>pjo.
       case Option.bind pjo pj_package_manager of
         Some (c # cs) \<Rightarrow>
           rbind (parse_package_manager (c # cs)) (\<lambda>(manager, version).
             Inr \<lparr>pm_manager = manager, pm_source = ''packageManager'', pm_version = version, pm_lockfile = None\<rparr>)
       | _ \<Rightarrow>
           (case find (\<lambda>(filename, _). exists_at t [filename]) LOCKFILE_PRIORITY of
              Some (filename, manager) \<Rightarrow>
                Inr \<lparr>pm_manager = manager, pm_source = ''lockfile'', pm_version = None, pm_lockfile = Some filename\<rparr>
            | None \<Rightarrow>
                (case find (\<lambda>filename. exists_at t [filename]) UNSUPPORTED_LOCKFILES of
                   Some filename \<Rightarrow>
                     Inl (PackageManagerDetectionError (''Unsupported package manager lockfile '' @ py_repr filename @
                       ''; use npm or pnpm''))
                 | None \<Rightarrow> Inr \<lparr>pm_manager = Npm, pm_source = ''fallback'', pm_version = None, pm_lockfile = None\<rparr>)))"

definition has_npm_lock :: "tree \<Rightarrow> bool" where
  "has_npm_lock t \<longleftrightarrow> exists_at t [''package-lock.json''] \<or> exists_at t [''npm-shrinkwrap.json'']"

definition install_command :: "package_manager \<Rightarrow> tree \<Rightarrow> string" where
  "install_command m t = (case m of
      No_Manager \<Rightarrow> []
    | Npm \<Rightarrow> if has_npm_lock t then ''npm ci'' else ''npm install''
    | Pnpm \<Rightarrow> ''pnpm install --frozen-lockfile'')"

definition run_script_command :: "package_manager \<Rightarrow> string \<Rightarrow> string result" where
  "run_script_command m name = (case m of
      No_Manager \<Rightarrow> Inl (PackageManagerDetectionError ''The selected profile does not use a package manager'')
    | Npm \<Rightarrow> Inr (''npm run '' @ name)
    | Pnpm \<Rightarrow> Inr (''pnpm run '' @ name))"

section \<open>Properties\<close>

lemma map_of_jmerge: "map_of (jmerge d e) k = (case map_of (rev e) k of Some v \<Rightarrow> Some v | None \<Rightarrow> map_of d k)"
proof (induction e arbitrary: d)
  case (Cons kv e)
  obtain k' v' where "kv = (k', v')" by force
  then show ?case using Cons [of "jput k' v' d"] by (auto simp: jmerge_def map_add_def split: option.splits)
qed (simp add: jmerge_def)

lemma fst_jmerge: "fst ` set (jmerge d e) = fst ` set d \<union> fst ` set e"
proof (induction e arbitrary: d)
  case (Cons kv e)
  then show ?case using Cons.IH [of "jput (fst kv) (snd kv) d"]
    by (cases kv) (auto simp: jmerge_def)
qed (simp add: jmerge_def)

lemma has_dependency_iff:
  "has_dependency pj names \<longleftrightarrow> (\<exists>n \<in> set names. n \<in> fst ` set (pj_dependencies pj) \<union> fst ` set (pj_dev_dependencies pj) \<union>
     fst ` set (pj_optional_dependencies pj) \<union> fst ` set (pj_peer_dependencies pj))"
  by (auto simp: has_dependency_def all_dependencies_def fst_jmerge)

end
