(* ===== verification/Cache.thy ===== *)
theory Cache
  imports Project
begin

text \<open>
  The per-site package-manager cache (\<open>executor/cache.py\<close>). The directory
  \<open>state_dir/cache\<close> holds one directory per site; a site's directory is the list of its
  files with their relative paths, contents and times. Directories carry no bytes and are
  not recorded below the site. Times are milliseconds; \<open>hashlib.sha256\<close> is a parameter.
  The locks of the source make each operation atomic.
\<close>

section \<open>Data\<close>

record cache_file =
  cf_path :: "string list"
  cf_data :: string
  cf_atime :: int
  cf_mtime :: int

record site_dir =
  sd_files :: "cache_file list"
  sd_mtime :: int

datatype cache_entry = Site site_dir | Plain_File string

datatype cache_root = No_Cache | Cache_File string | Cache_Dir "(string \<times> cache_entry) list"

record lockfile_snapshot =
  lf_name :: string
  lf_sha256 :: string

datatype cache_event = HIT | MISS | WIPED

record cache_prepare_result =
  cp_mounts :: "(string \<times> string) list" \<comment> \<open>path below the site root, container path\<close>
  cp_event :: "cache_event option"
  cp_lockfile :: "lockfile_snapshot option"

definition METADATA_FILENAME :: string where "METADATA_FILENAME = ''.build-engine-cache.json''"
definition DISABLED_MARKER_FILENAME :: string where
  "DISABLED_MARKER_FILENAME = ''.build-engine-cache-disabled''"

definition enabled :: "cache_prepare_result \<Rightarrow> bool" where
  "enabled r \<longleftrightarrow> cp_mounts r \<noteq> []"

section \<open>Site identifiers and reset\<close>

definition site_id_char :: "char \<Rightarrow> bool" where
  "site_id_char c = (let n = of_char c :: nat in (65 \<le> n \<and> n \<le> 90) \<or> (97 \<le> n \<and> n \<le> 122) \<or>
     (48 \<le> n \<and> n \<le> 57) \<or> c = CHR ''_'' \<or> c = CHR ''-'')"

definition validate_site_id :: "string \<Rightarrow> unit result" where
  "validate_site_id s = ensure (1 \<le> length s \<and> length s \<le> 128 \<and> list_all site_id_char s)
     (CacheError ''site_id must be a safe path component'')"

definition reset_cache_unlocked :: "string option \<Rightarrow> cache_root \<Rightarrow> unit result \<times> cache_root" where
  "reset_cache_unlocked site_id root =
     (case site_id of
        None \<Rightarrow>
          (case root of
             No_Cache \<Rightarrow> (Inr (), root)
           | Cache_File _ \<Rightarrow> (Inl (CacheError ''Cache path is not a directory''), root)
           | Cache_Dir _ \<Rightarrow> (Inr (), No_Cache))
      | Some sid \<Rightarrow>
          (case root of
             Cache_Dir es \<Rightarrow>
               (case map_of es sid of
                  None \<Rightarrow> (Inr (), root)
                | Some (Plain_File _) \<Rightarrow> (Inl (CacheError ''Cache path is not a directory''), root)
                | Some (Site _) \<Rightarrow> (Inr (), Cache_Dir (filter (\<lambda>(k, _). k \<noteq> sid) es)))
           | _ \<Rightarrow> (Inr (), root)))"

definition reset_cache :: "string option \<Rightarrow> cache_root \<Rightarrow> unit result \<times> cache_root" where
  "reset_cache site_id root =
     (case site_id of
        None \<Rightarrow> reset_cache_unlocked None root
      | Some sid \<Rightarrow>
          (case validate_site_id sid of
             Inl e \<Rightarrow> (Inl e, root)
           | Inr _ \<Rightarrow> reset_cache_unlocked (Some sid) root))"

section \<open>Sizes and pruning\<close>

definition files_size :: "cache_file list \<Rightarrow> int" where
  "files_size fs = sum_list (map (\<lambda>f. int (length (cf_data f))) fs)"

definition directory_size_bytes :: "site_dir \<Rightarrow> int" where
  "directory_size_bytes d = files_size (sd_files d)"

definition cache_size_bytes :: "cache_root \<Rightarrow> int" where
  "cache_size_bytes root = (case root of
      Cache_Dir es \<Rightarrow> sum_list (map (\<lambda>(_, e). case e of Site d \<Rightarrow> directory_size_bytes d | Plain_File data \<Rightarrow> int (length data)) es)
    | Cache_File data \<Rightarrow> int (length data)
    | _ \<Rightarrow> 0)"

definition bookkeeping :: "cache_file \<Rightarrow> bool" where
  "bookkeeping f \<longleftrightarrow> cf_path f \<noteq> [] \<and> last (cf_path f) \<in> {METADATA_FILENAME, DISABLED_MARKER_FILENAME}"

definition site_file :: "site_dir \<Rightarrow> string \<Rightarrow> cache_file option" where
  "site_file d name = find (\<lambda>f. cf_path f = [name]) (sd_files d)"

definition last_access :: "site_dir \<Rightarrow> int" where
  "last_access d = (case site_file d METADATA_FILENAME of Some f \<Rightarrow> cf_mtime f | None \<Rightarrow> sd_mtime d)"

text \<open>\<open>path.unlink\<close>: removing a file at the top of the site root touches the root.\<close>

definition unlink :: "int \<Rightarrow> string list \<Rightarrow> site_dir \<Rightarrow> site_dir" where
  "unlink now p d = d\<lparr>sd_files := filter (\<lambda>f. cf_path f \<noteq> p) (sd_files d),
     sd_mtime := (if length p = 1 then now else sd_mtime d)\<rparr>"

fun lru_loop :: "int \<Rightarrow> int \<Rightarrow> string list list \<Rightarrow> site_dir \<Rightarrow> site_dir" where
  "lru_loop now limit [] d = d"
| "lru_loop now limit (p # ps) d =
     (if directory_size_bytes d \<le> limit then d else lru_loop now limit ps (unlink now p d))"

definition prune_children_lru :: "int \<Rightarrow> int \<Rightarrow> site_dir \<Rightarrow> site_dir" where
  "prune_children_lru now limit d =
     lru_loop now limit (map cf_path (sort_key cf_atime (filter (\<lambda>f. \<not> bookkeeping f) (sd_files d)))) d"

text \<open>One site in the first loop of \<open>prune_cache\<close> (expiry) and in the second (size);
  \<open>None\<close>: its directory is removed.\<close>

definition expire_site :: "int \<Rightarrow> site_dir \<Rightarrow> site_dir option" where
  "expire_site cutoff d = (if last_access d < cutoff then None else Some d)"

definition shrink_site :: "int \<Rightarrow> int \<Rightarrow> site_dir \<Rightarrow> site_dir option" where
  "shrink_site now limit d =
     (if directory_size_bytes d \<le> limit then Some d
      else let d' = prune_children_lru now limit d in
        if directory_size_bytes d' > limit then None else Some d')"

text \<open>A pass over the site roots in name order, with the names it removed.\<close>

definition site_names :: "(string \<times> cache_entry) list \<Rightarrow> string list" where
  "site_names es = sort (map fst (filter (\<lambda>(_, e). case e of Site _ \<Rightarrow> True | Plain_File _ \<Rightarrow> False) es))"

definition visit_site ::
  "(site_dir \<Rightarrow> site_dir option) \<Rightarrow> string list \<Rightarrow> string \<times> cache_entry \<Rightarrow> (string \<times> cache_entry) list" where
  "visit_site f excluded ke = (case ke of
      (k, Site d) \<Rightarrow> if k \<in> set excluded then [ke] else (case f d of None \<Rightarrow> [] | Some d' \<Rightarrow> [(k, Site d')])
    | _ \<Rightarrow> [ke])"

definition visit_sites ::
  "(site_dir \<Rightarrow> site_dir option) \<Rightarrow> string list \<Rightarrow> (string \<times> cache_entry) list \<Rightarrow>
   (string \<times> cache_entry) list \<times> string list" where
  "visit_sites f excluded es =
     (let es' = concat (map (visit_site f excluded) es)
      in (es', filter (\<lambda>k. k \<notin> fst ` set es') (site_names es)))"

definition prune_cache ::
  "int \<Rightarrow> int \<Rightarrow> int \<Rightarrow> string list \<Rightarrow> cache_root \<Rightarrow> string list result \<times> cache_root" where
  "prune_cache now site_max_bytes ttl_days exclude_site_ids root =
     (case root of
        No_Cache \<Rightarrow> (Inr [], root)
      | Cache_File _ \<Rightarrow> (Inl (OSError ''Not a directory''), root)
      | Cache_Dir es \<Rightarrow>
          (let (es1, p1) = visit_sites (expire_site (now - ttl_days * 86400000)) exclude_site_ids es;
               (es2, p2) = visit_sites (shrink_site now site_max_bytes) exclude_site_ids es1
           in (Inr (p1 @ p2), Cache_Dir es2)))"


section \<open>Preparing a site's cache\<close>

text \<open>\<open>t\<close> is the project, \<open>sha256\<close> the hash function.\<close>

definition snapshot_of :: "(string \<Rightarrow> string) \<Rightarrow> tree \<Rightarrow> package_manager \<Rightarrow> lockfile_snapshot option" where
  "snapshot_of sha256 t pm =
     map_option (\<lambda>(name, _). \<lparr>lf_name = name, lf_sha256 = (case t [name] of Some (Reg data) \<Rightarrow> sha256 data | _ \<Rightarrow> [])\<rparr>)
       (find (\<lambda>(name, manager). manager = pm \<and> is_file_at t [name]) LOCKFILE_PRIORITY)"

definition read_metadata :: "site_dir \<Rightarrow> payload option result" where
  "read_metadata d = (case site_file d METADATA_FILENAME of
      None \<Rightarrow> Inr None
    | Some f \<Rightarrow>
        if \<not> valid_utf8 (cf_data f) then Inl (ValueError ''invalid start byte'')
        else (case json_loads (cf_data f) of
            Inl JSONDecodeError \<Rightarrow> Inl (CacheError ''Cache metadata is invalid'')
          | Inl IntTooLong \<Rightarrow> Inl (ValueError ''Exceeds the limit for integer string conversion'')
          | Inr (JObj m) \<Rightarrow> Inr (Some m)
          | Inr _ \<Rightarrow> Inl (CacheError ''Cache metadata is invalid'')))"

definition metadata_lockfile :: "payload \<Rightarrow> lockfile_snapshot option result" where
  "metadata_lockfile m = (case jget_opt m ''lockfile'' of
      None \<Rightarrow> Inr None
    | Some (JObj l) \<Rightarrow>
        (case (jget l ''name'', jget l ''sha256'') of
           (Some (JStr n), Some (JStr h)) \<Rightarrow> Inr (Some \<lparr>lf_name = n, lf_sha256 = h\<rparr>)
         | _ \<Rightarrow> Inl (CacheError ''Cache metadata lockfile field is invalid''))
    | Some _ \<Rightarrow> Inl (CacheError ''Cache metadata lockfile field is invalid''))"

definition metadata_doc :: "package_manager \<Rightarrow> lockfile_snapshot option \<Rightarrow> string \<Rightarrow> json" where
  "metadata_doc pm lockfile now_text =
     JObj [(''package_manager'', JStr (manager_str pm)),
       (''lockfile'', (case lockfile of
           None \<Rightarrow> JNull
         | Some l \<Rightarrow> JObj [(''name'', JStr (lf_name l)), (''sha256'', JStr (lf_sha256 l))])),
       (''updated_at'', JStr now_text)]"

text \<open>\<open>path.write_text\<close> at the top of the site root, and the touch that follows it.\<close>

definition write_file :: "int \<Rightarrow> string \<Rightarrow> string \<Rightarrow> site_dir \<Rightarrow> site_dir" where
  "write_file now name data d =
     d\<lparr>sd_files := filter (\<lambda>f. cf_path f \<noteq> [name]) (sd_files d) @
         [\<lparr>cf_path = [name], cf_data = data, cf_atime = now, cf_mtime = now\<rparr>], sd_mtime := now\<rparr>"

definition has_cache_contents :: "site_dir \<Rightarrow> bool" where
  "has_cache_contents d \<longleftrightarrow> (\<exists>f \<in> set (sd_files d). \<not> bookkeeping f)"

definition cache_mounts :: "package_manager \<Rightarrow> (string \<times> string) list" where
  "cache_mounts pm = ([], ''/cache'') # (if pm \<in> {Npm, Pnpm} then [(''node-home'', ''/home/node'')] else [])"

definition empty_site :: "int \<Rightarrow> site_dir" where
  "empty_site now = \<lparr>sd_files = [], sd_mtime = now\<rparr>"

text \<open>The work on one site's directory; \<open>None\<close> is a directory that does not exist yet.\<close>

definition prepare_site ::
  "int \<Rightarrow> string \<Rightarrow> package_manager \<Rightarrow> lockfile_snapshot option \<Rightarrow> bool \<Rightarrow> site_dir option \<Rightarrow>
   cache_prepare_result result \<times> site_dir option" where
  "prepare_site now now_text pm lockfile enable d =
     (if \<not> enable then
        (Inr \<lparr>cp_mounts = [], cp_event = None, cp_lockfile = None\<rparr>,
         Some (write_file now DISABLED_MARKER_FILENAME now_text (case d of Some x \<Rightarrow> x | None \<Rightarrow> empty_site now)))
      else
        let wiped0 = (case d of Some x \<Rightarrow> site_file x DISABLED_MARKER_FILENAME \<noteq> None | None \<Rightarrow> False);
            d0 = (if wiped0 then None else d) in
        case (case d0 of None \<Rightarrow> Inr None | Some x \<Rightarrow> read_metadata x) of
          Inl e \<Rightarrow> (Inl e, d0)
        | Inr previous \<Rightarrow>
            (case (case previous of None \<Rightarrow> Inr False | Some m \<Rightarrow>
                     rbind (metadata_lockfile m) (\<lambda>l. Inr (l \<noteq> lockfile))) of
               Inl e \<Rightarrow> (Inl e, d0)
             | Inr stale \<Rightarrow>
                 (let d1 = (if stale then None else d0);
                      wiped = (wiped0 \<or> stale);
                      had_contents = (case d1 of None \<Rightarrow> False | Some x \<Rightarrow> has_cache_contents x);
                      base = (case d1 of None \<Rightarrow> empty_site now | Some x \<Rightarrow> x);
                      d2 = write_file now METADATA_FILENAME
                             (json_dumps_default (metadata_doc pm lockfile now_text)) base;
                      ev = (if wiped then WIPED else if previous \<noteq> None \<and> had_contents then HIT else MISS)
                  in (Inr \<lparr>cp_mounts = cache_mounts pm, cp_event = Some ev, cp_lockfile = lockfile\<rparr>, Some d2))))"

definition site_of :: "cache_root \<Rightarrow> string \<Rightarrow> site_dir option result" where
  "site_of root sid = (case root of
      No_Cache \<Rightarrow> Inr None
    | Cache_File _ \<Rightarrow> Inl (OSError ''Not a directory'')
    | Cache_Dir es \<Rightarrow> (case map_of es sid of
          None \<Rightarrow> Inr None
        | Some (Plain_File _) \<Rightarrow> Inl (OSError ''Not a directory'')
        | Some (Site d) \<Rightarrow> Inr (Some d)))"

definition put_site :: "cache_root \<Rightarrow> string \<Rightarrow> site_dir option \<Rightarrow> cache_root" where
  "put_site root sid d =
     (let es = (case root of Cache_Dir es \<Rightarrow> es | _ \<Rightarrow> []) in
      case d of
        Some x \<Rightarrow> Cache_Dir (jput sid (Site x) es)
      | None \<Rightarrow> (case root of Cache_Dir _ \<Rightarrow> Cache_Dir (filter (\<lambda>(k, _). k \<noteq> sid) es) | _ \<Rightarrow> root))"

definition prepare_site_cache ::
  "(string \<Rightarrow> string) \<Rightarrow> int \<Rightarrow> string \<Rightarrow> string \<Rightarrow> package_manager \<Rightarrow> tree \<Rightarrow> bool \<Rightarrow> cache_root \<Rightarrow>
   cache_prepare_result result \<times> cache_root" where
  "prepare_site_cache sha256 now now_text site_id pm project enable root =
     (case validate_site_id site_id of
        Inl e \<Rightarrow> (Inl e, root)
      | Inr _ \<Rightarrow>
          (case site_of root site_id of
             Inl e \<Rightarrow> (Inl e, root)
           | Inr d \<Rightarrow>
               (let (res, d') = prepare_site now now_text pm (snapshot_of sha256 project pm) enable d
                in (res, put_site root site_id d'))))"

end
