(* ===== verification/Cache_Correct.thy ===== *)
theory Cache_Correct
  imports Cache
begin

text \<open>
  Correctness of the build cache: pruning leaves no site over its budget or past its
  lifetime and never touches a site in use; a build only ever sees cache contents that
  were recorded for its own lockfile.
\<close>

section \<open>Pruning\<close>

lemma files_size_mono: "files_size (filter P fs) \<le> files_size fs"
  by (induction fs) (auto simp: files_size_def)


lemma find_filter_other: "(\<And>x. c x \<Longrightarrow> P x) \<Longrightarrow> find c (filter P xs) = find c xs"
  by (induction xs) auto

lemma last_access_unlink:
  assumes "p \<noteq> [METADATA_FILENAME]"
  shows "last_access d \<le> last_access (unlink now p d) \<or> now = last_access (unlink now p d)"
proof -
  have "site_file (unlink now p d) METADATA_FILENAME = site_file d METADATA_FILENAME"
    using assms unfolding site_file_def unlink_def by (simp add: find_filter_other)
  then show ?thesis by (auto simp: last_access_def unlink_def split: option.splits)
qed

lemma lru_loop_last_access:
  assumes "[METADATA_FILENAME] \<notin> set ps" and "cutoff \<le> now" and "cutoff \<le> last_access d"
  shows "cutoff \<le> last_access (lru_loop now limit ps d)"
  using assms
proof (induction ps arbitrary: d)
  case (Cons p ps)
  have "cutoff \<le> last_access (unlink now p d)"
    using last_access_unlink [of p d now] Cons.prems by auto
  then show ?case using Cons by simp
qed simp

lemma shrink_site_ok:
  assumes "shrink_site now limit d = Some d'" and "cutoff \<le> now" and "cutoff \<le> last_access d"
  shows "directory_size_bytes d' \<le> limit \<and> cutoff \<le> last_access d'"
proof -
  let ?ps = "map cf_path (sort_key cf_atime (filter (\<lambda>f. \<not> bookkeeping f) (sd_files d)))"
  have "bookkeeping f" if "cf_path f = [METADATA_FILENAME]" for f using that by (simp add: bookkeeping_def)
  then have "[METADATA_FILENAME] \<notin> set ?ps" by force
  from lru_loop_last_access [OF this assms(2,3), of limit] show ?thesis
    using assms by (auto simp: shrink_site_def prune_children_lru_def Let_def split: if_splits)
qed

lemma visit_site_Site:
  "k \<notin> set ex \<Longrightarrow> (k, Site d') \<in> set (visit_site f ex ke) \<longleftrightarrow> (\<exists>d. ke = (k, Site d) \<and> f d = Some d')"
  by (cases ke; cases "snd ke") (auto simp: visit_site_def split: option.splits)

lemma visit_site_excluded:
  "k \<in> set ex \<Longrightarrow> (k, e) \<in> set (visit_site f ex ke) \<longleftrightarrow> ke = (k, e)"
  by (cases ke; cases "snd ke") (auto simp: visit_site_def split: option.splits)

lemma visit_sites_Site:
  "k \<notin> set ex \<Longrightarrow> (k, Site d') \<in> set (fst (visit_sites f ex es)) \<longleftrightarrow> (\<exists>d. (k, Site d) \<in> set es \<and> f d = Some d')"
  by (auto simp: visit_sites_def Let_def visit_site_Site)

lemma visit_sites_excluded:
  "k \<in> set ex \<Longrightarrow> (k, e) \<in> set (fst (visit_sites f ex es)) \<longleftrightarrow> (k, e) \<in> set es"
  by (auto simp: visit_sites_def Let_def visit_site_excluded)

text \<open>
  C37. After \<open>prune_cache\<close> every site that was not excluded is within the byte limit and
  was used within the lifetime; excluded sites and foreign files are exactly as before, and
  every other site that is left came from one with the same name.
\<close>

theorem prune_cache_bounded:
  assumes "prune_cache now limit ttl ex (Cache_Dir es) = (res, root)" and "0 \<le> ttl"
  shows "\<exists>es' pruned. root = Cache_Dir es' \<and> res = Inr pruned \<and>
    (\<forall>k d. (k, Site d) \<in> set es' \<and> k \<notin> set ex \<longrightarrow>
       directory_size_bytes d \<le> limit \<and> now - ttl * 86400000 \<le> last_access d \<and> (\<exists>d0. (k, Site d0) \<in> set es)) \<and>
    (\<forall>k e. k \<in> set ex \<longrightarrow> ((k, e) \<in> set es' \<longleftrightarrow> (k, e) \<in> set es))"
proof -
  let ?cut = "now - ttl * 86400000"
  let ?es1 = "fst (visit_sites (expire_site ?cut) ex es)"
  let ?es2 = "fst (visit_sites (shrink_site now limit) ex ?es1)"
  have root: "root = Cache_Dir ?es2" "\<exists>p. res = Inr p"
    using assms(1) by (auto simp: prune_cache_def split: prod.splits)
  have "directory_size_bytes d \<le> limit \<and> ?cut \<le> last_access d \<and> (\<exists>d0. (k, Site d0) \<in> set es)"
    if k: "(k, Site d) \<in> set ?es2" "k \<notin> set ex" for k d
  proof -
    obtain d1 where d1: "(k, Site d1) \<in> set ?es1" "shrink_site now limit d1 = Some d"
      using k by (auto simp: visit_sites_Site)
    obtain d0 where d0: "(k, Site d0) \<in> set es" "expire_site ?cut d0 = Some d1"
      using d1(1) k(2) by (auto simp: visit_sites_Site)
    then have "?cut \<le> last_access d1" by (auto simp: expire_site_def split: if_splits)
    from shrink_site_ok [OF d1(2) _ this] show ?thesis using assms(2) d0(1) by auto
  qed
  moreover have "(k, e) \<in> set ?es2 \<longleftrightarrow> (k, e) \<in> set es" if "k \<in> set ex" for k e
    using that by (simp add: visit_sites_excluded)
  ultimately show ?thesis using root by blast
qed

section \<open>Freshness\<close>

definition lockfile_text_ok :: "lockfile_snapshot option \<Rightarrow> bool" where
  "lockfile_text_ok l = (case l of None \<Rightarrow> True | Some x \<Rightarrow> valid_utf8 (lf_name x) \<and> valid_utf8 (lf_sha256 x))"

text \<open>The lockfile that the metadata of a site records.\<close>

definition recorded :: "site_dir \<Rightarrow> lockfile_snapshot option option" where
  "recorded d = (case read_metadata d of
      Inr (Some m) \<Rightarrow> (case metadata_lockfile m of Inr l \<Rightarrow> Some l | Inl _ \<Rightarrow> None)
    | _ \<Rightarrow> None)"

lemma metadata_printable:
  "lockfile_text_ok l \<Longrightarrow> valid_utf8 now_text \<Longrightarrow> printable (metadata_doc pm l now_text)"
  by (cases pm; cases l) (simp_all add: metadata_doc_def manager_str_def lockfile_text_ok_def plain_valid_utf8 plain_char_def)

lemma find_filter_out: "c y \<Longrightarrow> find c (filter (\<lambda>x. \<not> c x) xs @ [y]) = Some y"
  by (induction xs) auto

lemma metadata_round_trip:
  assumes "lockfile_text_ok l" and "valid_utf8 now_text"
  shows "recorded (write_file now METADATA_FILENAME (json_dumps_default (metadata_doc pm l now_text)) d) = Some l"
proof -
  let ?text = "json_dumps_default (metadata_doc pm l now_text)"
  let ?d = "write_file now METADATA_FILENAME ?text d"
  obtain f where f: "site_file ?d METADATA_FILENAME = Some f" "cf_data f = ?text"
    by (simp add: site_file_def write_file_def find_filter_out)
  note doc = metadata_printable [OF assms, of pm]
  have "valid_utf8 ?text"
    using dump_valid_utf8 [OF printable_sort_keys [OF doc]] by (simp add: json_dumps_default_def)
  then have "read_metadata ?d = Inr (case sort_keys (metadata_doc pm l now_text) of JObj m \<Rightarrow> Some m)"
    using f loads_dumps_default [OF doc] by (simp add: read_metadata_def metadata_doc_def)
  moreover have "(case sort_keys (metadata_doc pm l now_text) of JObj m \<Rightarrow> metadata_lockfile m) = Inr l"
    by (cases l) (simp_all add: metadata_doc_def metadata_lockfile_def jget_opt_def jget_def less_char_def
        less_eq_char_def)
  ultimately show ?thesis by (simp add: recorded_def metadata_doc_def)
qed

text \<open>
  A build never runs on another lockfile's cache: when a site's cache is prepared,
  every cached file it keeps was already there, no disabled marker was, and the metadata
  recorded the very same lockfile (or there was none yet); \<open>HIT\<close> is reported only when
  contents recorded for this lockfile are kept; and afterwards the metadata records it.
\<close>

theorem prepare_site_fresh:
  assumes prep: "prepare_site now now_text pm lockfile True d = (Inr res, d')"
    and enc: "lockfile_text_ok lockfile" "valid_utf8 now_text"
  shows "\<exists>x'. d' = Some x' \<and> recorded x' = Some lockfile \<and> cp_lockfile res = lockfile \<and>
    (\<forall>f \<in> set (sd_files x'). \<not> bookkeeping f \<longrightarrow>
       (\<exists>x. d = Some x \<and> f \<in> set (sd_files x) \<and> site_file x DISABLED_MARKER_FILENAME = None \<and>
          (read_metadata x = Inr None \<or> recorded x = Some lockfile))) \<and>
    (cp_event res = Some HIT \<longrightarrow> (\<exists>x. d = Some x \<and> recorded x = Some lockfile \<and> has_cache_contents x))"
proof -
  let ?w = "write_file now METADATA_FILENAME (json_dumps_default (metadata_doc pm lockfile now_text))"
  have bk: "bookkeeping f" if "cf_path f = [METADATA_FILENAME]" for f
    using that by (simp add: bookkeeping_def)
  have old: "f \<in> set (sd_files x)" if "f \<in> set (sd_files (?w x))" "\<not> bookkeeping f" for f x
    using that bk by (auto simp: write_file_def)
  consider (empty) "d' = Some (?w (empty_site now))" "cp_event res \<noteq> Some HIT"
    | (kept) x where "d = Some x" "site_file x DISABLED_MARKER_FILENAME = None" "d' = Some (?w x)"
        "read_metadata x = Inr None \<or> recorded x = Some lockfile"
        "cp_event res = Some HIT \<longrightarrow> recorded x = Some lockfile \<and> has_cache_contents x"
    using prep
    by (auto simp: prepare_site_def Let_def rbind_Inr_iff rbind_Inl_iff recorded_def
        split: option.splits if_splits sum.splits)
  moreover have "cp_lockfile res = lockfile"
    using prep by (auto simp: prepare_site_def Let_def split: option.splits if_splits sum.splits)
  ultimately show ?thesis
  proof cases
    case empty
    have "bookkeeping f" if "f \<in> set (sd_files (?w (empty_site now)))" for f
      using old [OF that] by (auto simp: empty_site_def)
    then show ?thesis
      using empty metadata_round_trip [OF enc] \<open>cp_lockfile res = lockfile\<close> by auto
  next
    case (kept x)
    then show ?thesis
      using metadata_round_trip [OF enc, of now pm x] old [of _ x] \<open>cp_lockfile res = lockfile\<close> by blast
  qed
qed

theorem prune_cache_bounded_witness:
  "\<exists>es' pruned. prune_cache 200000000 5 1 [] (Cache_Dir [(''a'', Site (empty_site 0))]) = (Inr pruned, Cache_Dir es') \<and>
    (''a'', Site (empty_site 0)) \<notin> set es'"
proof -
  let ?p = "prune_cache 200000000 5 1 [] (Cache_Dir [(''a'', Site (empty_site 0))])"
  have la: "last_access (empty_site 0) = 0" by (simp add: last_access_def site_file_def empty_site_def)
  obtain es' pruned where *: "snd ?p = Cache_Dir es'" "fst ?p = Inr pruned"
    "\<forall>k d. (k, Site d) \<in> set es' \<and> k \<notin> set [] \<longrightarrow>
       directory_size_bytes d \<le> 5 \<and> 200000000 - 1 * 86400000 \<le> last_access d \<and>
         (\<exists>d0. (k, Site d0) \<in> set [(''a'', Site (empty_site 0))])"
    using prune_cache_bounded [of 200000000 5 1 "[]" "[(''a'', Site (empty_site 0))]" "fst ?p" "snd ?p"] by auto
  have "(''a'', Site (empty_site 0)) \<notin> set es'" using *(3) la by fastforce
  moreover have "?p = (Inr pruned, Cache_Dir es')" using *(1,2) by (simp add: prod_eq_iff)
  ultimately show ?thesis by blast
qed

theorem prepare_site_fresh_witness:
  "\<exists>res x'. prepare_site 10 ''now'' Npm None True None = (Inr res, Some x') \<and> recorded x' = Some None"
proof -
  have "\<exists>res d'. prepare_site 10 ''now'' Npm None True None = (Inr res, d')"
    by (simp add: prepare_site_def Let_def)
  then obtain res d' where p: "prepare_site 10 ''now'' Npm None True None = (Inr res, d')" by blast
  show ?thesis
    using prepare_site_fresh [OF p] p by (auto simp: lockfile_text_ok_def plain_valid_utf8 plain_char_def)
qed

end
