(* ===== verification/Py_Text.thy ===== *)
theory Py_Text
  imports Prelude
begin

text \<open>
  Python text operations that depend on character classes, on UTF-8 encoded strings:
  Unicode white space, \<open>str.strip\<close>, \<open>str.split\<close>, and \<open>shlex.split\<close> in its POSIX mode as the
  standard library implements it.
\<close>

section \<open>White space\<close>

text \<open>The length in bytes of the white space character a string starts with, \<open>0\<close> if there is
  none: the characters for which \<open>str.isspace()\<close> holds, which are those of \<open>\s\<close> too.\<close>

fun ws_bytes :: "nat list \<Rightarrow> nat" where
  "ws_bytes [] = 0"
| "ws_bytes (a # rest) =
     (if (9 \<le> a \<and> a \<le> 13) \<or> (28 \<le> a \<and> a \<le> 32) then 1
      else if a = 0xC2 then (case rest of b # _ \<Rightarrow> if b = 0x85 \<or> b = 0xA0 then 2 else 0 | [] \<Rightarrow> 0)
      else (case rest of
          b # c # _ \<Rightarrow>
            if (a = 0xE1 \<and> b = 0x9A \<and> c = 0x80) \<or>
               (a = 0xE2 \<and> b = 0x80 \<and> (0x80 \<le> c \<and> c \<le> 0x8A \<or> c = 0xA8 \<or> c = 0xA9 \<or> c = 0xAF)) \<or>
               (a = 0xE2 \<and> b = 0x81 \<and> c = 0x9F) \<or> (a = 0xE3 \<and> b = 0x80 \<and> c = 0x80)
            then 3 else 0
        | _ \<Rightarrow> 0))"

definition ws_len :: "string \<Rightarrow> nat" where
  "ws_len s = ws_bytes (map of_char (take 3 s))"

lemma ws_bytes_le: "ws_bytes bs \<le> length bs"
  by (cases bs rule: ws_bytes.cases) (auto split: list.splits)

lemma ws_len_le: "ws_len s \<le> length s"
  using ws_bytes_le [of "map of_char (take 3 s)"] by (simp add: ws_len_def)

text \<open>\<open>s.lstrip()\<close>, \<open>s.rstrip()\<close> and \<open>s.strip()\<close>.\<close>

function lstrip :: "string \<Rightarrow> string" where
  "lstrip s = (if ws_len s = 0 then s else lstrip (drop (ws_len s) s))"
  by pat_completeness auto
termination
proof (relation "measure length")
  fix s :: string assume "ws_len s \<noteq> 0"
  then show "(drop (ws_len s) s, s) \<in> measure length" using ws_len_le [of s] by simp
qed simp

declare lstrip.simps [simp del]

fun rstrip :: "string \<Rightarrow> string" where
  "rstrip [] = []"
| "rstrip (c # cs) = (if lstrip (c # cs) = [] then [] else c # rstrip cs)"

definition strip :: "string \<Rightarrow> string" where
  "strip s = rstrip (lstrip s)"

text \<open>\<open>s.split()\<close>: the maximal runs of other characters. \<open>w\<close> is the word read so far.\<close>

function split_ws :: "string \<Rightarrow> string \<Rightarrow> string list" where
  "split_ws w s =
     (if s = [] then (if w = [] then [] else [w])
      else if ws_len s = 0 then split_ws (w @ [hd s]) (tl s)
      else (if w = [] then [] else [w]) @ split_ws [] (drop (ws_len s) s))"
  by pat_completeness auto
termination
proof (relation "measure (length \<circ> snd)")
  fix w s :: string assume "s \<noteq> []" "ws_len s \<noteq> 0"
  then show "(([], drop (ws_len s) s), w, s) \<in> measure (length \<circ> snd)" using ws_len_le [of s] by simp
qed auto

declare split_ws.simps [simp del]

definition py_split :: "string \<Rightarrow> string list" where
  "py_split s = split_ws [] s"

text \<open>\<open>s.split(sep)\<close> for a non-empty separator.\<close>

function split_on :: "'a list \<Rightarrow> 'a list \<Rightarrow> 'a list \<Rightarrow> 'a list list" where
  "split_on sep w s =
     (if s = [] then [w]
      else if sep \<noteq> [] \<and> prefix sep s then w # split_on sep [] (drop (length sep) s)
      else split_on sep (w @ [hd s]) (tl s))"
  by pat_completeness auto
termination by (relation "measure (\<lambda>(sep, w, s). length s)") auto

declare split_on.simps [simp del]

section \<open>Shell words\<close>

text \<open>The state of \<open>shlex\<close> between characters: between words, inside a word, inside a quoted
  part, or after a backslash (with the state it returns to).\<close>

datatype sh_state = Sh_Blank | Sh_Word | Sh_Quote char | Sh_Escape "char option"

definition sh_white :: "char \<Rightarrow> bool" where
  "sh_white c \<longleftrightarrow> c \<in> {CHR '' '', CHR 0x09, CHR 0x0D, CHR 0x0A}"

definition sh_quote :: "char \<Rightarrow> bool" where
  "sh_quote c \<longleftrightarrow> c = CHR 0x22 \<or> c = CHR 0x27"

definition backslash :: char where "backslash = CHR 0x5C"

text \<open>The word a reader returns: nothing when it is empty and was not quoted.\<close>

definition sh_emit :: "string \<Rightarrow> bool \<Rightarrow> string list" where
  "sh_emit tok quoted = (if tok = [] \<and> \<not> quoted then [] else [tok])"

fun sh_read :: "sh_state \<Rightarrow> string \<Rightarrow> bool \<Rightarrow> string \<Rightarrow> string list result" where
  "sh_read Sh_Blank tok quoted [] = Inr (sh_emit tok quoted)"
| "sh_read Sh_Blank tok quoted (c # cs) =
     (if sh_white c then rbind (sh_read Sh_Blank [] False cs) (\<lambda>ws. Inr (sh_emit tok quoted @ ws))
      else if c = backslash then sh_read (Sh_Escape None) tok quoted cs
      else if sh_quote c then sh_read (Sh_Quote c) tok quoted cs
      else sh_read Sh_Word [c] quoted cs)"
| "sh_read (Sh_Quote q) tok quoted [] = Inl (ValueError ''No closing quotation'')"
| "sh_read (Sh_Quote q) tok quoted (c # cs) =
     (if c = q then sh_read Sh_Word tok True cs
      else if c = backslash \<and> q = CHR 0x22 then sh_read (Sh_Escape (Some q)) tok True cs
      else sh_read (Sh_Quote q) (tok @ [c]) True cs)"
| "sh_read (Sh_Escape back) tok quoted [] = Inl (ValueError ''No escaped character'')"
| "sh_read (Sh_Escape back) tok quoted (c # cs) =
     (case back of
        None \<Rightarrow> sh_read Sh_Word (tok @ [c]) quoted cs
      | Some q \<Rightarrow>
          sh_read (Sh_Quote q) (if c \<noteq> backslash \<and> c \<noteq> q then tok @ [backslash, c] else tok @ [c]) quoted cs)"
| "sh_read Sh_Word tok quoted [] = Inr (sh_emit tok quoted)"
| "sh_read Sh_Word tok quoted (c # cs) =
     (if sh_white c then rbind (sh_read Sh_Blank [] False cs) (\<lambda>ws. Inr (sh_emit tok quoted @ ws))
      else if sh_quote c then sh_read (Sh_Quote c) tok quoted cs
      else if c = backslash then sh_read (Sh_Escape None) tok quoted cs
      else sh_read Sh_Word (tok @ [c]) quoted cs)"

definition shlex_split :: "string \<Rightarrow> string list result" where
  "shlex_split s = sh_read Sh_Blank [] False s"

section \<open>Facts\<close>

text \<open>A word of plain characters is read back as itself.\<close>

definition sh_plain :: "char \<Rightarrow> bool" where
  "sh_plain c \<longleftrightarrow> \<not> sh_white c \<and> \<not> sh_quote c \<and> c \<noteq> backslash"

lemma sh_read_plain:
  "list_all sh_plain w \<Longrightarrow> sh_read Sh_Word tok quoted (w @ s) = sh_read Sh_Word (tok @ w) quoted s"
  by (induction w arbitrary: tok) (auto simp: sh_plain_def)

lemma shlex_split_word:
  assumes "w \<noteq> []" and "list_all sh_plain w"
  shows "sh_read Sh_Blank [] False (w @ s) = sh_read Sh_Word w False s"
proof -
  obtain c cs where w: "w = c # cs" using assms(1) by (cases w) auto
  then show ?thesis using assms(2) sh_read_plain [of cs "[c]" False s] by (simp add: sh_plain_def)
qed

lemma shlex_split_words:
  assumes "\<forall>w \<in> set ws. w \<noteq> [] \<and> list_all sh_plain w"
  shows "shlex_split (join '' '' ws) = Inr ws"
  using assms unfolding shlex_split_def
proof (induction ws rule: induct_list012)
  case (2 w)
  then show ?case using shlex_split_word [of w "[]"] by (simp add: sh_emit_def)
next
  case (3 w v ws)
  then show ?case using shlex_split_word [of w "'' '' @ join '' '' (v # ws)"]
    by (simp add: sh_emit_def sh_white_def)
qed (simp add: sh_emit_def)

text \<open>Graphic ASCII characters are never white space.\<close>

definition graph_char :: "char \<Rightarrow> bool" where
  "graph_char c \<longleftrightarrow> 33 \<le> (of_char c :: nat) \<and> (of_char c :: nat) < 128"

lemma ws_len_graph: "graph_char c \<Longrightarrow> ws_len (c # cs) = 0"
  by (auto simp: ws_len_def graph_char_def split: list.splits)

lemma lstrip_graph: "graph_char c \<Longrightarrow> lstrip (c # cs) = c # cs"
  by (subst lstrip.simps) (simp add: ws_len_graph)

lemma rstrip_graph: "list_all graph_char s \<Longrightarrow> rstrip s = s"
  by (induction s) (auto simp: lstrip_graph)

lemma strip_graph: "list_all graph_char s \<Longrightarrow> strip s = s"
  using rstrip_graph [of s] by (cases s) (auto simp: strip_def lstrip_graph lstrip.simps [of "[]"] ws_len_def)

lemma split_ws_graph: "list_all graph_char s \<Longrightarrow> split_ws w s = (if w @ s = [] then [] else [w @ s])"
proof (induction s arbitrary: w)
  case Nil
  show ?case by (subst split_ws.simps) simp
next
  case (Cons c cs)
  have "split_ws w (c # cs) = split_ws (w @ [c]) cs"
    by (subst split_ws.simps) (use Cons.prems in \<open>simp add: ws_len_graph\<close>)
  then show ?case using Cons by simp
qed

lemma py_split_graph: "list_all graph_char s \<Longrightarrow> s \<noteq> [] \<Longrightarrow> py_split s = [s]"
  by (simp add: py_split_def split_ws_graph)

lemma split_on_absent: "sep \<noteq> [] \<Longrightarrow> hd sep \<notin> set s \<Longrightarrow> split_on sep w s = [w @ s]"
proof (induction s arbitrary: w)
  case Nil
  show ?case by (subst split_on.simps) simp
next
  case (Cons c cs)
  have "\<not> prefix sep (c # cs)" using Cons.prems by (cases sep) auto
  then have "split_on sep w (c # cs) = split_on sep (w @ [c]) cs"
    by (subst split_on.simps) simp
  then show ?case using Cons by simp
qed

lemma split_at_absent: "d \<notin> set s \<Longrightarrow> split_at d s = [s]"
  by (induction s) auto

lemma split_at_append: "d \<notin> set a \<Longrightarrow> split_at d (a @ d # b) = a # split_at d b"
  by (induction a) auto

lemma split_at_lines:
  "\<forall>l \<in> set ls. d \<notin> set l \<Longrightarrow> ls \<noteq> [] \<Longrightarrow> split_at d (join [d] ls @ [d]) = ls @ [[]]"
proof (induction ls rule: induct_list012)
  case (2 l)
  then show ?case using split_at_append [of d l "[]"] by simp
next
  case (3 l m ls)
  then show ?case using split_at_append [of d l "join [d] (m # ls) @ [d]"] by simp
qed simp

end
