(* ===== verification/Framework.thy ===== *)
theory Framework
  imports Project Py_Text
begin

text \<open>
  Framework detection and build plans: \<open>detect/framework.py\<close> and \<open>detect/compatibility.py\<close>.
  A project is the tree of \<open>Project\<close>. Version ranges are decided by the \<open>packaging\<close> library:
  \<open>specset\<close> is \<open>SpecifierSet(text)\<close>, \<^const>\<open>None\<close> when it raises \<open>InvalidSpecifier\<close>, and
  otherwise the predicate \<open>contains(version, prereleases=True)\<close>.
\<close>

section \<open>Guidance\<close>

definition DOCS_BASE :: string where "DOCS_BASE = ''https://docs.mincemeat.id/static-sites/frameworks''"

record guidance =
  g_code :: string
  g_title :: string
  g_what_we_saw :: string
  g_how_to_fix :: string
  g_docs_url :: string

definition guidance_dict :: "guidance \<Rightarrow> payload" where
  "guidance_dict g =
     [(''code'', JStr (g_code g)), (''title'', JStr (g_title g)), (''what_we_saw'', JStr (g_what_we_saw g)),
      (''how_to_fix'', JStr (g_how_to_fix g)), (''docs_url'', JStr (g_docs_url g))]"

record compatibility_result =
  compatible :: bool
  co_guidance :: "guidance list"

definition check_static_compatibility :: "string \<Rightarrow> string list option \<Rightarrow> compatibility_result" where
  "check_static_compatibility framework_id supported_frameworks =
     (if (case supported_frameworks of None \<Rightarrow> True | Some fs \<Rightarrow> framework_id \<in> set fs)
      then \<lparr>compatible = True, co_guidance = []\<rparr>
      else \<lparr>compatible = False, co_guidance =
        [\<lparr>g_code = ''FRAMEWORK_NOT_CERTIFIED'',
          g_title = ''Framework is not certified for this build engine release'',
          g_what_we_saw = ''Detected framework profile: '' @ framework_id,
          g_how_to_fix = ''Choose one of the certified static-site profiles for this release.'',
          g_docs_url = DOCS_BASE @ ''/'' @ framework_id\<rparr>]\<rparr>)"

definition node_version_guidance :: "string \<Rightarrow> nat list \<Rightarrow> guidance" where
  "node_version_guidance requested supported =
     \<lparr>g_code = ''NODE_VERSION_UNSUPPORTED'',
      g_title = ''Node version is not supported by the build engine'',
      g_what_we_saw = ''Requested Node version/range: '' @ requested,
      g_how_to_fix = ''Use one of the supported Node major versions: '' @ join '', '' (map nat_digits supported) @ ''.'',
      g_docs_url = DOCS_BASE @ ''/node''\<rparr>"

definition generic_output_guidance :: "string \<Rightarrow> guidance" where
  "generic_output_guidance root =
     \<lparr>g_code = ''GENERIC_OUTPUT_NOT_FOUND'',
      g_title = ''Generic build output could not be inferred'',
      g_what_we_saw = ''No candidate output directory under '' @ root @ '' contained index.html'',
      g_how_to_fix = ''Set an explicit output directory or make the build write index.html to out, dist, build, public, _site, or .output/public.'',
      g_docs_url = DOCS_BASE @ ''/generic''\<rparr>"

section \<open>The registry\<close>

definition SUPPORTED_NODE_MAJORS :: "nat list" where "SUPPORTED_NODE_MAJORS = [22]"

definition GENERIC_OUTPUT_CANDIDATES :: "string list" where
  "GENERIC_OUTPUT_CANDIDATES = [''out'', ''dist'', ''build'', ''public'', ''_site'', ''.output/public'']"

record framework_profile =
  fp_id :: string
  fp_name :: string
  fp_default_command :: string
  fp_output_dir :: "string option"
  fp_dependency_markers :: "string list"
  fp_script_markers :: "string list"
  fp_config_markers :: "string list"
  fp_node_based :: bool

record framework_detection =
  fd_profile :: framework_profile
  fd_source :: string

record node_selection =
  ns_major :: nat
  ns_image :: string
  ns_source :: string
  ns_requested :: "string option"

record build_plan =
  bp_root :: string
  bp_framework_id :: string
  bp_package_manager :: package_manager
  bp_package_manager_source :: string
  bp_install_command :: string
  bp_build_command :: string
  bp_output_dir :: "string option"
  bp_detected_output_dir :: "string option"
  bp_image :: string
  bp_node_version :: "nat option"
  bp_compatibility :: compatibility_result

definition to_job_payload_fields :: "build_plan \<Rightarrow> payload" where
  "to_job_payload_fields p =
     [(''framework_id'', JStr (bp_framework_id p)),
      (''package_manager'', JStr (manager_str (bp_package_manager p))),
      (''detected_output_dir'', case bp_detected_output_dir p of Some d \<Rightarrow> JStr d | None \<Rightarrow> JNull)]"

definition FRAMEWORK_PROFILES :: "framework_profile list" where
  "FRAMEWORK_PROFILES =
    [\<lparr>fp_id = ''astro'', fp_name = ''Astro'', fp_default_command = ''astro build'', fp_output_dir = Some ''dist'',
      fp_dependency_markers = [''astro''], fp_script_markers = [''astro build''], fp_config_markers = [],
      fp_node_based = True\<rparr>,
     \<lparr>fp_id = ''vite'', fp_name = ''Vite'', fp_default_command = ''vite build'', fp_output_dir = Some ''dist'',
      fp_dependency_markers = [''vite''], fp_script_markers = [''vite build''], fp_config_markers = [],
      fp_node_based = True\<rparr>,
     \<lparr>fp_id = ''eleventy'', fp_name = ''Eleventy'', fp_default_command = ''eleventy'', fp_output_dir = Some ''_site'',
      fp_dependency_markers = [''@11ty/eleventy'', ''eleventy''], fp_script_markers = [''eleventy''],
      fp_config_markers = [''.eleventy.js'', ''eleventy.config.js'', ''eleventy.config.mjs''],
      fp_node_based = True\<rparr>,
     \<lparr>fp_id = ''docusaurus'', fp_name = ''Docusaurus'', fp_default_command = ''docusaurus build'',
      fp_output_dir = Some ''build'', fp_dependency_markers = [''@docusaurus/core''],
      fp_script_markers = [''docusaurus build''],
      fp_config_markers = [''docusaurus.config.js'', ''docusaurus.config.ts''], fp_node_based = True\<rparr>,
     \<lparr>fp_id = ''vitepress'', fp_name = ''VitePress'', fp_default_command = ''vitepress build'',
      fp_output_dir = Some ''.vitepress/dist'', fp_dependency_markers = [''vitepress''],
      fp_script_markers = [''vitepress build''], fp_config_markers = [], fp_node_based = True\<rparr>,
     \<lparr>fp_id = ''vuepress'', fp_name = ''VuePress'', fp_default_command = ''vuepress build'',
      fp_output_dir = Some ''dist'', fp_dependency_markers = [''vuepress'', ''vuepress-vite''],
      fp_script_markers = [''vuepress build''], fp_config_markers = [], fp_node_based = True\<rparr>,
     \<lparr>fp_id = ''gatsby'', fp_name = ''Gatsby'', fp_default_command = ''gatsby build'', fp_output_dir = Some ''public'',
      fp_dependency_markers = [''gatsby''], fp_script_markers = [''gatsby build''], fp_config_markers = [],
      fp_node_based = True\<rparr>,
     \<lparr>fp_id = ''hugo'', fp_name = ''Hugo'', fp_default_command = ''hugo'', fp_output_dir = Some ''public'',
      fp_dependency_markers = [], fp_script_markers = [],
      fp_config_markers = [''hugo.toml'', ''hugo.yaml'', ''hugo.json''], fp_node_based = False\<rparr>]"

definition profile_of :: "string \<Rightarrow> framework_profile option" where
  "profile_of k = find (\<lambda>p. fp_id p = k) FRAMEWORK_PROFILES"

definition SUPPORTED_FRAMEWORK_IDS :: "string list" where
  "SUPPORTED_FRAMEWORK_IDS = map fp_id FRAMEWORK_PROFILES"

definition DEFERRED_FRAMEWORK_IDS :: "string list" where
  "DEFERRED_FRAMEWORK_IDS =
     [''bun'', ''yarn'', ''zola'', ''generic'', ''angular'', ''remix'', ''next'', ''nuxt'', ''sveltekit'']"

definition DETECTION_ORDER :: "string list" where
  "DETECTION_ORDER = [''astro'', ''docusaurus'', ''vitepress'', ''vuepress'', ''gatsby'', ''eleventy'', ''vite'']"

section \<open>Commands\<close>

definition shell_tokens :: "string \<Rightarrow> string list" where
  "shell_tokens value = (case shlex_split value of Inr ws \<Rightarrow> ws | Inl _ \<Rightarrow> py_split value)"

definition command_tokens_match :: "string \<Rightarrow> string \<Rightarrow> bool" where
  "command_tokens_match sc command =
     (let script_tokens = shell_tokens sc; command_tokens = shell_tokens command in
      if command_tokens = [] \<or> length script_tokens < length command_tokens then False
      else list_ex (\<lambda>index. take (length command_tokens) (drop index script_tokens) = command_tokens)
             [0..<length script_tokens - length command_tokens + 1])"

definition script_contains_command :: "package_json \<Rightarrow> string \<Rightarrow> bool" where
  "script_contains_command pj command = list_ex (\<lambda>(_, sc). command_tokens_match sc command) (pj_scripts pj)"

text \<open>\<open>marker.rsplit("/", maxsplit=1)[-1]\<close>.\<close>

definition last_component :: "string \<Rightarrow> string" where
  "last_component s = last (split_at (CHR ''/'') s)"

definition script_matches_profile :: "framework_profile \<Rightarrow> string \<Rightarrow> bool" where
  "script_matches_profile profile sc =
     list_ex (\<lambda>command. command \<noteq> [] \<and> command_tokens_match sc command)
       (fp_script_markers profile @ [fp_default_command profile] @ map last_component (fp_dependency_markers profile))"

definition preferred_script :: "framework_profile \<Rightarrow> package_json \<Rightarrow> string option" where
  "preferred_script profile pj =
     (case find (\<lambda>name. case script pj name of Some s \<Rightarrow> script_matches_profile profile s | None \<Rightarrow> False)
             [''build'', ''docs:build''] of
        Some name \<Rightarrow> Some name
      | None \<Rightarrow>
          if fp_id profile \<in> {''vitepress'', ''vuepress''} \<and> script pj ''docs:build'' \<noteq> None
          then Some ''docs:build'' else None)"

definition default_build_command ::
  "framework_profile \<Rightarrow> package_manager_detection \<Rightarrow> package_json option \<Rightarrow> string result" where
  "default_build_command profile pm pjo =
     (if \<not> fp_node_based profile then Inr (fp_default_command profile)
      else case pjo of
          None \<Rightarrow> Inr (fp_default_command profile)
        | Some pj \<Rightarrow>
            (case preferred_script profile pj of
               Some name \<Rightarrow> run_script_command (pm_manager pm) name
             | None \<Rightarrow> Inr (fp_default_command profile)))"

text \<open>\<open>re.search("(?:vitepress|vuepress)\s+build\s+docs(?:\s|$)", command)\<close>: some position
  starts a match. \<open>$\<close> before a final newline is covered by the white space alternative.\<close>

definition after_ws :: "string \<Rightarrow> string option" where
  "after_ws s = (if ws_len s = 0 then None else Some (lstrip s))"

definition after_word :: "string \<Rightarrow> string \<Rightarrow> string option" where
  "after_word w s = (if prefix w s then Some (drop (length w) s) else None)"

definition docs_target_here :: "string \<Rightarrow> bool" where
  "docs_target_here s = list_ex (\<lambda>tool.
     (case Option.bind (Option.bind (Option.bind (Option.bind
         (after_word tool s) after_ws) (after_word ''build'')) after_ws) (after_word ''docs'') of
        Some r \<Rightarrow> r = [] \<or> ws_len r \<noteq> 0
      | None \<Rightarrow> False)) [''vitepress'', ''vuepress'']"

definition contains_sub :: "'a list \<Rightarrow> 'a list \<Rightarrow> bool" where
  "contains_sub sub s = list_ex (prefix sub) (suffixes s)"

definition build_targets_docs :: "string \<Rightarrow> bool" where
  "build_targets_docs build_command \<longleftrightarrow>
     contains_sub ''docs:build'' build_command \<or> list_ex docs_target_here (suffixes build_command)"

definition profile_output_dir :: "framework_profile \<Rightarrow> string \<Rightarrow> string option" where
  "profile_output_dir profile build_command =
     (if fp_id profile = ''vitepress'' \<and> build_targets_docs build_command then Some ''docs/.vitepress/dist''
      else if fp_id profile = ''vuepress'' \<and> build_targets_docs build_command then Some ''docs/.vuepress/dist''
      else fp_output_dir profile)"

section \<open>Node versions\<close>

text \<open>The groups of \<open>(op)?(\d+(?:\.\d+)?(?:\.\d+)?)(?:\.[xX*])?\<close> on a whole token: operator,
  version parts, and whether a wildcard part follows. Digits outside ASCII, which \<open>\d\<close> also
  matches, are not a match here; \<open>packaging\<close> refuses them with the same exception.\<close>

definition node_op :: "string \<Rightarrow> string \<times> string" where
  "node_op token =
     (case find (\<lambda>op. prefix op token) [''>='', ''<='', ''>'', ''<'', ''='', ''^'', ''~''] of
        Some op \<Rightarrow> (op, drop (length op) token)
      | None \<Rightarrow> ([], token))"

definition ascii_digits :: "string \<Rightarrow> bool" where
  "ascii_digits s \<longleftrightarrow> s \<noteq> [] \<and> list_all is_digit s"

definition wildcard_part :: "string \<Rightarrow> bool" where
  "wildcard_part s \<longleftrightarrow> s \<in> {''x'', ''X'', ''*''}"

definition node_match :: "string \<Rightarrow> (string \<times> string list \<times> bool) option" where
  "node_match token =
     (let (op, rest) = node_op token;
          parts = split_at (CHR ''.'') rest;
          wild = 1 < length parts \<and> wildcard_part (last parts);
          version = (if wild then butlast parts else parts)
      in if length version \<le> 3 \<and> list_all ascii_digits version then Some (op, version, wild) else None)"

text \<open>\<open>int(text)\<close> refuses more than 4300 digits.\<close>

definition int_of_digits :: "string \<Rightarrow> nat result" where
  "int_of_digits s = (if 4300 < length s then Inl (ValueError ''Exceeds the limit for integer string conversion'')
     else Inr (digits_val s))"

definition complete_node_version :: "string list \<Rightarrow> string list" where
  "complete_node_version parts = parts @ replicate (3 - length parts) ''0''"

definition dots :: "string list \<Rightarrow> string" where "dots = join ''.''"

definition node_token_to_specifier :: "string \<Rightarrow> string result" where
  "node_token_to_specifier token =
     (if token \<in> {''*'', ''x'', ''X''} then Inr ''>=0''
      else case node_match token of
          None \<Rightarrow> Inl (InvalidSpecifier token)
        | Some (op0, parts, wild) \<Rightarrow>
            (let op = (if op0 = [] \<or> op0 = ''='' then ''=='' else op0);
                 full = complete_node_version parts; version = dots full in
             if op = ''^'' then
               rbind (int_of_digits (full ! 0)) (\<lambda>major.
                 Inr (''>='' @ version @ '',<'' @ nat_digits (major + 1) @ ''.0.0''))
             else if op = ''~'' then
               rbind (int_of_digits (full ! 1)) (\<lambda>minor.
                 Inr (''>='' @ version @ '',<'' @ full ! 0 @ ''.'' @ nat_digits (minor + 1) @ ''.0''))
             else if op = ''=='' \<and> wild then Inr (''=='' @ dots parts @ ''.*'')
             else Inr (op @ version)))"

type_synonym specset = "string \<Rightarrow> (string \<Rightarrow> bool) option"

definition node_clause_to_specifier_set :: "specset \<Rightarrow> string \<Rightarrow> (string \<Rightarrow> bool) result" where
  "node_clause_to_specifier_set specset clause =
     (let normalized = strip clause;
          build = (\<lambda>text. case specset text of None \<Rightarrow> Inl (InvalidSpecifier text) | Some c \<Rightarrow> Inr c) in
      if normalized \<in> {''*'', ''x'', ''X''} then build ''>=0''
      else rbind (each node_token_to_specifier (py_split normalized)) (\<lambda>parts.
             build (join '','' (filter (\<lambda>p. p \<noteq> []) parts))))"

definition node_clause_satisfies :: "specset \<Rightarrow> nat \<Rightarrow> string \<Rightarrow> bool result" where
  "node_clause_satisfies specset major clause =
     (case node_clause_to_specifier_set specset clause of
        Inl (InvalidSpecifier _) \<Rightarrow> Inr False
      | Inl e \<Rightarrow> Inl e
      | Inr contains \<Rightarrow>
          Inr (contains (nat_digits major @ ''.0.0'') \<or> contains (nat_digits major @ ''.999.999'')))"

text \<open>\<open>any\<close> over tests that may raise.\<close>

fun any_of :: "('a \<Rightarrow> bool result) \<Rightarrow> 'a list \<Rightarrow> bool result" where
  "any_of f [] = Inr False"
| "any_of f (x # xs) = rbind (f x) (\<lambda>b. if b then Inr True else any_of f xs)"

definition node_major_satisfies :: "specset \<Rightarrow> nat \<Rightarrow> string \<Rightarrow> bool result" where
  "node_major_satisfies specset major range_text =
     any_of (node_clause_satisfies specset major)
       (filter (\<lambda>a. a \<noteq> []) (map strip (split_on ''||'' [] range_text)))"

fun satisfying :: "specset \<Rightarrow> string \<Rightarrow> nat list \<Rightarrow> nat list result" where
  "satisfying specset requested [] = Inr []"
| "satisfying specset requested (major # majors) =
     rbind (node_major_satisfies specset major requested) (\<lambda>ok.
     rbind (satisfying specset requested majors) (\<lambda>rest. Inr (if ok then major # rest else rest)))"

datatype node_override = Ov_Str string | Ov_Int int

definition override_str :: "node_override \<Rightarrow> string" where
  "override_str ov = (case ov of Ov_Str s \<Rightarrow> s | Ov_Int i \<Rightarrow> int_str i)"

definition select_node_version ::
  "specset \<Rightarrow> package_json option \<Rightarrow> node_override option \<Rightarrow> nat list \<Rightarrow> node_selection result" where
  "select_node_version specset pjo override supported =
     (let requested = (case override of Some ov \<Rightarrow> Some (override_str ov) | None \<Rightarrow> Option.bind pjo pj_engines_node);
          text = (case requested of Some r \<Rightarrow> strip r | None \<Rightarrow> []) in
      if text = [] then
        (let major = Max (set supported) in
         Inr \<lparr>ns_major = major, ns_image = ''node:'' @ nat_digits major, ns_source = ''default'', ns_requested = None\<rparr>)
      else rbind (satisfying specset text supported) (\<lambda>candidates.
        if candidates = [] then Inl (DetectionError (g_how_to_fix (node_version_guidance text supported)))
        else (let major = Max (set candidates) in
          Inr \<lparr>ns_major = major, ns_image = ''node:'' @ nat_digits major,
               ns_source = (if override \<noteq> None then ''override'' else ''engines.node''), ns_requested = Some text\<rparr>)))"

section \<open>Detection\<close>

definition has_config_marker :: "tree \<Rightarrow> string list \<Rightarrow> bool" where
  "has_config_marker t markers = list_ex (\<lambda>m. exists_at t [m]) markers"

definition by_marker :: "(framework_profile \<Rightarrow> bool) \<Rightarrow> framework_profile option" where
  "by_marker test = find test (List.map_filter profile_of DETECTION_ORDER)"

definition detect_from_project :: "tree \<Rightarrow> package_json option \<Rightarrow> framework_detection result" where
  "detect_from_project t pjo =
     (if has_config_marker t [''hugo.toml'', ''hugo.yaml'', ''hugo.json'']
      then Inr \<lparr>fd_profile = FRAMEWORK_PROFILES ! 7, fd_source = ''config''\<rparr>
      else case pjo of
          None \<Rightarrow> Inl (DetectionError ''No certified static-site framework was detected'')
        | Some pj \<Rightarrow>
            if has_dependency pj [''next'', ''nuxt'', ''@sveltejs/kit'', ''@angular/core'']
            then Inl (DetectionError ''Detected a deferred framework; this release supports only the curated eight'')
            else (case by_marker (\<lambda>p. has_dependency pj (fp_dependency_markers p)) of
                Some p \<Rightarrow> Inr \<lparr>fd_profile = p, fd_source = ''dependency''\<rparr>
              | None \<Rightarrow>
                  (case by_marker (\<lambda>p. list_ex (script_contains_command pj) (fp_script_markers p)) of
                     Some p \<Rightarrow> Inr \<lparr>fd_profile = p, fd_source = ''script''\<rparr>
                   | None \<Rightarrow> Inl (DetectionError ''No certified static-site framework was detected''))))"

definition detect_framework ::
  "tree \<Rightarrow> package_json option \<Rightarrow> string option \<Rightarrow> framework_detection result" where
  "detect_framework t package_json override =
     rbind (case package_json of Some pj \<Rightarrow> Inr (Some pj) | None \<Rightarrow> load_package_json t) (\<lambda>pjo.
       case override of
         Some (c # cs) \<Rightarrow>
           (case profile_of (c # cs) of
              Some profile \<Rightarrow> Inr \<lparr>fd_profile = profile, fd_source = ''override''\<rparr>
            | None \<Rightarrow>
                if c # cs \<in> set DEFERRED_FRAMEWORK_IDS
                then Inl (DetectionError (''Framework '' @ py_repr (c # cs) @
                       '' is deferred and not certified for this release''))
                else Inl (DetectionError (''Unknown framework override: '' @ c # cs)))
       | _ \<Rightarrow> detect_from_project t pjo)"

definition infer_generic_output :: "string \<Rightarrow> tree \<Rightarrow> string result" where
  "infer_generic_output root t =
     (case find (\<lambda>c. is_file_at t (split_at (CHR ''/'') c @ [''index.html''])) GENERIC_OUTPUT_CANDIDATES of
        Some candidate \<Rightarrow> Inr candidate
      | None \<Rightarrow> Inl (DetectionError (g_how_to_fix (generic_output_guidance root))))"

definition select_image :: "framework_profile \<Rightarrow> node_selection option \<Rightarrow> string result" where
  "select_image profile sel =
     (if \<not> fp_node_based profile then Inr ''hugo:latest''
      else case sel of
          None \<Rightarrow> Inl (DetectionError ''Node selection is required for Node-based framework profiles'')
        | Some s \<Rightarrow> Inr (ns_image s))"

text \<open>Python's \<open>a or b\<close> on an optional text.\<close>

definition str_or :: "string option \<Rightarrow> 'b \<Rightarrow> (string \<Rightarrow> 'b) \<Rightarrow> 'b" where
  "str_or a dflt f = (case a of Some (c # cs) \<Rightarrow> f (c # cs) | _ \<Rightarrow> dflt)"

definition plan_of ::
  "string \<Rightarrow> tree \<Rightarrow> framework_profile \<Rightarrow> package_manager_detection \<Rightarrow> node_selection option \<Rightarrow> string \<Rightarrow> string \<Rightarrow>
   string option \<Rightarrow> string option \<Rightarrow> build_plan" where
  "plan_of root t profile pm node img command output_dir detected_output_dir =
     (let manager = (if fp_node_based profile then pm_manager pm else No_Manager) in
      \<lparr>bp_root = root, bp_framework_id = fp_id profile, bp_package_manager = manager,
       bp_package_manager_source = (if fp_node_based profile then pm_source pm else ''profile''),
       bp_install_command = install_command manager t, bp_build_command = command,
       bp_output_dir = str_or output_dir (str_or detected_output_dir (profile_output_dir profile command) Some) Some,
       bp_detected_output_dir = detected_output_dir, bp_image = img,
       bp_node_version = map_option ns_major node,
       bp_compatibility = check_static_compatibility (fp_id profile) (Some SUPPORTED_FRAMEWORK_IDS)\<rparr>)"

definition plan_build ::
  "specset \<Rightarrow> string \<Rightarrow> tree \<Rightarrow> string option \<Rightarrow> string option \<Rightarrow> string option \<Rightarrow> string option \<Rightarrow>
   node_override option \<Rightarrow> build_plan result" where
  "plan_build specset root t framework_override build_command output_dir detected_output_dir node_version =
     rbind (load_package_json t) (\<lambda>pjo.
     rbind (detect_package_manager t pjo) (\<lambda>pm.
     rbind (detect_framework t pjo framework_override) (\<lambda>fw.
     rbind (ensure (\<not> (fp_node_based (fd_profile fw) \<and> pm_manager pm \<notin> {Npm, Pnpm}))
              (DetectionError ''Only npm and pnpm are certified for Node-based profiles'')) (\<lambda>_.
     rbind (if fp_node_based (fd_profile fw)
            then rbind (select_node_version specset pjo node_version SUPPORTED_NODE_MAJORS) (\<lambda>s. Inr (Some s))
            else Inr None) (\<lambda>node.
     rbind (select_image (fd_profile fw) node) (\<lambda>image.
     rbind (str_or build_command (default_build_command (fd_profile fw) pm pjo) Inr) (\<lambda>command.
     Inr (plan_of root t (fd_profile fw) pm node image command output_dir detected_output_dir))))))))"

end
