(* ===== verification/Framework_Correct.thy ===== *)
theory Framework_Correct
  imports Framework
begin

text \<open>
  What detection promises to the executor: commands are found exactly where they occur in a
  script, and a plan that is returned is one of the certified combinations of framework,
  package manager, image and commands.
\<close>

section \<open>Command matching\<close>

lemma take_drop_sublist_iff:
  "(\<exists>i < length xs - length ys + 1. take (length ys) (drop i xs) = ys) \<longleftrightarrow> sublist ys xs"
  if "length ys \<le> length xs"
proof
  assume "\<exists>i < length xs - length ys + 1. take (length ys) (drop i xs) = ys"
  then obtain i where "take (length ys) (drop i xs) = ys" by blast
  then have "xs = take i xs @ ys @ drop (length ys) (drop i xs)" by (metis append_take_drop_id)
  then show "sublist ys xs" unfolding sublist_def by blast
next
  assume "sublist ys xs"
  then obtain ps ss where "xs = ps @ ys @ ss" by (auto simp: sublist_def)
  then show "\<exists>i < length xs - length ys + 1. take (length ys) (drop i xs) = ys"
    by (intro exI [of _ "length ps"]) simp
qed

text \<open>
  A script is taken to run a command exactly when the command's shell words occur next
  to each other among the script's shell words: neither a longer word, nor words in another
  order, nor an empty command match.
\<close>

theorem command_tokens_match_iff:
  "command_tokens_match sc command \<longleftrightarrow>
     shell_tokens command \<noteq> [] \<and> sublist (shell_tokens command) (shell_tokens sc)"
proof (cases "length (shell_tokens command) \<le> length (shell_tokens sc)")
  case True
  then show ?thesis
    using take_drop_sublist_iff [OF True]
    by (auto simp: command_tokens_match_def Let_def list_ex_iff Bex_def atLeast0LessThan simp del: upt_Suc)
next
  case False
  then show ?thesis using sublist_length_le by (fastforce simp: command_tokens_match_def Let_def)
qed

section \<open>Plans\<close>

lemma profile_facts:
  assumes "p \<in> set FRAMEWORK_PROFILES"
  shows "fp_default_command p \<noteq> []" "fp_output_dir p \<noteq> None" "fp_node_based p \<longleftrightarrow> fp_id p \<noteq> ''hugo''"
    "fp_id p \<in> set SUPPORTED_FRAMEWORK_IDS"
  using assms by (auto simp: FRAMEWORK_PROFILES_def SUPPORTED_FRAMEWORK_IDS_def)

lemma profile_of_in: "profile_of k = Some p \<Longrightarrow> p \<in> set FRAMEWORK_PROFILES"
  by (auto simp: profile_of_def find_Some_iff)

lemma by_marker_in: "by_marker test = Some p \<Longrightarrow> p \<in> set FRAMEWORK_PROFILES"
  using profile_of_in by (fastforce simp: by_marker_def List.map_filter_def dest!: find_Some_in)

lemma detect_from_project_profile:
  "detect_from_project t pjo = Inr fw \<Longrightarrow> fd_profile fw \<in> set FRAMEWORK_PROFILES"
proof -
  have "FRAMEWORK_PROFILES ! 7 \<in> set FRAMEWORK_PROFILES" by (simp add: FRAMEWORK_PROFILES_def)
  then show "detect_from_project t pjo = Inr fw \<Longrightarrow> fd_profile fw \<in> set FRAMEWORK_PROFILES"
    using by_marker_in by (auto simp: detect_from_project_def split: option.split_asm if_split_asm)
qed

lemma detect_framework_profile:
  assumes "detect_framework t pjo ov = Inr fw"
  shows "fd_profile fw \<in> set FRAMEWORK_PROFILES"
proof (cases "\<exists>c cs. ov = Some (c # cs)")
  case True
  then obtain c cs where ov: "ov = Some (c # cs)" by blast
  show ?thesis
  proof (cases "profile_of (c # cs)")
    case (Some p)
    then show ?thesis using assms ov profile_of_in by (auto simp: detect_framework_def rbind_Inr_iff)
  qed (use assms ov in \<open>auto simp: detect_framework_def rbind_Inr_iff split: if_splits\<close>)
next
  case False
  then have "ov = None \<or> ov = Some []" by (metis list.exhaust option.exhaust)
  then show ?thesis using assms detect_from_project_profile by (auto simp: detect_framework_def rbind_Inr_iff)
qed

lemma select_node_22:
  "select_node_version specset pjo ov SUPPORTED_NODE_MAJORS = Inr s \<Longrightarrow> ns_major s = 22 \<and> ns_image s = ''node:22''"
proof -
  assume *: "select_node_version specset pjo ov SUPPORTED_NODE_MAJORS = Inr s"
  have "nat_digits 22 = ''22''" by (simp add: nat_digits.simps digit_char_def char_of_eq_iff)
  then show ?thesis
    using * by (auto simp: select_node_version_def SUPPORTED_NODE_MAJORS_def Let_def rbind_Inr_iff
        split: if_splits option.splits)
qed

lemma default_build_command_nonempty:
  "p \<in> set FRAMEWORK_PROFILES \<Longrightarrow> default_build_command p pm pjo = Inr c \<Longrightarrow> c \<noteq> []"
  using profile_facts(1) by (auto simp: default_build_command_def run_script_command_def split: if_splits option.splits package_manager.splits)

lemma profile_output_dir_Some: "p \<in> set FRAMEWORK_PROFILES \<Longrightarrow> profile_output_dir p c \<noteq> None"
  using profile_facts(2) by (auto simp: profile_output_dir_def)

lemma str_or_cases: "str_or a d f = d \<or> (\<exists>x. x \<noteq> [] \<and> str_or a d f = f x)"
  by (auto simp: str_or_def split: option.splits list.splits)

definition certified_plan :: "build_plan \<Rightarrow> bool" where
  "certified_plan p \<longleftrightarrow>
     bp_framework_id p \<in> set SUPPORTED_FRAMEWORK_IDS \<and> compatible (bp_compatibility p) \<and>
     bp_build_command p \<noteq> [] \<and> bp_output_dir p \<noteq> None \<and>
     (if bp_framework_id p = ''hugo''
      then bp_package_manager p = No_Manager \<and> bp_install_command p = [] \<and> bp_image p = ''hugo:latest'' \<and>
           bp_node_version p = None
      else bp_package_manager p \<in> {Npm, Pnpm} \<and> bp_install_command p \<noteq> [] \<and> bp_image p = ''node:22'' \<and>
           bp_node_version p = Some 22)"

text \<open>
  C31. Every plan that is returned is certified: its framework is in the registry and
  reported compatible, it has a build command and an output directory, a Node-based plan
  uses npm or pnpm with an install command on the Node 22 image, and Hugo runs without a
  package manager on its own image. Overrides, whatever their values, cannot get around this.
\<close>

theorem plan_build_certified:
  assumes "plan_build specset root t fo bc od dod nv = Inr p"
  shows "certified_plan p"
proof -
  obtain pjo pm fw node img command where d: "detect_framework t pjo fo = Inr fw"
    and m: "\<not> (fp_node_based (fd_profile fw) \<and> pm_manager pm \<notin> {Npm, Pnpm})"
    and n: "(if fp_node_based (fd_profile fw)
        then rbind (select_node_version specset pjo nv SUPPORTED_NODE_MAJORS) (\<lambda>s. Inr (Some s)) else Inr None) = Inr node"
    and i: "select_image (fd_profile fw) node = Inr img"
    and c: "str_or bc (default_build_command (fd_profile fw) pm pjo) Inr = Inr command"
    and plan: "plan_of root t (fd_profile fw) pm node img command od dod = p"
    using assms unfolding plan_build_def rbind_Inr_iff ensure_Inr_iff by (elim exE conjE) (rule that; simp)
  note prof = detect_framework_profile [OF d]
  note pf = profile_facts [OF prof]
  let ?pr = "fd_profile fw"
  have p: "bp_framework_id p = fp_id ?pr"
      "bp_package_manager p = (if fp_node_based ?pr then pm_manager pm else No_Manager)"
      "bp_install_command p = install_command (if fp_node_based ?pr then pm_manager pm else No_Manager) t" "bp_build_command p = command"
      "bp_output_dir p = str_or od (str_or dod (profile_output_dir ?pr command) Some) Some"
      "bp_image p = img" "bp_node_version p = map_option ns_major node"
      "bp_compatibility p = check_static_compatibility (fp_id ?pr) (Some SUPPORTED_FRAMEWORK_IDS)"
    by (simp_all add: plan [symmetric] plan_of_def Let_def)
  have "command \<noteq> []"
    using c str_or_cases [of bc "default_build_command ?pr pm pjo" Inr] default_build_command_nonempty [OF prof]
    by (metis sum.inject(2))
  moreover have "bp_output_dir p \<noteq> None"
    unfolding p using profile_output_dir_Some [OF prof] by (auto simp: str_or_def split: option.splits list.splits)
  moreover have "compatible (bp_compatibility p)" using pf(4) by (simp add: p check_static_compatibility_def)
  moreover have "bp_package_manager p \<in> {Npm, Pnpm} \<and> bp_install_command p \<noteq> [] \<and> img = ''node:22'' \<and> node \<noteq> None \<and>
      map_option ns_major node = Some 22" if "fp_node_based ?pr"
    using that m n i select_node_22 by (auto simp: p(2,3) rbind_Inr_iff select_image_def install_command_def)
  moreover have "bp_package_manager p = No_Manager \<and> bp_install_command p = [] \<and> img = ''hugo:latest'' \<and> node = None"
    if "\<not> fp_node_based ?pr"
    using that n i by (auto simp: p(2,3) select_image_def install_command_def)
  ultimately show ?thesis using pf p unfolding certified_plan_def by auto
qed

definition hugo_tree :: tree where
  "hugo_tree p = (if p = [''hugo.toml''] then Some (Reg []) else None)"

theorem plan_build_certified_witness:
  "\<exists>p. plan_build (\<lambda>_. None) ''/src'' hugo_tree None None None None None = Inr p \<and>
     bp_framework_id p = ''hugo'' \<and> certified_plan p"
proof -
  have "\<exists>p. plan_build (\<lambda>_. None) ''/src'' hugo_tree None None None None None = Inr p \<and> bp_framework_id p = ''hugo''"
    by (simp add: plan_build_def load_package_json_def hugo_tree_def detect_package_manager_def exists_at_def
        LOCKFILE_PRIORITY_def UNSUPPORTED_LOCKFILES_def detect_framework_def detect_from_project_def
        has_config_marker_def FRAMEWORK_PROFILES_def select_image_def str_or_def default_build_command_def
        plan_of_def Let_def)
  then show ?thesis using plan_build_certified by blast
qed

section \<open>Pinned Node versions\<close>

lemma is_digit_graph: "is_digit c \<Longrightarrow> graph_char c"
  by (auto simp: is_digit_def graph_char_def)

lemma ascii_digits_no_dot: "ascii_digits s \<Longrightarrow> CHR ''.'' \<notin> set s"
  by (auto simp: ascii_digits_def list_all_iff is_digit_def)

definition pinned :: "string \<Rightarrow> string \<Rightarrow> string" where
  "pinned minor patch = ''22.'' @ minor @ ''.'' @ patch"

lemma pinned_specifier:
  assumes "ascii_digits minor" and "ascii_digits patch"
  shows "node_token_to_specifier (pinned minor patch) = Inr (''=='' @ pinned minor patch)"
proof -
  have op: "node_op (pinned minor patch) = ([], pinned minor patch)" by (simp add: node_op_def pinned_def)
  have "split_at (CHR ''.'') (pinned minor patch) = [''22'', minor, patch]"
    using split_at_append [of "CHR ''.''" "''22''" "minor @ ''.'' @ patch"] split_at_append [of "CHR ''.''" minor patch]
      split_at_absent ascii_digits_no_dot [OF assms(1)] ascii_digits_no_dot [OF assms(2)]
    by (simp add: pinned_def)
  moreover have "ascii_digits ''22''" by (simp add: ascii_digits_def is_digit_def)
  moreover have "\<not> wildcard_part patch" using assms(2) by (auto simp: wildcard_part_def ascii_digits_def is_digit_def)
  ultimately have "node_match (pinned minor patch) = Some ([], [''22'', minor, patch], False)"
    using op assms by (simp add: node_match_def)
  then show ?thesis
    by (simp add: node_token_to_specifier_def pinned_def complete_node_version_def dots_def Let_def)
qed

lemma pinned_graph:
  assumes "ascii_digits minor" and "ascii_digits patch"
  shows "list_all graph_char (pinned minor patch)" "CHR ''|'' \<notin> set (pinned minor patch)"
  using assms is_digit_graph
  by (auto simp: pinned_def ascii_digits_def list_all_iff graph_char_def is_digit_def)

text \<open>
  An exact Node 22 release in \<open>engines.node\<close>, such as \<open>22.5.0\<close>, is refused, because only
  the releases \<open>22.0.0\<close> and \<open>22.999.999\<close> are tried against the range: the project is
  told to use Node 22, which it asks for.
\<close>

theorem pinned_node_rejected:
  assumes digits: "ascii_digits minor" "ascii_digits patch"
    and exact: "specset (''=='' @ pinned minor patch) = Some c" "\<not> c ''22.0.0''" "\<not> c ''22.999.999''"
    and engines: "pj_engines_node pj = Some (pinned minor patch)"
  shows "select_node_version specset (Some pj) None SUPPORTED_NODE_MAJORS =
    Inl (DetectionError ''Use one of the supported Node major versions: 22.'')"
proof -
  let ?v = "pinned minor patch"
  note g = pinned_graph [OF digits]
  have ne: "?v \<noteq> []" by (simp add: pinned_def)
  have nd: "nat_digits 22 = ''22''" by (simp add: nat_digits.simps digit_char_def char_of_eq_iff)
  have "node_clause_to_specifier_set specset ?v = Inr c"
    using exact(1) pinned_specifier [OF digits] strip_graph [OF g(1)] py_split_graph [OF g(1) ne]
    by (simp add: node_clause_to_specifier_set_def Let_def pinned_def)
  then have "node_clause_satisfies specset 22 ?v = Inr False"
    using exact nd by (simp add: node_clause_satisfies_def)
  then have "node_major_satisfies specset 22 ?v = Inr False"
    using split_on_absent [of "''||''" ?v "[]"] g strip_graph [OF g(1)] ne by (simp add: node_major_satisfies_def)
  then show ?thesis
    using engines strip_graph [OF g(1)] ne nd
    by (simp add: select_node_version_def SUPPORTED_NODE_MAJORS_def node_version_guidance_def Let_def)
qed

definition pinned_package :: package_json where
  "pinned_package = \<lparr>pj_raw = [], pj_scripts = [], pj_dependencies = [], pj_dev_dependencies = [],
     pj_optional_dependencies = [], pj_peer_dependencies = [], pj_package_manager = None,
     pj_engines_node = Some (pinned ''5'' ''0'')\<rparr>"

theorem pinned_node_rejected_witness:
  "select_node_version (\<lambda>t. Some (\<lambda>v. t = ''=='' @ v)) (Some pinned_package) None SUPPORTED_NODE_MAJORS =
    Inl (DetectionError ''Use one of the supported Node major versions: 22.'')"
proof -
  have "pinned ''5'' ''0'' \<noteq> ''22.0.0''" "pinned ''5'' ''0'' \<noteq> ''22.999.999''" by (simp_all add: pinned_def)
  then show ?thesis
    by (intro pinned_node_rejected [where minor = "''5''" and patch = "''0''" and c = "\<lambda>v. pinned ''5'' ''0'' = v"])
      (simp_all add: ascii_digits_def is_digit_def pinned_package_def)
qed

end
