(* ===== verification/Url.thy ===== *)
theory Url
  imports Py_Text
begin

text \<open>
  \<open>urllib.parse.urlparse\<close> as far as the sources look at its result: scheme, network location
  and path. \<open>refused\<close> is what the library's checks of a network location (bracketed hosts that
  are no IP address, characters that change under Unicode normalisation) refuse with
  \<open>ValueError\<close>. Lower case is that of ASCII.
\<close>

record url_parts =
  u_scheme :: string
  u_netloc :: string
  u_path :: string

definition is_alpha :: "char \<Rightarrow> bool" where
  "is_alpha c \<longleftrightarrow> (let n = of_char c :: nat in (65 \<le> n \<and> n \<le> 90) \<or> (97 \<le> n \<and> n \<le> 122))"

definition is_num :: "char \<Rightarrow> bool" where
  "is_num c \<longleftrightarrow> (let n = of_char c :: nat in 48 \<le> n \<and> n \<le> 57)"

definition lower_char :: "char \<Rightarrow> char" where
  "lower_char c = (let n = of_char c :: nat in if 65 \<le> n \<and> n \<le> 90 then char_of (n + 32) else c)"

definition lower :: "string \<Rightarrow> string" where
  "lower = map lower_char"

definition scheme_char :: "char \<Rightarrow> bool" where
  "scheme_char c \<longleftrightarrow> is_alpha c \<or> is_num c \<or> c \<in> {CHR ''+'', CHR ''-'', CHR ''.''}"

definition c0_or_space :: "char \<Rightarrow> bool" where
  "c0_or_space c \<longleftrightarrow> (of_char c :: nat) \<le> 32"

definition tab_or_newline :: "char \<Rightarrow> bool" where
  "tab_or_newline c \<longleftrightarrow> c \<in> {CHR 0x09, CHR 0x0A, CHR 0x0D}"

definition clean_url :: "string \<Rightarrow> string" where
  "clean_url s = filter (\<lambda>c. \<not> tab_or_newline c) (dropWhile c0_or_space s)"

definition split_scheme :: "string \<Rightarrow> string \<times> string" where
  "split_scheme s =
     (let pre = takeWhile (\<lambda>c. c \<noteq> CHR '':'') s; post = dropWhile (\<lambda>c. c \<noteq> CHR '':'') s in
      if post \<noteq> [] \<and> pre \<noteq> [] \<and> is_alpha (hd pre) \<and> list_all scheme_char pre
      then (lower pre, tl post) else ([], s))"

definition netloc_end :: "char \<Rightarrow> bool" where
  "netloc_end c \<longleftrightarrow> c \<in> {CHR ''/'', CHR ''?'', CHR ''#''}"

definition split_netloc :: "string \<Rightarrow> string \<times> string" where
  "split_netloc s =
     (if prefix ''//'' s
      then (takeWhile (\<lambda>c. \<not> netloc_end c) (drop 2 s), dropWhile (\<lambda>c. \<not> netloc_end c) (drop 2 s))
      else ([], s))"

definition uses_params :: "string list" where
  "uses_params = ['''', ''ftp'', ''hdl'', ''prospero'', ''http'', ''https'', ''shttp'', ''rtsp'', ''rtsps'',
     ''rtspu'', ''sip'', ''sips'', ''mms'', ''sftp'', ''tel'']"

text \<open>The parameters of the last path segment are cut off.\<close>

definition drop_params :: "string \<Rightarrow> string" where
  "drop_params path =
     (let last_seg = rev (takeWhile (\<lambda>c. c \<noteq> CHR ''/'') (rev path));
          front = take (length path - length last_seg) path
      in front @ takeWhile (\<lambda>c. c \<noteq> CHR '';'') last_seg)"

definition urlparse :: "(string \<Rightarrow> bool) \<Rightarrow> string \<Rightarrow> url_parts result" where
  "urlparse refused s =
     (let (scheme, rest) = split_scheme (clean_url s);
          (netloc, rest2) = split_netloc rest;
          path = takeWhile (\<lambda>c. c \<noteq> CHR ''?'') (takeWhile (\<lambda>c. c \<noteq> CHR ''#'') rest2) in
      if (CHR ''['' \<in> set netloc) \<noteq> (CHR '']'' \<in> set netloc) then Inl (ValueError ''Invalid IPv6 URL'')
      else if refused netloc then Inl (ValueError ''netloc is not allowed'')
      else Inr \<lparr>u_scheme = scheme, u_netloc = netloc,
                u_path = (if scheme \<in> set uses_params then drop_params path else path)\<rparr>)"

end
