(* ===== verification/Config.thy ===== *)
theory Config
  imports Framework Url
begin

text \<open>
  The runtime settings (\<open>config.py\<close>): the record, its defaults, the validation every
  \<open>EngineConfig\<close> undergoes, the capabilities sent to the backend, and the readers of single
  values.
\<close>

record engine_config =
  cf_backend_url :: "string option"
  cf_name :: "string option"
  cf_max_concurrency :: int
  cf_heartbeat_interval_seconds :: int
  cf_build_timeout_seconds :: int
  cf_sigterm_grace_seconds :: int
  cf_container_memory :: string
  cf_container_cpus :: pyfloat
  cf_artifact_max_bytes :: int
  cf_cache_site_max_bytes :: int
  cf_cache_ttl_days :: int
  cf_credentials_path :: string
  cf_state_dir :: string
  cf_image_manifest_version :: string
  cf_images :: "string list"
  cf_storage_origins :: "string list"
  cf_lease_seconds :: int
  cf_outbox_max_bytes :: int
  cf_state_retention_days :: int
  cf_allow_local_source_urls :: bool
  cf_os :: string
  cf_arch :: string

record engine_credentials =
  cr_engine_id :: string
  cr_engine_secret :: string
  cr_session_jwt :: string
  cr_session_jwt_expires_at :: string
  cr_backend_url :: "string option"
  cr_name :: "string option"

definition one :: pyfloat where "one = FNum False 1 0"

text \<open>The compiled defaults; \<open>os\<close> and \<open>arch\<close> come from the platform.\<close>

definition default_config :: "string \<Rightarrow> string \<Rightarrow> engine_config" where
  "default_config os_name arch_name =
     \<lparr>cf_backend_url = None, cf_name = None, cf_max_concurrency = 2, cf_heartbeat_interval_seconds = 15,
      cf_build_timeout_seconds = 600, cf_sigterm_grace_seconds = 10, cf_container_memory = ''2g'',
      cf_container_cpus = one, cf_artifact_max_bytes = 524288000, cf_cache_site_max_bytes = 5368709120,
      cf_cache_ttl_days = 30, cf_credentials_path = ''/etc/mincemeat/build-engine/credentials.toml'',
      cf_state_dir = ''/var/lib/build-engine'', cf_image_manifest_version = ''1.0.0'',
      cf_images = [''node:22'', ''hugo:latest''], cf_storage_origins = [], cf_lease_seconds = 120,
      cf_outbox_max_bytes = 268435456, cf_state_retention_days = 7, cf_allow_local_source_urls = False,
      cf_os = os_name, cf_arch = arch_name\<rparr>"

section \<open>Comparisons of floats\<close>

text \<open>\<open>x <= 0\<close> and \<open>x <= y\<close> on Python floats; every comparison with a NaN is false.\<close>

definition float_scaled :: "int \<Rightarrow> bool \<Rightarrow> nat \<Rightarrow> int \<Rightarrow> int" where
  "float_scaled base neg m e = (if neg then -1 else 1) * int m * 10 ^ nat (e - base)"

fun float_le :: "pyfloat \<Rightarrow> pyfloat \<Rightarrow> bool" where
  "float_le (FNum n m e) (FNum n' m' e') = (float_scaled (min e e') n m e \<le> float_scaled (min e e') n' m' e')"
| "float_le FNan _ = False"
| "float_le _ FNan = False"
| "float_le (FInf n) (FInf n') = (n \<or> \<not> n')"
| "float_le (FInf n) (FNum _ _ _) = n"
| "float_le (FNum _ _ _) (FInf n') = (\<not> n')"

fun float_pos :: "pyfloat \<Rightarrow> bool" where
  "float_pos (FNum n m e) = (\<not> n \<and> 0 < m)"
| "float_pos (FInf n) = (\<not> n)"
| "float_pos FNan = False"

text \<open>\<open>not x <= 0\<close>: true for a NaN.\<close>

definition float_not_le_zero :: "pyfloat \<Rightarrow> bool" where
  "float_not_le_zero x \<longleftrightarrow> float_pos x \<or> x = FNan"

section \<open>Validation\<close>

definition is_secure_origin :: "(string \<Rightarrow> bool) \<Rightarrow> string \<Rightarrow> bool result" where
  "is_secure_origin refused value =
     rbind (urlparse refused value) (\<lambda>u. Inr (u_scheme u = ''https'' \<and> u_netloc u \<noteq> []))"

definition positive_fields :: "engine_config \<Rightarrow> (string \<times> int) list" where
  "positive_fields c =
     [(''heartbeat_interval_seconds'', cf_heartbeat_interval_seconds c),
      (''build_timeout_seconds'', cf_build_timeout_seconds c),
      (''sigterm_grace_seconds'', cf_sigterm_grace_seconds c),
      (''artifact_max_bytes'', cf_artifact_max_bytes c),
      (''cache_site_max_bytes'', cf_cache_site_max_bytes c),
      (''cache_ttl_days'', cf_cache_ttl_days c),
      (''lease_seconds'', cf_lease_seconds c),
      (''outbox_max_bytes'', cf_outbox_max_bytes c),
      (''state_retention_days'', cf_state_retention_days c)]"

fun all_secure :: "(string \<Rightarrow> bool) \<Rightarrow> string list \<Rightarrow> bool result" where
  "all_secure refused [] = Inr True"
| "all_secure refused (x # xs) =
     rbind (is_secure_origin refused x) (\<lambda>ok. if ok then all_secure refused xs else Inr False)"

definition config_post_init :: "(string \<Rightarrow> bool) \<Rightarrow> engine_config \<Rightarrow> engine_config result" where
  "config_post_init refused c =
     rbind (ensure (1 \<le> cf_max_concurrency c \<and> cf_max_concurrency c \<le> 16)
              (ValueError ''max_concurrency must be between 1 and 16'')) (\<lambda>_.
     rbind (each (\<lambda>(name, v). ensure (0 < v) (ValueError (name @ '' must be positive''))) (positive_fields c)) (\<lambda>_.
     rbind (ensure (float_not_le_zero (cf_container_cpus c)) (ValueError ''container_cpus must be positive'')) (\<lambda>_.
     rbind (ensure (cf_image_manifest_version c \<noteq> []) (ValueError ''image_manifest_version must not be empty'')) (\<lambda>_.
     rbind (ensure (cf_images c \<noteq> []) (ValueError ''at least one builder image must be configured'')) (\<lambda>_.
     rbind (ensure (list_all (\<lambda>origin. origin \<noteq> []) (cf_storage_origins c))
              (ValueError ''storage_origins must contain non-empty origins'')) (\<lambda>_.
     rbind (case cf_backend_url c of None \<Rightarrow> Inr True | Some u \<Rightarrow> is_secure_origin refused u) (\<lambda>secure.
     rbind (ensure secure (ValueError ''backend_url must use HTTPS'')) (\<lambda>_.
     rbind (all_secure refused (cf_storage_origins c)) (\<lambda>secure.
     rbind (ensure secure (ValueError ''storage_origins must use HTTPS'')) (\<lambda>_.
       Inr c))))))))))"

section \<open>Capabilities and single values\<close>

definition config_capabilities :: "engine_config \<Rightarrow> payload" where
  "config_capabilities c =
     [(''os'', JStr (cf_os c)), (''arch'', JStr (cf_arch c)), (''max_concurrency'', JInt (cf_max_concurrency c)),
      (''images'', JArr (map JStr (cf_images c))), (''proto_version'', JInt 2),
      (''image_manifest_version'', JStr (cf_image_manifest_version c)),
      (''frameworks'', JArr (map JStr (sort SUPPORTED_FRAMEWORK_IDS))),
      (''package_managers'', JArr [JStr ''npm'', JStr ''pnpm'']), (''network'', JStr ''unrestricted'')]"

definition split_csv :: "string \<Rightarrow> string list" where
  "split_csv value = filter (\<lambda>p. p \<noteq> []) (map strip (split_at (CHR '','') value))"

definition bool_value :: "string \<Rightarrow> bool result" where
  "bool_value value =
     (let normalized = lower (strip value) in
      if normalized \<in> {''1'', ''true'', ''yes'', ''on''} then Inr True
      else if normalized \<in> {''0'', ''false'', ''no'', ''off''} then Inr False
      else Inl (ValueError (''Invalid boolean value: '' @ value)))"

definition normalize_arch :: "string \<Rightarrow> string" where
  "normalize_arch machine =
     (let normalized = lower machine in
      if normalized \<in> {''x86_64'', ''amd64''} then ''amd64''
      else if normalized \<in> {''aarch64'', ''arm64''} then ''arm64''
      else normalized)"

section \<open>What a valid configuration guarantees\<close>

definition config_ok :: "engine_config \<Rightarrow> bool" where
  "config_ok c \<longleftrightarrow> 1 \<le> cf_max_concurrency c \<and> cf_max_concurrency c \<le> 16 \<and>
     list_all (\<lambda>(_, v). 0 < v) (positive_fields c) \<and> float_not_le_zero (cf_container_cpus c) \<and>
     cf_images c \<noteq> []"

lemma config_post_init_ok: "config_post_init refused c = Inr c' \<Longrightarrow> c' = c \<and> config_ok c"
proof -
  assume *: "config_post_init refused c = Inr c'"
  have "list_all (\<lambda>(_, v). 0 < v) xs"
    if "each (\<lambda>(name, v). ensure (0 < v) (ValueError (name @ '' must be positive''))) xs = Inr us" for xs :: "(string \<times> int) list" and us
    using that by (induction xs arbitrary: us) (auto simp: rbind_Inr_iff)
  then show ?thesis
    using * unfolding config_post_init_def rbind_Inr_iff ensure_Inr_iff config_ok_def by blast
qed

end
