(* ===== verification/Docker.thy ===== *)
theory Docker
  imports Config
begin

text \<open>
  The Docker boundary: \<open>executor/docker_runner.py\<close> and \<open>executor/network.py\<close>. Host paths are
  texts that \<open>Path.resolve()\<close> returned; making directories and temporary files has no other
  effect on the result. The container itself is what the polls of its process report.
\<close>

section \<open>Network policy\<close>

definition DEFAULT_NETWORK_MODE :: string where "DEFAULT_NETWORK_MODE = ''bridge''"

definition network_args :: "string \<Rightarrow> string list result" where
  "network_args mode =
     (if mode \<noteq> DEFAULT_NETWORK_MODE
      then Inl (NetworkPolicyError ''Build containers must use the unrestricted bridge network'')
      else Inr [''--network'', DEFAULT_NETWORK_MODE])"

section \<open>Images\<close>

record cache_mount =
  cm_host_path :: string
  cm_container_path :: string

record image_manifest_entry =
  im_tag :: string
  im_digest :: string
  im_frameworks :: "string list"

definition reference :: "image_manifest_entry \<Rightarrow> string" where
  "reference e = im_tag e @ ''@'' @ im_digest e"

type_synonym image_manifest = "(string \<times> image_manifest_entry) list"

definition lower_hex_char :: "char \<Rightarrow> bool" where
  "lower_hex_char c \<longleftrightarrow> (let n = of_char c :: nat in (48 \<le> n \<and> n \<le> 57) \<or> (97 \<le> n \<and> n \<le> 102))"

text \<open>\<open>sha256:[0-9a-f]{64}\<close>.\<close>

definition sha256_digest :: "string \<Rightarrow> bool" where
  "sha256_digest s \<longleftrightarrow> prefix ''sha256:'' s \<and> length s = 71 \<and> list_all lower_hex_char (drop 7 s)"

text \<open>\<open>[^\s@]+@sha256:[0-9a-f]{64}\<close>: the digest has a fixed length and contains no \<open>@\<close>.\<close>

definition tag_text :: "string \<Rightarrow> bool" where
  "tag_text s \<longleftrightarrow> s \<noteq> [] \<and> CHR ''@'' \<notin> set s \<and> list_all (\<lambda>r. ws_len r = 0) (suffixes s)"

definition pinned_image :: "string \<Rightarrow> bool" where
  "pinned_image img \<longleftrightarrow>
     (case partition_at (CHR ''@'') img of (tag, Some digest) \<Rightarrow> tag_text tag \<and> sha256_digest digest | _ \<Rightarrow> False)"

definition require_pinned_image :: "string \<Rightarrow> unit result" where
  "require_pinned_image img =
     ensure (pinned_image img) (DockerError ''Docker images must use an immutable tag@sha256:digest reference'')"

definition parse_manifest_entry :: "string \<times> json \<Rightarrow> (string \<times> image_manifest_entry) result" where
  "parse_manifest_entry kv = (case kv of (key, JObj raw_entry) \<Rightarrow>
      (case jget raw_entry ''tag'' of
         Some (JStr (t # ts)) \<Rightarrow>
           (case jget raw_entry ''digest'' of
              Some (JStr digest) \<Rightarrow>
                if \<not> sha256_digest digest then Inl (DockerError (''Image manifest entry '' @ key @ '' is missing digest''))
                else (case jget raw_entry ''frameworks'' of
                    Some (JArr items) \<Rightarrow>
                      if list_all (\<lambda>i. case i of JStr (_ # _) \<Rightarrow> True | _ \<Rightarrow> False) items
                      then Inr (key, \<lparr>im_tag = t # ts, im_digest = digest,
                             im_frameworks = map (\<lambda>i. case i of JStr s \<Rightarrow> s | _ \<Rightarrow> []) items\<rparr>)
                      else Inl (DockerError (''Image manifest entry '' @ key @ '' is missing frameworks''))
                  | _ \<Rightarrow> Inl (DockerError (''Image manifest entry '' @ key @ '' is missing frameworks'')))
            | _ \<Rightarrow> Inl (DockerError (''Image manifest entry '' @ key @ '' is missing digest'')))
       | _ \<Rightarrow> Inl (DockerError (''Image manifest entry '' @ key @ '' is missing tag'')))
    | _ \<Rightarrow> Inl (DockerError ''Image manifest entries must be objects''))"

definition protocol_v2_compat :: "json option \<Rightarrow> bool" where
  "protocol_v2_compat c = (case c of
      Some (JObj d) \<Rightarrow>
        (case jget d ''proto_min'' of Some v \<Rightarrow> py_eq_int v 2 | None \<Rightarrow> False) \<and>
        (case jget d ''proto_max'' of Some v \<Rightarrow> py_eq_int v 2 | None \<Rightarrow> False)
    | _ \<Rightarrow> False)"

definition nonempty_text :: "json \<Rightarrow> bool" where
  "nonempty_text v = (case v of JStr (_ # _) \<Rightarrow> True | _ \<Rightarrow> False)"

definition parse_image_manifest :: "json \<Rightarrow> bool \<Rightarrow> image_manifest result" where
  "parse_image_manifest decoded require_protocol_v2 = (case decoded of
      JObj d \<Rightarrow>
        rbind (ensure (\<not> require_protocol_v2 \<or> (case jget d ''version'' of Some v \<Rightarrow> nonempty_text v | None \<Rightarrow> False))
                 (DockerError ''Image manifest must contain a version'')) (\<lambda>_.
        rbind (ensure (\<not> require_protocol_v2 \<or> protocol_v2_compat (jget d ''engine_compat''))
                 (DockerError ''Image manifest is not compatible with protocol v2'')) (\<lambda>_.
        rbind (ensure (case jget_opt d ''version'' of Some v \<Rightarrow> nonempty_text v | None \<Rightarrow> True)
                 (DockerError ''Image manifest version must be a non-empty string'')) (\<lambda>_.
          (case jget d ''images'' of
             Some (JObj (e # es)) \<Rightarrow> each parse_manifest_entry (e # es)
           | _ \<Rightarrow> Inl (DockerError ''Image manifest must contain images'')))))
    | _ \<Rightarrow> Inl (DockerError ''Image manifest must be a JSON object''))"

text \<open>A manifest file: \<^const>\<open>None\<close> when it cannot be opened.\<close>

definition load_image_manifest :: "string option \<Rightarrow> bool \<Rightarrow> image_manifest result" where
  "load_image_manifest content require_protocol_v2 = (case content of
      None \<Rightarrow> Inl (OSError ''No such file or directory'')
    | Some text \<Rightarrow>
        if \<not> valid_utf8 text then Inl (ValueError ''invalid start byte'')
        else (case json_loads text of
            Inl JSONDecodeError \<Rightarrow> Inl (ValueError ''Expecting value'')
          | Inl IntTooLong \<Rightarrow> Inl (ValueError ''Exceeds the limit for integer string conversion'')
          | Inr decoded \<Rightarrow> parse_image_manifest decoded require_protocol_v2))"

text \<open>The bundled manifest: \<^const>\<open>None\<close> when the resource cannot be opened.\<close>

definition load_bundled_image_manifest :: "string option \<Rightarrow> image_manifest result" where
  "load_bundled_image_manifest resource = (case resource of
      None \<Rightarrow> Inl (DockerError ''Bundled builder image manifest is unavailable'')
    | Some text \<Rightarrow>
        if \<not> valid_utf8 text then Inl (ValueError ''invalid start byte'')
        else (case json_loads text of
            Inl JSONDecodeError \<Rightarrow> Inl (DockerError ''Bundled builder image manifest is unavailable'')
          | Inl IntTooLong \<Rightarrow> Inl (ValueError ''Exceeds the limit for integer string conversion'')
          | Inr decoded \<Rightarrow> parse_image_manifest decoded True))"

definition resolve_image_reference :: "string \<Rightarrow> image_manifest option \<Rightarrow> string result" where
  "resolve_image_reference img manifest = (case manifest of
      None \<Rightarrow> rbind (require_pinned_image img) (\<lambda>_. Inr img)
    | Some m \<Rightarrow>
        (case map_of m img of
           Some e \<Rightarrow> Inr (reference e)
         | None \<Rightarrow>
             (case find (\<lambda>(_, e). img = im_tag e \<or> img = reference e) m of
                Some (_, e) \<Rightarrow> Inr (reference e)
              | None \<Rightarrow> Inl (DockerError (''Image '' @ img @ '' is not present in the builder manifest'')))))"

text \<open>What \<open>subprocess.run\<close> of a Docker command gives.\<close>

datatype process_run = Completed int string string \<comment> \<open>exit code, stdout, stderr\<close> | Timed_Out | Not_Started

definition pull_image :: "(string list \<Rightarrow> process_run) \<Rightarrow> string \<Rightarrow> unit result" where
  "pull_image run img =
     rbind (require_pinned_image img) (\<lambda>_.
       case run [''docker'', ''pull'', img] of
         Completed code out err \<Rightarrow>
           if code \<noteq> 0
           then Inl (DockerError (''Docker image pull failed for '' @ img @ '': '' @ strip (if err = [] then out else err)))
           else Inr ()
       | Timed_Out \<Rightarrow> Inl (TimeoutExpired ''docker pull timed out'')
       | Not_Started \<Rightarrow> Inl (OSError ''docker could not be started''))"

section \<open>The command line\<close>

record docker_run_spec =
  ds_image :: string
  ds_project_root :: string
  ds_project_parent_out :: string \<comment> \<open>\<open>project_root.parent / "out"\<close>, resolved\<close>
  ds_command :: string
  ds_config :: engine_config
  ds_network_mode :: string
  ds_source_root :: "string option"
  ds_output_root :: "string option"
  ds_build_manifest :: "payload option"
  ds_environment :: "(string \<times> string) list"
  ds_cache_mounts :: "cache_mount list"
  ds_secret_env :: "(string \<times> string) list"
  ds_container_label :: string
  ds_host_uid :: nat
  ds_host_gid :: nat
  ds_timeout_seconds :: "int option"
  ds_memory_limit :: "string option"
  ds_cpu_limit :: "pyfloat option"
  ds_pids_limit :: int

text \<open>\<open>spec.memory_limit or spec.config.container_memory\<close>, and the same for the processors.\<close>

definition memory_arg :: "docker_run_spec \<Rightarrow> string" where
  "memory_arg spec = str_or (ds_memory_limit spec) (cf_container_memory (ds_config spec)) id"

fun float_zero :: "pyfloat \<Rightarrow> bool" where
  "float_zero (FNum _ m _) = (m = 0)"
| "float_zero _ = False"

definition cpus_arg :: "docker_run_spec \<Rightarrow> pyfloat" where
  "cpus_arg spec = (case ds_cpu_limit spec of
      Some x \<Rightarrow> if float_zero x then cf_container_cpus (ds_config spec) else x
    | None \<Rightarrow> cf_container_cpus (ds_config spec))"

definition limit_args :: "docker_run_spec \<Rightarrow> string list" where
  "limit_args spec =
     [''docker'', ''run'', ''--rm'', ''--init'', ''--label'', ds_container_label spec,
      ''--memory'', memory_arg spec, ''--memory-swap'', memory_arg spec,
      ''--cpus'', float_repr (cpus_arg spec), ''--pids-limit'', int_str (ds_pids_limit spec),
      ''--read-only'', ''--user'', nat_digits (ds_host_uid spec) @ '':'' @ nat_digits (ds_host_gid spec),
      ''--cap-drop'', ''ALL'', ''--security-opt'', ''no-new-privileges'',
      ''--tmpfs'', ''/tmp:rw,noexec,nosuid,size=512m'']"

definition volume_args :: "docker_run_spec \<Rightarrow> string option \<Rightarrow> string list result" where
  "volume_args spec build_manifest_path =
     (if ds_build_manifest spec \<noteq> None then
        (case build_manifest_path of
           None \<Rightarrow> Inl (DockerError ''build_manifest_path is required when build_manifest is set'')
         | Some manifest \<Rightarrow>
             Inr [''--volume'', manifest @ '':/build/manifest.json:ro'',
                  ''--volume'', (case ds_source_root spec of Some s \<Rightarrow> s | None \<Rightarrow> ds_project_root spec) @ '':/workspace/src:rw'',
                  ''--volume'', (case ds_output_root spec of Some o' \<Rightarrow> o' | None \<Rightarrow> ds_project_parent_out spec) @ '':/workspace/out:rw''])
      else Inr [''--volume'', ds_project_root spec @ '':/workspace:rw''])"

definition docker_run_args :: "docker_run_spec \<Rightarrow> string option \<Rightarrow> string option \<Rightarrow> string option \<Rightarrow> string list result" where
  "docker_run_args spec env_file_path build_manifest_path cidfile_path =
     rbind (require_pinned_image (ds_image spec)) (\<lambda>_.
     rbind (network_args (ds_network_mode spec)) (\<lambda>net.
     rbind (volume_args spec build_manifest_path) (\<lambda>volumes.
       Inr (limit_args spec @ net @
            [''--workdir'', if ds_build_manifest spec \<noteq> None then ''/workspace/src'' else ''/workspace''] @
            volumes @
            concat (map (\<lambda>m. [''--volume'', cm_host_path m @ '':'' @ cm_container_path m @ '':rw'']) (ds_cache_mounts spec)) @
            concat (map (\<lambda>(k, v). [''--env'', k @ ''='' @ v]) (sort_key fst (ds_environment spec))) @
            (case env_file_path of Some p \<Rightarrow> [''--env-file'', p] | None \<Rightarrow> []) @
            (case cidfile_path of Some p \<Rightarrow> [''--cidfile'', p] | None \<Rightarrow> []) @
            (if ds_build_manifest spec \<noteq> None then [ds_image spec]
             else [ds_image spec, ''sh'', ''-c'', ds_command spec])))))"

section \<open>Secrets\<close>

text \<open>\<open>str.isalnum()\<close>: \<open>uni\<close> decides texts with characters outside ASCII.\<close>

definition ascii_char :: "char \<Rightarrow> bool" where "ascii_char c \<longleftrightarrow> (of_char c :: nat) < 128"

definition py_isalnum :: "(string \<Rightarrow> bool) \<Rightarrow> string \<Rightarrow> bool" where
  "py_isalnum uni s \<longleftrightarrow> s \<noteq> [] \<and> list_all (\<lambda>c. ascii_char c \<longrightarrow> is_alpha c \<or> is_num c) s \<and>
     (list_all ascii_char s \<or> uni s)"

definition validate_secret_env_key :: "(string \<Rightarrow> bool) \<Rightarrow> (string \<Rightarrow> bool) \<Rightarrow> string \<Rightarrow> unit result" where
  "validate_secret_env_key uni uni_digit key =
     ensure (key \<noteq> [] \<and> py_isalnum uni (filter (\<lambda>c. c \<noteq> CHR ''_'') key) \<and>
        \<not> (if ascii_char (hd key) then is_num (hd key) else uni_digit key))
       (DockerError (''Invalid secret env var name: '' @ py_repr key))"

definition env_line :: "(string \<Rightarrow> bool) \<Rightarrow> (string \<Rightarrow> bool) \<Rightarrow> string \<times> string \<Rightarrow> string result" where
  "env_line uni uni_digit kv = (case kv of (key, value) \<Rightarrow>
     rbind (validate_secret_env_key uni uni_digit key) (\<lambda>_.
     rbind (ensure (CHR 0x0A \<notin> set value \<and> CHR 0x0D \<notin> set value)
              (DockerError (''Secret env var '' @ py_repr key @ '' contains a newline''))) (\<lambda>_.
       Inr (key @ ''='' @ value))))"

definition format_env_file :: "(string \<Rightarrow> bool) \<Rightarrow> (string \<Rightarrow> bool) \<Rightarrow> (string \<times> string) list \<Rightarrow> string result" where
  "format_env_file uni uni_digit secret_env =
     rbind (each (env_line uni uni_digit) (sort_key fst secret_env)) (\<lambda>lines.
       Inr (join [CHR 0x0A] lines @ (if lines = [] then [] else [CHR 0x0A])))"

text \<open>What \<open>_materialize_build_manifest\<close> writes.\<close>

definition build_manifest_text :: "payload \<Rightarrow> string" where
  "build_manifest_text m = json_dumps (JObj m) @ [CHR 0x0A]"

section \<open>Waiting for the container\<close>

record container_result =
  ct_exit_code :: int
  ct_timed_out :: bool
  ct_cancelled :: bool

text \<open>One turn of the polling loop: whether cancellation was requested, the loop's clock, the
  exit code if the process ended within this poll, and the return code the process has once it
  was stopped.\<close>

record poll =
  po_cancel :: bool
  po_now :: int
  po_exit :: "int option"
  po_stopped :: "int option"

definition stopped_code :: "int option \<Rightarrow> int" where
  "stopped_code rc = (case rc of Some c \<Rightarrow> if c = 0 then -1 else c | None \<Rightarrow> -1)"

fun wait_loop :: "int \<Rightarrow> poll list \<Rightarrow> container_result option" where
  "wait_loop deadline [] = None"
| "wait_loop deadline (p # ps) =
     (if po_cancel p
      then Some \<lparr>ct_exit_code = stopped_code (po_stopped p), ct_timed_out = False, ct_cancelled = True\<rparr>
      else if deadline - po_now p \<le> 0
      then Some \<lparr>ct_exit_code = stopped_code (po_stopped p), ct_timed_out = True, ct_cancelled = False\<rparr>
      else case po_exit p of
          Some code \<Rightarrow> Some \<lparr>ct_exit_code = code, ct_timed_out = False, ct_cancelled = False\<rparr>
        | None \<Rightarrow> wait_loop deadline ps)"

definition wait_for_process :: "docker_run_spec \<Rightarrow> int \<Rightarrow> poll list \<Rightarrow> container_result option" where
  "wait_for_process spec start polls =
     wait_loop (start + 1000 * (case ds_timeout_seconds spec of
         Some t \<Rightarrow> if t = 0 then cf_build_timeout_seconds (ds_config spec) else t
       | None \<Rightarrow> cf_build_timeout_seconds (ds_config spec))) polls"

text \<open>The signals sent to the Docker client: \<open>in_grace\<close> says whether it ends in time.\<close>

datatype signal = SIGTERM | SIGKILL

definition terminate_then_kill :: "int option \<Rightarrow> bool \<Rightarrow> signal list" where
  "terminate_then_kill returncode in_grace =
     (if returncode \<noteq> None then [] else if in_grace then [SIGTERM] else [SIGTERM, SIGKILL])"

definition hex_char_any :: "char \<Rightarrow> bool" where
  "hex_char_any c \<longleftrightarrow> lower_hex_char c \<or> (let n = of_char c :: nat in 65 \<le> n \<and> n \<le> 70)"

definition read_container_id :: "string option \<Rightarrow> string option result" where
  "read_container_id file = (case file of
      None \<Rightarrow> Inr None
    | Some text \<Rightarrow>
        if \<not> list_all ascii_char text then Inl (ValueError ''ordinal not in range(128)'')
        else (let value = strip text in
          Inr (if list_all hex_char_any value \<and> 12 \<le> length value \<and> length value \<le> 128 then Some value else None)))"

definition stop_container :: "string option \<Rightarrow> int \<Rightarrow> string list list" where
  "stop_container container_id grace_seconds = (case container_id of
      None \<Rightarrow> []
    | Some cid \<Rightarrow>
        [[''docker'', ''stop'', ''--time'', int_str (max 1 grace_seconds), cid],
         [''docker'', ''rm'', ''--force'', cid]])"

end
