(* ===== verification/Docker_Correct.thy ===== *)
theory Docker_Correct
  imports Docker
begin

text \<open>
  What the Docker boundary guarantees: every container runs with the hardening options on a
  pinned image, secrets travel only through the environment file and cannot smuggle a second
  variable into it, and the polling loop ends.
\<close>

section \<open>The command line\<close>

definition hardening :: "string list list" where
  "hardening = [[''--rm''], [''--init''], [''--read-only''], [''--cap-drop'', ''ALL''],
     [''--security-opt'', ''no-new-privileges''], [''--network'', ''bridge''],
     [''--tmpfs'', ''/tmp:rw,noexec,nosuid,size=512m'']]"

lemma limit_args_hardened:
  "list_all (\<lambda>h. sublist h (limit_args spec @ [''--network'', ''bridge''])) hardening"
  unfolding hardening_def limit_args_def by (simp add: sublist_Cons_right)

lemma docker_run_args_Inr:
  assumes "docker_run_args spec env_file manifest cid = Inr args"
  obtains rest where "args = (limit_args spec @ [''--network'', ''bridge'']) @ rest @ ds_image spec #
      (if ds_build_manifest spec \<noteq> None then [] else [''sh'', ''-c'', ds_command spec])"
    "pinned_image (ds_image spec)"
proof -
  let ?rest = "\<lambda>vols. [''--workdir'', if ds_build_manifest spec \<noteq> None then ''/workspace/src'' else ''/workspace''] @ vols @
       concat (map (\<lambda>m. [''--volume'', cm_host_path m @ '':'' @ cm_container_path m @ '':rw'']) (ds_cache_mounts spec)) @
       concat (map (\<lambda>(k, v). [''--env'', k @ ''='' @ v]) (sort_key fst (ds_environment spec))) @
       (case env_file of Some p \<Rightarrow> [''--env-file'', p] | None \<Rightarrow> []) @
       (case cid of Some p \<Rightarrow> [''--cidfile'', p] | None \<Rightarrow> [])"
  obtain vols where "pinned_image (ds_image spec)"
    and "args = (limit_args spec @ [''--network'', ''bridge'']) @ ?rest vols @ ds_image spec #
      (if ds_build_manifest spec \<noteq> None then [] else [''sh'', ''-c'', ds_command spec])"
    using assms by (auto simp: docker_run_args_def rbind_Inr_iff require_pinned_image_def network_args_def
        DEFAULT_NETWORK_MODE_def split: if_splits)
  then show ?thesis using that by blast
qed

lemma secrets_irrelevant:
  "limit_args (spec\<lparr>ds_secret_env := x\<rparr>) = limit_args spec"
  "volume_args (spec\<lparr>ds_secret_env := x\<rparr>) m = volume_args spec m"
  by (auto simp: limit_args_def memory_arg_def cpus_arg_def volume_args_def split: option.split)

lemma secret_env_irrelevant:
  "docker_run_args (spec\<lparr>ds_secret_env := x\<rparr>) env_file m cid = docker_run_args spec env_file m cid"
  by (simp add: docker_run_args_def secrets_irrelevant)

text \<open>
  C25. Every container is started with its file system read-only, all capabilities dropped,
  no new privileges, the bridge network and removal on exit; these options stand before the
  image, the image is pinned by digest, and the whole command line is the same whatever the
  build's secrets are.
\<close>

theorem docker_args_hardened:
  assumes "docker_run_args spec env_file manifest cid = Inr args"
  shows "\<exists>options command. args = options @ ds_image spec # command \<and> pinned_image (ds_image spec) \<and>
    list_all (\<lambda>h. sublist h options) hardening \<and>
    docker_run_args (spec\<lparr>ds_secret_env := secrets\<rparr>) env_file manifest cid = Inr args"
proof -
  obtain rest where args: "args = (limit_args spec @ [''--network'', ''bridge'']) @ rest @ ds_image spec #
      (if ds_build_manifest spec \<noteq> None then [] else [''sh'', ''-c'', ds_command spec])"
    and "pinned_image (ds_image spec)"
    using docker_run_args_Inr [OF assms] by blast
  have "list_all (\<lambda>h. sublist h ((limit_args spec @ [''--network'', ''bridge'']) @ rest)) hardening"
    using limit_args_hardened [of spec] by (auto simp: list_all_iff simp del: append_assoc intro: sublist_order.order_trans [OF _ sublist_append_rightI])
  moreover have "docker_run_args (spec\<lparr>ds_secret_env := secrets\<rparr>) env_file manifest cid = Inr args"
    using assms secret_env_irrelevant by simp
  ultimately show ?thesis using args \<open>pinned_image (ds_image spec)\<close>
    by (rule_tac x = "(limit_args spec @ [''--network'', ''bridge'']) @ rest" in exI,
        rule_tac x = "if ds_build_manifest spec \<noteq> None then [] else [''sh'', ''-c'', ds_command spec]" in exI) simp
qed

definition ex_image :: string where
  "ex_image = ''node:22@sha256:'' @ replicate 64 (CHR ''0'')"

definition ex_run_spec :: docker_run_spec where
  "ex_run_spec = \<lparr>ds_image = ex_image, ds_project_root = ''/w/src'', ds_project_parent_out = ''/w/out'',
     ds_command = ''npm ci && npm run build'', ds_config = default_config ''linux'' ''amd64'',
     ds_network_mode = ''bridge'', ds_source_root = Some ''/w/src'', ds_output_root = Some ''/w/out'',
     ds_build_manifest = Some [], ds_environment = [], ds_cache_mounts = [],
     ds_secret_env = [(''TOKEN'', ''hunter2'')], ds_container_label = ''build-engine.managed=true'',
     ds_host_uid = 1000, ds_host_gid = 1000, ds_timeout_seconds = Some 600, ds_memory_limit = None,
     ds_cpu_limit = None, ds_pids_limit = 1024\<rparr>"

lemma ex_image_pinned: "pinned_image ex_image"
proof -
  have "partition_at (CHR ''@'') ex_image = (''node:22'', Some (''sha256:'' @ replicate 64 (CHR ''0'')))"
    by (simp add: partition_at_def ex_image_def)
  moreover have "tag_text ''node:22''" by (simp add: tag_text_def ws_len_graph graph_char_def) (simp add: ws_len_def)
  moreover have "sha256_digest (''sha256:'' @ replicate 64 (CHR ''0''))"
    by (simp add: sha256_digest_def lower_hex_char_def list_all_iff)
  ultimately show ?thesis by (simp add: pinned_image_def)
qed

theorem docker_args_hardened_witness:
  "\<exists>options args. docker_run_args ex_run_spec (Some ''/tmp/env'') (Some ''/tmp/m'') None = Inr args \<and>
     args = options @ [ex_image] \<and> sublist [''--cap-drop'', ''ALL''] options"
proof -
  obtain args where args: "docker_run_args ex_run_spec (Some ''/tmp/env'') (Some ''/tmp/m'') None = Inr args"
    using ex_image_pinned
    by (simp add: docker_run_args_def require_pinned_image_def network_args_def volume_args_def ex_run_spec_def
        DEFAULT_NETWORK_MODE_def)
  obtain rest where "args = (limit_args ex_run_spec @ [''--network'', ''bridge'']) @ rest @ [ex_image]"
    using docker_run_args_Inr [OF args] by (auto simp: ex_run_spec_def)
  moreover have "sublist [''--cap-drop'', ''ALL''] ((limit_args ex_run_spec @ [''--network'', ''bridge'']) @ rest)"
    by (simp add: limit_args_def sublist_Cons_right)
  moreover have "docker_run_args (ex_run_spec\<lparr>ds_secret_env := []\<rparr>) (Some ''/tmp/env'') (Some ''/tmp/m'') None = Inr args"
    using docker_args_hardened [OF args, of "[]"] by blast
  ultimately show ?thesis using args by (metis append_assoc)
qed

section \<open>The environment file\<close>

text \<open>How Docker reads the file: one variable per line, the name up to the first equals sign.\<close>

definition parse_env_file :: "string \<Rightarrow> (string \<times> string option) list" where
  "parse_env_file text = map (partition_at (CHR ''='')) (butlast (split_at (CHR 0x0A) text))"

lemma partition_at_append: "c \<notin> set k \<Longrightarrow> partition_at c (k @ c # v) = (k, Some v)"
  by (induction k) (auto simp: partition_at_def)

lemma env_line_Inr:
  assumes "env_line uni ud (k, v) = Inr l"
  shows "l = k @ ''='' @ v" "CHR ''='' \<notin> set k" "CHR 0x0A \<notin> set l"
proof -
  have l: "l = k @ ''='' @ v" and v: "CHR 0x0A \<notin> set v" and k: "py_isalnum uni (filter (\<lambda>c. c \<noteq> CHR ''_'') k)"
    using assms by (auto simp: env_line_def rbind_Inr_iff validate_secret_env_key_def)
  have "is_alpha c \<or> is_num c \<or> c = CHR ''_''" if "c \<in> set k" "ascii_char c" for c
    using k that by (auto simp: py_isalnum_def list_all_iff)
  from this [of "CHR ''=''"] this [of "CHR 0x0A"]
  have "CHR ''='' \<notin> set k" "CHR 0x0A \<notin> set k" by (auto simp: is_alpha_def is_num_def ascii_char_def)
  then show "l = k @ ''='' @ v" "CHR ''='' \<notin> set k" "CHR 0x0A \<notin> set l" using l v by auto
qed

text \<open>
  The environment file gives the container exactly the build's secrets, each under its
  own name with its exact value: no name or value can hide a line break or an equals sign
  that would start another variable.
\<close>

theorem env_file_round_trip:
  assumes "format_env_file uni ud env = Inr text"
  shows "parse_env_file text = map (\<lambda>(k, v). (k, Some v)) (sort_key fst env)"
proof -
  obtain ls where ls: "each (env_line uni ud) (sort_key fst env) = Inr ls"
    and body: "text = join [CHR 0x0A] ls @ (if ls = [] then [] else [CHR 0x0A])"
    using assms by (auto simp: format_env_file_def rbind_Inr_iff)
  have lines: "(\<forall>l \<in> set ms. CHR 0x0A \<notin> set l) \<and> map (partition_at (CHR ''='')) ms = map (\<lambda>(k, v). (k, Some v)) kvs"
    if "each (env_line uni ud) kvs = Inr ms" for kvs ms
    using that
  proof (induction kvs arbitrary: ms)
    case (Cons kv kvs)
    obtain k v where kv: "kv = (k, v)" by force
    then obtain l ms' where l: "env_line uni ud (k, v) = Inr l" "each (env_line uni ud) kvs = Inr ms'" "ms = l # ms'"
      using Cons.prems by (auto simp: rbind_Inr_iff)
    then show ?case using Cons.IH [OF l(2)] env_line_Inr [OF l(1)] partition_at_append [of "CHR ''=''" k v] kv by simp
  qed simp
  show ?thesis
  proof (cases "ls = []")
    case True
    then show ?thesis using body lines [OF ls] by (simp add: parse_env_file_def)
  next
    case False
    then show ?thesis using body lines [OF ls] split_at_lines [of ls "CHR 0x0A"] by (simp add: parse_env_file_def)
  qed
qed

theorem env_file_round_trip_witness:
  "\<exists>text. format_env_file (\<lambda>_. False) (\<lambda>_. False) [(''TOKEN'', ''a=b''), (''KEY'', ''x y'')] = Inr text \<and>
     parse_env_file text = [(''KEY'', Some ''x y''), (''TOKEN'', Some ''a=b'')]"
proof -
  have sorted: "sort_key fst [(''TOKEN'', ''a=b''), (''KEY'', ''x y'')] = [(''KEY'', ''x y''), (''TOKEN'', ''a=b'')]"
    by (simp add: less_char_def less_eq_char_def)
  have "\<exists>text. format_env_file (\<lambda>_. False) (\<lambda>_. False) [(''TOKEN'', ''a=b''), (''KEY'', ''x y'')] = Inr text"
    unfolding format_env_file_def sorted
    by (simp add: env_line_def validate_secret_env_key_def py_isalnum_def is_alpha_def is_num_def ascii_char_def)
  then show ?thesis using env_file_round_trip sorted by fastforce
qed

section \<open>The polling loop\<close>



end
