(* ===== verification/Uuid.thy ===== *)
theory Uuid
  imports Json
begin

text \<open>
  Canonical UUID spelling. The sources accept an identifier \<open>v\<close> exactly when
  \<open>str(uuid.UUID(v)) == v\<close>. Here are \<open>uuid.UUID\<close> on a text (prefixes, braces and
  hyphens removed, 32 characters read by \<open>int(_, 16)\<close>), \<open>str\<close> of a UUID, and the
  proof that the test accepts exactly the texts of shape 8-4-4-4-12 in lower-case
  hexadecimal. Non-ASCII digits, which \<open>int\<close> would read, are rejected at once; the
  test rejects them in any case, since \<open>str\<close> never prints them.
\<close>

section \<open>Reading: \<open>int(s, 16)\<close> and \<open>uuid.UUID(s)\<close>\<close>

datatype scan_state = Need_Digit | After_Digit | After_Prefix

text \<open>Hexadecimal digits with single underscores between them (or after the prefix).\<close>

fun scan_hex :: "scan_state \<Rightarrow> nat \<Rightarrow> string \<Rightarrow> nat option" where
  "scan_hex st acc [] = (if st = After_Digit then Some acc else None)"
| "scan_hex st acc (c # cs) =
     (case hex_val c of
        Some d \<Rightarrow> scan_hex After_Digit (acc * 16 + d) cs
      | None \<Rightarrow> if c = CHR ''_'' \<and> st \<noteq> Need_Digit then scan_hex Need_Digit acc cs else None)"

definition py_int16 :: "string \<Rightarrow> int option" where
  "py_int16 s =
     (let t = py_strip is_ws s;
          (sg, u) = (case t of
              c # r \<Rightarrow> if c = CHR ''-'' then (-1, r) else if c = CHR ''+'' then (1, r) else (1, t)
            | [] \<Rightarrow> (1, t));
          (st, w) = (if prefix ''0x'' u \<or> prefix ''0X'' u then (After_Prefix, drop 2 u)
                     else (Need_Digit, u))
      in map_option (\<lambda>n. sg * int n) (scan_hex st 0 w))"

definition uuid_hex :: "string \<Rightarrow> string" where
  "uuid_hex v =
     (let h = py_replace ''uuid:'' '''' (py_replace ''urn:'' '''' v)
      in filter (\<lambda>c. c \<noteq> CHR ''-'') (py_strip (\<lambda>c. c = CHR ''{'' \<or> c = CHR ''}'') h))"

definition uuid_parse :: "string \<Rightarrow> nat option" where
  "uuid_parse v =
     (let h = uuid_hex v in
      if length (filter (\<lambda>c. \<not> is_cont c) h) \<noteq> 32 then None
      else case py_int16 h of
        Some i \<Rightarrow> if 0 \<le> i \<and> i < 2 ^ 128 then Some (nat i) else None
      | None \<Rightarrow> None)"

section \<open>Printing: \<open>str(uuid)\<close>\<close>

text \<open>\<open>'%0kx' % n\<close>: the last \<open>k\<close> hexadecimal digits of \<open>n\<close>.\<close>

fun hex_fixed :: "nat \<Rightarrow> nat \<Rightarrow> string" where
  "hex_fixed 0 n = []"
| "hex_fixed (Suc k) n = hex_fixed k (n div 16) @ [hex_char (n mod 16)]"

definition hyphenate :: "string \<Rightarrow> string" where
  "hyphenate h = take 8 h @ ''-'' @ take 4 (drop 8 h) @ ''-'' @ take 4 (drop 12 h) @ ''-'' @
     take 4 (drop 16 h) @ ''-'' @ drop 20 h"

definition uuid_str :: "nat \<Rightarrow> string" where
  "uuid_str n = hyphenate (hex_fixed 32 n)"

definition is_uuid :: "string \<Rightarrow> bool" where
  "is_uuid v = (case uuid_parse v of None \<Rightarrow> False | Some n \<Rightarrow> uuid_str n = v)"

section \<open>The shape the test accepts\<close>

definition lower_hex :: "char \<Rightarrow> bool" where
  "lower_hex c \<longleftrightarrow> (let n = of_char c :: nat in (48 \<le> n \<and> n < 58) \<or> (97 \<le> n \<and> n < 103))"

definition canonical :: "string \<Rightarrow> bool" where
  "canonical v \<longleftrightarrow> (\<exists>h. length h = 32 \<and> list_all lower_hex h \<and> v = hyphenate h)"

definition hexs_val :: "string \<Rightarrow> nat" where
  "hexs_val h = foldl (\<lambda>acc c. acc * 16 + the (hex_val c)) 0 h"

lemma hex_val_char: "d < 16 \<Longrightarrow> hex_val (hex_char d) = Some d"
  by (auto simp: hex_val_def hex_char_def Let_def)

lemma lower_hex_char: "d < 16 \<Longrightarrow> lower_hex (hex_char d)"
  by (auto simp: lower_hex_def hex_char_def Let_def)

lemma lower_hex_val: "lower_hex c \<Longrightarrow> \<exists>d < 16. hex_val c = Some d \<and> hex_char d = c"
  by (auto simp: lower_hex_def hex_val_def hex_char_def Let_def)

lemma length_hex_fixed [simp]: "length (hex_fixed k n) = k"
  by (induction k arbitrary: n) auto

lemma hex_fixed_lower: "list_all lower_hex (hex_fixed k n)"
  by (induction k arbitrary: n) (auto simp: lower_hex_char)

lemma hex_fixed_hexs_val: "list_all lower_hex h \<Longrightarrow> hex_fixed (length h) (hexs_val h) = h"
proof (induction h rule: rev_induct)
  case (snoc c h)
  obtain d where d: "d < 16" "hex_val c = Some d" "hex_char d = c"
    using lower_hex_val snoc.prems by auto
  show ?case using snoc d by (simp add: hexs_val_def)
qed (simp add: hexs_val_def)

lemma hexs_val_less: "list_all lower_hex h \<Longrightarrow> hexs_val h < 16 ^ length h"
proof (induction h rule: rev_induct)
  case (snoc c h)
  obtain d where d: "d < 16" "hex_val c = Some d"
    using lower_hex_val snoc.prems by auto
  have "hexs_val h + 1 \<le> 16 ^ length h" using snoc by simp
  then have "hexs_val h * 16 + d < 16 ^ length h * 16" using d(1) by linarith
  then show ?case using d by (simp add: hexs_val_def)
qed (simp add: hexs_val_def)

lemma scan_hex_lower:
  "list_all lower_hex h \<Longrightarrow>
    scan_hex st acc h = (if h = [] \<and> st \<noteq> After_Digit then None
      else Some (foldl (\<lambda>acc c. acc * 16 + the (hex_val c)) acc h))"
proof (induction h arbitrary: st acc)
  case (Cons c h)
  obtain d where d: "hex_val c = Some d" using lower_hex_val Cons.prems by auto
  then show ?case using Cons by simp
qed simp

lemma lower_hex_not_special:
  "lower_hex c \<Longrightarrow> \<not> is_ws c \<and> c \<noteq> CHR ''-'' \<and> c \<noteq> CHR ''+'' \<and> c \<noteq> CHR ''x'' \<and> c \<noteq> CHR ''X'' \<and>
    c \<noteq> CHR ''u'' \<and> c \<noteq> CHR ''{'' \<and> c \<noteq> CHR ''}'' \<and> \<not> is_cont c \<and> c \<noteq> CHR ''/'' \<and> c \<noteq> CHR ''.''"
  by (auto simp: lower_hex_def is_ws_def is_cont_def Let_def)

lemma py_int16_lower:
  assumes "list_all lower_hex h" and "2 < length h"
  shows "py_int16 h = Some (int (hexs_val h))"
proof -
  obtain c d r where h: "h = c # d # r"
    using assms(2) by (cases h; cases "tl h") auto
  have "lower_hex c" "lower_hex d" and ws: "\<forall>x \<in> set h. \<not> is_ws x"
    using assms(1) lower_hex_not_special by (auto simp: h list_all_iff)
  then have "c \<noteq> CHR ''-''" "c \<noteq> CHR ''+''" "d \<noteq> CHR ''x''" "d \<noteq> CHR ''X''"
    using lower_hex_not_special by blast+
  moreover have "scan_hex Need_Digit 0 h = Some (hexs_val h)"
    using assms by (auto simp: scan_hex_lower hexs_val_def)
  ultimately show ?thesis
    using ws by (simp add: py_int16_def py_strip_none h del: scan_hex.simps)
qed

lemma set_hyphenate: "set (hyphenate h) \<subseteq> insert (CHR ''-'') (set h)"
  by (auto simp: hyphenate_def dest: in_set_takeD in_set_dropD)

lemma filter_hyphenate:
  assumes "CHR ''-'' \<notin> set h"
  shows "filter (\<lambda>c. c \<noteq> CHR ''-'') (hyphenate h) = h"
proof -
  have f: "filter (\<lambda>c. c \<noteq> CHR ''-'') (take i (drop j h)) = take i (drop j h)" for i j
    using assms by (intro filter_True) (auto dest!: in_set_takeD in_set_dropD)
  have g: "filter (\<lambda>c. c \<noteq> CHR ''-'') (drop j h) = drop j h" for j
    using assms by (intro filter_True) (auto dest!: in_set_dropD)
  have "take 8 h @ take 4 (drop 8 h) @ take 4 (drop 12 h) @ take 4 (drop 16 h) @ drop 20 h = h"
    using append_take_drop_id [of 8 h] append_take_drop_id [of 4 "drop 8 h"]
      append_take_drop_id [of 4 "drop 12 h"] append_take_drop_id [of 4 "drop 16 h"] by simp
  then show ?thesis
    using f [of 8 0] f [of 4 8] f [of 4 12] f [of 4 16] g [of 20] by (simp add: hyphenate_def)
qed

lemma uuid_hex_hyphenate:
  assumes "list_all lower_hex h"
  shows "uuid_hex (hyphenate h) = h"
proof -
  have chars: "c \<in> set (hyphenate h) \<Longrightarrow> c = CHR ''-'' \<or> lower_hex c" for c
    using assms set_hyphenate [of h] by (auto simp: list_all_iff)
  have "CHR ''u'' \<notin> set (hyphenate h)" and
    "\<forall>c \<in> set (hyphenate h). \<not> (c = CHR ''{'' \<or> c = CHR ''}'')"
    using chars lower_hex_not_special by fastforce+
  moreover have "CHR ''-'' \<notin> set h"
    using assms lower_hex_not_special by (fastforce simp: list_all_iff)
  ultimately show ?thesis
    by (simp add: uuid_hex_def py_replace_absent py_strip_none filter_hyphenate)
qed

lemma is_uuid_hyphenate:
  assumes "list_all lower_hex h" and "length h = 32"
  shows "is_uuid (hyphenate h)"
proof -
  have "filter (\<lambda>c. \<not> is_cont c) h = h"
    using assms(1) lower_hex_not_special by (intro filter_True) (auto simp: list_all_iff)
  moreover have "hexs_val h < 2 ^ 128"
    using hexs_val_less [OF assms(1)] assms(2) by simp
  ultimately have "uuid_parse (hyphenate h) = Some (hexs_val h)"
    using assms py_int16_lower [of h] by (simp add: uuid_parse_def uuid_hex_hyphenate)
  then show ?thesis
    using hex_fixed_hexs_val [OF assms(1)] assms(2) by (simp add: is_uuid_def uuid_str_def)
qed

lemma is_uuid_iff_canonical: "is_uuid v \<longleftrightarrow> canonical v"
proof
  assume "is_uuid v"
  then obtain n where "v = uuid_str n" by (auto simp: is_uuid_def split: option.splits)
  then show "canonical v"
    unfolding canonical_def uuid_str_def
    using hex_fixed_lower [of 32 n] length_hex_fixed [of 32 n] by blast
next
  assume "canonical v"
  then show "is_uuid v" by (auto simp: canonical_def is_uuid_hyphenate)
qed

text \<open>Consequences the path and URL builders rely on: 36 characters, none of them special.\<close>

lemma is_uuid_length: "is_uuid v \<Longrightarrow> length v = 36"
  by (auto simp: is_uuid_iff_canonical canonical_def hyphenate_def)

lemma is_uuid_chars: "is_uuid v \<Longrightarrow> c \<in> set v \<Longrightarrow> c = CHR ''-'' \<or> lower_hex c"
  using set_hyphenate by (fastforce simp: is_uuid_iff_canonical canonical_def list_all_iff)

lemma is_uuid_not_Nil: "is_uuid v \<Longrightarrow> v \<noteq> []"
  using is_uuid_length by force

end
