(* ===== verification/Workspace.thy ===== *)
theory Workspace
  imports Uuid Config
begin

text \<open>
  Preparing a build's files: \<open>executor/workspace.py\<close>. The directory of workspaces maps attempt
  ids to the modification time of their \<open>FAILED\<close> marker, if any. Symbolic links are an
  association list from absolute paths to targets; \<open>realpath\<close> is the algorithm behind
  \<open>Path.resolve()\<close>. The network is what a response delivers; \<open>sha256\<close> is the digest function.
\<close>

section \<open>Paths\<close>

text \<open>\<open>Path(text).parts\<close> below the root, and \<open>is_absolute\<close>.\<close>

definition path_parts :: "string \<Rightarrow> string list" where
  "path_parts s = filter (\<lambda>p. p \<noteq> [] \<and> p \<noteq> ''.'') (split_at (CHR ''/'') s)"

definition path_absolute :: "string \<Rightarrow> bool" where
  "path_absolute s \<longleftrightarrow> prefix ''/'' s"

type_synonym path = "string list"
type_synonym links = "(path \<times> string) list"

text \<open>The links still to be followed: the measure of \<open>realpath\<close> below.\<close>

definition unseen :: "links \<Rightarrow> (path \<times> path option) list \<Rightarrow> nat" where
  "unseen links seen = card (fst ` set links - fst ` set seen)"

lemma unseen_less: "map_of links p = Some t \<Longrightarrow> map_of seen p = None \<Longrightarrow> unseen links ((p, v) # seen) < unseen links seen"
  unfolding unseen_def
proof (rule psubset_card_mono)
  assume "map_of links p = Some t" "map_of seen p = None"
  then have "p \<in> fst ` set links - fst ` set seen" by (force simp: map_of_eq_None_iff dest: map_of_SomeD)
  then show "fst ` set links - fst ` set ((p, v) # seen) \<subset> fst ` set links - fst ` set seen" by auto
qed simp

lemma unseen_le: "unseen links (x # seen) \<le> unseen links seen"
  unfolding unseen_def by (rule card_mono) auto

text \<open>\<open>posixpath.realpath\<close> without \<open>strict\<close>: \<open>path\<close> is resolved so far, the stack holds the parts
  still to come and marks where a link's target ends, \<open>seen\<close> maps a link to its resolution, or
  to \<^const>\<open>None\<close> while it is being resolved (a link met again then is a loop and is kept).\<close>

datatype todo = Part string | End_Of path

function realpath :: "links \<Rightarrow> (path \<times> path option) list \<Rightarrow> path \<Rightarrow> todo list \<Rightarrow> path" where
  "realpath links seen path [] = path"
| "realpath links seen path (End_Of link # rest) = realpath links ((link, Some path) # seen) path rest"
| "realpath links seen path (Part name # rest) =
     (if name = [] \<or> name = ''.'' then realpath links seen path rest
      else if name = ''..'' then realpath links seen (butlast path) rest
      else (case map_of links (path @ [name]) of
          None \<Rightarrow> realpath links seen (path @ [name]) rest
        | Some target \<Rightarrow>
            (case map_of seen (path @ [name]) of
               Some (Some resolved) \<Rightarrow> realpath links seen resolved rest
             | Some None \<Rightarrow> realpath links seen (path @ [name]) rest
             | None \<Rightarrow>
                 realpath links ((path @ [name], None) # seen) (if path_absolute target then [] else path)
                   (map Part (split_at (CHR ''/'') target) @ End_Of (path @ [name]) # rest))))"
  by pat_completeness auto

termination
proof (relation "measures [\<lambda>(links, seen, path, todo). unseen links seen, \<lambda>(links, seen, path, todo). length todo]")
  fix links :: links and seen path link rest
  show "((links, (link, Some path) # seen, path, rest), (links, seen, path, End_Of link # rest)) \<in>
      measures [\<lambda>(links, seen, path, todo). unseen links seen, \<lambda>(links, seen, path, todo). length todo]"
    using unseen_le [of links "(link, Some path)" seen] by auto
qed (auto intro: unseen_less)

definition resolve :: "links \<Rightarrow> path \<Rightarrow> path \<Rightarrow> path" where
  "resolve links base parts = realpath links [] [] (map Part (base @ parts))"

section \<open>Workspaces\<close>

type_synonym workspaces = "(string \<times> int option) list"

record workspace_paths =
  wp_attempt_dir :: string
  wp_source_archive :: string
  wp_source_root :: string
  wp_artifact_dir :: string
  wp_output_root :: string
  wp_cache_root :: string
  wp_tmp_root :: string

definition validate_path_component :: "string \<Rightarrow> string \<Rightarrow> unit result" where
  "validate_path_component value name =
     ensure (is_uuid value) (WorkspaceError (name @ '' must be a canonical UUID''))"

definition create_workspace :: "string \<Rightarrow> string \<Rightarrow> workspaces \<Rightarrow> workspace_paths result \<times> workspaces" where
  "create_workspace state_dir attempt_id ws =
     (case validate_path_component attempt_id ''attempt_id'' of
        Inl e \<Rightarrow> (Inl e, ws)
      | Inr _ \<Rightarrow>
          (let root = state_dir @ ''/workspaces/'' @ attempt_id; tmp = root @ ''/tmp'' in
           (Inr \<lparr>wp_attempt_dir = root, wp_source_archive = tmp @ ''/source.tar.gz'', wp_source_root = root @ ''/src'',
                 wp_artifact_dir = tmp, wp_output_root = root @ ''/out'', wp_cache_root = root @ ''/cache'',
                 wp_tmp_root = tmp\<rparr>,
            (attempt_id, None) # filter (\<lambda>(n, _). n \<noteq> attempt_id) ws)))"

definition failed_newest_first :: "workspaces \<Rightarrow> string list" where
  "failed_newest_first ws =
     rev (map snd (sort (List.map_filter (\<lambda>(n, m). map_option (\<lambda>t. (t, n)) m) ws)))"

definition prune_failed_workspaces :: "nat \<Rightarrow> workspaces \<Rightarrow> workspaces" where
  "prune_failed_workspaces keep ws = filter (\<lambda>(n, _). n \<notin> set (drop keep (failed_newest_first ws))) ws"

definition cleanup_workspace :: "string \<Rightarrow> bool \<Rightarrow> nat \<Rightarrow> int \<Rightarrow> workspaces \<Rightarrow> workspaces" where
  "cleanup_workspace attempt_id retain_failed failed_keep now ws =
     (if retain_failed
      then prune_failed_workspaces failed_keep (map (\<lambda>(n, m). if n = attempt_id then (n, Some now) else (n, m)) ws)
      else filter (\<lambda>(n, _). n \<noteq> attempt_id) ws)"

section \<open>Source archives\<close>

text \<open>What opening and reading the URL delivers: an \<open>OSError\<close> (\<open>URLError\<close> is one), or the
  \<open>Content-Length\<close> header, the chunks read, and the error that cut them short, if any.\<close>

datatype source_response = Src_Error string | Src_Body "string option" "string list" "string option"

definition origin_netlocs :: "(string \<Rightarrow> bool) \<Rightarrow> string list \<Rightarrow> string list result" where
  "origin_netlocs refused origins =
     rbind (each (urlparse refused) origins) (\<lambda>us. Inr (filter (\<lambda>n. n \<noteq> []) (map u_netloc us)))"

definition open_source :: "(string \<Rightarrow> bool) \<Rightarrow> string list \<Rightarrow> bool \<Rightarrow> string \<Rightarrow> unit result" where
  "open_source refused allowed_origins allow_file source_url =
     rbind (urlparse refused source_url) (\<lambda>u.
       if u_scheme u = ''file'' then ensure allow_file (WorkspaceError ''source_download_url must use HTTPS'')
       else if u_scheme u \<noteq> ''https'' then Inl (WorkspaceError ''source_download_url must use HTTPS'')
       else if u_netloc u = [] then Inl (WorkspaceError ''source_download_url must include a host'')
       else if allowed_origins = [] then Inr ()
       else rbind (origin_netlocs refused allowed_origins) (\<lambda>hosts.
              ensure (u_netloc u \<in> set hosts) (WorkspaceError ''source_download_url host is not an allowed storage origin'')))"

definition origin :: "(string \<Rightarrow> bool) \<Rightarrow> string \<Rightarrow> string result" where
  "origin refused value = rbind (urlparse refused value) (\<lambda>u. Inr (lower (u_scheme u) @ ''://'' @ lower (u_netloc u)))"

text \<open>A redirect to \<open>target\<close> (already joined with the request's URL) is followed.\<close>

definition redirect_allowed :: "(string \<Rightarrow> bool) \<Rightarrow> string \<Rightarrow> string list \<Rightarrow> string \<Rightarrow> unit result" where
  "redirect_allowed refused source_url allowed_origins target =
     rbind (origin refused source_url) (\<lambda>source_origin.
     rbind (each (origin refused) allowed_origins) (\<lambda>allowed.
     rbind (urlparse refused target) (\<lambda>u.
     rbind (ensure (u_scheme u = ''https'' \<and> u_netloc u \<noteq> []) (WorkspaceError ''Source redirect must use HTTPS'')) (\<lambda>_.
     rbind (origin refused target) (\<lambda>target_origin.
       ensure (target_origin \<in> set (if allowed = [] then [source_origin] else allowed))
         (WorkspaceError ''Source redirect leaves the approved storage origin''))))))"

text \<open>\<open>int(text)\<close> on ASCII text: surrounding white space, a sign, digits with single underscores.\<close>

fun digit_groups :: "string \<Rightarrow> bool" where
  "digit_groups [] = False"
| "digit_groups [c] = is_digit c"
| "digit_groups (c # d # cs) = (is_digit c \<and> (if d = CHR ''_'' then digit_groups cs else digit_groups (d # cs)))"

definition py_int :: "string \<Rightarrow> int option" where
  "py_int s =
     (let t = strip s;
          (neg, body) = (case t of
              c # cs \<Rightarrow> if c = CHR ''-'' then (True, cs) else if c = CHR ''+'' then (False, cs) else (False, t)
            | [] \<Rightarrow> (False, []));
          ds = filter (\<lambda>c. c \<noteq> CHR ''_'') body in
      if digit_groups body \<and> length ds \<le> 4300
      then Some ((if neg then -1 else 1) * int (digits_val ds)) else None)"

definition content_length :: "string option \<Rightarrow> int option result" where
  "content_length raw = (case raw of
      None \<Rightarrow> Inr None
    | Some text \<Rightarrow>
        (case py_int text of
           None \<Rightarrow> Inl (WorkspaceError ''Source response has an invalid Content-Length'')
         | Some n \<Rightarrow>
             if n < 0 then Inl (WorkspaceError ''Source response has an invalid Content-Length'') else Inr (Some n)))"

text \<open>The copying loop, with the number of bytes read so far.\<close>

fun read_chunks :: "int option \<Rightarrow> int \<Rightarrow> string list \<Rightarrow> unit result" where
  "read_chunks limit acc [] = Inr ()"
| "read_chunks limit acc (chunk # chunks) =
     (let acc' = acc + int (length chunk) in
      if (case limit of Some m \<Rightarrow> m < acc' | None \<Rightarrow> False)
      then Inl (WorkspaceError ''Source archive exceeds configured maximum size'')
      else read_chunks limit acc' chunks)"

definition hex_digest_text :: "string \<Rightarrow> bool" where
  "hex_digest_text s \<longleftrightarrow> length s = 64 \<and>
     list_all (\<lambda>c. let n = of_char c :: nat in is_num c \<or> (97 \<le> n \<and> n \<le> 102) \<or> (65 \<le> n \<and> n \<le> 70)) s"

definition check_size :: "int option \<Rightarrow> int option \<Rightarrow> int option \<Rightarrow> unit result" where
  "check_size expected_size max_bytes length_header =
     rbind (ensure (\<not> (case (expected_size, length_header) of (Some e, Some l) \<Rightarrow> l \<noteq> e | _ \<Rightarrow> False))
              (WorkspaceError ''Source archive size does not match the assignment'')) (\<lambda>_.
       ensure (\<not> (case (max_bytes, expected_size) of (Some m, Some e) \<Rightarrow> m < e | _ \<Rightarrow> False))
         (WorkspaceError ''Source archive exceeds configured maximum size''))"

definition download_source ::
  "(string \<Rightarrow> bool) \<Rightarrow> (string \<Rightarrow> string) \<Rightarrow> (string \<Rightarrow> source_response) \<Rightarrow> string list \<Rightarrow> bool \<Rightarrow> string \<Rightarrow> string \<Rightarrow>
   int option \<Rightarrow> int option \<Rightarrow> string result" where
  "download_source refused sha256 fetch allowed_origins allow_file source_url expected_sha256 expected_size max_bytes =
     rbind (ensure (hex_digest_text expected_sha256)
              (WorkspaceError ''expected_sha256 must be a 64-character hexadecimal digest'')) (\<lambda>_.
     rbind (ensure (case expected_size of Some n \<Rightarrow> 0 \<le> n | None \<Rightarrow> True)
              (WorkspaceError ''expected_size must not be negative'')) (\<lambda>_.
     rbind (open_source refused allowed_origins allow_file source_url) (\<lambda>_.
       case fetch source_url of
         Src_Error m \<Rightarrow> Inl (WorkspaceError (''Source download failed: '' @ m))
       | Src_Body header chunks failure \<Rightarrow>
           rbind (content_length header) (\<lambda>len.
           rbind (check_size expected_size max_bytes len) (\<lambda>_.
           rbind (read_chunks max_bytes 0 chunks) (\<lambda>_.
             case failure of
               Some m \<Rightarrow> Inl (WorkspaceError (''Source download failed: '' @ m))
             | None \<Rightarrow>
                 if lower (sha256 (concat chunks)) \<noteq> lower expected_sha256
                 then Inl (WorkspaceError ''Source SHA256 verification failed'')
                 else Inr (concat chunks)))))))"

section \<open>Extraction\<close>

datatype member_kind = M_File | M_Dir | M_Device | M_Fifo | M_Link string \<comment> \<open>symbolic or hard, with its target\<close>

record tar_member =
  tm_name :: string
  tm_kind :: member_kind

definition validate_member :: "links \<Rightarrow> path \<Rightarrow> tar_member \<Rightarrow> unit result" where
  "validate_member links destination m =
     (let parts = path_parts (tm_name m); target = resolve links destination parts; root = resolve links destination [] in
      if path_absolute (tm_name m) \<or> ''..'' \<in> set parts then Inl (WorkspaceError ''Source archive contains an unsafe path'')
      else if \<not> prefix root target then Inl (WorkspaceError ''Source archive member escapes destination'')
      else case tm_kind m of
          M_Device \<Rightarrow> Inl (WorkspaceError ''Source archive contains unsupported device entries'')
        | M_Fifo \<Rightarrow> Inl (WorkspaceError ''Source archive contains unsupported device entries'')
        | M_Link linkname \<Rightarrow>
            if path_absolute linkname then Inl (WorkspaceError ''Source archive contains an absolute link target'')
            else if \<not> prefix root (resolve links (butlast target) (path_parts linkname))
            then Inl (WorkspaceError ''Source archive link target escapes destination'')
            else Inr ()
        | _ \<Rightarrow> Inr ())"

text \<open>\<open>extract_source\<close>: \<open>members\<close> is what \<open>tarfile.open\<close> and \<open>getmembers()\<close> give, \<open>unpack\<close> what
  \<open>extractall(members, filter="data")\<close> does with them.\<close>

datatype tar_failure = Tar_Error string | Os_Error string

definition tar_exn :: "tar_failure \<Rightarrow> exn" where
  "tar_exn f = (case f of
      Tar_Error m \<Rightarrow> WorkspaceError (''Source archive is not a valid tar file: '' @ m)
    | Os_Error m \<Rightarrow> WorkspaceError (''Source extraction failed: '' @ m))"

definition extract_source ::
  "links \<Rightarrow> path \<Rightarrow> tar_failure + tar_member list \<Rightarrow> (tar_member list \<Rightarrow> tar_failure option) \<Rightarrow> unit result" where
  "extract_source links destination members unpack = (case members of
      Inl f \<Rightarrow> Inl (tar_exn f)
    | Inr ms \<Rightarrow>
        rbind (each (validate_member links destination) ms) (\<lambda>_.
          case unpack ms of None \<Rightarrow> Inr () | Some f \<Rightarrow> Inl (tar_exn f)))"

definition resolve_project_root :: "links \<Rightarrow> (path \<Rightarrow> bool) \<Rightarrow> path \<Rightarrow> string option \<Rightarrow> path result" where
  "resolve_project_root links is_dir source_root root_directory =
     (let root = resolve links source_root []; requested = str_or root_directory ''.'' id;
          project = resolve links root (path_parts requested) in
      if path_absolute requested then Inl (WorkspaceError ''root_directory must be relative'')
      else if ''..'' \<in> set (path_parts requested)
      then Inl (WorkspaceError ''root_directory must not contain traversal components'')
      else if \<not> prefix root project then Inl (WorkspaceError ''root_directory escapes the extracted source'')
      else if \<not> is_dir project then Inl (WorkspaceError ''root_directory does not exist in source archive'')
      else Inr project)"

end
