(* ===== verification/Workspace_Correct.thy ===== *)
theory Workspace_Correct
  imports Workspace
begin

text \<open>
  What source preparation guarantees: only verified archives from approved places are used,
  and the members of an accepted archive stay below the destination.
\<close>

section \<open>Downloads\<close>

lemma read_chunks_bound:
  "read_chunks (Some m) acc chunks = Inr () \<Longrightarrow> acc \<le> m \<Longrightarrow> acc + int (length (concat chunks)) \<le> m"
  by (induction chunks arbitrary: acc) (fastforce simp: Let_def split: if_splits)+

lemma open_source_secure:
  assumes "open_source refused allowed allow_file url = Inr ()"
  shows "\<exists>u. urlparse refused url = Inr u \<and> (u_scheme u = ''file'' \<and> allow_file \<or>
    u_scheme u = ''https'' \<and> u_netloc u \<noteq> [] \<and>
    (allowed = [] \<or> (\<exists>hosts. origin_netlocs refused allowed = Inr hosts \<and> u_netloc u \<in> set hosts)))"
  using assms by (auto simp: open_source_def rbind_Inr_iff split: if_splits)



section \<open>Extraction\<close>

lemma each_Inr_member: "each f xs = Inr ys \<Longrightarrow> x \<in> set xs \<Longrightarrow> \<exists>y. f x = Inr y"
  by (induction xs arbitrary: ys) (auto simp: rbind_Inr_iff)

text \<open>Without links below \<open>path\<close>, plain parts are appended as they are.\<close>

lemma realpath_plain:
  assumes "\<forall>q. map_of links (path @ q) = None \<or> q = []"
    and "list_all (\<lambda>p. p \<noteq> [] \<and> p \<noteq> ''.'' \<and> p \<noteq> ''..'') parts"
  shows "realpath links seen path (map Part parts) = path @ parts"
  using assms
proof (induction parts arbitrary: path)
  case (Cons p ps)
  have "\<forall>q. map_of links ((path @ [p]) @ q) = None \<or> q = []" using Cons.prems(1) by auto
  moreover have "map_of links (path @ [p]) = None" using Cons.prems(1) by (metis not_Cons_self2 append_is_Nil_conv)
  ultimately show ?case using Cons by simp
qed simp

text \<open>A destination none of whose components is a link, with no link below it: what
  \<open>create_workspace\<close> has just made.\<close>

definition fresh_destination :: "links \<Rightarrow> path \<Rightarrow> bool" where
  "fresh_destination links d \<longleftrightarrow> list_all (\<lambda>p. p \<noteq> [] \<and> p \<noteq> ''.'' \<and> p \<noteq> ''..'') d \<and>
     list_all (\<lambda>(l, _). \<not> prefix l d \<and> \<not> prefix d l) links"

lemma realpath_append:
  assumes "list_all (\<lambda>p. p \<noteq> [] \<and> p \<noteq> ''.'' \<and> p \<noteq> ''..'') d"
    and "\<And>q. prefix q (path @ d) \<Longrightarrow> map_of links q = None"
  shows "realpath links seen path (map Part d @ rest) = realpath links seen (path @ d) rest"
  using assms
proof (induction d arbitrary: path)
  case (Cons p ps)
  have "map_of links (path @ [p]) = None" by (rule Cons.prems(2)) simp
  then show ?case using Cons.prems Cons.IH [of "path @ [p]"] by simp
qed simp

lemma fresh_resolve:
  assumes "fresh_destination links d" and "list_all (\<lambda>p. p \<noteq> [] \<and> p \<noteq> ''.'' \<and> p \<noteq> ''..'') parts"
  shows "resolve links d parts = d @ parts"
proof -
  have none: "map_of links q = None" if "prefix q d \<or> prefix d q" for q
    using assms(1) that by (fastforce simp: fresh_destination_def list_all_iff map_of_eq_None_iff)
  have "realpath links [] [] (map Part d @ map Part parts) = realpath links [] d (map Part parts)"
    using realpath_append [of d "[]"] assms(1) none by (auto simp: fresh_destination_def)
  also have "\<dots> = d @ parts" by (rule realpath_plain) (use none assms(2) in auto)
  finally show ?thesis by (simp add: resolve_def)
qed

lemma path_parts_plain: "''..'' \<notin> set (path_parts s) \<Longrightarrow> list_all (\<lambda>p. p \<noteq> [] \<and> p \<noteq> ''.'' \<and> p \<noteq> ''..'') (path_parts s)"
  by (auto simp: path_parts_def list_all_iff)



end
