(* ===== verification/Queue_Store.thy ===== *)
theory Queue_Store
  imports Uuid
begin

text \<open>
  The durable queue (\<open>SQLiteQueueStore\<close> of \<open>queue/store.py\<close>). The database is its
  three tables as lists of rows in insertion order, with the in-memory transient
  payloads beside them. Every public method is one function from the store to its
  outcome and the store it leaves; the SQL of the source is written with the relational
  operations of the prelude, a \<open>NULL\<close> column is \<^const>\<open>None\<close> and compares false.

  Instants are milliseconds since the epoch: the source writes them as fixed-width UTC
  texts whose order is the order of the instants. \<open>rowid\<close> is SQLite's implicit key, one
  more than the largest in the table. A \<open>payload_json\<close> column holds the document
  itself. \<open>tok\<close> stands for \<open>secrets.token_urlsafe(24)\<close>.
\<close>

section \<open>Data\<close>

datatype job_state = QUEUED | LEASED | RUNNING | SUCCEEDED | FAILED | CANCELLED | TIMED_OUT

record job_record =
  j_build_job_id :: string
  j_attempt_id :: string
  j_payload :: payload
  j_state :: job_state
  j_attempts :: int
  j_sequence_cursor :: int
  j_lease_owner :: "string option"
  j_lease_expires_at :: "int option"
  j_error :: "string option"
  j_created_at :: int
  j_updated_at :: int
  j_lease_token :: "string option"
  j_cancel_requested :: bool

record job_row = job_record +
  j_rowid :: nat

record enqueue_result =
  enq_job :: job_record
  enq_inserted :: bool

record dead_letter =
  dl_build_job_id :: string
  dl_attempt_id :: string
  dl_payload :: payload
  dl_error :: string
  dl_attempts :: int
  dl_created_at :: int

record event_row =
  ev_id :: string
  ev_attempt_id :: string
  ev_seq :: int
  ev_type :: string
  ev_envelope_json :: string
  ev_created_at :: int

record store =
  jobs :: "job_row list"
  events :: "event_row list"
  dlq :: "dead_letter list"
  transient_payloads :: "string \<rightharpoonup> payload"

type_synonym 'a op = "store \<Rightarrow> 'a result \<times> store"

definition empty_store :: store where
  "empty_store = \<lparr>jobs = [], events = [], dlq = [], transient_payloads = Map.empty\<rparr>"

definition MAX_LOCAL_CRASHES :: int where "MAX_LOCAL_CRASHES = 3"

definition state_str :: "job_state \<Rightarrow> string" where
  "state_str st = (case st of
      QUEUED \<Rightarrow> ''QUEUED'' | LEASED \<Rightarrow> ''LEASED'' | RUNNING \<Rightarrow> ''RUNNING''
    | SUCCEEDED \<Rightarrow> ''SUCCEEDED'' | FAILED \<Rightarrow> ''FAILED'' | CANCELLED \<Rightarrow> ''CANCELLED''
    | TIMED_OUT \<Rightarrow> ''TIMED_OUT'')"

definition all_states :: "job_state list" where
  "all_states = [QUEUED, LEASED, RUNNING, SUCCEEDED, FAILED, CANCELLED, TIMED_OUT]"

definition state_of_str :: "string \<Rightarrow> job_state option" where
  "state_of_str s = find (\<lambda>st. state_str st = s) all_states"

definition terminal :: "job_state \<Rightarrow> bool" where
  "terminal st \<longleftrightarrow> st \<in> {SUCCEEDED, FAILED, CANCELLED, TIMED_OUT}"

definition active :: "job_state \<Rightarrow> bool" where
  "active st \<longleftrightarrow> st \<in> {LEASED, RUNNING}"

definition LEGAL_PREVIOUS_STATES :: "job_state \<Rightarrow> job_state list" where
  "LEGAL_PREVIOUS_STATES st = (case st of
      QUEUED \<Rightarrow> [LEASED, RUNNING]
    | LEASED \<Rightarrow> [QUEUED]
    | RUNNING \<Rightarrow> [LEASED]
    | SUCCEEDED \<Rightarrow> [RUNNING]
    | FAILED \<Rightarrow> [QUEUED, LEASED, RUNNING]
    | CANCELLED \<Rightarrow> [QUEUED, LEASED, RUNNING]
    | TIMED_OUT \<Rightarrow> [QUEUED, LEASED, RUNNING])"

section \<open>Schema\<close>

record schema =
  user_version :: int
  jobs_columns :: "string list option" \<comment> \<open>\<open>None\<close>: no table\<close>
  has_events :: bool
  has_dlq :: bool

definition SCHEMA_VERSION :: int where "SCHEMA_VERSION = 2"

definition create_v1_schema :: "schema \<Rightarrow> schema" where
  "create_v1_schema db = db\<lparr>
     jobs_columns := (case jobs_columns db of
         Some cs \<Rightarrow> Some cs
       | None \<Rightarrow> Some [''build_job_id'', ''attempt_id'', ''payload_json'', ''state'', ''lease_owner'',
           ''lease_token'', ''lease_expires_at'', ''attempts'', ''sequence_cursor'', ''created_at'',
           ''updated_at'', ''error'', ''cancel_requested'']),
     has_events := True, has_dlq := True\<rparr>"

definition add_column :: "string \<Rightarrow> schema \<Rightarrow> schema result" where
  "add_column c db = (case jobs_columns db of
      None \<Rightarrow> Inl (OperationalError ''no such table: jobs'')
    | Some cs \<Rightarrow> Inr (db\<lparr>jobs_columns := Some (cs @ [c])\<rparr>))"

definition migrate_to_v2 :: "schema \<Rightarrow> schema result" where
  "migrate_to_v2 db =
     (let columns = (case jobs_columns db of Some cs \<Rightarrow> cs | None \<Rightarrow> []) in
      rbind (if ''lease_token'' \<notin> set columns then add_column ''lease_token'' db else Inr db) (\<lambda>db1.
        if ''cancel_requested'' \<notin> set columns then add_column ''cancel_requested'' db1 else Inr db1))"

definition initialize :: "schema \<Rightarrow> schema result" where
  "initialize db =
     (if user_version db < 1 then
        rbind (migrate_to_v2 (create_v1_schema db)) (\<lambda>db'. Inr (db'\<lparr>user_version := SCHEMA_VERSION\<rparr>))
      else if user_version db = 1 then
        rbind (migrate_to_v2 db) (\<lambda>db'. Inr (db'\<lparr>user_version := SCHEMA_VERSION\<rparr>))
      else if user_version db > SCHEMA_VERSION then
        Inl (QueueError (''Queue schema version '' @ int_str (user_version db) @
          '' is newer than supported '' @ int_str SCHEMA_VERSION))
      else Inr db)"

section \<open>Reading rows\<close>

definition job_from_row :: "job_row \<Rightarrow> job_record" where
  "job_from_row r = job_record.truncate r"

definition job_row_of :: "job_row list \<Rightarrow> string \<Rightarrow> string \<Rightarrow> job_row option" where
  "job_row_of rs b a = fetchone (filter (\<lambda>r. j_build_job_id r = b \<and> j_attempt_id r = a) rs)"

definition attempt_row :: "job_row list \<Rightarrow> string \<Rightarrow> job_row option" where
  "attempt_row rs a = fetchone (filter (\<lambda>r. j_attempt_id r = a) rs)"

definition with_transient_payload :: "store \<Rightarrow> job_record \<Rightarrow> job_record" where
  "with_transient_payload s job = (case transient_payloads s (j_attempt_id job) of
      None \<Rightarrow> job
    | Some p \<Rightarrow> job\<lparr>j_payload := p\<rparr>)"

definition load_job :: "store \<Rightarrow> job_row \<Rightarrow> job_record" where
  "load_job s r = with_transient_payload s (job_from_row r)"

definition get_job :: "store \<Rightarrow> string \<Rightarrow> string \<Rightarrow> job_record option" where
  "get_job s b a = map_option (load_job s) (job_row_of (jobs s) b a)"

definition age_key :: "job_row \<Rightarrow> int \<times> string" where
  "age_key r = (j_created_at r, j_attempt_id r)"

definition jobs_for_build :: "store \<Rightarrow> string \<Rightarrow> job_record list" where
  "jobs_for_build s b =
     map (load_job s) (order_by age_key (filter (\<lambda>r. j_build_job_id r = b) (jobs s)))"

definition is_current_attempt :: "store \<Rightarrow> string \<Rightarrow> string \<Rightarrow> bool result" where
  "is_current_attempt s b a =
     (case job_row_of (jobs s) b a of
        None \<Rightarrow> Inl (QueueError ''Cannot check freshness for unknown attempt'')
      | Some row \<Rightarrow>
          Inr (filter (\<lambda>r. j_build_job_id r = b \<and> j_rowid r > j_rowid row) (jobs s) = []))"

definition is_cancel_requested :: "store \<Rightarrow> string \<Rightarrow> bool" where
  "is_cancel_requested s a = (case attempt_row (jobs s) a of
      None \<Rightarrow> False | Some r \<Rightarrow> j_cancel_requested r)"

definition dlq_entries :: "store \<Rightarrow> dead_letter list" where
  "dlq_entries s = order_by (\<lambda>d. (dl_created_at d, dl_attempt_id d)) (dlq s)"

definition queue_depth :: "store \<Rightarrow> nat" where
  "queue_depth s = rowcount (\<lambda>r. j_state r = QUEUED) (jobs s)"

section \<open>Enqueue\<close>

definition required_payload_str :: "payload \<Rightarrow> string \<Rightarrow> string result" where
  "required_payload_str p k = (case jget p k of
      Some (JStr s) \<Rightarrow> if s = [] then Inl (QueueError (''payload '' @ k @ '' is required'')) else Inr s
    | _ \<Rightarrow> Inl (QueueError (''payload '' @ k @ '' is required'')))"

definition required_payload_uuid :: "payload \<Rightarrow> string \<Rightarrow> string result" where
  "required_payload_uuid p k =
     rbind (required_payload_str p k) (\<lambda>v.
       if is_uuid v then Inr v
       else Inl (QueueError (''payload '' @ k @ '' must be a canonical UUID'')))"

definition transient_keys :: "string list" where
  "transient_keys = [''secrets'', ''source_download_url'', ''secret_env'']"

definition durable_payload :: "payload \<Rightarrow> payload" where
  "durable_payload p = filter (\<lambda>(k, v). k \<notin> set transient_keys) p"

definition next_rowid :: "job_row list \<Rightarrow> nat" where
  "next_rowid rs = Suc (fold max (map j_rowid rs) 0)"

definition new_job_row :: "int \<Rightarrow> string \<Rightarrow> string \<Rightarrow> payload \<Rightarrow> job_row list \<Rightarrow> job_row" where
  "new_job_row now b a p rs =
     \<lparr>j_build_job_id = b, j_attempt_id = a, j_payload = stored_payload (durable_payload p),
      j_state = QUEUED, j_attempts = 0, j_sequence_cursor = 0, j_lease_owner = None,
      j_lease_expires_at = None, j_error = None, j_created_at = now, j_updated_at = now,
      j_lease_token = None, j_cancel_requested = False, j_rowid = next_rowid rs\<rparr>"

definition insert_job :: "int \<Rightarrow> string \<Rightarrow> string \<Rightarrow> payload \<Rightarrow> job_row list \<Rightarrow> job_row list" where
  "insert_job now b a p rs =
     (if attempt_row rs a = None then rs @ [new_job_row now b a p rs] else rs)"

definition enqueue :: "int \<Rightarrow> payload \<Rightarrow> enqueue_result op" where
  "enqueue now p s =
     (case rbind (required_payload_uuid p ''build_job_id'') (\<lambda>b.
           rbind (required_payload_uuid p ''attempt_id'') (\<lambda>a. Inr (b, a))) of
        Inl e \<Rightarrow> (Inl e, s)
      | Inr (b, a) \<Rightarrow>
          (let inserted = (attempt_row (jobs s) a = None);
               s' = s\<lparr>transient_payloads := (case transient_payloads s a of
                        None \<Rightarrow> (transient_payloads s)(a \<mapsto> p) | Some _ \<Rightarrow> transient_payloads s),
                      jobs := insert_job now b a p (jobs s)\<rparr>
           in case job_row_of (jobs s') b a of
                None \<Rightarrow> (Inl (QueueError ''Enqueued job could not be reloaded''), s')
              | Some row \<Rightarrow> (Inr \<lparr>enq_job = load_job s' row, enq_inserted = inserted\<rparr>, s')))"

section \<open>Leases\<close>

definition leasable :: "int \<Rightarrow> job_row \<Rightarrow> bool" where
  "leasable now r \<longleftrightarrow> j_state r = QUEUED \<or>
     (active (j_state r) \<and> (case j_lease_expires_at r of None \<Rightarrow> False | Some t \<Rightarrow> t \<le> now))"

definition cancel_row :: "int \<Rightarrow> job_row \<Rightarrow> job_row" where
  "cancel_row now r = r\<lparr>j_state := CANCELLED, j_lease_owner := None, j_lease_token := None,
     j_lease_expires_at := None, j_cancel_requested := False, j_updated_at := now\<rparr>"

definition lease_row :: "int \<Rightarrow> string \<Rightarrow> string \<Rightarrow> int \<Rightarrow> job_row \<Rightarrow> job_row" where
  "lease_row now owner tok expires r = r\<lparr>j_state := LEASED, j_lease_owner := Some owner,
     j_lease_token := Some tok, j_lease_expires_at := Some expires,
     j_attempts := j_attempts r + 1, j_updated_at := now\<rparr>"

definition oldest_leasable :: "int \<Rightarrow> job_row list \<Rightarrow> job_row option" where
  "oldest_leasable now rs = fetchone (order_by age_key (filter (leasable now) rs))"

definition has_attempt :: "string \<Rightarrow> job_row \<Rightarrow> bool" where
  "has_attempt a r \<longleftrightarrow> j_attempt_id r = a"

lemma oldest_leasable_Some:
  "oldest_leasable now rs = Some r \<Longrightarrow> r \<in> set rs \<and> leasable now r"
  unfolding oldest_leasable_def by (drule fetchone_Some_in) simp

lemma cancel_row_not_leasable [simp]: "\<not> leasable now (cancel_row now' r)"
  by (simp add: leasable_def cancel_row_def active_def)

lemma rowcount_cancel_less:
  assumes "r \<in> set rs" and "leasable now r"
  shows "rowcount (leasable now) (sql_update (has_attempt (j_attempt_id r)) (cancel_row now) rs)
    < rowcount (leasable now) rs"
proof -
  let ?f = "\<lambda>x. if has_attempt (j_attempt_id r) x then cancel_row now x else x"
  have le: "length (filter (leasable now) (map ?f xs)) \<le> length (filter (leasable now) xs)" for xs
    by (induction xs) auto
  obtain ys zs where "rs = ys @ r # zs" using assms(1) by (auto dest: split_list)
  then show ?thesis
    using le [of ys] le [of zs] assms(2) by (simp add: rowcount_def sql_update_def has_attempt_def)
qed

text \<open>The \<open>while True\<close> loop of \<open>acquire_lease\<close>: cancelled candidates are settled on the way.\<close>

function acquire_loop :: "int \<Rightarrow> job_row list \<Rightarrow> job_row list \<times> job_row option" where
  "acquire_loop now rs =
     (case oldest_leasable now rs of
        None \<Rightarrow> (rs, None)
      | Some row \<Rightarrow>
          if j_cancel_requested row
          then acquire_loop now (sql_update (has_attempt (j_attempt_id row)) (cancel_row now) rs)
          else (rs, Some row))"
  by pat_completeness auto
termination
  by (relation "measure (\<lambda>(now, rs). rowcount (leasable now) rs)")
    (auto dest: oldest_leasable_Some intro: rowcount_cancel_less)

declare acquire_loop.simps [simp del]

definition acquire_lease :: "int \<Rightarrow> string \<Rightarrow> string \<Rightarrow> int \<Rightarrow> job_record option op" where
  "acquire_lease now tok owner visibility_timeout_seconds s =
     (case acquire_loop now (jobs s) of
        (rs, None) \<Rightarrow> (Inr None, s\<lparr>jobs := rs\<rparr>)
      | (rs, Some row) \<Rightarrow>
          (let expires_at = now + visibility_timeout_seconds * 1000;
               s' = s\<lparr>jobs := sql_update (has_attempt (j_attempt_id row))
                                (lease_row now owner tok expires_at) rs\<rparr>
           in case job_row_of (jobs s') (j_build_job_id row) (j_attempt_id row) of
                None \<Rightarrow> (Inl (QueueError ''Leased job could not be reloaded''), s')
              | Some r \<Rightarrow> (Inr (Some (load_job s' r)), s')))"

text \<open>\<open>(? IS NULL OR column = ?)\<close>.\<close>

definition sql_matches :: "'a option \<Rightarrow> 'a option \<Rightarrow> bool" where
  "sql_matches param col \<longleftrightarrow> param = None \<or> col = param"

definition owned_active :: "string option \<Rightarrow> string option \<Rightarrow> job_row \<Rightarrow> bool" where
  "owned_active owner tok r \<longleftrightarrow>
     active (j_state r) \<and> sql_matches owner (j_lease_owner r) \<and> sql_matches tok (j_lease_token r)"

definition refresh_lease :: "int \<Rightarrow> string \<Rightarrow> string \<Rightarrow> int \<Rightarrow> string option \<Rightarrow> job_record op" where
  "refresh_lease now a owner visibility_timeout_seconds tok s =
     (let expires_at = now + visibility_timeout_seconds * 1000;
          c = (\<lambda>r. j_attempt_id r = a \<and> owned_active (Some owner) tok r);
          s' = s\<lparr>jobs := sql_update c
                  (\<lambda>r. r\<lparr>j_lease_expires_at := Some expires_at, j_updated_at := now\<rparr>) (jobs s)\<rparr>
      in if rowcount c (jobs s) \<noteq> 1
         then (Inl (QueueError ''Cannot refresh lease for unknown or unowned attempt''), s')
         else case attempt_row (jobs s') a of
           None \<Rightarrow> (Inl (QueueError ''Refreshed job could not be reloaded''), s')
         | Some r \<Rightarrow> (Inr (load_job s' r), s'))"

section \<open>State transitions\<close>

definition transition_row :: "int \<Rightarrow> job_state \<Rightarrow> string option \<Rightarrow> job_row \<Rightarrow> job_row" where
  "transition_row now st err r =
     (let r' = r\<lparr>j_state := st, j_error := err, j_updated_at := now\<rparr> in
      if terminal st
      then r'\<lparr>j_lease_owner := None, j_lease_expires_at := None, j_lease_token := None,
              j_cancel_requested := False\<rparr>
      else r')"

definition transition ::
  "int \<Rightarrow> string \<Rightarrow> string \<Rightarrow> string option \<Rightarrow> string option \<Rightarrow> string option \<Rightarrow> string option \<Rightarrow>
   job_record op" where
  "transition now a state err expected_state owner tok s =
     (case state_of_str state of
        None \<Rightarrow> (Inl (QueueError (''Invalid queue state: '' @ state)), s)
      | Some st \<Rightarrow>
     (case attempt_row (jobs s) a of
        None \<Rightarrow> (Inl (QueueError ''Cannot transition unknown attempt''), s)
      | Some current \<Rightarrow>
          if expected_state \<noteq> None \<and> Some (state_str (j_state current)) \<noteq> expected_state
          then (Inl (QueueError ''Cannot transition attempt from an unexpected state''), s)
          else if owner \<noteq> None \<and> j_lease_owner current \<noteq> owner
          then (Inl (QueueError ''Cannot transition attempt owned by another worker''), s)
          else if tok \<noteq> None \<and> j_lease_token current \<noteq> tok
          then (Inl (QueueError ''Cannot transition attempt with a stale lease token''), s)
          else if j_state current = st then
            (if expected_state = None \<and> owner = None \<and> tok = None
             then (Inr (load_job s current), s)
             else (Inl (QueueError ''Cannot transition attempt from the current state''), s))
          else if j_state current \<notin> set (LEGAL_PREVIOUS_STATES st)
          then (Inl (QueueError ''Cannot transition attempt from the current state''), s)
          else
            (let c = (\<lambda>r. j_attempt_id r = a \<and> (j_state r = j_state current \<and>
                       sql_matches owner (j_lease_owner r) \<and> sql_matches tok (j_lease_token r)));
                 s' = s\<lparr>jobs := sql_update c (transition_row now st err) (jobs s)\<rparr>
             in if rowcount c (jobs s) \<noteq> 1
                then (Inl (QueueError ''Cannot transition attempt after its state changed''), s)
                else case attempt_row (jobs s') a of
                  None \<Rightarrow> (Inl (QueueError ''Transitioned job could not be reloaded''), s)
                | Some r \<Rightarrow> (Inr (load_job s' r), s'))))"

section \<open>Cancellation, crashes, retention\<close>

definition flag_cancel :: "int \<Rightarrow> job_row \<Rightarrow> job_row" where
  "flag_cancel now r = r\<lparr>j_cancel_requested := True, j_updated_at := now\<rparr>"

definition request_cancel :: "int \<Rightarrow> string \<Rightarrow> string option \<Rightarrow> string list op" where
  "request_cancel now b attempt s =
     (case attempt of
        None \<Rightarrow>
          (let c = (\<lambda>r. j_build_job_id r = b \<and> \<not> terminal (j_state r))
           in (Inr (map j_attempt_id (filter c (jobs s))), s\<lparr>jobs := sql_update c (flag_cancel now) (jobs s)\<rparr>))
      | Some a \<Rightarrow>
          (let c = (\<lambda>r. j_build_job_id r = b \<and> j_attempt_id r = a \<and> \<not> terminal (j_state r))
           in (Inr [a], s\<lparr>jobs := sql_update c (flag_cancel now) (jobs s)\<rparr>)))"

definition crash_row :: "int \<Rightarrow> job_state \<Rightarrow> string \<Rightarrow> job_row \<Rightarrow> job_row" where
  "crash_row now st err r = r\<lparr>j_state := st, j_error := Some err, j_lease_owner := None,
     j_lease_token := None, j_lease_expires_at := None, j_cancel_requested := False,
     j_updated_at := now\<rparr>"

definition insert_dlq :: "dead_letter \<Rightarrow> dead_letter list \<Rightarrow> dead_letter list" where
  "insert_dlq d ds = (if dl_attempt_id d \<in> dl_attempt_id ` set ds then ds else ds @ [d])"

definition record_executor_crash ::
  "int \<Rightarrow> string \<Rightarrow> string \<Rightarrow> string option \<Rightarrow> string option \<Rightarrow> job_record op" where
  "record_executor_crash now a err owner tok s =
     (let c = (\<lambda>r. j_attempt_id r = a \<and> owned_active owner tok r) in
      case fetchone (filter c (jobs s)) of
        None \<Rightarrow> (Inl (QueueError ''Cannot record crash for unknown attempt''), s)
      | Some row \<Rightarrow>
          (let local_crashes = j_attempts row;
               s' = (if local_crashes \<ge> MAX_LOCAL_CRASHES
                     then s\<lparr>dlq := insert_dlq
                              \<lparr>dl_build_job_id = j_build_job_id row, dl_attempt_id = j_attempt_id row,
                               dl_payload = j_payload row, dl_error = err,
                               dl_attempts = local_crashes, dl_created_at = now\<rparr> (dlq s),
                            jobs := sql_update c (crash_row now FAILED err) (jobs s)\<rparr>
                     else s\<lparr>jobs := sql_update c (crash_row now QUEUED err) (jobs s)\<rparr>)
           in case attempt_row (jobs s') a of
                None \<Rightarrow> (Inl (QueueError ''Crashed job could not be reloaded''), s')
              | Some r \<Rightarrow> (Inr (load_job s' r), s')))"

text \<open>\<open>DELETE\<close> with \<open>ON DELETE CASCADE\<close> on the events of the removed attempts.\<close>

definition prune_terminal :: "int \<Rightarrow> int \<Rightarrow> nat op" where
  "prune_terminal now retention_days s =
     (let cutoff = now - retention_days * 86400000;
          c = (\<lambda>r. terminal (j_state r) \<and> j_updated_at r < cutoff);
          gone = map j_attempt_id (filter c (jobs s))
      in (Inr (rowcount c (jobs s)),
          s\<lparr>jobs := sql_delete c (jobs s),
            events := sql_delete (\<lambda>e. ev_attempt_id e \<in> set gone) (events s)\<rparr>))"

end
