(* ===== verification/Queue_Invariants.thy ===== *)
theory Queue_Invariants
  imports Queue_Store
begin

text \<open>
  Invariants of the queue tables and the life cycle of an attempt. \<open>row_wf\<close> and
  \<open>jobs_wf\<close> are kept by every operation; \<open>evolves\<close> relates a row to what one
  operation may make of it. Operations are described by one fact each: how they
  rewrite the \<open>jobs\<close> table.
\<close>

section \<open>Shape of states\<close>

lemma state_of_str_state_str [simp]: "state_of_str (state_str st) = Some st"
  by (cases st) (simp_all add: state_of_str_def state_str_def all_states_def)

lemma state_of_str_Some: "state_of_str s = Some st \<Longrightarrow> s = state_str st"
  by (auto simp: state_of_str_def dest: find_Some_in)

lemma state_str_inject [simp]: "state_str a = state_str b \<longleftrightarrow> a = b"
  by (metis option.inject state_of_str_state_str)

lemma terminal_simps [simp]:
  "terminal SUCCEEDED" "terminal FAILED" "terminal CANCELLED" "terminal TIMED_OUT"
  "\<not> terminal QUEUED" "\<not> terminal LEASED" "\<not> terminal RUNNING"
  by (simp_all add: terminal_def)

lemma active_simps [simp]:
  "active LEASED" "active RUNNING" "\<not> active QUEUED" "\<not> active SUCCEEDED" "\<not> active FAILED"
  "\<not> active CANCELLED" "\<not> active TIMED_OUT"
  by (simp_all add: active_def)

lemma not_terminal_iff: "\<not> terminal st \<longleftrightarrow> st = QUEUED \<or> active st"
  by (cases st) auto

lemma legal_previous_not_terminal: "st \<in> set (LEGAL_PREVIOUS_STATES st') \<Longrightarrow> \<not> terminal st"
  by (cases st') (auto simp: LEGAL_PREVIOUS_STATES_def)

section \<open>Invariants\<close>

definition row_wf :: "job_row \<Rightarrow> bool" where
  "row_wf r \<longleftrightarrow>
     (terminal (j_state r) \<longrightarrow> j_lease_owner r = None \<and> j_lease_token r = None \<and>
        j_lease_expires_at r = None \<and> \<not> j_cancel_requested r) \<and>
     0 \<le> j_attempts r \<and> 0 \<le> j_sequence_cursor r \<and>
     (\<forall>k \<in> set transient_keys. \<not> jhas (j_payload r) k) \<and>
     is_uuid (j_build_job_id r) \<and> is_uuid (j_attempt_id r)"

definition jobs_wf :: "job_row list \<Rightarrow> bool" where
  "jobs_wf rs \<longleftrightarrow> distinct (map j_attempt_id rs) \<and> sorted_wrt (<) (map j_rowid rs) \<and>
     (\<forall>r \<in> set rs. row_wf r)"

definition dlq_wf :: "dead_letter list \<Rightarrow> bool" where
  "dlq_wf ds \<longleftrightarrow> distinct (map dl_attempt_id ds) \<and>
     (\<forall>d \<in> set ds. MAX_LOCAL_CRASHES \<le> dl_attempts d \<and>
        (\<forall>k \<in> set transient_keys. \<not> jhas (dl_payload d) k))"

lemma jobs_wf_distinct: "jobs_wf rs \<Longrightarrow> distinct (map j_attempt_id rs)"
  by (simp add: jobs_wf_def)

lemma jobs_wf_row: "jobs_wf rs \<Longrightarrow> r \<in> set rs \<Longrightarrow> row_wf r"
  by (simp add: jobs_wf_def)

section \<open>Row rewrites\<close>

text \<open>Identity, position and history of a row are never rewritten.\<close>

definition same_job :: "job_row \<Rightarrow> job_row \<Rightarrow> bool" where
  "same_job r r' \<longleftrightarrow> j_attempt_id r' = j_attempt_id r \<and> j_rowid r' = j_rowid r \<and>
     j_build_job_id r' = j_build_job_id r \<and> j_payload r' = j_payload r \<and>
     j_created_at r' = j_created_at r"

text \<open>What one operation may make of a row.\<close>

definition evolves :: "job_row \<Rightarrow> job_row \<Rightarrow> bool" where
  "evolves r r' \<longleftrightarrow> same_job r r' \<and> j_attempts r \<le> j_attempts r' \<and>
     j_sequence_cursor r \<le> j_sequence_cursor r' \<and>
     (j_state r' = j_state r \<or> j_state r \<in> set (LEGAL_PREVIOUS_STATES (j_state r')) \<or>
        (active (j_state r) \<and> j_state r' = LEASED)) \<and>
     (terminal (j_state r) \<longrightarrow> j_lease_token r' = j_lease_token r \<and> j_error r' = j_error r \<and>
        j_cancel_requested r' = j_cancel_requested r)"

lemma evolves_refl [simp]: "evolves r r"
  by (simp add: evolves_def same_job_def)

lemma evolves_terminal: "evolves r r' \<Longrightarrow> terminal (j_state r) \<Longrightarrow> j_state r' = j_state r"
  using legal_previous_not_terminal by (auto simp: evolves_def active_def)

lemma evolves_same_job: "evolves r r' \<Longrightarrow> same_job r r'"
  by (simp add: evolves_def)

text \<open>A rewrite of the table: row by row, in place.\<close>

definition table_evolves :: "job_row list \<Rightarrow> job_row list \<Rightarrow> bool" where
  "table_evolves rs rs' \<longleftrightarrow> list_all2 evolves rs rs' \<and> (jobs_wf rs \<longrightarrow> jobs_wf rs')"

lemma table_evolves_refl [simp]: "table_evolves rs rs"
  by (simp add: table_evolves_def list.rel_refl)

lemma same_job_map:
  assumes "list_all2 same_job rs rs'"
  shows "map j_attempt_id rs' = map j_attempt_id rs" and "map j_rowid rs' = map j_rowid rs"
  using assms by (induction rule: list_all2_induct) (auto simp: same_job_def)

lemma table_evolves_update:
  assumes ev: "\<And>r. r \<in> set rs \<Longrightarrow> c r \<Longrightarrow> (jobs_wf rs \<longrightarrow> row_wf r) \<Longrightarrow> evolves r (f r)"
    and wf: "\<And>r. r \<in> set rs \<Longrightarrow> c r \<Longrightarrow> row_wf r \<Longrightarrow> row_wf (f r)"
  shows "table_evolves rs (sql_update c f rs)"
proof -
  have rel: "list_all2 evolves rs (sql_update c f rs)"
    unfolding sql_update_def list.rel_map
    by (rule list.rel_refl_strong) (use ev jobs_wf_row in auto)
  then have "list_all2 same_job rs (sql_update c f rs)"
    by (rule list_all2_mono) (rule evolves_same_job)
  note keys = same_job_map [OF this]
  have "jobs_wf (sql_update c f rs)" if "jobs_wf rs"
    using that wf keys by (auto simp: jobs_wf_def set_sql_update)
  with rel show ?thesis by (simp add: table_evolves_def)
qed

lemma table_evolves_attempts:
  "table_evolves rs rs' \<Longrightarrow> map j_attempt_id rs' = map j_attempt_id rs"
  unfolding table_evolves_def
  by (rule same_job_map) (auto elim!: list_all2_mono intro: evolves_same_job)

lemma table_evolves_in:
  assumes "table_evolves rs rs'" and "r' \<in> set rs'"
  shows "\<exists>r \<in> set rs. evolves r r'"
  using assms by (fastforce simp: table_evolves_def in_set_conv_nth list_all2_conv_all_nth)

lemma table_evolves_wf [wf_intros]: "table_evolves rs rs' \<Longrightarrow> jobs_wf rs \<Longrightarrow> jobs_wf rs'"
  by (simp add: table_evolves_def)

section \<open>The row functions\<close>

lemmas row_defs = cancel_row_def lease_row_def transition_row_def crash_row_def Let_def

lemma cancel_row_evolves: "\<not> terminal (j_state r) \<Longrightarrow> evolves r (cancel_row now r)"
  by (auto simp: evolves_def same_job_def row_defs LEGAL_PREVIOUS_STATES_def not_terminal_iff active_def)

lemma lease_row_evolves: "leasable now r \<Longrightarrow> evolves r (lease_row now' owner tok ex r)"
  by (auto simp: evolves_def same_job_def row_defs LEGAL_PREVIOUS_STATES_def leasable_def active_def)

lemma transition_row_evolves:
  "j_state r \<in> set (LEGAL_PREVIOUS_STATES st) \<Longrightarrow> evolves r (transition_row now st err r)"
  by (auto simp: evolves_def same_job_def row_defs dest: legal_previous_not_terminal)

lemma crash_row_evolves:
  "active (j_state r) \<Longrightarrow> st \<in> {QUEUED, FAILED} \<Longrightarrow> evolves r (crash_row now st err r)"
  by (auto simp: evolves_def same_job_def row_defs LEGAL_PREVIOUS_STATES_def active_def)

lemma leasable_not_terminal: "leasable now r \<Longrightarrow> \<not> terminal (j_state r)"
  by (auto simp: leasable_def active_def)

lemma row_wf_cancel: "row_wf r \<Longrightarrow> row_wf (cancel_row now r)"
  and row_wf_lease: "row_wf r \<Longrightarrow> row_wf (lease_row now owner tok ex r)"
  and row_wf_transition: "row_wf r \<Longrightarrow> row_wf (transition_row now st err r)"
  and row_wf_crash: "row_wf r \<Longrightarrow> row_wf (crash_row now st msg r)"
  by (auto simp: row_wf_def row_defs)

section \<open>The lease loop\<close>

lemma cancel_update_evolves:
  assumes "distinct (map j_attempt_id rs)" and "r \<in> set rs" and "leasable now r"
  shows "table_evolves rs (sql_update (has_attempt (j_attempt_id r)) (cancel_row now) rs)"
proof (rule table_evolves_update)
  fix x assume x: "x \<in> set rs" "has_attempt (j_attempt_id r) x"
  then have "x = r" using assms by (auto simp: has_attempt_def dest: distinct_key_eq)
  then show "evolves x (cancel_row now x)"
    using assms(3) by (simp add: cancel_row_evolves leasable_not_terminal)
qed (simp add: row_wf_cancel)

text \<open>
  What the loop did to each row: nothing, or it settled a leasable row with a pending
  cancellation; and the row it returns is the oldest leasable one left, not cancelled.
\<close>

definition settled :: "int \<Rightarrow> job_row \<Rightarrow> job_row \<Rightarrow> bool" where
  "settled now r r' \<longleftrightarrow> r' = r \<or> (leasable now r \<and> j_cancel_requested r \<and> r' = cancel_row now r)"

lemma settled_trans: "settled now a b \<Longrightarrow> settled now b c \<Longrightarrow> settled now a c"
  by (auto simp: settled_def)

lemma settled_evolves: "settled now r r' \<Longrightarrow> evolves r r'"
  by (auto simp: settled_def cancel_row_evolves leasable_not_terminal)

lemma settled_row_wf: "settled now r r' \<Longrightarrow> row_wf r \<Longrightarrow> row_wf r'"
  by (auto simp: settled_def row_wf_cancel)

lemma acquire_loop_settled:
  assumes "distinct (map j_attempt_id rs)"
  shows "list_all2 (settled now) rs (fst (acquire_loop now rs))"
  using assms
proof (induction now rs rule: acquire_loop.induct)
  case (1 now rs)
  show ?case
  proof (cases "oldest_leasable now rs")
    case None
    then show ?thesis by (simp add: acquire_loop.simps [of now rs] settled_def list.rel_refl)
  next
    case (Some row)
    show ?thesis
    proof (cases "j_cancel_requested row")
      case True
      let ?rs = "sql_update (has_attempt (j_attempt_id row)) (cancel_row now) rs"
      have row: "row \<in> set rs" "leasable now row" using Some by (auto dest: oldest_leasable_Some)
      have step: "list_all2 (settled now) rs ?rs"
        unfolding sql_update_def list.rel_map
      proof (rule list.rel_refl_strong)
        fix x assume "x \<in> set rs"
        then show "settled now x (if has_attempt (j_attempt_id row) x then cancel_row now x else x)"
          using row True distinct_key_eq [OF "1.prems" _ row(1)] by (auto simp: settled_def has_attempt_def)
      qed
      have "map j_attempt_id ?rs = map j_attempt_id rs"
        by (rule map_sql_update_col) (simp add: cancel_row_def)
      then have "list_all2 (settled now) ?rs (fst (acquire_loop now ?rs))"
        using "1.IH" [OF Some True] "1.prems" by simp
      with step have "list_all2 (settled now) rs (fst (acquire_loop now ?rs))"
        using list_all2_trans [of "settled now" "settled now" "settled now"] settled_trans by blast
      then show ?thesis using Some True by (simp add: acquire_loop.simps [of now rs])
    next
      case False
      then show ?thesis using Some by (simp add: acquire_loop.simps [of now rs] settled_def list.rel_refl)
    qed
  qed
qed

lemma acquire_loop_result:
  "acquire_loop now rs = (rs', res) \<Longrightarrow>
    oldest_leasable now rs' = res \<and> (\<forall>r. res = Some r \<longrightarrow> \<not> j_cancel_requested r)"
proof (induction now rs rule: acquire_loop.induct)
  case (1 now rs)
  from "1.prems" "1.IH" show ?case
    by (simp add: acquire_loop.simps [of now rs] split: option.splits if_splits) auto
qed

lemma acquire_loop_evolves:
  assumes "distinct (map j_attempt_id rs)" and "acquire_loop now rs = (rs', res)"
  shows "table_evolves rs rs'"
proof -
  have all: "list_all2 (settled now) rs rs'"
    using acquire_loop_settled [OF assms(1), of now] assms(2) by simp
  then have ev: "list_all2 evolves rs rs'" by (rule list_all2_mono) (rule settled_evolves)
  then have "list_all2 same_job rs rs'" by (rule list_all2_mono) (rule evolves_same_job)
  note keys = same_job_map [OF this]
  have "row_wf r'" if "jobs_wf rs" "r' \<in> set rs'" for r'
    using all that settled_row_wf jobs_wf_row
    by (fastforce simp: list_all2_conv_all_nth in_set_conv_nth)
  then show ?thesis using ev keys by (simp add: table_evolves_def jobs_wf_def)
qed

end
