(* ===== verification/Queue_Ops.thy ===== *)
theory Queue_Ops
  imports Queue_Invariants
begin

text \<open>
  What each operation of the queue does: its effect on the tables and its outcome,
  errors included. The facts of the first part say how the \<open>jobs\<close> table is rewritten
  (\<open>table_evolves\<close>) and which parts of the store are left alone; the second part gives
  the outcome of each operation on a well-formed table.
\<close>

section \<open>Effects\<close>

text \<open>Everything but the \<open>jobs\<close> table is as before.\<close>

definition only_jobs :: "store \<Rightarrow> store \<Rightarrow> bool" where
  "only_jobs s s' \<longleftrightarrow> s' = s\<lparr>jobs := jobs s'\<rparr>"

lemma only_jobs_refl [simp]: "only_jobs s s"
  and only_jobs_set [simp]: "only_jobs s (s\<lparr>jobs := rs\<rparr>)"
  by (simp_all add: only_jobs_def)

lemma only_jobs_events: "only_jobs s s' \<Longrightarrow> events s' = events s"
  and only_jobs_dlq: "only_jobs s s' \<Longrightarrow> dlq s' = dlq s"
  and only_jobs_transient: "only_jobs s s' \<Longrightarrow> transient_payloads s' = transient_payloads s"
  by (metis only_jobs_def store.select_convs(2) store.surjective store.update_convs(1),
      metis only_jobs_def store.select_convs(3) store.surjective store.update_convs(1),
      metis only_jobs_def store.select_convs(4) store.surjective store.update_convs(1))

lemma attempt_row_find: "attempt_row rs a = find (\<lambda>r. j_attempt_id r = a) rs"
  by (simp add: attempt_row_def fetchone_filter_find)

lemma attempt_row_Some: "attempt_row rs a = Some r \<Longrightarrow> r \<in> set rs \<and> j_attempt_id r = a"
  by (auto simp: attempt_row_find dest: find_Some_in)

lemma attempt_row_in:
  "distinct (map j_attempt_id rs) \<Longrightarrow> r \<in> set rs \<Longrightarrow> attempt_row rs (j_attempt_id r) = Some r"
  by (simp add: attempt_row_find find_key_unique)

lemma attempt_row_None: "attempt_row rs a = None \<longleftrightarrow> a \<notin> j_attempt_id ` set rs"
  by (auto simp: attempt_row_find find_None_iff)

lemma job_row_of_Some:
  "job_row_of rs b a = Some r \<Longrightarrow> r \<in> set rs \<and> j_build_job_id r = b \<and> j_attempt_id r = a"
  by (auto simp: job_row_of_def dest: fetchone_Some_in)

lemma job_row_of_in:
  assumes "distinct (map j_attempt_id rs)" and "r \<in> set rs"
  shows "job_row_of rs (j_build_job_id r) (j_attempt_id r) = Some r"
proof -
  have "job_row_of rs (j_build_job_id r) (j_attempt_id r) \<noteq> None"
    using assms(2) by (auto simp: job_row_of_def filter_empty_conv)
  then obtain x where x: "job_row_of rs (j_build_job_id r) (j_attempt_id r) = Some x" by auto
  then have "x = r" using assms by (auto dest!: job_row_of_Some dest: distinct_key_eq)
  with x show ?thesis by simp
qed

lemma refresh_lease_effect:
  assumes "refresh_lease now a owner vt tok s = (res, s')"
  shows "only_jobs s s' \<and> table_evolves (jobs s) (jobs s')"
proof -
  have "table_evolves (jobs s) (sql_update (\<lambda>r. j_attempt_id r = a \<and> owned_active (Some owner) tok r)
      (\<lambda>r. r\<lparr>j_lease_expires_at := Some (now + vt * 1000), j_updated_at := now\<rparr>) (jobs s))"
    by (rule table_evolves_update)
      (auto simp: owned_active_def evolves_def same_job_def row_wf_def active_def)
  then show ?thesis
    using assms by (auto simp: refresh_lease_def Let_def split: if_splits option.splits)
qed

lemma transition_effect:
  assumes "transition now a state err ex owner tok s = (res, s')"
  shows "only_jobs s s'" and "table_evolves (jobs s) (jobs s')" and "\<forall>e. res = Inl e \<longrightarrow> s' = s"
proof -
  show "only_jobs s s'" "\<forall>e. res = Inl e \<longrightarrow> s' = s"
    using assms by (auto simp: transition_def Let_def split: option.splits if_splits)
  have "table_evolves (jobs s) (sql_update (\<lambda>r. j_attempt_id r = a \<and> (j_state r = st0 \<and>
       sql_matches owner (j_lease_owner r) \<and> sql_matches tok (j_lease_token r)))
       (transition_row now st err) (jobs s))" if "st0 \<in> set (LEGAL_PREVIOUS_STATES st)" for st st0
    by (rule table_evolves_update) (use that in \<open>auto simp: transition_row_evolves row_wf_transition\<close>)
  then show "table_evolves (jobs s) (jobs s')"
    using assms by (auto simp: transition_def Let_def split: option.splits if_splits)
qed

lemma request_cancel_effect:
  "request_cancel now b ao s = (res, s') \<Longrightarrow> only_jobs s s' \<and> table_evolves (jobs s) (jobs s')"
  unfolding request_cancel_def Let_def
  by (auto split: option.splits intro!: table_evolves_update
      simp: evolves_def same_job_def row_wf_def flag_cancel_def)

lemma crash_effect:
  assumes "record_executor_crash now a err owner tok s = (res, s')"
  shows "table_evolves (jobs s) (jobs s') \<and> events s' = events s \<and>
    transient_payloads s' = transient_payloads s \<and> (jobs_wf (jobs s) \<longrightarrow> dlq_wf (dlq s) \<longrightarrow> dlq_wf (dlq s'))"
proof (cases "s' = s")
  case False
  let ?c = "\<lambda>r. j_attempt_id r = a \<and> owned_active owner tok r"
  obtain row where row: "fetchone (filter ?c (jobs s)) = Some row"
    and s': "s' = (if j_attempts row \<ge> MAX_LOCAL_CRASHES
                     then s\<lparr>dlq := insert_dlq
                              \<lparr>dl_build_job_id = j_build_job_id row, dl_attempt_id = j_attempt_id row,
                               dl_payload = j_payload row, dl_error = err,
                               dl_attempts = j_attempts row, dl_created_at = now\<rparr> (dlq s),
                            jobs := sql_update ?c (crash_row now FAILED err) (jobs s)\<rparr>
                     else s\<lparr>jobs := sql_update ?c (crash_row now QUEUED err) (jobs s)\<rparr>)"
    using assms False by (auto simp: record_executor_crash_def Let_def split: option.splits if_splits)
  have ev: "table_evolves (jobs s) (sql_update ?c (crash_row now st err) (jobs s))" if "st \<in> {QUEUED, FAILED}" for st
    by (rule table_evolves_update) (use that in \<open>auto simp: crash_row_evolves row_wf_crash owned_active_def\<close>)
  have "row_wf row" if "jobs_wf (jobs s)"
    using fetchone_Some_in [OF row] that by (auto dest: jobs_wf_row)
  then show ?thesis
    unfolding s' using ev by (auto simp: dlq_wf_def insert_dlq_def row_wf_def)
qed auto

lemma acquire_lease_effect:
  assumes "acquire_lease now tok owner vt s = (res, s')" and wf: "jobs_wf (jobs s)"
  shows "only_jobs s s' \<and> (\<exists>rs. table_evolves (jobs s) rs \<and> table_evolves rs (jobs s'))"
proof -
  obtain rs row where loop: "acquire_loop now (jobs s) = (rs, row)" by force
  have ev: "table_evolves (jobs s) rs"
    using acquire_loop_evolves [OF jobs_wf_distinct [OF wf] loop] .
  then have wf': "jobs_wf rs" using wf by (rule table_evolves_wf)
  show ?thesis
  proof (cases row)
    case None
    then show ?thesis using assms(1) loop ev by (auto simp: acquire_lease_def)
  next
    case (Some r)
    have r: "r \<in> set rs" "leasable now r"
      using acquire_loop_result [OF loop] Some by (auto dest: oldest_leasable_Some)
    have s': "s' = s\<lparr>jobs := sql_update (has_attempt (j_attempt_id r))
        (lease_row now owner tok (now + vt * 1000)) rs\<rparr>"
      using assms(1) loop Some by (auto simp: acquire_lease_def Let_def split: option.splits)
    have "table_evolves rs (sql_update (has_attempt (j_attempt_id r))
        (lease_row now owner tok (now + vt * 1000)) rs)"
    proof (rule table_evolves_update)
      fix x assume "x \<in> set rs" "has_attempt (j_attempt_id r) x"
      then have "x = r"
        using r distinct_key_eq [OF jobs_wf_distinct [OF wf']] by (auto simp: has_attempt_def)
      then show "evolves x (lease_row now owner tok (now + vt * 1000) x)"
        using r by (simp add: lease_row_evolves)
    qed (simp add: row_wf_lease)
    then show ?thesis using s' ev by auto
  qed
qed

section \<open>Enqueue\<close>

lemma fold_max_ge_init: "n \<le> fold max xs (n::nat)"
proof (induction xs arbitrary: n)
  case (Cons x xs)
  have "max x n \<le> fold max xs (max x n)" by (rule Cons)
  then show ?case by simp
qed simp

lemma fold_max_ge: "x \<in> set xs \<Longrightarrow> x \<le> fold max xs (n::nat)"
proof (induction xs arbitrary: n)
  case (Cons y ys)
  then show ?case using fold_max_ge_init [of "max y n" ys] by auto
qed simp

lemma next_rowid_fresh: "r \<in> set rs \<Longrightarrow> j_rowid r < next_rowid rs"
  unfolding next_rowid_def by (rule le_imp_less_Suc) (rule fold_max_ge, simp)

lemma stored_payload_keys: "fst ` set (stored_payload p) = fst ` set p"
  by (force simp: stored_payload_def image_iff)

lemma durable_payload_keys: "k \<in> fst ` set (durable_payload p) \<longleftrightarrow> k \<in> fst ` set p \<and> k \<notin> set transient_keys"
  by (force simp: durable_payload_def)

lemma new_job_row_wf: "is_uuid b \<Longrightarrow> is_uuid a \<Longrightarrow> row_wf (new_job_row now b a p rs)"
  by (auto simp: row_wf_def new_job_row_def jhas_def stored_payload_keys durable_payload_keys)

lemma insert_job_wf [wf_intros]:
  assumes "jobs_wf rs" and "is_uuid b" and "is_uuid a"
  shows "jobs_wf (insert_job now b a p rs)"
  using assms new_job_row_wf [OF assms(2,3), of now p rs] next_rowid_fresh [of _ rs]
  by (auto simp: insert_job_def jobs_wf_def attempt_row_None sorted_wrt_append new_job_row_def)

lemma required_payload_uuid_Inr:
  "required_payload_uuid p k = Inr v \<longleftrightarrow> jget p k = Some (JStr v) \<and> is_uuid v"
  by (auto simp: required_payload_uuid_def required_payload_str_def rbind_Inr_iff
      split: option.splits json.splits if_splits dest: is_uuid_not_Nil)

text \<open>The payload carries the two canonical identifiers an assignment needs.\<close>

definition assigns :: "payload \<Rightarrow> string \<Rightarrow> string \<Rightarrow> bool" where
  "assigns p b a \<longleftrightarrow> jget p ''build_job_id'' = Some (JStr b) \<and> is_uuid b \<and>
     jget p ''attempt_id'' = Some (JStr a) \<and> is_uuid a"

lemma enqueue_assigns:
  assumes "assigns p b a"
  shows "enqueue now p s =
    (let s' = s\<lparr>transient_payloads := (case transient_payloads s a of
                        None \<Rightarrow> (transient_payloads s)(a \<mapsto> p) | Some _ \<Rightarrow> transient_payloads s),
                      jobs := insert_job now b a p (jobs s)\<rparr>
           in case job_row_of (jobs s') b a of
                None \<Rightarrow> (Inl (QueueError ''Enqueued job could not be reloaded''), s')
              | Some row \<Rightarrow> (Inr \<lparr>enq_job = load_job s' row, enq_inserted = (attempt_row (jobs s) a = None)\<rparr>, s'))"
proof -
  have "required_payload_uuid p ''build_job_id'' = Inr b" "required_payload_uuid p ''attempt_id'' = Inr a"
    using assms by (simp_all add: assigns_def required_payload_uuid_Inr)
  then show ?thesis by (simp add: enqueue_def Let_def)
qed

lemma enqueue_rejects:
  assumes "\<nexists>b a. assigns p b a"
  shows "\<exists>m. enqueue now p s = (Inl (QueueError m), s)"
proof -
  let ?ids = "rbind (required_payload_uuid p ''build_job_id'') (\<lambda>b.
      rbind (required_payload_uuid p ''attempt_id'') (\<lambda>a. Inr (b, a)))"
  obtain e where e: "?ids = Inl e"
    using assms by (cases ?ids) (auto simp: rbind_Inr_iff required_payload_uuid_Inr assigns_def)
  have "\<exists>m. e = QueueError m"
    using e by (auto simp: rbind_Inl_iff required_payload_uuid_def required_payload_str_def
        split: option.splits json.splits if_splits)
  with e show ?thesis by (auto simp: enqueue_def)
qed

lemma enqueue_effect:
  assumes "enqueue now p s = (res, s')"
  shows "events s' = events s" and "dlq s' = dlq s"
    and "jobs s' = jobs s \<or> (\<exists>b a. assigns p b a \<and> jobs s' = insert_job now b a p (jobs s))"
proof -
  have "events s' = events s \<and> dlq s' = dlq s \<and>
    (jobs s' = jobs s \<or> (\<exists>b a. assigns p b a \<and> jobs s' = insert_job now b a p (jobs s)))"
  proof (cases "\<exists>b a. assigns p b a")
    case True
    then obtain b a where ba: "assigns p b a" by blast
    then have "events s' = events s \<and> dlq s' = dlq s \<and> jobs s' = insert_job now b a p (jobs s)"
      using assms by (auto simp: enqueue_assigns Let_def split: option.splits)
    with ba show ?thesis by blast
  next
    case False
    then show ?thesis using enqueue_rejects [OF False, of now s] assms by auto
  qed
  then show "events s' = events s" "dlq s' = dlq s"
    "jobs s' = jobs s \<or> (\<exists>b a. assigns p b a \<and> jobs s' = insert_job now b a p (jobs s))"
    by auto
qed

end
