(* ===== verification/Fixtures.thy ===== *)
theory Fixtures
  imports Queue_Invariants
begin

text \<open>
  Concrete identifiers, rows and stores on which the witnesses of the properties evaluate
  the model: one build with an attempt that is waiting, one whose lease has expired and
  one that is running.
\<close>

definition ex_build :: string where "ex_build = ''22222222-2222-2222-2222-222222222222''"
definition ex_attempt :: string where "ex_attempt = ''33333333-3333-3333-3333-333333333333''"
definition ex_attempt2 :: string where "ex_attempt2 = ''44444444-4444-4444-4444-444444444444''"
definition ex_engine :: string where "ex_engine = ''11111111-1111-1111-1111-111111111111''"

lemma ex_uuids [simp]: "is_uuid ex_build" "is_uuid ex_attempt" "is_uuid ex_attempt2" "is_uuid ex_engine"
proof -
  have "is_uuid (hyphenate (replicate 32 (CHR ''2'')))" "is_uuid (hyphenate (replicate 32 (CHR ''3'')))"
    "is_uuid (hyphenate (replicate 32 (CHR ''4'')))" "is_uuid (hyphenate (replicate 32 (CHR ''1'')))"
    by (rule is_uuid_hyphenate; simp add: lower_hex_def list_all_iff)+
  then show "is_uuid ex_build" "is_uuid ex_attempt" "is_uuid ex_attempt2" "is_uuid ex_engine"
    by (simp_all add: hyphenate_def ex_build_def ex_attempt_def ex_attempt2_def ex_engine_def
        numeral_eq_Suc)
qed

lemma ex_attempts_neq [simp]: "ex_attempt \<noteq> ex_attempt2" "ex_attempt2 \<noteq> ex_attempt"
  by (simp_all add: ex_attempt_def ex_attempt2_def)

definition ex_payload :: payload where
  "ex_payload = [(''build_job_id'', JStr ex_build), (''attempt_id'', JStr ex_attempt),
     (''source_download_url'', JStr ''https://storage.example/one-shot'')]"

definition ex_durable :: payload where
  "ex_durable = [(''attempt_id'', JStr ex_attempt), (''build_job_id'', JStr ex_build)]"

text \<open>An attempt waiting for its first worker.\<close>

definition queued_row :: job_row where
  "queued_row = \<lparr>j_build_job_id = ex_build, j_attempt_id = ex_attempt, j_payload = ex_durable,
     j_state = QUEUED, j_attempts = 0, j_sequence_cursor = 0, j_lease_owner = None,
     j_lease_expires_at = None, j_error = None, j_created_at = 100, j_updated_at = 100,
     j_lease_token = None, j_cancel_requested = False, j_rowid = 1\<rparr>"

text \<open>The same attempt in the hands of a worker, with its lease running until 5000.\<close>

definition running_row :: job_row where
  "running_row = queued_row\<lparr>j_state := RUNNING, j_attempts := 1, j_lease_owner := Some ''worker-0'',
     j_lease_token := Some ''tok-1'', j_lease_expires_at := Some 5000\<rparr>"

definition store_with :: "job_row list \<Rightarrow> store" where
  "store_with rs = \<lparr>jobs = rs, events = [], dlq = [], transient_payloads = Map.empty\<rparr>"

lemma queued_row_cols [simp]:
  "j_build_job_id queued_row = ex_build" "j_attempt_id queued_row = ex_attempt"
  "j_payload queued_row = ex_durable" "j_state queued_row = QUEUED" "j_attempts queued_row = 0"
  "j_sequence_cursor queued_row = 0" "j_lease_owner queued_row = None"
  "j_lease_expires_at queued_row = None" "j_error queued_row = None" "j_created_at queued_row = 100"
  "j_updated_at queued_row = 100" "j_lease_token queued_row = None"
  "\<not> j_cancel_requested queued_row" "j_rowid queued_row = 1"
  by (simp_all add: queued_row_def)

lemma running_row_cols [simp]:
  "j_build_job_id running_row = ex_build" "j_attempt_id running_row = ex_attempt"
  "j_payload running_row = ex_durable" "j_state running_row = RUNNING" "j_attempts running_row = 1"
  "j_sequence_cursor running_row = 0" "j_lease_owner running_row = Some ''worker-0''"
  "j_lease_expires_at running_row = Some 5000" "j_error running_row = None"
  "j_created_at running_row = 100" "j_updated_at running_row = 100"
  "j_lease_token running_row = Some ''tok-1''" "\<not> j_cancel_requested running_row"
  "j_rowid running_row = 1"
  by (simp_all add: running_row_def)

lemmas fixture_defs = queued_row_def running_row_def store_with_def

lemma store_with_simps [simp]:
  "jobs (store_with rs) = rs" "events (store_with rs) = []" "dlq (store_with rs) = []"
  "transient_payloads (store_with rs) = Map.empty"
  by (simp_all add: store_with_def)

lemma queued_wf [simp]: "jobs_wf [queued_row]"
  by (simp add: jobs_wf_def row_wf_def queued_row_def jhas_def ex_durable_def transient_keys_def)

lemma running_wf [simp]: "jobs_wf [running_row]"
  by (simp add: jobs_wf_def row_wf_def running_row_def queued_row_def jhas_def ex_durable_def
      transient_keys_def)

end
