(* ===== verification/Queue_Correct.thy ===== *)
theory Queue_Correct
  imports Queue_Ops Fixtures
begin

text \<open>
  Correctness of the queue: who gets a lease, what a lost lease can still do, which
  transitions succeed, what a crash and a duplicate assignment lead to.
\<close>

section \<open>Acquiring a lease\<close>

lemma list_all2_left: "list_all2 R xs ys \<Longrightarrow> x \<in> set xs \<Longrightarrow> \<exists>y \<in> set ys. R x y"
  by (fastforce simp: list_all2_conv_all_nth in_set_conv_nth)

lemma list_all2_right: "list_all2 R xs ys \<Longrightarrow> y \<in> set ys \<Longrightarrow> \<exists>x \<in> set xs. R x y"
  by (fastforce simp: list_all2_conv_all_nth in_set_conv_nth)

lemma age_key_cancel_row [simp]: "age_key (cancel_row now r) = age_key r"
  by (simp add: age_key_def cancel_row_def)

lemma attempt_id_rows [simp]:
  "j_attempt_id (cancel_row now r) = j_attempt_id r"
  "j_attempt_id (lease_row now owner tok ex r) = j_attempt_id r"
  "j_build_job_id (lease_row now owner tok ex r) = j_build_job_id r"
  "j_attempt_id (transition_row now st err r) = j_attempt_id r"
  "j_attempt_id (crash_row now st msg r) = j_attempt_id r"
  by (simp_all add: row_defs)

text \<open>The loop's outcome in terms of the rows it started from.\<close>

lemma acquire_loop_None:
  assumes "distinct (map j_attempt_id rs)" and "acquire_loop now rs = (rs', None)"
  shows "(\<forall>r \<in> set rs'. \<not> leasable now r) \<and> (\<forall>r \<in> set rs. leasable now r \<longrightarrow> j_cancel_requested r)"
proof -
  have none: "\<forall>r \<in> set rs'. \<not> leasable now r"
    using acquire_loop_result [OF assms(2)] by (auto simp: oldest_leasable_def filter_empty_conv)
  have "list_all2 (settled now) rs rs'"
    using acquire_loop_settled [OF assms(1), of now] assms(2) by simp
  then have "j_cancel_requested r" if "r \<in> set rs" "leasable now r" for r
    using list_all2_left that none by (fastforce simp: settled_def)
  with none show ?thesis by blast
qed

lemma acquire_loop_Some:
  assumes "distinct (map j_attempt_id rs)" and loop: "acquire_loop now rs = (rs', Some r)"
  shows "r \<in> set rs \<and> r \<in> set rs' \<and> leasable now r \<and> \<not> j_cancel_requested r \<and>
    (\<forall>x \<in> set rs. leasable now x \<and> age_key x < age_key r \<longrightarrow> j_cancel_requested x \<and> cancel_row now x \<in> set rs')"
proof -
  have all: "list_all2 (settled now) rs rs'"
    using acquire_loop_settled [OF assms(1), of now] loop by simp
  have old: "oldest_leasable now rs' = Some r" and nc: "\<not> j_cancel_requested r"
    using acquire_loop_result [OF loop] by auto
  have r': "r \<in> set rs'" "leasable now r" using oldest_leasable_Some [OF old] by auto
  obtain x where x: "x \<in> set rs" "settled now x r" using list_all2_right [OF all r'(1)] by blast
  then have "x = r" using r'(2) by (auto simp: settled_def)
  have "j_cancel_requested y \<and> cancel_row now y \<in> set rs'"
    if y: "y \<in> set rs" "leasable now y" "age_key y < age_key r" for y
  proof -
    obtain y' where y': "y' \<in> set rs'" "settled now y y'" using list_all2_left [OF all y(1)] by blast
    have "age_key r \<le> age_key y'" if "leasable now y'"
      using old that y'(1) unfolding oldest_leasable_def by (auto intro: fetchone_order_by_least)
    then show ?thesis using y y' by (auto simp: settled_def)
  qed
  then show ?thesis using x \<open>x = r\<close> r' nc by blast
qed

lemma acquire_loop_distinct:
  "distinct (map j_attempt_id rs) \<Longrightarrow> acquire_loop now rs = (rs', res) \<Longrightarrow> distinct (map j_attempt_id rs')"
  using table_evolves_attempts [OF acquire_loop_evolves] by metis

lemma acquire_lease_cases:
  assumes wf: "jobs_wf (jobs s)"
  obtains rs where "acquire_loop now (jobs s) = (rs, None)"
      and "acquire_lease now tok owner vt s = (Inr None, s\<lparr>jobs := rs\<rparr>)"
  | rs r s' where "acquire_loop now (jobs s) = (rs, Some r)"
      and "s' = s\<lparr>jobs := sql_update (has_attempt (j_attempt_id r))
            (lease_row now owner tok (now + vt * 1000)) rs\<rparr>"
      and "lease_row now owner tok (now + vt * 1000) r \<in> set (jobs s')" and "jobs_wf (jobs s')"
      and "acquire_lease now tok owner vt s =
            (Inr (Some (load_job s' (lease_row now owner tok (now + vt * 1000) r))), s')"
proof -
  obtain rs row where loop: "acquire_loop now (jobs s) = (rs, row)" by force
  show ?thesis
  proof (cases row)
    case None
    then show ?thesis using that(1) loop by (simp add: acquire_lease_def)
  next
    case (Some r)
    let ?new = "lease_row now owner tok (now + vt * 1000) r"
    let ?s' = "s\<lparr>jobs := sql_update (has_attempt (j_attempt_id r)) (lease_row now owner tok (now + vt * 1000)) rs\<rparr>"
    have "r \<in> set rs" using acquire_loop_Some [OF jobs_wf_distinct [OF wf]] loop Some by blast
    then have new: "?new \<in> set (jobs ?s')"
      by (auto simp: set_sql_update has_attempt_def intro!: image_eqI [of _ _ r])
    have "snd (acquire_lease now tok owner vt s) = ?s'"
      using loop Some by (simp add: acquire_lease_def Let_def split: option.splits)
    then have wf': "jobs_wf (jobs ?s')"
      using acquire_lease_effect [of now tok owner vt s "fst (acquire_lease now tok owner vt s)" ?s'] wf
      by (metis prod.collapse table_evolves_wf)
    have "job_row_of (jobs ?s') (j_build_job_id r) (j_attempt_id r) = Some ?new"
      using job_row_of_in [OF jobs_wf_distinct [OF wf'] new] by simp
    then have "acquire_lease now tok owner vt s = (Inr (Some (load_job ?s' ?new)), ?s')"
      using loop Some by (simp add: acquire_lease_def Let_def)
    then show ?thesis using that(2) [of rs r ?s'] loop Some new wf' by simp
  qed
qed

text \<open>Two leases evaluated: a waiting attempt, and one whose lease has run out.\<close>

lemmas acquire_eval = acquire_lease_def acquire_loop.simps oldest_leasable_def order_by_def
  leasable_def job_row_of_def sql_update_def has_attempt_def Let_def

lemma acquire_queued:
  "acquire_lease 200 ''tok-1'' ''worker-0'' 30 (store_with [queued_row]) =
     (Inr (Some (load_job (store_with [lease_row 200 ''worker-0'' ''tok-1'' 30200 queued_row])
        (lease_row 200 ''worker-0'' ''tok-1'' 30200 queued_row))),
      store_with [lease_row 200 ''worker-0'' ''tok-1'' 30200 queued_row])"
  by (simp add: acquire_eval fixture_defs lease_row_def)

lemma acquire_expired:
  "acquire_lease 6000 ''tok-2'' ''worker-1'' 30 (store_with [running_row]) =
     (Inr (Some (load_job (store_with [lease_row 6000 ''worker-1'' ''tok-2'' 36000 running_row])
        (lease_row 6000 ''worker-1'' ''tok-2'' 36000 running_row))),
      store_with [lease_row 6000 ''worker-1'' ''tok-2'' 36000 running_row])"
  by (simp add: acquire_eval fixture_defs lease_row_def)

text \<open>
  C6. \<open>acquire_lease\<close> hands out the oldest attempt that is queued or whose lease has
  expired and that nobody asked to cancel: it becomes \<open>LEASED\<close> with the given owner, token
  and expiry and one more local attempt, and every older candidate was cancelled on the way.
\<close>

theorem acquire_lease_oldest:
  assumes wf: "jobs_wf (jobs s)"
    and acq: "acquire_lease now tok owner vt s = (Inr (Some job), s')"
  shows "\<exists>r \<in> set (jobs s). leasable now r \<and> \<not> j_cancel_requested r \<and>
    job = load_job s' (lease_row now owner tok (now + vt * 1000) r) \<and>
    lease_row now owner tok (now + vt * 1000) r \<in> set (jobs s') \<and>
    (\<forall>x \<in> set (jobs s). leasable now x \<and> age_key x < age_key r \<longrightarrow>
       j_cancel_requested x \<and> cancel_row now x \<in> set (jobs s'))"
  using wf
proof (cases rule: acquire_lease_cases [of s now tok owner vt])
  case (2 rs r t)
  have t: "t = s'" and job: "job = load_job s' (lease_row now owner tok (now + vt * 1000) r)"
    using 2(5) acq by auto
  note loop = acquire_loop_Some [OF jobs_wf_distinct [OF wf] 2(1)]
  have keep: "cancel_row now x \<in> set (jobs s')" if x: "cancel_row now x \<in> set rs" "age_key x < age_key r" for x
  proof -
    have "\<not> has_attempt (j_attempt_id r) (cancel_row now x)"
      using distinct_key_eq [OF acquire_loop_distinct [OF jobs_wf_distinct [OF wf] 2(1)], of "cancel_row now x" r]
        x loop age_key_cancel_row [of now x] by (auto simp: has_attempt_def simp del: age_key_cancel_row)
    then show ?thesis
      using x(1) 2(2) t by (auto simp: set_sql_update intro!: image_eqI [of _ _ "cancel_row now x"])
  qed
  show ?thesis using loop job keep 2(3) t by blast
qed (use acq in auto)

theorem acquire_lease_oldest_witness:
  "\<exists>r \<in> set (jobs (store_with [queued_row])). leasable 200 r \<and> \<not> j_cancel_requested r"
  using acquire_lease_oldest [OF _ acquire_queued] by auto

text \<open>
  On a well-formed table \<open>acquire_lease\<close> always returns: it yields a job exactly when
  some leasable attempt is not marked for cancellation; otherwise it yields \<open>None\<close>, and
  then no leasable attempt is left in the table.
\<close>

theorem acquire_lease_total:
  assumes wf: "jobs_wf (jobs s)"
  shows "if \<exists>r \<in> set (jobs s). leasable now r \<and> \<not> j_cancel_requested r
    then \<exists>job. fst (acquire_lease now tok owner vt s) = Inr (Some job)
    else fst (acquire_lease now tok owner vt s) = Inr None \<and>
      (\<forall>r \<in> set (jobs (snd (acquire_lease now tok owner vt s))). \<not> leasable now r)"
  using wf
proof (cases rule: acquire_lease_cases [of s now tok owner vt])
  case (1 rs)
  then show ?thesis using acquire_loop_None [OF jobs_wf_distinct [OF wf] 1(1)] by auto
next
  case (2 rs r s')
  then show ?thesis using acquire_loop_Some [OF jobs_wf_distinct [OF wf] 2(1)] by auto
qed

theorem acquire_lease_total_witness:
  "\<exists>job. fst (acquire_lease 200 ''tok-1'' ''worker-0'' 30 (store_with [queued_row])) = Inr (Some job)"
  using acquire_lease_total [of "store_with [queued_row]" 200 "''tok-1''" "''worker-0''" 30]
  by (simp add: leasable_def)

text \<open>
  Mutual exclusion of leases: a leased or running attempt whose lease has not expired
  is left untouched by \<open>acquire_lease\<close>, whoever calls it.
\<close>

theorem live_lease_protected:
  assumes wf: "jobs_wf (jobs s)" and r: "r \<in> set (jobs s)" "active (j_state r)"
    and live: "j_lease_expires_at r = Some t" "now < t"
  shows "r \<in> set (jobs (snd (acquire_lease now tok owner vt s)))"
proof -
  have nl: "\<not> leasable now r" using r(2) live by (auto simp: leasable_def active_def)
  obtain rs res where loop: "acquire_loop now (jobs s) = (rs, res)" by force
  have "list_all2 (settled now) (jobs s) rs"
    using acquire_loop_settled [OF jobs_wf_distinct [OF wf], of now] loop by simp
  then have rs: "r \<in> set rs" using list_all2_left [OF _ r(1)] nl by (force simp: settled_def)
  show ?thesis
    using wf
  proof (cases rule: acquire_lease_cases [of s now tok owner vt])
    case (1 rs')
    then show ?thesis using rs loop by simp
  next
    case (2 rs' x s')
    have "x \<in> set rs" "leasable now x"
      using acquire_loop_Some [OF jobs_wf_distinct [OF wf] 2(1)] loop 2(1) by auto
    then have "\<not> has_attempt (j_attempt_id x) r"
      using distinct_key_eq [OF acquire_loop_distinct [OF jobs_wf_distinct [OF wf] loop] rs] nl
      by (auto simp: has_attempt_def)
    then show ?thesis
      using rs loop 2 by (auto simp: set_sql_update intro!: image_eqI [of _ _ r])
  qed
qed

theorem live_lease_protected_witness:
  "running_row \<in> set (jobs (snd (acquire_lease 4999 ''tok-2'' ''worker-1'' 30 (store_with [running_row]))))"
  by (rule live_lease_protected [of _ _ 5000]) simp_all

section \<open>Fencing\<close>

text \<open>The three calls a worker makes on its attempt, with its token.\<close>

lemma refresh_wrong_token:
  assumes "attempt_row (jobs s) a = Some r" and "jobs_wf (jobs s)" and "j_lease_token r \<noteq> Some tok"
  shows "refresh_lease now a owner vt (Some tok) s =
    (Inl (QueueError ''Cannot refresh lease for unknown or unowned attempt''), s)"
proof -
  let ?c = "\<lambda>x. j_attempt_id x = a \<and> owned_active (Some owner) (Some tok) x"
  have none: "\<not> ?c x" if "x \<in> set (jobs s)" for x
    using that assms attempt_row_in [OF jobs_wf_distinct [OF assms(2)] that]
    by (auto simp: owned_active_def sql_matches_def)
  then have "rowcount ?c (jobs s) = 0" and "sql_update ?c f (jobs s) = jobs s" for f
    by (auto simp: rowcount_def filter_empty_conv intro: sql_update_id)
  then show ?thesis by (simp add: refresh_lease_def Let_def)
qed

lemma transition_wrong_token:
  assumes "attempt_row (jobs s) a = Some r" and "j_lease_token r \<noteq> Some tok"
  shows "\<exists>m. transition now a st err ex owner (Some tok) s = (Inl (QueueError m), s)"
  using assms by (auto simp: transition_def split: option.splits)

lemma crash_wrong_token:
  assumes "attempt_row (jobs s) a = Some r" and "jobs_wf (jobs s)" and "j_lease_token r \<noteq> Some tok"
  shows "record_executor_crash now a err owner (Some tok) s =
    (Inl (QueueError ''Cannot record crash for unknown attempt''), s)"
proof -
  have "\<not> (j_attempt_id x = a \<and> owned_active owner (Some tok) x)" if "x \<in> set (jobs s)" for x
    using that assms attempt_row_in [OF jobs_wf_distinct [OF assms(2)] that]
    by (auto simp: owned_active_def sql_matches_def)
  then have "filter (\<lambda>x. j_attempt_id x = a \<and> owned_active owner (Some tok) x) (jobs s) = []"
    by (simp add: filter_empty_conv)
  then show ?thesis by (simp add: record_executor_crash_def Let_def)
qed

lemma acquire_lease_token:
  assumes wf: "jobs_wf (jobs s)" and acq: "acquire_lease now tok owner vt s = (Inr (Some job), s')"
  shows "jobs_wf (jobs s') \<and> (\<exists>r. attempt_row (jobs s') (j_attempt_id job) = Some r \<and>
    j_lease_token r = Some tok \<and> j_lease_owner r = Some owner \<and> j_state r = LEASED)"
  using wf
proof (cases rule: acquire_lease_cases [of s now tok owner vt])
  case (2 rs r t)
  have "t = s'" "job = load_job s' (lease_row now owner tok (now + vt * 1000) r)" using 2(5) acq by auto
  moreover have "j_attempt_id job = j_attempt_id r"
    using calculation by (simp add: load_job_def with_transient_payload_def job_from_row_def
        job_record.truncate_def lease_row_def split: option.splits)
  moreover have "attempt_row (jobs t) (j_attempt_id r) = Some (lease_row now owner tok (now + vt * 1000) r)"
    using attempt_row_in [OF jobs_wf_distinct [OF 2(4)] 2(3)] by simp
  ultimately show ?thesis using 2(4) by (auto simp: lease_row_def)
qed (use acq in auto)

text \<open>
  C7. Fencing: once an expired attempt has been leased again under a new token, the former
  holder can neither refresh, nor settle, nor requeue it: each of its calls raises
  \<open>QueueError\<close> and changes nothing.
\<close>

theorem stale_worker_fenced:
  assumes wf: "jobs_wf (jobs s)" and acq: "acquire_lease now tok2 w2 vt s = (Inr (Some job), s1)"
    and stale: "tok \<noteq> tok2"
  shows "(\<exists>m. transition now' (j_attempt_id job) st err ex owner (Some tok) s1 = (Inl (QueueError m), s1)) \<and>
    (\<exists>m. refresh_lease now' (j_attempt_id job) w vt' (Some tok) s1 = (Inl (QueueError m), s1)) \<and>
    (\<exists>m. record_executor_crash now' (j_attempt_id job) msg owner (Some tok) s1 = (Inl (QueueError m), s1))"
proof -
  obtain r where "jobs_wf (jobs s1)" "attempt_row (jobs s1) (j_attempt_id job) = Some r"
    "j_lease_token r = Some tok2"
    using acquire_lease_token [OF wf acq] by blast
  then show ?thesis
    using stale transition_wrong_token [of s1 "j_attempt_id job" r tok]
      refresh_wrong_token [of s1 "j_attempt_id job" r tok] crash_wrong_token [of s1 "j_attempt_id job" r tok]
    by auto
qed

theorem stale_worker_fenced_witness:
  "\<exists>s1 m. snd (acquire_lease 6000 ''tok-2'' ''worker-1'' 30 (store_with [running_row])) = s1 \<and>
    transition 6001 ex_attempt ''SUCCEEDED'' None (Some ''RUNNING'') (Some ''worker-0'') (Some ''tok-1'') s1
      = (Inl (QueueError m), s1)"
  using stale_worker_fenced [OF _ acquire_expired, of "''tok-1''" 6001 "''SUCCEEDED''" None "Some ''RUNNING''" "Some ''worker-0''"]
  by (simp add: acquire_expired load_job_def with_transient_payload_def job_from_row_def
      job_record.truncate_def lease_row_def)

end
