(* ===== verification/Queue_Outcomes.thy ===== *)
theory Queue_Outcomes
  imports Queue_Correct
begin

text \<open>
  The outcome of each queue operation on a well-formed table, errors included: which
  transitions succeed, what a crash, a cancellation and a repeated assignment lead to,
  and which attempt of a build is the current one.
\<close>

section \<open>Transitions\<close>

text \<open>When the guards of \<open>transition\<close> let a row move, stated without the SQL.\<close>

definition may_transition ::
  "job_row \<Rightarrow> job_state \<Rightarrow> string option \<Rightarrow> string option \<Rightarrow> string option \<Rightarrow> bool" where
  "may_transition r st expected owner tok \<longleftrightarrow>
     expected \<in> {None, Some (state_str (j_state r))} \<and>
     owner \<in> {None, j_lease_owner r} \<and> tok \<in> {None, j_lease_token r} \<and>
     (if j_state r = st then expected = None \<and> owner = None \<and> tok = None
      else j_state r \<in> set (LEGAL_PREVIOUS_STATES st))"

text \<open>A condition that singles out one row of a keyed table.\<close>

lemma sql_update_one:
  assumes "distinct (map key rs)" and "r \<in> set rs" and "\<And>x. x \<in> set rs \<Longrightarrow> c x \<longleftrightarrow> x = r"
  shows "sql_update c f rs = sql_update (\<lambda>x. x = r) f rs" and "rowcount c rs = 1"
proof -
  show "sql_update c f rs = sql_update (\<lambda>x. x = r) f rs"
    using assms(3) by (auto simp: sql_update_def)
  have "c x \<longleftrightarrow> key x = key r \<and> True" if "x \<in> set rs" for x
    using that assms distinct_key_eq [OF assms(1)] by blast
  then have "rowcount c rs = rowcount (\<lambda>x. key x = key r \<and> True) rs"
    unfolding rowcount_def by (auto intro: arg_cong [of _ _ length] filter_cong)
  then show "rowcount c rs = 1"
    using rowcount_key [OF assms(1), of "key r" "\<lambda>_. True"] find_key_unique [OF assms(1,2)] by simp
qed

lemma attempt_row_update_one:
  assumes "distinct (map j_attempt_id rs)" and "r \<in> set rs" and "\<And>x. j_attempt_id (f x) = j_attempt_id x"
  shows "attempt_row (sql_update (\<lambda>x. x = r) f rs) (j_attempt_id r) = Some (f r)"
  using assms find_key_unique [OF assms(1,2)]
  by (simp add: attempt_row_find find_key_sql_update [of j_attempt_id f, OF assms(3)])

text \<open>
  \<open>transition\<close> decided case by case: with a known state name and attempt, it
  rewrites exactly that attempt's row when the expected state, owner and token match and
  the move is legal; a repeated move with no guard is a no-op; everything else, unknown
  attempts and state names included, raises \<open>QueueError\<close> and changes nothing.
\<close>

theorem transition_outcome:
  assumes wf: "jobs_wf (jobs s)"
  shows "case (state_of_str state, attempt_row (jobs s) a) of
      (Some st, Some r) \<Rightarrow>
        (let s' = s\<lparr>jobs := sql_update (\<lambda>x. x = r) (transition_row now st err) (jobs s)\<rparr> in
         if \<not> may_transition r st ex owner tok
         then \<exists>m. transition now a state err ex owner tok s = (Inl (QueueError m), s)
         else if j_state r = st then transition now a state err ex owner tok s = (Inr (load_job s r), s)
         else transition now a state err ex owner tok s = (Inr (load_job s' (transition_row now st err r)), s'))
    | _ \<Rightarrow> \<exists>m. transition now a state err ex owner tok s = (Inl (QueueError m), s)"
proof (cases "state_of_str state")
  case (Some st)
  show ?thesis
  proof (cases "attempt_row (jobs s) a")
    case row: (Some r)
    note dist = jobs_wf_distinct [OF wf]
    have r: "r \<in> set (jobs s)" "j_attempt_id r = a" using attempt_row_Some [OF row] by auto
    let ?c = "\<lambda>x. j_attempt_id x = a \<and> (j_state x = j_state r \<and>
                     sql_matches owner (j_lease_owner x) \<and> sql_matches tok (j_lease_token x))"
    define g1 g2 g3 where guards: "g1 \<longleftrightarrow> ex \<noteq> None \<and> Some (state_str (j_state r)) \<noteq> ex"
      "g2 \<longleftrightarrow> owner \<noteq> None \<and> j_lease_owner r \<noteq> owner" "g3 \<longleftrightarrow> tok \<noteq> None \<and> j_lease_token r \<noteq> tok"
    have may: "may_transition r st ex owner tok \<longleftrightarrow> \<not> g1 \<and> \<not> g2 \<and> \<not> g3 \<and>
        (if j_state r = st then ex = None \<and> owner = None \<and> tok = None
         else j_state r \<in> set (LEGAL_PREVIOUS_STATES st))"
      by (auto simp: may_transition_def guards)
    have c: "?c x \<longleftrightarrow> x = r" if "x \<in> set (jobs s)" "\<not> g2" "\<not> g3" for x
      using that r distinct_key_eq [OF dist that(1) r(1)] by (auto simp: guards sql_matches_def)
    have "attempt_row (sql_update (\<lambda>x. x = r) (transition_row now st err) (jobs s)) a =
        Some (transition_row now st err r)"
      using attempt_row_update_one [OF dist r(1), of "transition_row now st err"] r(2) by simp
    moreover note sql_update_one [OF dist r(1) c]
    ultimately show ?thesis
      unfolding transition_def Some row prod.case option.case Let_def may guards [symmetric] by simp
  qed (use Some in \<open>simp add: transition_def\<close>)
qed (simp add: transition_def)

theorem transition_outcome_witness:
  "transition 300 ex_attempt ''SUCCEEDED'' None (Some ''RUNNING'') (Some ''worker-0'') (Some ''tok-1'')
      (store_with [running_row]) =
    (Inr (load_job (store_with [transition_row 300 SUCCEEDED None running_row])
        (transition_row 300 SUCCEEDED None running_row)),
     store_with [transition_row 300 SUCCEEDED None running_row])"
proof -
  have "state_of_str ''SUCCEEDED'' = Some SUCCEEDED"
    using state_of_str_state_str [of SUCCEEDED] by (simp add: state_str_def)
  moreover have "attempt_row [running_row] ex_attempt = Some running_row"
    by (simp add: attempt_row_def)
  moreover have "may_transition running_row SUCCEEDED (Some ''RUNNING'') (Some ''worker-0'') (Some ''tok-1'')"
    by (simp add: may_transition_def state_str_def LEGAL_PREVIOUS_STATES_def)
  ultimately show ?thesis
    using transition_outcome [where s = "store_with [running_row]" and now = 300 and err = None
        and ex = "Some ''RUNNING''" and owner = "Some ''worker-0''" and tok = "Some ''tok-1''"
        and a = ex_attempt and state = "''SUCCEEDED''"]
    by (simp add: Let_def sql_update_def store_with_def)
qed

section \<open>Assignments\<close>

lemma insert_job_new: "attempt_row rs a = None \<Longrightarrow> insert_job now b a p rs = rs @ [new_job_row now b a p rs]"
  and insert_job_old: "attempt_row rs a = Some r \<Longrightarrow> insert_job now b a p rs = rs"
  by (simp_all add: insert_job_def)

lemma new_job_row_ids [simp]:
  "j_attempt_id (new_job_row now b a p rs) = a" "j_build_job_id (new_job_row now b a p rs) = b"
  "j_payload (new_job_row now b a p rs) = stored_payload (durable_payload p)"
  "j_state (new_job_row now b a p rs) = QUEUED" "j_rowid (new_job_row now b a p rs) = next_rowid rs"
  by (simp_all add: new_job_row_def)

lemma job_row_of_new:
  "attempt_row rs a = None \<Longrightarrow> job_row_of (rs @ [new_job_row now b a p rs]) b a = Some (new_job_row now b a p rs)"
proof -
  assume "attempt_row rs a = None"
  then have "filter (\<lambda>r. j_build_job_id r = b \<and> j_attempt_id r = a) rs = []"
    by (auto simp: attempt_row_None filter_empty_conv)
  then show ?thesis by (simp add: job_row_of_def)
qed

lemma load_job_payload:
  "j_payload (load_job s r) = (case transient_payloads s (j_attempt_id r) of None \<Rightarrow> j_payload r | Some p \<Rightarrow> p)"
  by (simp add: load_job_def with_transient_payload_def job_from_row_def job_record.truncate_def
      split: option.splits)

text \<open>What the engine keeps of an assignment it had not seen before.\<close>

lemma enqueue_new:
  assumes "assigns p b a" and new: "attempt_row (jobs s) a = None"
  shows "enqueue now p s =
    (let row = new_job_row now b a p (jobs s);
         s' = s\<lparr>transient_payloads := (case transient_payloads s a of
                    None \<Rightarrow> (transient_payloads s)(a \<mapsto> p) | Some _ \<Rightarrow> transient_payloads s),
                  jobs := jobs s @ [row]\<rparr>
     in (Inr \<lparr>enq_job = load_job s' row, enq_inserted = True\<rparr>, s'))"
  using job_row_of_new [OF new] new by (simp add: enqueue_assigns [OF assms(1)] insert_job_new Let_def)

lemma enqueue_again:
  assumes as: "assigns p b a" and row: "job_row_of (jobs s) b a = Some r"
    and "transient_payloads s a = Some q" and "attempt_row (jobs s) a \<noteq> None"
  shows "enqueue now p s = (Inr \<lparr>enq_job = load_job s r, enq_inserted = False\<rparr>, s)"
  using assms by (auto simp: enqueue_assigns Let_def insert_job_def)

text \<open>
  Redelivery of an assignment is harmless: enqueueing the same attempt a second time,
  later and whatever else its payload says, reports \<open>inserted = False\<close> with the job as it
  was first recorded and leaves the whole store as it is.
\<close>

theorem enqueue_idempotent:
  assumes p: "assigns p b a" and q: "assigns q b a"
    and first: "enqueue now p s = (Inr res, s')"
  shows "enqueue later q s' = (Inr \<lparr>enq_job = enq_job res, enq_inserted = False\<rparr>, s')"
proof -
  obtain r where r: "job_row_of (jobs s') b a = Some r" "enq_job res = load_job s' r"
    using first by (auto simp: enqueue_assigns [OF p] Let_def split: option.splits)
  moreover have "transient_payloads s' a \<noteq> None"
    using first by (auto simp: enqueue_assigns [OF p] Let_def split: option.splits)
  moreover have "attempt_row (jobs s') a \<noteq> None"
    using job_row_of_Some [OF r(1)] by (auto simp: attempt_row_None)
  ultimately show ?thesis using enqueue_again [OF q r(1)] by auto
qed

text \<open>
  A new assignment is recorded once, \<open>QUEUED\<close>, as the newest row, with nothing of it
  on disk that expires or is secret: the stored payload has the other fields only, while
  the job handed to the worker still carries the whole payload.
\<close>

theorem enqueue_stores_no_secrets:
  assumes p: "assigns p b a" and new: "attempt_row (jobs s) a = None" "transient_payloads s a = None"
  shows "\<exists>row s'. enqueue now p s = (Inr \<lparr>enq_job = load_job s' row, enq_inserted = True\<rparr>, s') \<and>
    jobs s' = jobs s @ [row] \<and> j_state row = QUEUED \<and> j_payload (load_job s' row) = p \<and>
    fst ` set (j_payload row) = fst ` set p - {''secrets'', ''source_download_url'', ''secret_env''}"
proof -
  have "fst ` set (j_payload (new_job_row now b a p (jobs s))) =
      fst ` set p - {''secrets'', ''source_download_url'', ''secret_env''}"
    using durable_payload_keys [of _ p] by (auto simp: stored_payload_keys transient_keys_def)
  then show ?thesis
    using new by (auto simp: enqueue_new [OF p new(1)] Let_def load_job_payload)
qed

lemma ex_assigns [simp]: "assigns ex_payload ex_build ex_attempt"
  by (simp add: assigns_def ex_payload_def jget_def)

theorem enqueue_idempotent_witness:
  "\<exists>res s'. enqueue 100 ex_payload empty_store = (Inr res, s') \<and>
    enqueue 200 ex_payload s' = (Inr \<lparr>enq_job = enq_job res, enq_inserted = False\<rparr>, s')"
proof -
  have "\<exists>res s'. enqueue 100 ex_payload empty_store = (Inr res, s')"
    by (simp add: enqueue_new [OF ex_assigns] empty_store_def attempt_row_def Let_def)
  then show ?thesis using enqueue_idempotent [OF ex_assigns ex_assigns] by blast
qed

theorem enqueue_stores_no_secrets_witness:
  "\<exists>row s'. enqueue 100 ex_payload empty_store = (Inr \<lparr>enq_job = load_job s' row, enq_inserted = True\<rparr>, s') \<and>
    j_payload (load_job s' row) = ex_payload \<and> fst ` set (j_payload row) = {''build_job_id'', ''attempt_id''}"
proof -
  have "fst ` set ex_payload - {''secrets'', ''source_download_url'', ''secret_env''} =
      {''build_job_id'', ''attempt_id''}"
    by (auto simp: ex_payload_def)
  moreover have "attempt_row (jobs empty_store) ex_attempt = None" "transient_payloads empty_store ex_attempt = None"
    by (simp_all add: empty_store_def attempt_row_def)
  ultimately show ?thesis
    using enqueue_stores_no_secrets [OF ex_assigns, of empty_store 100] by metis
qed

section \<open>Crashes\<close>

text \<open>
  A crash reported by the lease holder gives the attempt back to the queue until its
  third local run, and then fails it and parks it in the dead-letter table with its
  durable payload, the error and the number of runs; no other row changes.
\<close>

theorem crash_outcome:
  assumes wf: "jobs_wf (jobs s)" and row: "attempt_row (jobs s) a = Some r" and own: "owned_active owner tok r"
  defines "st \<equiv> if j_attempts r < 3 then QUEUED else FAILED"
  shows "record_executor_crash now a err owner tok s =
    (let s' = s\<lparr>jobs := sql_update (\<lambda>x. x = r) (crash_row now st err) (jobs s),
        dlq := (if j_attempts r < 3 then dlq s else insert_dlq
          \<lparr>dl_build_job_id = j_build_job_id r, dl_attempt_id = a, dl_payload = j_payload r,
           dl_error = err, dl_attempts = j_attempts r, dl_created_at = now\<rparr> (dlq s))\<rparr>
     in (Inr (load_job s' (crash_row now st err r)), s'))"
proof -
  note dist = jobs_wf_distinct [OF wf]
  let ?c = "\<lambda>x. j_attempt_id x = a \<and> owned_active owner tok x"
  have r: "r \<in> set (jobs s)" "j_attempt_id r = a" using attempt_row_Some [OF row] by auto
  have c: "?c x \<longleftrightarrow> x = r" if "x \<in> set (jobs s)" for x
    using that r own distinct_key_eq [OF dist that r(1)] by auto
  have "fetchone (filter ?c (jobs s)) = Some r"
  proof -
    have "filter ?c (jobs s) = filter (\<lambda>x. x = r) (jobs s)" using c by (auto intro: filter_cong)
    then have "set (filter ?c (jobs s)) = {r}" using r(1) by auto
    then show ?thesis by (cases "filter ?c (jobs s)") auto
  qed
  moreover have "attempt_row (sql_update (\<lambda>x. x = r) (crash_row now st err) (jobs s)) a = Some (crash_row now st err r)" for st
    using attempt_row_update_one [OF dist r(1), of "crash_row now st err"] r(2) by simp
  moreover note sql_update_one(1) [OF dist r(1) c]
  moreover have "load_job (s\<lparr>dlq := d, jobs := rs\<rparr>) = load_job (s\<lparr>jobs := rs, dlq := d\<rparr>)" for d rs
    by (simp add: fun_eq_iff load_job_def with_transient_payload_def)
  ultimately show ?thesis
    by (simp add: record_executor_crash_def Let_def MAX_LOCAL_CRASHES_def st_def r(2))
qed

theorem crash_outcome_witness:
  "j_attempts running_row < 3 \<and>
   record_executor_crash 300 ex_attempt ''boom'' (Some ''worker-0'') (Some ''tok-1'') (store_with [running_row]) =
    (Inr (load_job (store_with [crash_row 300 QUEUED ''boom'' running_row]) (crash_row 300 QUEUED ''boom'' running_row)),
     store_with [crash_row 300 QUEUED ''boom'' running_row])"
  using crash_outcome [of "store_with [running_row]" ex_attempt running_row "Some ''worker-0''" "Some ''tok-1''" 300 "''boom''"]
  by (simp add: attempt_row_def owned_active_def sql_matches_def Let_def sql_update_def store_with_def)

section \<open>Cancellation\<close>

lemma load_job_ids [simp]:
  "j_build_job_id (load_job s r) = j_build_job_id r" "j_attempt_id (load_job s r) = j_attempt_id r"
  "j_state (load_job s r) = j_state r" "j_lease_token (load_job s r) = j_lease_token r"
  "j_lease_owner (load_job s r) = j_lease_owner r"
  by (simp_all add: load_job_def with_transient_payload_def job_from_row_def job_record.truncate_def
      split: option.splits)

lemma flag_cancel_cols [simp]:
  "j_cancel_requested (flag_cancel now r)" "j_build_job_id (flag_cancel now r) = j_build_job_id r"
  "j_attempt_id (flag_cancel now r) = j_attempt_id r" "j_state (flag_cancel now r) = j_state r"
  "leasable t (flag_cancel now r) = leasable t r"
  by (simp_all add: flag_cancel_def leasable_def)

lemma request_cancel_build:
  assumes "request_cancel now b None s = (res, s')"
  shows "set (jobs s') = (\<lambda>r. if j_build_job_id r = b \<and> \<not> terminal (j_state r) then flag_cancel now r else r)
    ` set (jobs s)"
  using assms by (auto simp: request_cancel_def Let_def set_sql_update)

lemma request_cancel_build_flagged:
  assumes "request_cancel now b None s = (res, s')" and "r' \<in> set (jobs s')"
    and "leasable t r'" and "j_build_job_id r' = b"
  shows "j_cancel_requested r'"
proof -
  obtain r where "r' = (if j_build_job_id r = b \<and> \<not> terminal (j_state r) then flag_cancel now r else r)"
    using assms(2) unfolding request_cancel_build [OF assms(1)] by blast
  then show ?thesis using assms(3,4) leasable_not_terminal [OF assms(3)] by (auto split: if_splits)
qed

text \<open>
  A cancelled build is not started: after \<open>request_cancel\<close> for a build,
  \<open>acquire_lease\<close> never hands out one of its attempts; and when it has nothing to hand
  out, every attempt of the build that was waiting or abandoned is \<open>CANCELLED\<close>.
\<close>

theorem cancelled_build_not_leased:
  assumes wf: "jobs_wf (jobs s)"
    and cancel: "request_cancel now b None s = (Inr ids, s1)"
    and acq: "acquire_lease later tok owner vt s1 = (Inr res, s2)"
  shows "case res of
      Some job \<Rightarrow> j_build_job_id job \<noteq> b
    | None \<Rightarrow> \<forall>r \<in> set (jobs s). j_build_job_id r = b \<and> leasable later r \<longrightarrow>
        (\<exists>r' \<in> set (jobs s2). j_attempt_id r' = j_attempt_id r \<and> j_state r' = CANCELLED)"
proof -
  have wf1: "jobs_wf (jobs s1)" using request_cancel_effect [OF cancel] wf table_evolves_wf by blast
  note dist = jobs_wf_distinct [OF wf1]
  show ?thesis
    using wf1
  proof (cases rule: acquire_lease_cases [of s1 later tok owner vt])
    case (1 rs)
    have all: "list_all2 (settled later) (jobs s1) rs" "jobs s2 = rs"
      using acquire_loop_settled [OF dist, of later] 1 acq by auto
    have "\<exists>r' \<in> set rs. j_attempt_id r' = j_attempt_id r \<and> j_state r' = CANCELLED"
      if r: "r \<in> set (jobs s)" "j_build_job_id r = b" "leasable later r" for r
    proof -
      have "flag_cancel now r \<in> set (jobs s1)"
        unfolding request_cancel_build [OF cancel]
        using r leasable_not_terminal [OF r(3)] by (auto intro!: image_eqI [of _ _ r])
      then obtain r' where r': "r' \<in> set rs" "settled later (flag_cancel now r) r'"
        using list_all2_left [OF all(1)] by blast
      moreover have "\<not> leasable later r'" using acquire_loop_None [OF dist 1(1)] r'(1) by blast
      ultimately have "r' = cancel_row later (flag_cancel now r)" using r(3) by (auto simp: settled_def)
      then have "j_attempt_id r' = j_attempt_id r \<and> j_state r' = CANCELLED"
        by (simp add: cancel_row_def)
      then show ?thesis using r'(1) by blast
    qed
    then show ?thesis using 1 acq all(2) by auto
  next
    case (2 rs r s')
    have "j_build_job_id r \<noteq> b"
      using acquire_loop_Some [OF dist 2(1)] request_cancel_build_flagged [OF cancel] by blast
    then show ?thesis using 2 acq by auto
  qed
qed

theorem cancelled_build_not_leased_witness:
  "\<exists>ids s1 s2. request_cancel 200 ex_build None (store_with [queued_row]) = (Inr ids, s1) \<and>
     acquire_lease 300 ''tok-1'' ''worker-0'' 30 s1 = (Inr None, s2) \<and>
     (\<exists>r' \<in> set (jobs s2). j_attempt_id r' = ex_attempt \<and> j_state r' = CANCELLED)"
proof -
  let ?s1 = "store_with [flag_cancel 200 queued_row]"
  let ?s2 = "store_with [cancel_row 300 (flag_cancel 200 queued_row)]"
  have c: "request_cancel 200 ex_build None (store_with [queued_row]) = (Inr [ex_attempt], ?s1)"
    by (simp add: request_cancel_def Let_def sql_update_def store_with_def)
  have a: "acquire_lease 300 ''tok-1'' ''worker-0'' 30 ?s1 = (Inr None, ?s2)"
    by (simp add: acquire_eval flag_cancel_def cancel_row_def store_with_def)
  show ?thesis
    using cancelled_build_not_leased [OF _ c a] c a by (simp add: leasable_def)
qed

section \<open>The current attempt of a build\<close>

lemma sorted_rowid_last:
  assumes "sorted_wrt (<) (map j_rowid rs)" and "r \<in> set rs"
  shows "(\<forall>x \<in> set rs. \<not> j_rowid r < j_rowid x) \<longleftrightarrow> r = last rs"
proof -
  obtain ys zs where rs: "rs = ys @ r # zs" using assms(2) by (auto dest: split_list)
  then show ?thesis using assms(1)
    by (cases zs rule: rev_cases) (auto simp: sorted_wrt_append)
qed

text \<open>
  \<open>is_current_attempt\<close> answers for every known attempt, and says yes exactly for the
  last one of its build to have been recorded; it raises for an unknown attempt.
\<close>

theorem is_current_attempt_last:
  assumes wf: "jobs_wf (jobs s)"
  shows "is_current_attempt s b a =
    (case job_row_of (jobs s) b a of
       None \<Rightarrow> Inl (QueueError ''Cannot check freshness for unknown attempt'')
     | Some r \<Rightarrow> Inr (j_attempt_id (last (filter (\<lambda>x. j_build_job_id x = b) (jobs s))) = a))"
proof (cases "job_row_of (jobs s) b a")
  case (Some r)
  let ?rs = "filter (\<lambda>x. j_build_job_id x = b) (jobs s)"
  have r: "r \<in> set ?rs" "j_attempt_id r = a" using job_row_of_Some [OF Some] by auto
  have "sorted_wrt (<) (map j_rowid ?rs)" "distinct (map j_attempt_id ?rs)"
    using wf by (auto simp: jobs_wf_def sorted_wrt_map sorted_wrt_filter distinct_map_filter)
  then have "(\<forall>x \<in> set ?rs. \<not> j_rowid r < j_rowid x) \<longleftrightarrow> j_attempt_id (last ?rs) = a"
    using sorted_rowid_last [of ?rs r] r distinct_key_eq [of j_attempt_id ?rs "last ?rs" r]
      last_in_set [of ?rs] by (cases "?rs = []") auto
  moreover have "filter (\<lambda>x. j_build_job_id x = b \<and> j_rowid x > j_rowid r) (jobs s) = [] \<longleftrightarrow>
      (\<forall>x \<in> set ?rs. \<not> j_rowid r < j_rowid x)"
    by (auto simp: filter_empty_conv)
  ultimately show ?thesis using Some by (simp add: is_current_attempt_def)
qed (simp add: is_current_attempt_def)

theorem is_current_attempt_last_witness:
  "is_current_attempt (store_with [running_row]) ex_build ex_attempt = Inr True"
  using is_current_attempt_last [of "store_with [running_row]" ex_build ex_attempt]
  by (simp add: job_row_of_def)

section \<open>Schema\<close>

text \<open>The database is one this version can work with.\<close>

definition schema_ready :: "schema \<Rightarrow> bool" where
  "schema_ready db \<longleftrightarrow> user_version db = SCHEMA_VERSION \<and> has_events db \<and> has_dlq db \<and>
     (case jobs_columns db of None \<Rightarrow> False
      | Some cs \<Rightarrow> ''lease_token'' \<in> set cs \<and> ''cancel_requested'' \<in> set cs)"

text \<open>A database that an earlier release of the engine left behind, or none at all.\<close>

definition schema_known :: "schema \<Rightarrow> bool" where
  "schema_known db \<longleftrightarrow> user_version db < 1 \<or>
     (user_version db = 1 \<and> jobs_columns db \<noteq> None \<and> has_events db \<and> has_dlq db) \<or> schema_ready db"

lemma migrate_to_v2_adds:
  assumes "jobs_columns db = Some cs"
  shows "\<exists>cs'. migrate_to_v2 db = Inr (db\<lparr>jobs_columns := Some cs'\<rparr>) \<and> set cs \<subseteq> set cs' \<and>
    ''lease_token'' \<in> set cs' \<and> ''cancel_requested'' \<in> set cs'"
  using assms unfolding migrate_to_v2_def add_column_def Let_def
  by (cases "''lease_token'' \<in> set cs"; cases "''cancel_requested'' \<in> set cs")
    (auto intro: exI [of _ cs])

lemma create_v1_schema_tables:
  "has_events (create_v1_schema db) \<and> has_dlq (create_v1_schema db) \<and>
   (\<exists>cs. jobs_columns (create_v1_schema db) = Some cs \<and>
      set (case jobs_columns db of None \<Rightarrow> [] | Some cs \<Rightarrow> cs) \<subseteq> set cs)"
  by (auto simp: create_v1_schema_def split: option.splits)

lemma initialize_migrates:
  assumes "user_version db \<le> 1"
    and t: "t = (if user_version db = 1 then db else create_v1_schema db)"
    and cs: "jobs_columns t = Some cs" and "has_events t" "has_dlq t"
  shows "\<exists>db' cs'. initialize db = Inr db' \<and> schema_ready db' \<and> jobs_columns db' = Some cs' \<and> set cs \<subseteq> set cs'"
proof -
  obtain cs' where "migrate_to_v2 t = Inr (t\<lparr>jobs_columns := Some cs'\<rparr>)" "set cs \<subseteq> set cs'"
    "''lease_token'' \<in> set cs'" "''cancel_requested'' \<in> set cs'"
    using migrate_to_v2_adds [OF cs] by blast
  then show ?thesis
    using assms by (cases "user_version db = 1") (simp_all add: initialize_def schema_ready_def)
qed

lemma initialize_again: "schema_ready db \<Longrightarrow> initialize db = Inr db"
  by (simp add: initialize_def schema_ready_def SCHEMA_VERSION_def)

text \<open>
  Opening a database left by any earlier release, or none, succeeds and leaves it at
  schema version 2 with every table and the lease and cancellation columns; columns that
  were there stay; opening it again changes nothing; a newer schema is refused.
\<close>

theorem initialize_ready:
  "(schema_known db \<longrightarrow> (\<exists>db'. initialize db = Inr db' \<and> schema_ready db' \<and> initialize db' = Inr db' \<and>
      set (case jobs_columns db of None \<Rightarrow> [] | Some cs \<Rightarrow> cs) \<subseteq> set (the (jobs_columns db')))) \<and>
   (SCHEMA_VERSION < user_version db \<longrightarrow> (\<exists>m. initialize db = Inl (QueueError m)))"
proof (intro conjI impI)
  assume known: "schema_known db"
  let ?t = "if user_version db = 1 then db else create_v1_schema db"
  show "\<exists>db'. initialize db = Inr db' \<and> schema_ready db' \<and> initialize db' = Inr db' \<and>
      set (case jobs_columns db of None \<Rightarrow> [] | Some cs \<Rightarrow> cs) \<subseteq> set (the (jobs_columns db'))"
  proof (cases "schema_ready db")
    case True
    then show ?thesis using initialize_again [OF True] by (auto simp: schema_ready_def split: option.splits)
  next
    case False
    then have "user_version db \<le> 1" "has_events ?t" "has_dlq ?t"
      using known create_v1_schema_tables [of db] by (auto simp: schema_known_def)
    moreover obtain cs where "jobs_columns ?t = Some cs"
      "set (case jobs_columns db of None \<Rightarrow> [] | Some cs \<Rightarrow> cs) \<subseteq> set cs"
      using False known create_v1_schema_tables [of db] by (auto simp: schema_known_def)
    ultimately show ?thesis
      using initialize_migrates [of db ?t cs] initialize_again by fastforce
  qed
qed (simp add: initialize_def SCHEMA_VERSION_def)

theorem initialize_ready_witness:
  "\<exists>db'. initialize \<lparr>user_version = 1, jobs_columns = Some [''build_job_id'', ''attempt_id''],
      has_events = True, has_dlq = True\<rparr> = Inr db' \<and> schema_ready db'"
  using initialize_ready [of "\<lparr>user_version = 1, jobs_columns = Some [''build_job_id'', ''attempt_id''],
      has_events = True, has_dlq = True\<rparr>"]
  by (auto simp: schema_known_def)

end
