(* ===== verification/Protocol.thy ===== *)
theory Protocol
  imports Uuid
begin

text \<open>
  The WSS protocol v2 envelope (\<open>agent/protocol.py\<close>): validation of decoded frames,
  construction and encoding of outbound envelopes, and the payload readers of the uplink.

  The \<open>datetime\<close> module enters as a \<open>clock\<close>: the current instant in microseconds since
  the epoch, \<open>isoformat(timespec="milliseconds")\<close> with the \<open>Z\<close> suffix, and
  \<open>fromisoformat\<close>, which yields the instant and whether the text carried a time zone.
  One operation reads the clock once. The message for an unsupported version keeps the
  literal text of the source without the interpolated value.
\<close>

section \<open>Constants\<close>

definition PROTOCOL_VERSION :: int where "PROTOCOL_VERSION = 2"
definition MAX_FRAME_BYTES :: nat where "MAX_FRAME_BYTES = 1048576"
definition MAX_LOG_DATA_BYTES :: nat where "MAX_LOG_DATA_BYTES = 65536"
definition MAX_TIMESTAMP_SKEW :: int where "MAX_TIMESTAMP_SKEW = 5 * 60 * 1000000"
definition ZERO_ENGINE_ID :: string where
  "ZERO_ENGINE_ID = ''00000000-0000-0000-0000-000000000000''"

definition INBOUND_MESSAGE_TYPES :: "string list" where
  "INBOUND_MESSAGE_TYPES =
     [''welcome'', ''job.assign'', ''job.cancel'', ''cache.reset'', ''drain'', ''ping'', ''event.ack'']"

definition OUTBOUND_MESSAGE_TYPES :: "string list" where
  "OUTBOUND_MESSAGE_TYPES =
     [''hello'', ''attempt.status'', ''attempt.log'', ''artifact.ready'', ''error'', ''heartbeat'', ''pong'']"

definition ALL_MESSAGE_TYPES :: "string list" where
  "ALL_MESSAGE_TYPES = INBOUND_MESSAGE_TYPES @ OUTBOUND_MESSAGE_TYPES"

record clock =
  clk_now :: int
  clk_fmt :: "int \<Rightarrow> string"
  clk_iso :: "string \<Rightarrow> (int \<times> bool) option"

section \<open>Envelopes\<close>

record envelope =
  env_v :: json
  env_id :: string
  env_type :: string
  env_ts :: string
  env_payload :: payload
  env_engine_id :: string
  env_build_job_id :: "string option"
  env_attempt_id :: "string option"
  env_seq :: "int option"

definition opt_field :: "string \<Rightarrow> ('a \<Rightarrow> json) \<Rightarrow> 'a option \<Rightarrow> payload" where
  "opt_field k f x = (case x of None \<Rightarrow> [] | Some y \<Rightarrow> [(k, f y)])"

definition to_dict :: "envelope \<Rightarrow> payload" where
  "to_dict e =
     [(''v'', env_v e), (''id'', JStr (env_id e)), (''type'', JStr (env_type e)),
      (''ts'', JStr (env_ts e)), (''engine_id'', JStr (env_engine_id e)),
      (''payload'', JObj (env_payload e))] @
     opt_field ''build_job_id'' JStr (env_build_job_id e) @
     opt_field ''attempt_id'' JStr (env_attempt_id e) @
     opt_field ''seq'' JInt (env_seq e)"

definition to_json :: "envelope \<Rightarrow> string result" where
  "to_json e =
     (let encoded = json_dumps (JObj (to_dict e)) in
      if MAX_FRAME_BYTES < length encoded then Inl (ProtocolError ''Frame exceeds 1 MiB'')
      else Inr encoded)"

section \<open>Validation\<close>

definition require_uuid :: "json \<Rightarrow> string \<Rightarrow> unit result" where
  "require_uuid value label =
     (case value of
        JStr s \<Rightarrow>
          (case uuid_parse s of
             None \<Rightarrow> Inl (ProtocolError (label @ '' must be a UUID string''))
           | Some n \<Rightarrow>
               if uuid_str n \<noteq> s
               then Inl (ProtocolError (label @ '' must be a canonical UUID string'')) else Inr ())
      | _ \<Rightarrow> Inl (ProtocolError (label @ '' must be a UUID string'')))"

definition parse_timestamp :: "clock \<Rightarrow> string \<Rightarrow> int result" where
  "parse_timestamp clk value =
     (case clk_iso clk (py_replace ''Z'' ''+00:00'' value) of
        None \<Rightarrow> Inl (ProtocolError ''Envelope ts must be an ISO datetime'')
      | Some (t, has_tz) \<Rightarrow>
          if has_tz then Inr t
          else Inl (ProtocolError ''Envelope ts must include timezone information''))"

definition format_timestamp :: "clock \<Rightarrow> int \<Rightarrow> string" where
  "format_timestamp clk t = clk_fmt clk t"

definition envelope_fields :: "string list" where
  "envelope_fields = [''v'', ''id'', ''type'', ''ts'', ''engine_id'', ''build_job_id'',
     ''attempt_id'', ''seq'', ''payload'']"

definition required_fields :: "string list" where
  "required_fields = [''v'', ''id'', ''type'', ''ts'', ''engine_id'', ''payload'']"

text \<open>\<open>data[k]\<close> for a key whose presence was checked.\<close>

definition jfield :: "payload \<Rightarrow> string \<Rightarrow> json" where
  "jfield d k = (case jget d k of Some x \<Rightarrow> x | None \<Rightarrow> JNull)"

definition check_type :: "string list option \<Rightarrow> json \<Rightarrow> string result" where
  "check_type allowed_types x =
     (case x of
        JStr t \<Rightarrow>
          (let allowed = (case allowed_types of
               None \<Rightarrow> ALL_MESSAGE_TYPES | Some [] \<Rightarrow> ALL_MESSAGE_TYPES | Some ts \<Rightarrow> ts)
           in if t \<in> set allowed then Inr t else Inl (ProtocolError (''Unknown message type: '' @ t)))
      | _ \<Rightarrow> Inl (ProtocolError ''Envelope type must be a string''))"

definition check_ts :: "clock \<Rightarrow> json \<Rightarrow> unit result" where
  "check_ts clk x =
     (case x of
        JStr s \<Rightarrow>
          rbind (parse_timestamp clk s) (\<lambda>timestamp.
            if timestamp < clk_now clk - MAX_TIMESTAMP_SKEW \<or> timestamp > clk_now clk + MAX_TIMESTAMP_SKEW
            then Inl (ProtocolError ''Envelope ts is outside the accepted clock-skew window'')
            else Inr ())
      | _ \<Rightarrow> Inl (ProtocolError ''Envelope ts must be a string''))"

definition check_optional_uuid :: "payload \<Rightarrow> string \<Rightarrow> unit result" where
  "check_optional_uuid d k =
     (if jhas d k then require_uuid (jfield d k) (''Envelope '' @ k) else Inr ())"

definition check_seq :: "payload \<Rightarrow> unit result" where
  "check_seq d =
     (case jget d ''seq'' of
        None \<Rightarrow> Inr ()
      | Some (JInt n) \<Rightarrow>
          if n < 0 then Inl (ProtocolError ''Envelope seq must be a non-negative integer'')
          else if jget_opt d ''attempt_id'' = None
          then Inl (ProtocolError ''Envelope seq requires attempt_id'') else Inr ()
      | Some _ \<Rightarrow> Inl (ProtocolError ''Envelope seq must be a non-negative integer''))"

definition check_log :: "string \<Rightarrow> payload \<Rightarrow> unit result" where
  "check_log t p =
     (if t = ''attempt.log'' then
        (case jget p ''data'' of
           Some (JStr s) \<Rightarrow>
             if MAX_LOG_DATA_BYTES < length s then Inl (ProtocolError ''Log payload exceeds 64 KiB'')
             else Inr ()
         | _ \<Rightarrow> Inr ())
      else Inr ())"

definition check_payload :: "json \<Rightarrow> payload result" where
  "check_payload x = (case x of
      JObj p \<Rightarrow> Inr p
    | _ \<Rightarrow> Inl (ProtocolError ''Envelope payload must be an object''))"

definition validate_envelope :: "clock \<Rightarrow> string list option \<Rightarrow> json \<Rightarrow> payload result" where
  "validate_envelope clk allowed_types raw =
     (case raw of
        JObj d \<Rightarrow>
          rbind (ensure (filter (\<lambda>k. k \<notin> set envelope_fields) (map fst d) = [])
            (ProtocolError (''Envelope contains unknown fields: '' @
               join '', '' (sort (filter (\<lambda>k. k \<notin> set envelope_fields) (map fst d)))))) (\<lambda>_.
          rbind (ensure (filter (\<lambda>k. \<not> jhas d k) required_fields = [])
            (ProtocolError (''Envelope missing required fields: '' @
               join '', '' (filter (\<lambda>k. \<not> jhas d k) required_fields)))) (\<lambda>_.
          rbind (ensure (py_eq_int (jfield d ''v'') PROTOCOL_VERSION)
            (ProtocolError ''Unsupported protocol version: '')) (\<lambda>_.
          rbind (require_uuid (jfield d ''id'') ''Envelope id'') (\<lambda>_.
          rbind (check_type allowed_types (jfield d ''type'')) (\<lambda>t.
          rbind (check_ts clk (jfield d ''ts'')) (\<lambda>_.
          rbind (require_uuid (jfield d ''engine_id'') ''Envelope engine_id'') (\<lambda>_.
          rbind (check_payload (jfield d ''payload'')) (\<lambda>p.
          rbind (check_optional_uuid d ''build_job_id'') (\<lambda>_.
          rbind (check_optional_uuid d ''attempt_id'') (\<lambda>_.
          rbind (check_seq d) (\<lambda>_.
          rbind (check_log t p) (\<lambda>_. Inr d))))))))))))
      | _ \<Rightarrow> Inl (ProtocolError ''Envelope must be a JSON object''))"

definition str_of :: "json \<Rightarrow> string" where
  "str_of x = (case x of JStr s \<Rightarrow> s | _ \<Rightarrow> [])"

definition obj_of :: "json \<Rightarrow> payload" where
  "obj_of x = (case x of JObj p \<Rightarrow> p | _ \<Rightarrow> [])"

definition int_of :: "json \<Rightarrow> int" where
  "int_of x = (case x of JInt i \<Rightarrow> i | _ \<Rightarrow> 0)"

definition envelope_of :: "payload \<Rightarrow> envelope" where
  "envelope_of d =
     \<lparr>env_v = jfield d ''v'', env_id = str_of (jfield d ''id''), env_type = str_of (jfield d ''type''),
      env_ts = str_of (jfield d ''ts''), env_payload = obj_of (jfield d ''payload''),
      env_engine_id = str_of (jfield d ''engine_id''),
      env_build_job_id = map_option str_of (jget d ''build_job_id''),
      env_attempt_id = map_option str_of (jget d ''attempt_id''),
      env_seq = map_option int_of (jget d ''seq'')\<rparr>"

definition envelope_from_mapping :: "clock \<Rightarrow> string list option \<Rightarrow> json \<Rightarrow> envelope result" where
  "envelope_from_mapping clk allowed_types raw =
     rbind (validate_envelope clk allowed_types raw) (\<lambda>data. Inr (envelope_of data))"

section \<open>Frames\<close>

datatype frame = Text string | Bytes string

definition frame_text :: "frame \<Rightarrow> string result" where
  "frame_text f = (case f of
      Bytes b \<Rightarrow>
        if MAX_FRAME_BYTES < length b then Inl (ProtocolError ''Frame exceeds 1 MiB'')
        else if \<not> valid_utf8 b then Inl (ProtocolError ''Frame is not valid UTF-8'')
        else Inr b
    | Text s \<Rightarrow>
        if MAX_FRAME_BYTES < length s then Inl (ProtocolError ''Frame exceeds 1 MiB'') else Inr s)"

definition decode_frame :: "clock \<Rightarrow> string list option \<Rightarrow> frame \<Rightarrow> envelope result" where
  "decode_frame clk allowed_types f =
     rbind (frame_text f) (\<lambda>text.
       case json_loads text of
         Inl JSONDecodeError \<Rightarrow> Inl (ProtocolError ''Frame is not valid JSON'')
       | Inl IntTooLong \<Rightarrow> Inl (ValueError ''Exceeds the limit for integer string conversion'')
       | Inr raw \<Rightarrow> envelope_from_mapping clk allowed_types raw)"

text \<open>\<open>new_envelope\<close>: \<open>fresh\<close> is the value of \<open>uuid.uuid4()\<close>, drawn when no message id is given.\<close>

definition new_envelope ::
  "clock \<Rightarrow> string \<Rightarrow> string \<Rightarrow> payload \<Rightarrow> string \<Rightarrow> string option \<Rightarrow> string option \<Rightarrow> int option \<Rightarrow>
   string option \<Rightarrow> envelope result" where
  "new_envelope clk fresh message_type p engine_id build_job_id attempt_id seq message_id =
     (let e = \<lparr>env_v = JInt PROTOCOL_VERSION,
               env_id = (case message_id of Some m \<Rightarrow> (if m = [] then fresh else m) | None \<Rightarrow> fresh),
               env_type = message_type, env_ts = format_timestamp clk (clk_now clk),
               env_payload = p, env_engine_id = engine_id, env_build_job_id = build_job_id,
               env_attempt_id = attempt_id, env_seq = seq\<rparr>
      in rbind (validate_envelope clk None (JObj (to_dict e))) (\<lambda>_. Inr e))"

section \<open>Payload readers\<close>

definition string_payload :: "payload \<Rightarrow> string \<Rightarrow> string option result" where
  "string_payload p k =
     (case jget_opt p k of
        None \<Rightarrow> Inr None
      | Some (JStr s) \<Rightarrow>
          if s = [] \<or> \<not> is_uuid s then Inl (ProtocolError (''payload '' @ k @ '' must be a UUID string''))
          else Inr (Some s)
      | Some _ \<Rightarrow> Inl (ProtocolError (''payload '' @ k @ '' must be a UUID string'')))"

text \<open>\<open>a or b\<close> on an optional string.\<close>

definition or_else :: "string option \<Rightarrow> string option result \<Rightarrow> string option result" where
  "or_else a b = (case a of Some s \<Rightarrow> (if s = [] then b else Inr (Some s)) | None \<Rightarrow> b)"

definition attempt_fields :: "envelope \<Rightarrow> (string \<times> string) result" where
  "attempt_fields e =
     rbind (or_else (env_build_job_id e) (string_payload (env_payload e) ''build_job_id'')) (\<lambda>b.
     rbind (or_else (env_attempt_id e) (string_payload (env_payload e) ''attempt_id'')) (\<lambda>a.
       case (b, a) of
         (Some bj, Some at) \<Rightarrow> Inr (bj, at)
       | _ \<Rightarrow> Inl (ProtocolError ''Attempt-scoped message requires build_job_id and attempt_id'')))"

definition last_seq_entry :: "string \<times> json \<Rightarrow> (string \<times> int) result" where
  "last_seq_entry kv =
     (case snd kv of
        JInt n \<Rightarrow>
          if is_uuid (fst kv) \<and> 0 \<le> n then Inr (fst kv, n)
          else Inl (ProtocolError ''welcome last_seq values must map attempt IDs to integers'')
      | _ \<Rightarrow> Inl (ProtocolError ''welcome last_seq values must map attempt IDs to integers''))"

definition last_sequences :: "payload \<Rightarrow> (string \<times> int) list result" where
  "last_sequences p =
     (let raw = (case jget p ''last_seq'' of
          Some x \<Rightarrow> x
        | None \<Rightarrow> (case jget p ''last_sequences'' of Some x \<Rightarrow> x | None \<Rightarrow> JObj [])) in
      case raw of
        JNull \<Rightarrow> Inr []
      | JObj d \<Rightarrow> each last_seq_entry d
      | _ \<Rightarrow> Inl (ProtocolError ''welcome last_seq must be an object''))"

section \<open>What validation accepts\<close>

lemma require_uuid_Inr [simp]: "require_uuid x l = Inr u \<longleftrightarrow> (\<exists>s. x = JStr s \<and> is_uuid s)"
  by (auto simp: require_uuid_def is_uuid_def split: json.splits option.splits)

definition allowed_set :: "string list option \<Rightarrow> string set" where
  "allowed_set al = set (case al of None \<Rightarrow> ALL_MESSAGE_TYPES | Some [] \<Rightarrow> ALL_MESSAGE_TYPES | Some ts \<Rightarrow> ts)"

lemma check_type_Inr: "check_type al x = Inr t \<longleftrightarrow> x = JStr t \<and> t \<in> allowed_set al"
  by (auto simp: check_type_def allowed_set_def split: json.splits)

lemma check_ts_Inr:
  "check_ts clk x = Inr u \<longleftrightarrow>
    (\<exists>s t. x = JStr s \<and> parse_timestamp clk s = Inr t \<and> \<bar>t - clk_now clk\<bar> \<le> MAX_TIMESTAMP_SKEW)"
  by (cases x; cases "parse_timestamp clk (case x of JStr s \<Rightarrow> s)") (auto simp: check_ts_def)

lemma check_payload_Inr: "check_payload x = Inr p \<longleftrightarrow> x = JObj p"
  by (auto simp: check_payload_def split: json.splits)

lemma check_optional_uuid_Inr:
  "check_optional_uuid d k = Inr u \<longleftrightarrow> (\<forall>x. jget d k = Some x \<longrightarrow> (\<exists>s. x = JStr s \<and> is_uuid s))"
  by (auto simp: check_optional_uuid_def jhas_jget jfield_def)

lemma check_seq_Inr:
  "check_seq d = Inr u \<longleftrightarrow>
    (\<forall>x. jget d ''seq'' = Some x \<longrightarrow> (\<exists>n. x = JInt n \<and> 0 \<le> n) \<and> jget_opt d ''attempt_id'' \<noteq> None)"
  by (auto simp: check_seq_def split: option.splits json.splits)

lemma check_log_Inr:
  "check_log t p = Inr u \<longleftrightarrow>
    (t = ''attempt.log'' \<longrightarrow> (\<forall>s. jget p ''data'' = Some (JStr s) \<longrightarrow> length s \<le> MAX_LOG_DATA_BYTES))"
  by (auto simp: check_log_def split: option.splits json.splits)

lemmas check_iffs = check_type_Inr check_ts_Inr check_payload_Inr check_optional_uuid_Inr
  check_seq_Inr check_log_Inr rbind_Inr_iff

text \<open>The envelopes that protocol v2 admits, as a predicate on the decoded object.\<close>

definition admissible :: "clock \<Rightarrow> string list option \<Rightarrow> payload \<Rightarrow> bool" where
  "admissible clk al d \<longleftrightarrow>
     set (map fst d) \<subseteq> set envelope_fields \<and>
     set required_fields \<subseteq> set (map fst d) \<and>
     py_eq_int (jfield d ''v'') 2 \<and>
     (\<exists>s. jfield d ''id'' = JStr s \<and> is_uuid s) \<and>
     (\<exists>s. jfield d ''engine_id'' = JStr s \<and> is_uuid s) \<and>
     (\<exists>s t. jfield d ''ts'' = JStr s \<and> parse_timestamp clk s = Inr t \<and>
        \<bar>t - clk_now clk\<bar> \<le> MAX_TIMESTAMP_SKEW) \<and>
     (\<forall>k \<in> {''build_job_id'', ''attempt_id''}. \<forall>x. jget d k = Some x \<longrightarrow> (\<exists>s. x = JStr s \<and> is_uuid s)) \<and>
     (\<forall>x. jget d ''seq'' = Some x \<longrightarrow> (\<exists>n. x = JInt n \<and> 0 \<le> n) \<and> jget d ''attempt_id'' \<noteq> None) \<and>
     (\<exists>t p. jfield d ''type'' = JStr t \<and> t \<in> allowed_set al \<and> jfield d ''payload'' = JObj p \<and>
        (t = ''attempt.log'' \<longrightarrow>
           (\<forall>s. jget p ''data'' = Some (JStr s) \<longrightarrow> length s \<le> MAX_LOG_DATA_BYTES)))"

lemma jget_opt_uuid:
  "(\<forall>x. jget d k = Some x \<longrightarrow> (\<exists>s. x = JStr s \<and> is_uuid s)) \<Longrightarrow> jget_opt d k = jget d k"
  by (auto simp: jget_opt_def split: option.splits json.splits)

lemma validate_envelope_Inr:
  "validate_envelope clk al raw = Inr d \<longleftrightarrow> raw = JObj d \<and> admissible clk al d"
proof (cases raw)
  case (JObj d')
  show ?thesis
    by (auto simp: validate_envelope_def JObj check_iffs admissible_def PROTOCOL_VERSION_def
        jhas_def subset_iff jget_opt_uuid filter_empty_conv)
qed (auto simp: validate_envelope_def)

end
