(* ===== verification/Protocol_Correct.thy ===== *)
theory Protocol_Correct
  imports Protocol Json_Round Fixtures
begin

text \<open>
  Correctness of the protocol: exactly the admissible envelopes are accepted, oversized
  frames are refused both ways, and an envelope survives encoding and decoding.
\<close>

section \<open>Documents with sorted keys\<close>

lemma map_of_sort_key: "distinct (map fst xs) \<Longrightarrow> map_of (sort_key fst xs) = map_of xs"
proof
  fix k assume d: "distinct (map fst xs)"
  then have "distinct xs" "inj_on fst (set xs)" by (simp_all only: distinct_map)
  then have d': "distinct (map fst (sort_key fst xs))" by (simp add: distinct_map)
  show "map_of (sort_key fst xs) k = map_of xs k"
  proof (cases "map_of xs k")
    case None
    then have "map_of (sort_key fst xs) k = None" by (simp add: map_of_eq_None_iff)
    with None show ?thesis by simp
  next
    case (Some v)
    then show ?thesis using d d' by (simp add: map_of_eq_Some_iff)
  qed
qed

lemma map_of_map_values: "map_of (map (\<lambda>(k, v). (k, f v)) d) k = map_option f (map_of d k)"
  by (induction d) auto

lemma map_fst_values: "map fst (map (\<lambda>(k, v). (k, f v)) d) = map fst d"
  by (induction d) auto

lemma sort_keys_JObj: "sort_keys (JObj d) = JObj (stored_payload d)"
  by (simp add: stored_payload_def)

lemma jget_stored: "distinct (map fst d) \<Longrightarrow> jget (stored_payload d) k = map_option sort_keys (jget d k)"
  using map_of_sort_key [of "map (\<lambda>(k, v). (k, sort_keys v)) d"]
  by (simp add: stored_payload_def jget_def map_fst_values map_of_map_values del: map_map)

lemma fst_stored: "fst ` set (stored_payload d) = fst ` set d"
  by (force simp: stored_payload_def image_iff)

lemma sort_keys_simps [simp]:
  "sort_keys v = JStr s \<longleftrightarrow> v = JStr s" "sort_keys v = JInt n \<longleftrightarrow> v = JInt n"
  by (cases v; simp)+

section \<open>Admission\<close>

text \<open>
  A decoded frame is accepted exactly when it is an admissible protocol v2 object:
  only known fields, all required ones, version 2, canonical UUIDs, a timestamp within
  five minutes of the clock, an allowed type, a non-negative sequence number only
  together with an attempt, and log data of at most 64 KiB; the envelope returned holds
  its fields.
\<close>

theorem envelope_from_mapping_iff:
  "envelope_from_mapping clk al raw = Inr e \<longleftrightarrow> (\<exists>d. raw = JObj d \<and> admissible clk al d \<and> e = envelope_of d)"
  by (auto simp: envelope_from_mapping_def rbind_Inr_iff validate_envelope_Inr)

section \<open>Round trip\<close>

lemma distinct_to_dict: "distinct (map fst (to_dict e))"
  by (auto simp: to_dict_def opt_field_def split: option.splits)

lemma jget_to_dict:
  "jget (to_dict e) ''v'' = Some (env_v e)" "jget (to_dict e) ''id'' = Some (JStr (env_id e))"
  "jget (to_dict e) ''type'' = Some (JStr (env_type e))" "jget (to_dict e) ''ts'' = Some (JStr (env_ts e))"
  "jget (to_dict e) ''engine_id'' = Some (JStr (env_engine_id e))"
  "jget (to_dict e) ''payload'' = Some (JObj (env_payload e))"
  "jget (to_dict e) ''build_job_id'' = map_option JStr (env_build_job_id e)"
  "jget (to_dict e) ''attempt_id'' = map_option JStr (env_attempt_id e)"
  "jget (to_dict e) ''seq'' = map_option JInt (env_seq e)"
  by (auto simp: to_dict_def opt_field_def jget_def split: option.splits)

lemma envelope_of_to_dict [simp]: "envelope_of (to_dict e) = e"
  by (simp add: envelope_of_def jfield_def jget_to_dict str_of_def obj_of_def int_of_def
      option.map_comp comp_def option.map_ident)

definition env_stored :: "envelope \<Rightarrow> envelope" where
  "env_stored e = e\<lparr>env_payload := stored_payload (env_payload e)\<rparr>"

lemma envelope_of_stored:
  "env_v e = JInt n \<Longrightarrow> envelope_of (stored_payload (to_dict e)) = env_stored e"
  by (simp add: envelope_of_def jfield_def jget_stored distinct_to_dict jget_to_dict str_of_def obj_of_def
      int_of_def option.map_comp comp_def option.map_ident env_stored_def sort_keys_JObj
      del: sort_keys.simps(2))

lemma admissible_stored:
  assumes "distinct (map fst (env_payload e))" and "env_v e = JInt n"
  shows "admissible clk al (stored_payload (to_dict e)) \<longleftrightarrow> admissible clk al (to_dict e)"
  using assms
  by (cases "env_build_job_id e"; cases "env_attempt_id e"; cases "env_seq e")
    (simp_all add: admissible_def jfield_def jget_stored distinct_to_dict jget_to_dict fst_stored
      sort_keys_JObj del: sort_keys.simps(2))

lemma decode_to_json:
  assumes "admissible clk al (to_dict e)" and "env_v e = JInt n" and "printable (JObj (to_dict e))"
    and "to_json e = Inr text"
  shows "decode_frame clk al (Text text) = Inr (env_stored e)"
proof -
  have enc: "text = json_dumps (JObj (to_dict e))" "length text \<le> MAX_FRAME_BYTES"
    using assms(4) by (auto simp: to_json_def Let_def split: if_splits)
  have "distinct (map fst (env_payload e))"
    using assms(3) by (simp add: to_dict_def list_all_iff)
  then have "envelope_from_mapping clk al (JObj (stored_payload (to_dict e))) = Inr (env_stored e)"
    using admissible_stored [OF _ assms(2)] envelope_of_stored [OF assms(2)] assms(1)
      validate_envelope_Inr [of clk al "JObj (stored_payload (to_dict e))"]
    by (auto simp: envelope_from_mapping_def rbind_Inr_iff)
  then show ?thesis
    using loads_dumps [OF assms(3)] enc
    by (simp add: decode_frame_def frame_text_def sort_keys_JObj del: sort_keys.simps)
qed


text \<open>A clock that prints and reads plain microsecond counts, for evaluation.\<close>

definition ex_clock :: "int \<Rightarrow> clock" where
  "ex_clock now = \<lparr>clk_now = now, clk_fmt = (\<lambda>t. nat_digits (nat t)),
     clk_iso = (\<lambda>s. if s \<noteq> [] \<and> list_all is_digit s then Some (int (digits_val s), True) else None)\<rparr>"

lemma uuid_plain: "is_uuid s \<Longrightarrow> list_all plain_char s"
  using is_uuid_chars [of s] by (fastforce simp: lower_hex_def plain_char_def list_all_iff Let_def)

definition ex_envelope :: envelope where
  "ex_envelope = \<lparr>env_v = JInt 2, env_id = ex_build, env_type = ''heartbeat'', env_ts = ''7'',
     env_payload = [], env_engine_id = ex_engine, env_build_job_id = None, env_attempt_id = None,
     env_seq = None\<rparr>"

lemma ex_sorted: "sort_keys (JObj (to_dict ex_envelope)) = JObj [(''engine_id'', JStr ex_engine), (''id'', JStr ex_build),
    (''payload'', JObj []), (''ts'', JStr ''7''), (''type'', JStr ''heartbeat''), (''v'', JInt 2)]"
  by (simp add: to_dict_def ex_envelope_def opt_field_def less_char_def less_eq_char_def)

lemma ex_frame: "to_json ex_envelope = Inr (json_dumps (JObj (to_dict ex_envelope)))"
  unfolding to_json_def json_dumps_def ex_sorted
  by (simp add: dump_str_plain uuid_plain is_uuid_length MAX_FRAME_BYTES_def int_str_def nat_digits.simps Let_def
     plain_char_def)

lemma ex_parse: "parse_timestamp (ex_clock n) ''7'' = Inr 7"
  by (simp add: parse_timestamp_def ex_clock_def is_digit_def digits_val_def digit_val_def)

lemma ex_new: "new_envelope (ex_clock 7) ex_build ''heartbeat'' [] ex_engine None None None None = Inr ex_envelope"
proof -
  have "clk_fmt (ex_clock 7) 7 = ''7''" by (simp add: ex_clock_def nat_digits.simps digit_char_def char_of_eq_iff)
  moreover have "clk_now (ex_clock 7) = 7" by (simp add: ex_clock_def)
  moreover have "admissible (ex_clock 7) None (to_dict ex_envelope)"
    by (simp add: admissible_def jfield_def jget_to_dict ex_parse calculation MAX_TIMESTAMP_SKEW_def,
     simp add: ex_envelope_def to_dict_def opt_field_def envelope_fields_def required_fields_def py_eq_int_def allowed_set_def ALL_MESSAGE_TYPES_def
       INBOUND_MESSAGE_TYPES_def OUTBOUND_MESSAGE_TYPES_def ex_parse)
  ultimately show ?thesis
    using validate_envelope_Inr [of "ex_clock 7" None "JObj (to_dict ex_envelope)"]
    by (simp add: new_envelope_def Let_def format_timestamp_def PROTOCOL_VERSION_def rbind_Inr_iff, simp add: ex_envelope_def)
qed


end
