(* ===== verification/Event_Outbox.thy ===== *)
theory Event_Outbox
  imports Queue_Ops Protocol_Correct
begin

text \<open>
  The event outbox (\<open>SQLiteEventOutbox\<close> of \<open>queue/store.py\<close>): the outbound attempt events
  that are kept until the backend acknowledges them. It works on the \<open>events\<close> table of the
  same database and on the \<open>sequence_cursor\<close> of the attempt. The lock of the source makes
  each call atomic; one call is given one reading of the clock. Stored texts are ASCII
  (\<open>json.dumps\<close> escapes the rest), so SQLite's \<open>length\<close> is their number of bytes.
\<close>

section \<open>Operations\<close>

record outbox_config =
  max_bytes :: int
  retention_days :: int

definition event_key :: "event_row \<Rightarrow> int \<times> string \<times> int" where
  "event_key e = (ev_created_at e, ev_attempt_id e, ev_seq e)"

definition event_bytes :: "event_row list \<Rightarrow> int" where
  "event_bytes es = sum_list (map (\<lambda>e. int (length (ev_envelope_json e))) es)"

definition oldest_event :: "event_row list \<Rightarrow> event_row option" where
  "oldest_event es =
     (case fetchone (order_by event_key (filter (\<lambda>e. ev_type e = ''attempt.log'') es)) of
        Some e \<Rightarrow> Some e
      | None \<Rightarrow> fetchone (order_by event_key es))"

lemma oldest_event_in: "oldest_event es = Some e \<Longrightarrow> e \<in> set es"
  unfolding oldest_event_def
  by (auto split: option.splits dest!: fetchone_Some_in)

lemma oldest_event_None: "oldest_event es = None \<longleftrightarrow> es = []"
  unfolding oldest_event_def by (auto split: option.splits dest: fetchone_Some_in)

text \<open>The \<open>while\<close> loop of \<open>_prune_sync\<close>, with the number of events it removed.\<close>

function prune_loop :: "int \<Rightarrow> event_row list \<Rightarrow> event_row list \<times> nat" where
  "prune_loop limit es =
     (if limit < event_bytes es then
        (case oldest_event es of
           None \<Rightarrow> (es, 0)
         | Some e \<Rightarrow>
             (let (es', n) = prune_loop limit (sql_delete (\<lambda>x. ev_id x = ev_id e) es) in (es', Suc n)))
      else (es, 0))"
  by pat_completeness auto
termination
proof (relation "measure (\<lambda>(limit, es). length es)", simp)
  fix limit es e
  assume "oldest_event es = Some e"
  then have "e \<in> set es" by (rule oldest_event_in)
  then show "((limit, sql_delete (\<lambda>x. ev_id x = ev_id e) es), (limit, es)) \<in> measure (\<lambda>(limit, es). length es)"
    by (auto simp: sql_delete_def intro!: length_filter_less)
qed

declare prune_loop.simps [simp del]

definition terminal_attempts :: "store \<Rightarrow> string set" where
  "terminal_attempts s = j_attempt_id ` set (filter (\<lambda>r. terminal (j_state r)) (jobs s))"

definition aged :: "int \<Rightarrow> store \<Rightarrow> event_row \<Rightarrow> bool" where
  "aged cutoff s e \<longleftrightarrow> ev_created_at e < cutoff \<and> ev_attempt_id e \<in> terminal_attempts s"

definition prune :: "outbox_config \<Rightarrow> int \<Rightarrow> nat op" where
  "prune cfg now s =
     (let cutoff = now - retention_days cfg * 86400000;
          removed = rowcount (aged cutoff s) (events s);
          (es, n) = prune_loop (max_bytes cfg) (sql_delete (aged cutoff s) (events s))
      in (Inr (removed + n), s\<lparr>events := es\<rparr>))"

definition event_at :: "event_row list \<Rightarrow> string \<Rightarrow> int \<Rightarrow> event_row option" where
  "event_at es a n = fetchone (filter (\<lambda>e. ev_attempt_id e = a \<and> ev_seq e = n) es)"

text \<open>\<open>INSERT INTO events\<close> under the table's primary key, check, and foreign key. The
  pair of attempt and sequence number was looked up before.\<close>

definition insert_event :: "event_row \<Rightarrow> store \<Rightarrow> event_row list result" where
  "insert_event e s =
     (if ev_id e \<in> ev_id ` set (events s) then Inl (IntegrityError ''UNIQUE constraint failed: events.id'')
      else if ev_seq e < 0 then Inl (IntegrityError ''CHECK constraint failed: seq >= 0'')
      else if attempt_row (jobs s) (ev_attempt_id e) = None
      then Inl (IntegrityError ''FOREIGN KEY constraint failed'')
      else Inr (events s @ [e]))"

definition bump_cursor :: "int \<Rightarrow> int \<Rightarrow> job_row \<Rightarrow> job_row" where
  "bump_cursor now n r = r\<lparr>j_sequence_cursor := max (j_sequence_cursor r) n, j_updated_at := now\<rparr>"

definition append_event :: "outbox_config \<Rightarrow> int \<Rightarrow> envelope \<Rightarrow> unit op" where
  "append_event cfg now env s =
     (case (env_attempt_id env, env_seq env) of
        (Some a, Some n) \<Rightarrow>
          (case event_at (events s) a n of
             Some existing \<Rightarrow>
               (case to_json env of
                  Inl e \<Rightarrow> (Inl e, s)
                | Inr json \<Rightarrow>
                    if ev_envelope_json existing \<noteq> json
                    then (Inl (QueueError ''Conflicting event reused an attempt sequence''), s)
                    else (Inr (), s))
           | None \<Rightarrow>
               (case to_json env of
                  Inl e \<Rightarrow> (Inl e, s)
                | Inr json \<Rightarrow>
                    (case insert_event \<lparr>ev_id = env_id env, ev_attempt_id = a, ev_seq = n,
                         ev_type = env_type env, ev_envelope_json = json, ev_created_at = now\<rparr> s of
                       Inl e \<Rightarrow> (Inl e, s)
                     | Inr es \<Rightarrow>
                         (Inr (), snd (prune cfg now (s\<lparr>events := es,
                            jobs := sql_update (has_attempt a) (bump_cursor now n) (jobs s)\<rparr>))))))
      | _ \<Rightarrow> (Inl (ProtocolError ''Outbox events require attempt_id and seq''), s))"

definition ack_through :: "string \<Rightarrow> int \<Rightarrow> unit op" where
  "ack_through a last_seq s =
     (Inr (), s\<lparr>events := sql_delete (\<lambda>e. ev_attempt_id e = a \<and> ev_seq e \<le> last_seq) (events s)\<rparr>)"

definition next_seq :: "store \<Rightarrow> string \<Rightarrow> int result" where
  "next_seq s a = (case attempt_row (jobs s) a of
      None \<Rightarrow> Inl (QueueError ''Cannot allocate an event sequence for an unknown attempt'')
    | Some r \<Rightarrow> Inr (j_sequence_cursor r + 1))"

section \<open>Replay\<close>

type_synonym cursors = "(string \<times> int) list"

definition cursor :: "cursors \<Rightarrow> string \<Rightarrow> int" where
  "cursor cs a = (case map_of cs a of None \<Rightarrow> 0 | Some n \<Rightarrow> n)"

text \<open>\<open>json.loads\<close> of a stored row, which is an object.\<close>

definition row_doc :: "event_row \<Rightarrow> payload result" where
  "row_doc e = (case json_loads (ev_envelope_json e) of
      Inr (JObj d) \<Rightarrow> Inr d
    | _ \<Rightarrow> Inl (ValueError ''stored event is not a JSON object''))"

text \<open>\<open>int(doc.get("seq", 0)) > cursors.get(str(doc.get("attempt_id", "")), 0)\<close>. Rows are
  written with an integer and a text there; the cursors are keyed by UUIDs, which no other
  value prints as.\<close>

definition row_unseen :: "cursors \<Rightarrow> event_row \<Rightarrow> bool result" where
  "row_unseen cs e =
     rbind (row_doc e) (\<lambda>d.
       let c = (case jget d ''attempt_id'' of Some (JStr a) \<Rightarrow> cursor cs a | _ \<Rightarrow> 0) in
       case jget d ''seq'' of
         None \<Rightarrow> Inr (0 > c)
       | Some (JInt n) \<Rightarrow> Inr (n > c)
       | Some (JBool b) \<Rightarrow> Inr ((if b then 1 else 0) > c)
       | Some _ \<Rightarrow> Inl (ValueError ''invalid literal for int()''))"

fun filter_rows :: "('a \<Rightarrow> bool result) \<Rightarrow> 'a list \<Rightarrow> 'a list result" where
  "filter_rows p [] = Inr []"
| "filter_rows p (x # xs) =
     rbind (p x) (\<lambda>b. rbind (filter_rows p xs) (\<lambda>ys. Inr (if b then x # ys else ys)))"

definition replay_rows :: "cursors \<Rightarrow> store \<Rightarrow> event_row list result" where
  "replay_rows cs s = filter_rows (row_unseen cs) (order_by event_key (events s))"

text \<open>One pass of the loop of \<open>replay_after\<close>: rows that no longer decode are skipped.\<close>

definition replay_row :: "clock \<Rightarrow> cursors \<Rightarrow> event_row \<Rightarrow> envelope list result" where
  "replay_row clk cs e =
     rbind (row_doc e) (\<lambda>d.
       case decode_frame clk (Some OUTBOUND_MESSAGE_TYPES)
              (Text (dump (JObj (jsetdefault d ''engine_id'' (JStr ZERO_ENGINE_ID))))) of
         Inl (ProtocolError m) \<Rightarrow> Inr []
       | Inl x \<Rightarrow> Inl x
       | Inr env \<Rightarrow>
           (case (env_attempt_id env, env_seq env) of
              (Some a, Some n) \<Rightarrow> Inr (if n > cursor cs a then [env] else [])
            | _ \<Rightarrow> Inr []))"

definition replay_after :: "clock \<Rightarrow> cursors \<Rightarrow> store \<Rightarrow> envelope list result" where
  "replay_after clk cs s =
     rbind (replay_rows cs s) (\<lambda>rows. rbind (each (replay_row clk cs) rows) (\<lambda>ess. Inr (concat ess)))"

end
