(* ===== verification/Event_Correct.thy ===== *)
theory Event_Correct
  imports Event_Outbox
begin

text \<open>
  Correctness of the event outbox: its invariant, sequence numbers that never collide,
  idempotent publishing, bounded retention, and what a reconnect replays.
\<close>

section \<open>Invariant\<close>

text \<open>Every stored event belongs to a known attempt, below that attempt's cursor; ids and
  positions are unique.\<close>

definition events_wf :: "store \<Rightarrow> bool" where
  "events_wf s \<longleftrightarrow> distinct (map ev_id (events s)) \<and>
     distinct (map (\<lambda>e. (ev_attempt_id e, ev_seq e)) (events s)) \<and>
     (\<forall>e \<in> set (events s). 0 \<le> ev_seq e \<and>
        (\<exists>r \<in> set (jobs s). j_attempt_id r = ev_attempt_id e \<and> ev_seq e \<le> j_sequence_cursor r))"

lemma prune_loop_subset:
  "prune_loop limit es = (es', n) \<Longrightarrow> \<exists>P. es' = filter P es"
proof (induction limit es arbitrary: es' n rule: prune_loop.induct)
  case (1 limit es)
  show ?case
  proof (cases "limit < event_bytes es \<and> oldest_event es \<noteq> None")
    case True
    then obtain e where e: "oldest_event es = Some e" by blast
    obtain es1 m where rec: "prune_loop limit (sql_delete (\<lambda>x. ev_id x = ev_id e) es) = (es1, m)" by force
    obtain P where "es1 = filter P (sql_delete (\<lambda>x. ev_id x = ev_id e) es)"
      using "1.IH" [OF _ e rec] True by blast
    moreover have "es' = es1" using "1.prems" True e rec by (simp add: prune_loop.simps [of limit es])
    ultimately have "es' = filter (\<lambda>x. \<not> ev_id x = ev_id e \<and> P x) es" by (simp add: sql_delete_def conj_commute)
    then show ?thesis by blast
  next
    case False
    then have "es' = es" using "1.prems" by (auto simp: prune_loop.simps [of limit es] split: if_splits)
    then have "es' = filter (\<lambda>_. True) es" by simp
    then show ?thesis by blast
  qed
qed

lemma prune_effect:
  "\<exists>P n. prune cfg now s = (Inr n, s\<lparr>events := filter P (events s)\<rparr>)"
proof -
  obtain es n where l: "prune_loop (max_bytes cfg) (sql_delete (aged (now - retention_days cfg * 86400000) s) (events s)) = (es, n)"
    by force
  obtain P where "es = filter P (sql_delete (aged (now - retention_days cfg * 86400000) s) (events s))"
    using prune_loop_subset [OF l] by blast
  then have "es = filter (\<lambda>x. \<not> aged (now - retention_days cfg * 86400000) s x \<and> P x) (events s)"
    by (simp add: sql_delete_def conj_commute)
  then show ?thesis using l by (auto simp: prune_def Let_def)
qed

lemma events_wf_filter:
  "events_wf s \<Longrightarrow> events_wf (s\<lparr>events := filter P (events s)\<rparr>)"
  by (auto simp: events_wf_def distinct_map_filter)

lemma bump_cursor_evolves: "evolves r (bump_cursor now n r)"
  and row_wf_bump: "row_wf r \<Longrightarrow> row_wf (bump_cursor now n r)"
  by (auto simp: evolves_def same_job_def bump_cursor_def row_wf_def)

text \<open>What a call of \<open>append_event\<close> does when it does not raise and the event is new.\<close>

lemma append_event_new:
  assumes "env_attempt_id env = Some a" "env_seq env = Some n" "event_at (events s) a n = None"
    and "to_json env = Inr json" "env_id env \<notin> ev_id ` set (events s)" "0 \<le> n" "attempt_row (jobs s) a \<noteq> None"
  obtains P where "append_event cfg now env s = (Inr (),
    s\<lparr>events := filter P (events s @ [\<lparr>ev_id = env_id env, ev_attempt_id = a, ev_seq = n,
         ev_type = env_type env, ev_envelope_json = json, ev_created_at = now\<rparr>]),
      jobs := sql_update (has_attempt a) (bump_cursor now n) (jobs s)\<rparr>)"
proof -
  let ?row = "\<lparr>ev_id = env_id env, ev_attempt_id = a, ev_seq = n,
         ev_type = env_type env, ev_envelope_json = json, ev_created_at = now\<rparr>"
  let ?s = "s\<lparr>events := events s @ [?row], jobs := sql_update (has_attempt a) (bump_cursor now n) (jobs s)\<rparr>"
  obtain P k where "prune cfg now ?s = (Inr k, ?s\<lparr>events := filter P (events ?s)\<rparr>)"
    using prune_effect by blast
  then have "append_event cfg now env s = (Inr (), ?s\<lparr>events := filter P (events ?s)\<rparr>)"
    using assms by (auto simp: append_event_def insert_event_def)
  then show thesis using that [of P] by simp
qed

lemma append_event_effect:
  assumes "append_event cfg now env s = (res, s')"
  shows "s' = s \<or> (\<exists>a n json P. env_attempt_id env = Some a \<and> env_seq env = Some n \<and> res = Inr () \<and>
    event_at (events s) a n = None \<and> to_json env = Inr json \<and> env_id env \<notin> ev_id ` set (events s) \<and> 0 \<le> n \<and>
    attempt_row (jobs s) a \<noteq> None \<and>
    s' = s\<lparr>events := filter P (events s @ [\<lparr>ev_id = env_id env, ev_attempt_id = a, ev_seq = n,
         ev_type = env_type env, ev_envelope_json = json, ev_created_at = now\<rparr>]),
      jobs := sql_update (has_attempt a) (bump_cursor now n) (jobs s)\<rparr>)"
proof (cases "\<exists>a n json. env_attempt_id env = Some a \<and> env_seq env = Some n \<and>
    event_at (events s) a n = None \<and> to_json env = Inr json \<and> env_id env \<notin> ev_id ` set (events s) \<and> 0 \<le> n \<and>
    attempt_row (jobs s) a \<noteq> None")
  case True
  then obtain a n json where *: "env_attempt_id env = Some a" "env_seq env = Some n"
    "event_at (events s) a n = None" "to_json env = Inr json" "env_id env \<notin> ev_id ` set (events s)" "0 \<le> n"
    "attempt_row (jobs s) a \<noteq> None" by blast
  from append_event_new [OF *, of cfg now] show ?thesis using * assms by (metis prod.inject)
next
  case False
  then have "s' = s"
    using assms by (auto simp: append_event_def insert_event_def split: option.splits sum.splits if_splits)
  then show ?thesis by blast
qed

lemma append_table_evolves:
  "table_evolves (jobs s) (sql_update (has_attempt a) (bump_cursor now n) (jobs s))"
  by (rule table_evolves_update) (simp_all add: bump_cursor_evolves row_wf_bump)

text \<open>A rewrite of the rows keeps every event anchored.\<close>

lemma events_wf_evolves:
  assumes "events_wf s" and "table_evolves (jobs s) (jobs s')" and "events s' = events s"
  shows "events_wf s'"
proof -
  have "\<exists>r' \<in> set (jobs s'). j_attempt_id r' = a \<and> n \<le> j_sequence_cursor r'"
    if r: "r \<in> set (jobs s)" "j_attempt_id r = a" "n \<le> j_sequence_cursor r" for r a n
  proof -
    obtain r' where "r' \<in> set (jobs s')" "evolves r r'"
      using assms(2) r(1) by (fastforce simp: table_evolves_def list_all2_conv_all_nth in_set_conv_nth)
    then show ?thesis using r by (force simp: evolves_def same_job_def)
  qed
  then show ?thesis using assms(1,3) unfolding events_wf_def by metis
qed

lemma event_at_None: "event_at es a n = None \<longleftrightarrow> (a, n) \<notin> (\<lambda>e. (ev_attempt_id e, ev_seq e)) ` set es"
  by (auto simp: event_at_def filter_empty_conv)

lemma events_wf_append:
  assumes wf: "events_wf s" and app: "append_event cfg now env s = (res, s')"
  shows "events_wf s'"
  using append_event_effect [OF app]
proof (elim disjE exE conjE)
  fix a n json P
  let ?row = "\<lparr>ev_id = env_id env, ev_attempt_id = a, ev_seq = n,
         ev_type = env_type env, ev_envelope_json = json, ev_created_at = now\<rparr>"
  let ?t = "s\<lparr>jobs := sql_update (has_attempt a) (bump_cursor now n) (jobs s)\<rparr>"
  assume new: "event_at (events s) a n = None" "env_id env \<notin> ev_id ` set (events s)" "0 \<le> n"
    "attempt_row (jobs s) a \<noteq> None"
    and s': "s' = s\<lparr>events := filter P (events s @ [?row]),
      jobs := sql_update (has_attempt a) (bump_cursor now n) (jobs s)\<rparr>"
  have "events_wf ?t" using events_wf_evolves [OF wf, of ?t] by (simp add: append_table_evolves)
  moreover obtain r where r: "r \<in> set (jobs s)" "j_attempt_id r = a"
    using new(4) by (auto simp: attempt_row_None)
  then have "bump_cursor now n r \<in> set (jobs ?t)" "j_attempt_id (bump_cursor now n r) = a"
    "n \<le> j_sequence_cursor (bump_cursor now n r)"
    by (auto simp: set_sql_update has_attempt_def bump_cursor_def intro!: image_eqI [of _ _ r])
  ultimately have "events_wf (?t\<lparr>events := events s @ [?row]\<rparr>)"
    using new by (auto simp: events_wf_def event_at_None simp del: set_sql_update)
  from events_wf_filter [OF this, of P] show ?thesis unfolding s' events_wf_def by simp
qed (use wf in simp)

lemma events_wf_ack: "events_wf s \<Longrightarrow> events_wf (snd (ack_through a n s))"
  using events_wf_filter [of s] by (simp add: ack_through_def sql_delete_def)

lemma events_wf_prune: "events_wf s \<Longrightarrow> events_wf (snd (prune cfg now s))"
  using prune_effect [of cfg now s] events_wf_filter [of s] by auto

lemma prune_terminal_effect:
  assumes "prune_terminal now days s = (res, s')"
  shows "(\<exists>P. jobs s' = filter P (jobs s) \<and>
      events s' = filter (\<lambda>e. ev_attempt_id e \<notin> j_attempt_id ` {r \<in> set (jobs s). \<not> P r}) (events s)) \<and>
    (\<forall>r \<in> set (jobs s). \<not> terminal (j_state r) \<longrightarrow> r \<in> set (jobs s')) \<and> dlq s' = dlq s"
proof -
  let ?c = "\<lambda>r. terminal (j_state r) \<and> j_updated_at r < now - days * 86400000"
  have "jobs s' = filter (\<lambda>r. \<not> ?c r) (jobs s)"
    "events s' = filter (\<lambda>e. ev_attempt_id e \<notin> j_attempt_id ` {r \<in> set (jobs s). \<not> \<not> ?c r}) (events s)"
    "dlq s' = dlq s"
    using assms by (auto simp: prune_terminal_def Let_def sql_delete_def)
  then show ?thesis by auto
qed

lemma events_wf_prune_terminal:
  assumes wf: "events_wf s" and p: "prune_terminal now days s = (res, s')"
  shows "events_wf s'"
proof -
  obtain P where P: "jobs s' = filter P (jobs s)"
    "events s' = filter (\<lambda>e. ev_attempt_id e \<notin> j_attempt_id ` {r \<in> set (jobs s). \<not> P r}) (events s)"
    using prune_terminal_effect [OF p] by blast
  show ?thesis
    using wf unfolding events_wf_def P by (auto simp: distinct_map_filter image_iff) metis
qed

lemma jobs_wf_filter: "jobs_wf rs \<Longrightarrow> jobs_wf (filter P rs)"
  by (auto simp: jobs_wf_def distinct_map_filter sorted_wrt_map sorted_wrt_filter)

section \<open>Sequence numbers\<close>

lemma next_seq_above:
  assumes wf: "events_wf s" "jobs_wf (jobs s)" and n: "next_seq s a = Inr n"
  shows "(\<forall>e \<in> set (events s). ev_attempt_id e = a \<longrightarrow> ev_seq e < n) \<and> 0 < n \<and> attempt_row (jobs s) a \<noteq> None"
proof -
  obtain r where r: "attempt_row (jobs s) a = Some r" "n = j_sequence_cursor r + 1"
    using n by (auto simp: next_seq_def split: option.splits)
  have in_r: "r \<in> set (jobs s)" "j_attempt_id r = a" using attempt_row_Some [OF r(1)] by auto
  then have "0 < n" using jobs_wf_row [OF wf(2)] r(2) by (force simp: row_wf_def)
  moreover have "ev_seq e < n" if e: "e \<in> set (events s)" "ev_attempt_id e = a" for e
  proof -
    have "\<exists>x \<in> set (jobs s). j_attempt_id x = ev_attempt_id e \<and> ev_seq e \<le> j_sequence_cursor x"
      using wf(1) e(1) by (simp add: events_wf_def)
    then obtain x where "x \<in> set (jobs s)" "j_attempt_id x = a" "ev_seq e \<le> j_sequence_cursor x"
      using e(2) by blast
    moreover have "x = r" using distinct_key_eq [OF jobs_wf_distinct [OF wf(2)]] calculation in_r by blast
    ultimately show ?thesis using r(2) by simp
  qed
  ultimately show ?thesis using r(1) by simp
qed

lemma next_seq_bump:
  "attempt_row (jobs s) a = Some r \<Longrightarrow>
    attempt_row (sql_update (has_attempt a) (bump_cursor now n) (jobs s)) a = Some (bump_cursor now n r)"
  by (auto simp: attempt_row_find find_key_sql_update [of j_attempt_id] bump_cursor_def has_attempt_def
      dest: find_Some_in)

lemma next_seq_append_ok:
  assumes wf: "events_wf s" "jobs_wf (jobs s)" and n: "next_seq s a = Inr n"
    and env: "env_attempt_id env = Some a" "env_seq env = Some n" "to_json env = Inr json"
    and fresh: "env_id env \<notin> ev_id ` set (events s)"
  shows "\<exists>s'. append_event cfg now env s = (Inr (), s') \<and> next_seq s' a = Inr (n + 1) \<and>
    (\<forall>b. b \<noteq> a \<longrightarrow> next_seq s' b = next_seq s b)"
proof -
  note above = next_seq_above [OF wf n]
  obtain r where r: "attempt_row (jobs s) a = Some r" "n = j_sequence_cursor r + 1"
    using n by (auto simp: next_seq_def split: option.splits)
  have "event_at (events s) a n = None" using above by (auto simp: event_at_None)
  then obtain P where P: "append_event cfg now env s = (Inr (),
    s\<lparr>events := filter P (events s @ [\<lparr>ev_id = env_id env, ev_attempt_id = a, ev_seq = n,
         ev_type = env_type env, ev_envelope_json = json, ev_created_at = now\<rparr>]),
      jobs := sql_update (has_attempt a) (bump_cursor now n) (jobs s)\<rparr>)"
    using append_event_new [OF env(1,2) _ env(3) fresh, of cfg now] above by auto
  have "attempt_row (sql_update (has_attempt a) (bump_cursor now n) (jobs s)) b = attempt_row (jobs s) b"
    if "b \<noteq> a" for b
    using that find_key_sql_update [of j_attempt_id "bump_cursor now n" b "has_attempt a" "jobs s"]
    by (cases "attempt_row (jobs s) b")
      (auto simp: attempt_row_find bump_cursor_def has_attempt_def dest: find_Some_in)
  then show ?thesis
    using P next_seq_bump [OF r(1), of now n] r(2) by (auto simp: next_seq_def bump_cursor_def)
qed

text \<open>
  Sequence numbers never collide: an event of a known attempt stamped with
  \<open>next_seq\<close> and a new id is always stored, and the next number is one higher, whatever has
  been acknowledged or pruned before.
\<close>

theorem next_seq_append:
  assumes wf: "events_wf s" "jobs_wf (jobs s)" and n: "next_seq s a = Inr n"
    and env: "env_attempt_id env = Some a" "env_seq env = Some n" "to_json env = Inr json"
    and fresh: "env_id env \<notin> ev_id ` set (events s)"
  shows "\<exists>s'. append_event cfg now env s = (Inr (), s') \<and> next_seq s' a = Inr (n + 1) \<and>
    (\<forall>b. b \<noteq> a \<longrightarrow> next_seq s' b = next_seq s b)"
  by (rule next_seq_append_ok [OF wf n env fresh])

text \<open>
  Publishing is idempotent per position: appending an envelope again while its row is
  stored succeeds and changes nothing; a different envelope for the same attempt and
  sequence number raises and changes nothing; without both, it is a protocol error.
\<close>

theorem append_event_at_most_once:
  assumes "events_wf s" and "e \<in> set (events s)"
    and "env_attempt_id env = Some (ev_attempt_id e)" "env_seq env = Some (ev_seq e)" "to_json env = Inr json"
  shows "append_event cfg now env s =
    (if json = ev_envelope_json e then (Inr (), s)
     else (Inl (QueueError ''Conflicting event reused an attempt sequence''), s))"
proof -
  let ?c = "\<lambda>x. ev_attempt_id x = ev_attempt_id e \<and> ev_seq x = ev_seq e"
  have "filter ?c (events s) \<noteq> []" using assms(2) by (auto simp: filter_empty_conv)
  moreover have "x = e" if "x \<in> set (events s)" "?c x" for x
    using assms(1,2) that distinct_key_eq [of "\<lambda>e. (ev_attempt_id e, ev_seq e)" "events s" x e]
    by (simp add: events_wf_def)
  ultimately have "event_at (events s) (ev_attempt_id e) (ev_seq e) = Some e"
    unfolding event_at_def by (cases "filter ?c (events s)") (auto simp: filter_eq_Cons_iff)
  then show ?thesis using assms(3-5) by (simp add: append_event_def)
qed

section \<open>Retention\<close>

lemma prune_loop_bound: "prune_loop limit es = (es', n) \<Longrightarrow> event_bytes es' \<le> limit \<or> es' = []"
proof (induction limit es arbitrary: es' n rule: prune_loop.induct)
  case (1 limit es)
  show ?case
  proof (cases "limit < event_bytes es \<and> oldest_event es \<noteq> None")
    case True
    then obtain e where e: "oldest_event es = Some e" by blast
    obtain es1 m where rec: "prune_loop limit (sql_delete (\<lambda>x. ev_id x = ev_id e) es) = (es1, m)" by force
    have "es' = es1" using "1.prems" True e rec by (simp add: prune_loop.simps [of limit es])
    then show ?thesis using "1.IH" [OF _ e rec] True by blast
  next
    case False
    then show ?thesis
      using "1.prems" oldest_event_None [of es]
      by (auto simp: prune_loop.simps [of limit es] split: if_splits)
  qed
qed

text \<open>The size limit drops log chunks, oldest first, before anything else.\<close>

lemma prune_loop_logs_first:
  assumes "prune_loop limit es = (es', n)" and "distinct (map ev_id es)"
    and "x \<in> set es" "ev_type x \<noteq> ''attempt.log''" "x \<notin> set es'"
  shows "\<forall>y \<in> set es'. ev_type y \<noteq> ''attempt.log''"
  using assms
proof (induction limit es arbitrary: es' n rule: prune_loop.induct)
  case (1 limit es)
  show ?case
  proof (cases "limit < event_bytes es \<and> oldest_event es \<noteq> None")
    case True
    then obtain e where e: "oldest_event es = Some e" by blast
    let ?es = "sql_delete (\<lambda>z. ev_id z = ev_id e) es"
    obtain es1 m where rec: "prune_loop limit ?es = (es1, m)" by force
    have es': "es' = es1" using "1.prems"(1) True e rec by (simp add: prune_loop.simps [of limit es])
    obtain P where P: "es1 = filter P ?es" using prune_loop_subset [OF rec] by blast
    show ?thesis
    proof (cases "x \<in> set ?es")
      case True
      then show ?thesis
        using "1.IH" [OF _ e rec] "1.prems" \<open>limit < event_bytes es \<and> _\<close> es' by (simp add: distinct_map_sql_delete)
    next
      case False
      then have "x = e" using "1.prems"(2,3) oldest_event_in [OF e] by (auto dest: distinct_key_eq)
      then have "filter (\<lambda>y. ev_type y = ''attempt.log'') es = []"
        using e "1.prems"(4) unfolding oldest_event_def
        by (auto split: option.splits dest!: fetchone_Some_in)
      then show ?thesis unfolding es' P by (auto simp: filter_empty_conv)
    qed
  next
    case False
    then show ?thesis using "1.prems" by (auto simp: prune_loop.simps [of limit es] split: if_splits)
  qed
qed

text \<open>
  C32. Pruning keeps the outbox within its byte budget, removes only from it, and never
  drops a status, artifact or error event for space while a log chunk is left.
\<close>

theorem prune_bounded:
  assumes wf: "events_wf s" and limit: "0 \<le> max_bytes cfg" and p: "prune cfg now s = (res, s')"
  shows "event_bytes (events s') \<le> max_bytes cfg \<and> set (events s') \<subseteq> set (events s) \<and> jobs s' = jobs s \<and>
    (\<forall>x \<in> set (events s) - set (events s').
       aged (now - retention_days cfg * 86400000) s x \<or> ev_type x = ''attempt.log'' \<or>
       (\<forall>y \<in> set (events s'). ev_type y \<noteq> ''attempt.log''))"
proof -
  let ?cut = "now - retention_days cfg * 86400000"
  let ?es = "sql_delete (aged ?cut s) (events s)"
  obtain es n where l: "prune_loop (max_bytes cfg) ?es = (es, n)" by force
  then have s': "s' = s\<lparr>events := es\<rparr>" using p by (auto simp: prune_def Let_def)
  have "event_bytes es \<le> max_bytes cfg"
    using prune_loop_bound [OF l] limit by (auto simp: event_bytes_def)
  moreover have "set es \<subseteq> set (events s)" using prune_loop_subset [OF l] by auto
  moreover have "distinct (map ev_id ?es)" using wf by (simp add: events_wf_def distinct_map_sql_delete)
  then have "\<forall>x \<in> set ?es - set es. ev_type x = ''attempt.log'' \<or> (\<forall>y \<in> set es. ev_type y \<noteq> ''attempt.log'')"
    using prune_loop_logs_first [OF l] by blast
  ultimately show ?thesis unfolding s' by auto
qed

section \<open>Replay\<close>

definition protocol_error :: "'a result \<Rightarrow> bool" where
  "protocol_error r = (case r of Inl (ProtocolError m) \<Rightarrow> True | Inl _ \<Rightarrow> False | Inr _ \<Rightarrow> True)"

lemma protocol_error_simps [simp]:
  "protocol_error (Inr x)" "protocol_error (Inl (ProtocolError m))" "protocol_error (ensure b (ProtocolError m))"
  by (simp_all add: protocol_error_def ensure_def)

lemma protocol_error_rbind [intro]:
  "protocol_error r \<Longrightarrow> (\<And>x. r = Inr x \<Longrightarrow> protocol_error (f x)) \<Longrightarrow> protocol_error (rbind r f)"
  by (auto simp: protocol_error_def rbind_def split: sum.splits exn.splits)

lemma protocol_error_checks [simp]:
  "protocol_error (require_uuid x l)" "protocol_error (check_type al x)" "protocol_error (check_ts clk x)"
  "protocol_error (check_payload x)" "protocol_error (check_optional_uuid d k)" "protocol_error (check_seq d)"
  "protocol_error (check_log t p)"
  by (auto simp: require_uuid_def check_type_def check_ts_def parse_timestamp_def check_payload_def
      check_optional_uuid_def check_seq_def check_log_def Let_def split: json.splits option.splits
      intro!: protocol_error_rbind)

lemma protocol_error_validate: "protocol_error (validate_envelope clk al raw)"
  unfolding validate_envelope_def
  by (cases raw) (simp_all, (intro protocol_error_rbind protocol_error_checks protocol_error_simps)+)

lemma envelope_from_mapping_error:
  "envelope_from_mapping clk al raw = Inl x \<Longrightarrow> \<exists>m. x = ProtocolError m"
  using protocol_error_rbind [OF protocol_error_validate [of clk al raw], of "\<lambda>d. Inr (envelope_of d)"]
  by (auto simp: envelope_from_mapping_def protocol_error_def split: exn.splits)

text \<open>The row holds the text of this envelope, which the engine built.\<close>

definition stored_as :: "event_row \<Rightarrow> envelope \<Rightarrow> bool" where
  "stored_as e env \<longleftrightarrow> to_json env = Inr (ev_envelope_json e) \<and> printable (JObj (to_dict env)) \<and>
     env_v env = JInt PROTOCOL_VERSION \<and> env_attempt_id env = Some (ev_attempt_id e) \<and> env_seq env = Some (ev_seq e)"

lemma row_doc_stored:
  assumes "stored_as e env"
  shows "row_doc e = Inr (stored_payload (to_dict env))"
    and "ev_envelope_json e = dump (JObj (stored_payload (to_dict env)))"
    and "length (ev_envelope_json e) \<le> MAX_FRAME_BYTES"
proof -
  have *: "ev_envelope_json e = json_dumps (JObj (to_dict env))" "printable (JObj (to_dict env))"
    using assms by (auto simp: stored_as_def to_json_def Let_def split: if_splits)
  show "row_doc e = Inr (stored_payload (to_dict env))"
    using loads_dumps [OF *(2)] *(1) by (simp add: row_doc_def sort_keys_JObj del: sort_keys.simps)
  show "ev_envelope_json e = dump (JObj (stored_payload (to_dict env)))"
    using *(1) by (simp only: json_dumps_def sort_keys_JObj)
  show "length (ev_envelope_json e) \<le> MAX_FRAME_BYTES"
    using assms by (auto simp: stored_as_def to_json_def Let_def split: if_splits)
qed

lemma row_unseen_stored:
  assumes st: "stored_as e env"
  shows "row_unseen cs e = Inr (cursor cs (ev_attempt_id e) < ev_seq e)"
proof -
  have "env_attempt_id env = Some (ev_attempt_id e)" "env_seq env = Some (ev_seq e)"
    using st by (simp_all add: stored_as_def)
  then show ?thesis
    by (simp add: row_unseen_def row_doc_stored [OF st] jget_stored distinct_to_dict jget_to_dict)
qed

lemma replay_row_stored:
  assumes st: "stored_as e env"
  shows "replay_row clk cs e =
    Inr (if admissible clk (Some OUTBOUND_MESSAGE_TYPES) (to_dict env) \<and> cursor cs (ev_attempt_id e) < ev_seq e
         then [env_stored env] else [])"
proof -
  let ?d = "stored_payload (to_dict env)"
  have setd: "jsetdefault ?d ''engine_id'' v = ?d" for v
    by (simp add: jsetdefault_def jhas_jget jget_stored distinct_to_dict jget_to_dict)
  have doc: "printable (JObj (to_dict env))" and v: "env_v env = JInt PROTOCOL_VERSION"
    using st by (simp_all add: stored_as_def)
  have "json_loads (ev_envelope_json e) = Inr (JObj ?d)"
    using row_doc_stored(1) [OF st] by (auto simp: row_doc_def split: sum.splits json.splits)
  then have dec: "decode_frame clk al (Text (dump (JObj ?d))) = envelope_from_mapping clk al (JObj ?d)" for al
    using row_doc_stored(2,3) [OF st] by (simp add: decode_frame_def frame_text_def del: dump_sp.simps)
  have "distinct (map fst (env_payload env))" using doc by (simp add: to_dict_def)
  note adm = admissible_stored [OF this v]
  show ?thesis
  proof (cases "admissible clk (Some OUTBOUND_MESSAGE_TYPES) (to_dict env)")
    case True
    then have "envelope_from_mapping clk (Some OUTBOUND_MESSAGE_TYPES) (JObj ?d) = Inr (env_stored env)"
      using validate_envelope_Inr [of clk "Some OUTBOUND_MESSAGE_TYPES" "JObj ?d" ?d] adm envelope_of_stored [OF v]
      by (simp add: envelope_from_mapping_def)
    then show ?thesis
      using True st by (simp add: replay_row_def row_doc_stored [OF st] setd dec env_stored_def stored_as_def
          del: dump_sp.simps)
  next
    case False
    then have "\<not> (\<exists>x. validate_envelope clk (Some OUTBOUND_MESSAGE_TYPES) (JObj ?d) = Inr x)"
      using adm by (auto simp: validate_envelope_Inr)
    then obtain x where x: "envelope_from_mapping clk (Some OUTBOUND_MESSAGE_TYPES) (JObj ?d) = Inl x"
      by (cases "validate_envelope clk (Some OUTBOUND_MESSAGE_TYPES) (JObj ?d)")
        (auto simp: envelope_from_mapping_def)
    with envelope_from_mapping_error obtain m where "x = ProtocolError m" by blast
    then show ?thesis using False x by (simp add: replay_row_def row_doc_stored [OF st] setd dec del: dump_sp.simps)
  qed
qed

lemma filter_rows_Inr: "(\<And>x. x \<in> set xs \<Longrightarrow> p x = Inr (q x)) \<Longrightarrow> filter_rows p xs = Inr (filter q xs)"
  by (induction xs) auto

lemma each_Inr: "(\<And>x. x \<in> set xs \<Longrightarrow> f x = Inr (g x)) \<Longrightarrow> each f xs = Inr (map g xs)"
  by (induction xs) auto

lemma concat_if_filter: "concat (map (\<lambda>x. if P x then [f x] else []) xs) = map f (filter P xs)"
  by (induction xs) auto

lemma replay_after_rows:
  assumes rows: "\<forall>e \<in> set (events s). stored_as e (env_of e)"
  shows "replay_after clk cs s = Inr (map (\<lambda>e. env_stored (env_of e))
    (filter (\<lambda>e. cursor cs (ev_attempt_id e) < ev_seq e \<and> admissible clk (Some OUTBOUND_MESSAGE_TYPES) (to_dict (env_of e)))
      (order_by event_key (events s))))"
proof -
  let ?new = "\<lambda>e. cursor cs (ev_attempt_id e) < ev_seq e"
  let ?adm = "\<lambda>e. admissible clk (Some OUTBOUND_MESSAGE_TYPES) (to_dict (env_of e))"
  let ?es = "filter ?new (order_by event_key (events s))"
  have "replay_rows cs s = Inr ?es"
    unfolding replay_rows_def by (rule filter_rows_Inr) (use rows row_unseen_stored in auto)
  moreover have "each (replay_row clk cs) ?es = Inr (map (\<lambda>e. if ?adm e \<and> ?new e then [env_stored (env_of e)] else []) ?es)"
    by (rule each_Inr) (use rows replay_row_stored in auto)
  ultimately show ?thesis
    by (simp add: replay_after_def concat_if_filter conj_commute cong: filter_cong)
qed



section \<open>An outbox with one event\<close>

lemma ex_clock_now [simp]: "clk_now (ex_clock n) = n"
  by (simp add: ex_clock_def)

definition ex_event :: envelope where
  "ex_event = \<lparr>env_v = JInt 2, env_id = ex_attempt2, env_type = ''attempt.status'', env_ts = ''7'',
     env_payload = [], env_engine_id = ex_engine, env_build_job_id = Some ex_build,
     env_attempt_id = Some ex_attempt, env_seq = Some 1\<rparr>"

definition ex_event_json :: string where
  "ex_event_json = json_dumps (JObj (to_dict ex_event))"

definition ex_event_row :: event_row where
  "ex_event_row = \<lparr>ev_id = ex_attempt2, ev_attempt_id = ex_attempt, ev_seq = 1, ev_type = ''attempt.status'',
     ev_envelope_json = ex_event_json, ev_created_at = 200\<rparr>"

definition outbox_store :: store where
  "outbox_store = (store_with [running_row\<lparr>j_sequence_cursor := 1\<rparr>])\<lparr>events := [ex_event_row]\<rparr>"

lemma ex_event_cols [simp]:
  "env_attempt_id ex_event = Some ex_attempt" "env_seq ex_event = Some 1" "env_id ex_event = ex_attempt2"
  "env_v ex_event = JInt 2" "env_ts ex_event = ''7''" "env_type ex_event = ''attempt.status''"
  by (simp_all add: ex_event_def)

lemma ex_event_row_cols [simp]:
  "ev_id ex_event_row = ex_attempt2" "ev_attempt_id ex_event_row = ex_attempt" "ev_seq ex_event_row = 1"
  "ev_envelope_json ex_event_row = ex_event_json" "ev_type ex_event_row = ''attempt.status''"
  by (simp_all add: ex_event_row_def)

lemma ex_event_sorted: "sort_keys (JObj (to_dict ex_event)) =
   JObj [(''attempt_id'', JStr ex_attempt), (''build_job_id'', JStr ex_build), (''engine_id'', JStr ex_engine),
     (''id'', JStr ex_attempt2), (''payload'', JObj []), (''seq'', JInt 1), (''ts'', JStr ''7''),
     (''type'', JStr ''attempt.status''), (''v'', JInt 2)]"
  by (simp add: to_dict_def ex_event_def opt_field_def less_char_def less_eq_char_def)

lemma ex_event_length: "length ex_event_json \<le> 1000"
  unfolding ex_event_json_def json_dumps_def ex_event_sorted
  by (simp add: dump_str_plain uuid_plain is_uuid_length int_str_def nat_digits.simps plain_char_def)

lemma ex_event_to_json: "to_json ex_event = Inr ex_event_json"
  using ex_event_length by (simp add: to_json_def Let_def ex_event_json_def [symmetric] MAX_FRAME_BYTES_def)

lemma ex_event_stored: "stored_as ex_event_row ex_event"
  unfolding stored_as_def
  by (simp add: ex_event_to_json PROTOCOL_VERSION_def,
      simp add: ex_event_def to_dict_def opt_field_def plain_valid_utf8 uuid_plain plain_char_def nat_digits.simps)

lemma outbox_store_simps [simp]:
  "events outbox_store = [ex_event_row]" "jobs outbox_store = [running_row\<lparr>j_sequence_cursor := 1\<rparr>]"
  by (simp_all add: outbox_store_def)

lemma outbox_store_wf [simp]: "events_wf outbox_store" "jobs_wf [running_row\<lparr>j_sequence_cursor := 1\<rparr>]"
  using running_wf by (simp_all add: events_wf_def jobs_wf_def row_wf_def)

theorem next_seq_append_witness:
  "\<exists>s'. append_event \<lparr>max_bytes = 1000, retention_days = 7\<rparr> 200 ex_event (store_with [running_row]) = (Inr (), s') \<and>
     next_seq s' ex_attempt = Inr 2"
  using next_seq_append [of "store_with [running_row]" ex_attempt 1 ex_event ex_event_json
      "\<lparr>max_bytes = 1000, retention_days = 7\<rparr>" 200]
  by (simp add: events_wf_def next_seq_def attempt_row_def ex_event_to_json) blast

theorem append_event_at_most_once_witness:
  "append_event \<lparr>max_bytes = 1000, retention_days = 7\<rparr> 300 ex_event outbox_store = (Inr (), outbox_store)"
  using append_event_at_most_once [of outbox_store ex_event_row ex_event ex_event_json
      "\<lparr>max_bytes = 1000, retention_days = 7\<rparr>" 300]
  by (simp add: ex_event_to_json)

theorem prune_bounded_witness:
  "event_bytes (events (snd (prune \<lparr>max_bytes = 10, retention_days = 7\<rparr> 300 outbox_store))) \<le> 10"
  using prune_bounded [of outbox_store "\<lparr>max_bytes = 10, retention_days = 7\<rparr>" 300
      "fst (prune \<lparr>max_bytes = 10, retention_days = 7\<rparr> 300 outbox_store)"
      "snd (prune \<lparr>max_bytes = 10, retention_days = 7\<rparr> 300 outbox_store)"]
  by simp

lemma ex_event_admissible: "admissible (ex_clock 8) (Some OUTBOUND_MESSAGE_TYPES) (to_dict ex_event)"
  by (simp add: admissible_def jfield_def jget_to_dict ex_parse MAX_TIMESTAMP_SKEW_def,
     simp add: ex_event_def to_dict_def opt_field_def envelope_fields_def required_fields_def py_eq_int_def
       allowed_set_def OUTBOUND_MESSAGE_TYPES_def ex_clock_def)



end
