(* ===== verification/Store_Steps.thy ===== *)
theory Store_Steps
  imports Queue_Outcomes Event_Correct
begin

text \<open>
  The database as a state machine: any sequence of calls of the queue and of the outbox,
  by whichever workers and connections, successful or not. Each call is atomic (the
  transactions and locks of the source); the relation lets them interleave freely.
\<close>

inductive store_step :: "store \<Rightarrow> store \<Rightarrow> bool" where
  step_enqueue: "enqueue now p s = (res, s') \<Longrightarrow> store_step s s'"
| step_acquire: "acquire_lease now tok owner vt s = (res, s') \<Longrightarrow> store_step s s'"
| step_refresh: "refresh_lease now a owner vt tok s = (res, s') \<Longrightarrow> store_step s s'"
| step_transition: "transition now a state err ex owner tok s = (res, s') \<Longrightarrow> store_step s s'"
| step_cancel: "request_cancel now b ao s = (res, s') \<Longrightarrow> store_step s s'"
| step_crash: "record_executor_crash now a err owner tok s = (res, s') \<Longrightarrow> store_step s s'"
| step_prune_jobs: "prune_terminal now days s = (res, s') \<Longrightarrow> store_step s s'"
| step_append: "append_event cfg now env s = (res, s') \<Longrightarrow> store_step s s'"
| step_ack: "ack_through a n s = (res, s') \<Longrightarrow> store_step s s'"
| step_prune_events: "prune cfg now s = (res, s') \<Longrightarrow> store_step s s'"

inductive reachable :: "store \<Rightarrow> bool" where
  reachable_empty: "reachable empty_store"
| reachable_step: "reachable s \<Longrightarrow> store_step s s' \<Longrightarrow> reachable s'"

definition store_wf :: "store \<Rightarrow> bool" where
  "store_wf s \<longleftrightarrow> jobs_wf (jobs s) \<and> dlq_wf (dlq s) \<and> events_wf s"

section \<open>What one step does to the table of jobs\<close>

text \<open>Rows are rewritten in place (at most twice in one call), added at the end, or removed
  once they are terminal.\<close>

definition jobs_step :: "job_row list \<Rightarrow> job_row list \<Rightarrow> bool" where
  "jobs_step rs rs' \<longleftrightarrow> (\<exists>m. table_evolves rs m \<and> table_evolves m rs') \<or>
     (\<exists>now b a p. is_uuid b \<and> is_uuid a \<and> rs' = insert_job now b a p rs) \<or>
     (\<exists>P. rs' = filter P rs \<and> (\<forall>r \<in> set rs. \<not> P r \<longrightarrow> terminal (j_state r)))"

lemma jobs_step_evolves: "table_evolves rs rs' \<Longrightarrow> jobs_step rs rs'"
  unfolding jobs_step_def using table_evolves_refl by blast

lemma jobs_step_same [simp]: "jobs_step rs rs"
  by (simp add: jobs_step_evolves)

lemma append_jobs_step: "append_event cfg now env s = (res, s') \<Longrightarrow> jobs_step (jobs s) (jobs s') \<and> dlq s' = dlq s"
  by (drule append_event_effect) (auto simp: jobs_step_evolves append_table_evolves)

lemma prune_terminal_jobs_step:
  assumes "prune_terminal now days s = (res, s')"
  shows "jobs_step (jobs s) (jobs s')"
  using assms unfolding jobs_step_def
  by (intro disjI2 exI [of _ "\<lambda>r. \<not> (terminal (j_state r) \<and> j_updated_at r < now - days * 86400000)"])
    (auto simp: prune_terminal_def Let_def sql_delete_def)

lemma jobs_step_wf: "jobs_step rs rs' \<Longrightarrow> jobs_wf rs \<Longrightarrow> jobs_wf rs'"
  unfolding jobs_step_def by (auto intro: table_evolves_wf insert_job_wf jobs_wf_filter)

lemma events_wf_insert_job:
  "events_wf s \<Longrightarrow> events s' = events s \<Longrightarrow> jobs s' = insert_job now b a p (jobs s) \<Longrightarrow> events_wf s'"
  by (auto simp: events_wf_def insert_job_def)

lemma rewrite_wf_parts:
  assumes "only_jobs s s'" and "table_evolves (jobs s) (jobs s')" and "store_wf s"
  shows "jobs_step (jobs s) (jobs s') \<and> dlq_wf (dlq s') \<and> events_wf s'"
  using assms events_wf_evolves [of s s'] only_jobs_dlq [OF assms(1)] only_jobs_events [OF assms(1)]
  by (simp add: store_wf_def jobs_step_evolves)

lemma store_step_wf_parts:
  assumes "store_step s s'" and "store_wf s"
  shows "jobs_step (jobs s) (jobs s') \<and> dlq_wf (dlq s') \<and> events_wf s'"
  using assms(1)
proof cases
  case (step_enqueue now p res)
  note eff = enqueue_effect [OF step_enqueue]
  show ?thesis
    using eff(3)
  proof (elim disjE exE conjE)
    fix b a assume *: "assigns p b a" "jobs s' = insert_job now b a p (jobs s)"
    then have "jobs_step (jobs s) (jobs s')" by (auto simp: jobs_step_def assigns_def)
    then show ?thesis using eff assms(2) * events_wf_insert_job [OF _ eff(1) *(2)] by (simp add: store_wf_def)
  qed (use eff assms(2) in \<open>auto simp: store_wf_def events_wf_def\<close>)
next
  case (step_acquire now tok owner vt res)
  then obtain m where m: "only_jobs s s'" "table_evolves (jobs s) m" "table_evolves m (jobs s')"
    using acquire_lease_effect assms(2) unfolding store_wf_def by blast
  have "events_wf (s\<lparr>jobs := m\<rparr>)" using events_wf_evolves [of s "s\<lparr>jobs := m\<rparr>"] m assms(2) by (simp add: store_wf_def)
  then have "events_wf s'"
    using events_wf_evolves [of "s\<lparr>jobs := m\<rparr>" s'] m only_jobs_events [OF m(1)] by simp
  then show ?thesis using m assms(2) only_jobs_dlq [OF m(1)] by (auto simp: store_wf_def jobs_step_def)
next
  case (step_refresh now a owner vt tok res)
  show ?thesis using rewrite_wf_parts [OF _ _ assms(2)] refresh_lease_effect [OF step_refresh] by blast
next
  case (step_transition now a state err ex owner tok res)
  show ?thesis using rewrite_wf_parts [OF _ _ assms(2)] transition_effect [OF step_transition] by blast
next
  case (step_cancel now b ao res)
  show ?thesis using rewrite_wf_parts [OF _ _ assms(2)] request_cancel_effect [OF step_cancel] by blast
next
  case (step_crash now a err owner tok res)
  note eff = crash_effect [OF step_crash]
  then show ?thesis
    using assms(2) events_wf_evolves [of s s'] by (simp add: store_wf_def jobs_step_evolves)
next
  case (step_prune_jobs now days res)
  then show ?thesis
    using assms(2) events_wf_prune_terminal [OF _ step_prune_jobs] prune_terminal_effect [OF step_prune_jobs]
      prune_terminal_jobs_step [OF step_prune_jobs] by (simp add: store_wf_def)
next
  case (step_append cfg now env res)
  then show ?thesis
    using assms(2) append_jobs_step [OF step_append] events_wf_append [OF _ step_append] by (simp add: store_wf_def)
next
  case (step_ack a n res)
  then show ?thesis
    using assms(2) events_wf_ack [of s a n] by (auto simp: store_wf_def ack_through_def)
next
  case (step_prune_events cfg now res)
  then show ?thesis
    using assms(2) events_wf_prune [of s cfg now] prune_effect [of cfg now s] by (auto simp: store_wf_def)
qed

lemma store_step_wf: "store_step s s' \<Longrightarrow> store_wf s \<Longrightarrow> store_wf s'"
  using store_step_wf_parts jobs_step_wf unfolding store_wf_def by blast

lemma reachable_wf: "reachable s \<Longrightarrow> store_wf s"
proof (induction rule: reachable.induct)
  case reachable_empty
  then show ?case by (simp add: store_wf_def empty_store_def jobs_wf_def dlq_wf_def events_wf_def)
qed (rule store_step_wf)

section \<open>Properties of every run\<close>



lemma evolves_final:
  assumes "evolves r r'" and "terminal (j_state r)"
  shows "j_state r' = j_state r \<and> j_error r' = j_error r \<and>
     j_lease_token r' = j_lease_token r \<and> j_attempts r \<le> j_attempts r'"
  using evolves_terminal [OF assms] assms unfolding evolves_def by blast

lemma jobs_step_terminal:
  assumes "jobs_step rs rs'" and "jobs_wf rs" and r: "r \<in> set rs" "terminal (j_state r)"
    and r': "r' \<in> set rs'" "j_attempt_id r' = j_attempt_id r"
  shows "j_state r' = j_state r \<and> j_error r' = j_error r \<and> j_attempts r \<le> j_attempts r' \<and> j_lease_token r' = None"
proof -
  note dist = jobs_wf_distinct [OF assms(2)]
  have "row_wf r" using jobs_wf_row [OF assms(2) r(1)] .
  then have tok: "j_lease_token r = None" using r(2) by (simp add: row_wf_def)
  have same: "x = r" if "x \<in> set rs" "j_attempt_id x = j_attempt_id r" for x
    using distinct_key_eq [OF dist that(1) r(1)] that(2) by simp
  show ?thesis
    using assms(1) unfolding jobs_step_def
  proof (elim disjE exE conjE)
    fix m assume m: "table_evolves rs m" "table_evolves m rs'"
    then obtain y x where yx: "y \<in> set m" "evolves y r'" "x \<in> set rs" "evolves x y"
      using table_evolves_in [OF m(2) r'(1)] table_evolves_in [OF m(1)] by blast
    then have "j_attempt_id x = j_attempt_id r"
      using r'(2) by (metis evolves_same_job same_job_def)
    with yx(3) have "x = r" by (rule same)
    then have "evolves r y" using yx(4) by simp
    from evolves_final [OF this r(2)] show ?thesis using evolves_final [OF yx(2)] r(2) tok by auto
  next
    fix now b a p assume "rs' = insert_job now b a p rs"
    then have "r' \<in> set rs"
      using r' r(1) by (auto simp: insert_job_def attempt_row_None split: if_splits)
    then show ?thesis using same r'(2) tok by auto
  next
    fix P assume "rs' = filter P rs"
    then show ?thesis using same r' tok by auto
  qed
qed

text \<open>
  Terminal states are final: whatever call comes next, from whichever worker, an
  attempt that has succeeded, failed, been cancelled or timed out keeps its state and its
  error and is never leased again, until retention removes it.
\<close>

theorem terminal_is_final:
  assumes "reachable s" and "store_step s s'" and "r \<in> set (jobs s)" and "terminal (j_state r)"
    and "r' \<in> set (jobs s')" and "j_attempt_id r' = j_attempt_id r"
  shows "j_state r' = j_state r \<and> j_error r' = j_error r \<and> j_lease_token r' = None"
  using jobs_step_terminal [OF _ _ assms(3-6)] store_step_wf_parts [OF assms(2)] reachable_wf [OF assms(1)]
  by (auto simp: store_wf_def)


text \<open>A run: an attempt arrives, fails, and a worker looks for work.\<close>

definition failed_row :: job_row where
  "failed_row = transition_row 150 FAILED (Some ''boom'') (new_job_row 100 ex_build ex_attempt ex_payload [])"

definition failed_store :: store where
  "failed_store = snd (transition 150 ex_attempt ''FAILED'' (Some ''boom'') None None None
     (snd (enqueue 100 ex_payload empty_store)))"

lemma failed_store_reachable: "reachable failed_store"
  unfolding failed_store_def
  by (rule reachable_step [OF reachable_step [OF reachable_empty]], rule step_enqueue, rule prod.collapse [symmetric],
      rule step_transition, rule prod.collapse [symmetric])

lemma failed_store_jobs: "jobs failed_store = [failed_row]"
proof -
  let ?r = "new_job_row 100 ex_build ex_attempt ex_payload []"
  have "state_of_str ''FAILED'' = Some FAILED"
    using state_of_str_state_str [of FAILED] by (simp add: state_str_def)
  moreover have "jobs (snd (enqueue 100 ex_payload empty_store)) = [?r]"
    by (simp add: enqueue_new [OF ex_assigns] empty_store_def attempt_row_def Let_def)
  ultimately show ?thesis
    by (simp add: failed_store_def failed_row_def transition_def attempt_row_def LEGAL_PREVIOUS_STATES_def
        Let_def sql_matches_def rowcount_def sql_update_def)
qed

lemma failed_row_cols: "j_state failed_row = FAILED" "j_attempt_id failed_row = ex_attempt"
  by (simp_all add: failed_row_def transition_row_def Let_def)

theorem terminal_is_final_witness:
  "j_state ` set (filter (has_attempt ex_attempt)
     (jobs (snd (acquire_lease 200 ''tok-1'' ''worker-0'' 30 failed_store)))) \<subseteq> {FAILED}"
proof -
  have "store_step failed_store (snd (acquire_lease 200 ''tok-1'' ''worker-0'' 30 failed_store))"
    by (rule step_acquire) (rule prod.collapse [symmetric])
  from terminal_is_final [OF failed_store_reachable this, of failed_row]
  show ?thesis by (auto simp: failed_store_jobs failed_row_cols has_attempt_def)
qed

end
