(* ===== verification/Attempt_Life.thy ===== *)
theory Attempt_Life
  imports Store_Steps
begin

text \<open>
  What the queue promises about one attempt, as a small state machine of its own, and the
  proof that the tables implement it: every call, by whichever task, takes the attempt along
  the edges of the machine.
\<close>

section \<open>The abstract attempt\<close>

text \<open>An attempt waits or is being worked on after a number of runs, or is settled for good.\<close>

datatype phase = Waiting int | Working int | Settled job_state

inductive life :: "phase option \<Rightarrow> phase option \<Rightarrow> bool" where
  life_assign: "life None (Some (Waiting 0))"
| life_lease: "life (Some (Waiting n)) (Some (Working (n + 1)))"
| life_mark: "life (Some (Waiting n)) (Some (Working n))" \<comment> \<open>\<open>transition\<close> to \<open>LEASED\<close>, which no caller uses\<close>
| life_takeover: "life (Some (Working n)) (Some (Working (n + 1)))"
| life_requeue: "life (Some (Working n)) (Some (Waiting n))"
| life_give_up: "st \<noteq> SUCCEEDED \<Longrightarrow> terminal st \<Longrightarrow> life (Some (Waiting n)) (Some (Settled st))"
| life_settle: "terminal st \<Longrightarrow> life (Some (Working n)) (Some (Settled st))"
| life_forget: "life (Some (Settled st)) None"

inductive_cases life_SettledE: "life (Some (Settled st)) p"

inductive_simps life_into_simps:
  "life p (Some (Settled st))"
  "life p (Some (Waiting n))"

text \<open>What the machine promises: a settled attempt stays as it is until it is forgotten, and
  success is reached from work only.\<close>

lemma life_settled_stays: "life (Some (Settled st)) (Some p) \<Longrightarrow> False"
  by (erule life_SettledE) simp

lemma life_success: "life p (Some (Settled SUCCEEDED)) \<longleftrightarrow> (\<exists>n. p = Some (Working n))"
  by (auto simp: life_into_simps)

definition phase :: "job_row \<Rightarrow> phase" where
  "phase r = (case j_state r of
      QUEUED \<Rightarrow> Waiting (j_attempts r)
    | LEASED \<Rightarrow> Working (j_attempts r)
    | RUNNING \<Rightarrow> Working (j_attempts r)
    | st \<Rightarrow> Settled st)"

definition phase_of :: "job_row list \<Rightarrow> string \<Rightarrow> phase option" where
  "phase_of rs a = map_option phase (attempt_row rs a)"

lemma phase_cases:
  "phase r = (if terminal (j_state r) then Settled (j_state r)
     else if j_state r = QUEUED then Waiting (j_attempts r) else Working (j_attempts r))"
  by (cases "j_state r") (simp_all add: phase_def terminal_def)

section \<open>Rewriting rows\<close>

definition row_life :: "job_row \<Rightarrow> job_row \<Rightarrow> bool" where
  "row_life r r' \<longleftrightarrow> j_attempt_id r' = j_attempt_id r \<and> life\<^sup>*\<^sup>* (Some (phase r)) (Some (phase r'))"

lemma row_life_refl [simp]: "row_life r r"
  by (simp add: row_life_def)

lemma row_life_step: "j_attempt_id r' = j_attempt_id r \<Longrightarrow> phase r' = phase r \<or> life (Some (phase r)) (Some (phase r')) \<Longrightarrow> row_life r r'"
  by (auto simp: row_life_def)

definition table_life :: "job_row list \<Rightarrow> job_row list \<Rightarrow> bool" where
  "table_life rs rs' \<longleftrightarrow> (\<forall>a. life\<^sup>*\<^sup>* (phase_of rs a) (phase_of rs' a))"

lemma table_life_refl [simp]: "table_life rs rs"
  by (simp add: table_life_def)

lemma table_life_trans: "table_life rs rs' \<Longrightarrow> table_life rs' rs'' \<Longrightarrow> table_life rs rs''"
  unfolding table_life_def by (meson rtranclp_trans)

lemma table_life_rows:
  assumes "list_all2 row_life rs rs'"
  shows "table_life rs rs'"
  unfolding table_life_def
proof
  fix a
  show "life\<^sup>*\<^sup>* (phase_of rs a) (phase_of rs' a)"
    using assms
    by (induction rule: list_all2_induct) (auto simp: phase_of_def attempt_row_find row_life_def)
qed

lemma table_life_update:
  assumes "\<And>r. r \<in> set rs \<Longrightarrow> c r \<Longrightarrow> row_life r (f r)"
  shows "table_life rs (sql_update c f rs)"
  unfolding sql_update_def by (rule table_life_rows) (simp add: list.rel_map list.rel_refl_strong assms)

text \<open>The row functions follow the edges.\<close>

lemma cancel_row_life: "\<not> terminal (j_state r) \<Longrightarrow> row_life r (cancel_row now r)"
  by (rule row_life_step) (auto simp: cancel_row_def phase_cases terminal_def intro: life.intros)

lemma lease_row_life: "leasable now r \<Longrightarrow> row_life r (lease_row now' owner tok ex r)"
  by (rule row_life_step) (auto simp: lease_row_def phase_cases terminal_def leasable_def active_def intro: life.intros)

lemma transition_row_life:
  assumes "j_state r \<in> set (LEGAL_PREVIOUS_STATES st)"
  shows "row_life r (transition_row now st err r)"
  by (rule row_life_step)
    (use assms in \<open>auto simp: transition_row_def Let_def phase_cases terminal_def LEGAL_PREVIOUS_STATES_def
      split: job_state.splits intro: life.intros\<close>)

lemma crash_row_life: "active (j_state r) \<Longrightarrow> st \<in> {QUEUED, FAILED} \<Longrightarrow> row_life r (crash_row now st msg r)"
  by (rule row_life_step) (auto simp: crash_row_def phase_cases terminal_def active_def intro: life.intros)

section \<open>The calls\<close>

lemma enqueue_life:
  assumes "enqueue now p s = (res, s')"
  shows "table_life (jobs s) (jobs s')"
proof -
  have "table_life rs (insert_job now b a p rs)" for b a rs
    unfolding table_life_def
  proof
    fix x
    have "life\<^sup>*\<^sup>* (phase_of rs x) (phase_of (rs @ [new_job_row now b a p rs]) x)" if "attempt_row rs a = None"
      using that by (cases "attempt_row rs x")
        (auto simp: phase_of_def attempt_row_def fetchone_def new_job_row_def phase_def intro: life_assign split: list.splits)
    then show "life\<^sup>*\<^sup>* (phase_of rs x) (phase_of (insert_job now b a p rs) x)" by (simp add: insert_job_def)
  qed
  then show ?thesis using enqueue_effect(3) [OF assms] by auto
qed

lemma acquire_life:
  assumes acq: "acquire_lease now tok owner vt s = (res, s')" and wf: "jobs_wf (jobs s)"
  shows "table_life (jobs s) (jobs s')"
proof -
  obtain rs x where loop: "acquire_loop now (jobs s) = (rs, x)" by force
  note dist = jobs_wf_distinct [OF wf]
  have "list_all2 (settled now) (jobs s) rs" using acquire_loop_settled [OF dist, of now] loop by simp
  then have "list_all2 row_life (jobs s) rs"
    by (rule list_all2_mono) (auto simp: settled_def cancel_row_life leasable_not_terminal)
  then have rs: "table_life (jobs s) rs" by (rule table_life_rows)
  show ?thesis
  proof (cases x)
    case (Some r)
    have r: "r \<in> set rs" "leasable now r" using acquire_loop_Some [OF dist] loop Some by auto
    have drs: "distinct (map j_attempt_id rs)" using acquire_loop_distinct [OF dist loop] .
    have "table_life rs (sql_update (has_attempt (j_attempt_id r)) (lease_row now owner tok ex) rs)" for ex
    proof (rule table_life_update)
      fix y assume "y \<in> set rs" "has_attempt (j_attempt_id r) y"
      then have "y = r" using distinct_key_eq [OF drs _ r(1)] by (simp add: has_attempt_def)
      then show "row_life y (lease_row now owner tok ex y)" using r(2) lease_row_life by simp
    qed
    then show ?thesis
      using rs table_life_trans acq loop Some by (auto simp: acquire_lease_def Let_def split: option.splits)
  qed (use rs acq loop in \<open>auto simp: acquire_lease_def\<close>)
qed

lemma transition_life:
  assumes "transition now a state err ex owner tok s = (res, s')"
  shows "table_life (jobs s) (jobs s')"
proof -
  have "table_life (jobs s) (sql_update (\<lambda>r. j_attempt_id r = a \<and> (j_state r = st0 \<and>
       sql_matches owner (j_lease_owner r) \<and> sql_matches tok (j_lease_token r))) (transition_row now st err) (jobs s))"
    if "st0 \<in> set (LEGAL_PREVIOUS_STATES st)" for st st0
    by (rule table_life_update) (use that transition_row_life in blast)
  then show ?thesis using assms by (auto simp: transition_def Let_def split: option.splits if_splits)
qed

lemma same_phase_life:
  "(\<And>r. r \<in> set rs \<Longrightarrow> c r \<Longrightarrow> j_attempt_id (f r) = j_attempt_id r \<and> j_state (f r) = j_state r \<and> j_attempts (f r) = j_attempts r) \<Longrightarrow>
    table_life rs (sql_update c f rs)"
  by (rule table_life_update, rule row_life_step) (simp_all add: phase_cases)

lemma crash_life:
  assumes "record_executor_crash now a msg owner tok s = (res, s')"
  shows "table_life (jobs s) (jobs s')"
proof -
  have "table_life (jobs s) (sql_update (\<lambda>r. j_attempt_id r = a \<and> owned_active owner tok r) (crash_row now st msg) (jobs s))"
    if "st \<in> {QUEUED, FAILED}" for st
    by (rule table_life_update) (use that crash_row_life owned_active_def in blast)
  then show ?thesis using assms by (auto simp: record_executor_crash_def Let_def split: option.splits)
qed

lemma prune_terminal_life:
  assumes "prune_terminal now days s = (res, s')" and wf: "jobs_wf (jobs s)"
  shows "table_life (jobs s) (jobs s')"
  unfolding table_life_def
proof
  fix a
  let ?gone = "\<lambda>r. terminal (j_state r) \<and> j_updated_at r < now - days * 86400000"
  have s': "jobs s' = filter (\<lambda>r. \<not> ?gone r) (jobs s)"
    using assms(1) by (auto simp: prune_terminal_def Let_def sql_delete_def)
  show "life\<^sup>*\<^sup>* (phase_of (jobs s) a) (phase_of (jobs s') a)"
  proof (cases "attempt_row (jobs s) a")
    case None
    then have "attempt_row (jobs s') a = None" using s' by (auto simp: attempt_row_None)
    then show ?thesis using None by (simp add: phase_of_def)
  next
    case (Some r)
    have wf': "distinct (map j_attempt_id (jobs s'))"
      unfolding s' using jobs_wf_distinct [OF wf] by (simp add: distinct_map_filter)
    show ?thesis
    proof (cases "?gone r")
      case True
      have "r \<in> set (jobs s)" "j_attempt_id r = a" using attempt_row_Some [OF Some] by auto
      then have "a \<notin> j_attempt_id ` set (jobs s')"
        using True distinct_key_eq [OF jobs_wf_distinct [OF wf]] unfolding s' by auto
      then have "attempt_row (jobs s') a = None" by (simp add: attempt_row_None)
      moreover have "phase r = Settled (j_state r)" using True by (simp add: phase_cases)
      ultimately show ?thesis using Some life_forget by (simp add: phase_of_def r_into_rtranclp)
    next
      case False
      then have "r \<in> set (jobs s')" using s' attempt_row_Some [OF Some] by auto
      then have "attempt_row (jobs s') a = Some r" using attempt_row_in [OF wf'] attempt_row_Some [OF Some] by auto
      then show ?thesis using Some by (simp add: phase_of_def)
    qed
  qed
qed

lemma append_life: "append_event cfg now env s = (res, s') \<Longrightarrow> table_life (jobs s) (jobs s')"
  by (drule append_event_effect) (auto simp: bump_cursor_def intro!: same_phase_life)



end
