(* ===== verification/Handlers.thy ===== *)
theory Handlers
  imports Store_Steps Cache
begin

text \<open>
  The command handlers of the uplink (\<open>queue/handlers.py\<close>), worker leases
  (\<open>queue/leases.py\<close>) and the dead-letter helpers (\<open>queue/dlq.py\<close>). The engine's local state is
  the database, the drain flag with its marker file, and the build cache.
\<close>

section \<open>State and results\<close>

record engine_state =
  es_store :: store
  es_draining :: bool
  es_drain_marker :: bool \<comment> \<open>\<open>drain.json\<close> exists\<close>
  es_cache :: cache_root
  es_cache_resets :: "string option list option"

type_synonym 'a eop = "engine_state \<Rightarrow> 'a result \<times> engine_state"

record command_result =
  cr_accepted :: bool
  cr_state :: "string option"
  cr_detail :: "string option"
  cr_affected :: "string list"

text \<open>A queue operation on the engine's database.\<close>

definition on_store :: "'a op \<Rightarrow> 'a eop" where
  "on_store f e = (case f (es_store e) of (r, s') \<Rightarrow> (r, e\<lparr>es_store := s'\<rparr>))"

lemma on_store_fst [simp]: "fst (on_store f e) = fst (f (es_store e))"
  and on_store_snd [simp]: "snd (on_store f e) = e\<lparr>es_store := snd (f (es_store e))\<rparr>"
  by (simp_all add: on_store_def split: prod.splits)

section \<open>Commands\<close>

definition post_init :: "engine_state \<Rightarrow> engine_state" where
  "post_init e = e\<lparr>es_draining := es_draining e \<or> es_drain_marker e\<rparr>"

definition assign :: "int \<Rightarrow> payload \<Rightarrow> command_result eop" where
  "assign now p e =
     (let e' = e\<lparr>es_draining := es_drain_marker e\<rparr> in
      if es_draining e' then
        (Inr \<lparr>cr_accepted = False, cr_state = Some ''FAILED'', cr_detail = Some ''Engine is draining'',
              cr_affected = []\<rparr>, e')
      else (case on_store (enqueue now p) e' of
          (Inl x, e'') \<Rightarrow> (Inl x, e'')
        | (Inr r, e'') \<Rightarrow>
            (Inr \<lparr>cr_accepted = True, cr_state = Some (state_str (j_state (enq_job r))), cr_detail = None,
                  cr_affected = []\<rparr>, e'')))"

definition required_str :: "payload \<Rightarrow> string \<Rightarrow> string result" where
  "required_str p k = (case jget p k of
      Some (JStr s) \<Rightarrow> if s = [] then Inl (ProtocolError (''payload '' @ k @ '' is required'')) else Inr s
    | _ \<Rightarrow> Inl (ProtocolError (''payload '' @ k @ '' is required'')))"

definition cancel :: "int \<Rightarrow> payload \<Rightarrow> command_result eop" where
  "cancel now p e =
     (case required_str p ''build_job_id'' of
        Inl x \<Rightarrow> (Inl x, e)
      | Inr b \<Rightarrow>
          (case (case jget_opt p ''attempt_id'' of
                   None \<Rightarrow> Inr None
                 | Some (JStr a) \<Rightarrow> Inr (Some a)
                 | Some _ \<Rightarrow> Inl (ProtocolError ''cancel attempt_id must be a string'')) of
             Inl x \<Rightarrow> (Inl x, e)
           | Inr ao \<Rightarrow>
               (case on_store (request_cancel now b ao) e of
                  (Inl x, e') \<Rightarrow> (Inl x, e')
                | (Inr affected, e') \<Rightarrow>
                    (Inr \<lparr>cr_accepted = True, cr_state = Some ''CANCELLING'', cr_detail = None,
                          cr_affected = affected\<rparr>, e'))))"

definition drain :: "command_result eop" where
  "drain e = (Inr \<lparr>cr_accepted = True, cr_state = Some ''DRAINING'', cr_detail = None, cr_affected = []\<rparr>,
     e\<lparr>es_draining := True, es_drain_marker := True\<rparr>)"

definition resume :: "command_result eop" where
  "resume e = (Inr \<lparr>cr_accepted = True, cr_state = Some ''READY'', cr_detail = None, cr_affected = []\<rparr>,
     e\<lparr>es_draining := False, es_drain_marker := False\<rparr>)"

definition cache_reset :: "payload \<Rightarrow> command_result eop" where
  "cache_reset p e =
     (case (case jget_opt p ''site_id'' of
              None \<Rightarrow> Inr None
            | Some (JStr s) \<Rightarrow> Inr (Some s)
            | Some _ \<Rightarrow> Inl (ProtocolError ''cache.reset site_id must be a string or null'')) of
        Inl x \<Rightarrow> (Inl x, e)
      | Inr sid \<Rightarrow>
          (case reset_cache sid (es_cache e) of
             (Inl x, c) \<Rightarrow> (Inl x, e\<lparr>es_cache := c\<rparr>)
           | (Inr _, c) \<Rightarrow>
               (Inr \<lparr>cr_accepted = True, cr_state = Some ''WIPED'', cr_detail = None, cr_affected = []\<rparr>,
                e\<lparr>es_cache := c,
                  es_cache_resets := Some ((case es_cache_resets e of Some l \<Rightarrow> l | None \<Rightarrow> []) @ [sid])\<rparr>)))"

section \<open>Leases and dead letters\<close>

record queue_lease =
  ql_owner :: string
  ql_job :: job_record
  ql_timeout :: int
  ql_token :: string

definition acquire_queue_lease :: "int \<Rightarrow> string \<Rightarrow> string \<Rightarrow> int \<Rightarrow> queue_lease option op" where
  "acquire_queue_lease now tok owner visibility_timeout_seconds s =
     (case acquire_lease now tok owner visibility_timeout_seconds s of
        (Inl e, s') \<Rightarrow> (Inl e, s')
      | (Inr None, s') \<Rightarrow> (Inr None, s')
      | (Inr (Some job), s') \<Rightarrow>
          (Inr (Some \<lparr>ql_owner = owner, ql_job = job, ql_timeout = visibility_timeout_seconds,
             ql_token = (case j_lease_token job of Some t \<Rightarrow> t | None \<Rightarrow> [])\<rparr>), s'))"

definition lease_refresh :: "int \<Rightarrow> queue_lease \<Rightarrow> job_record op" where
  "lease_refresh now l = refresh_lease now (j_attempt_id (ql_job l)) (ql_owner l) (ql_timeout l) (Some (ql_token l))"

definition dlq_record_executor_crash :: "int \<Rightarrow> string \<Rightarrow> string \<Rightarrow> bool op" where
  "dlq_record_executor_crash now a err s =
     (case record_executor_crash now a err None None s of
        (Inl e, s') \<Rightarrow> (Inl e, s')
      | (Inr job, s') \<Rightarrow> (Inr (j_state job = FAILED), s'))"

definition list_dead_letters :: "store \<Rightarrow> dead_letter list" where
  "list_dead_letters s = dlq_entries s"

section \<open>Invariant\<close>

definition engine_wf :: "engine_state \<Rightarrow> bool" where
  "engine_wf e \<longleftrightarrow> store_wf (es_store e)"

lemma engine_wf_on_store:
  assumes "on_store f e = (r, e')" and "engine_wf e"
    and "\<And>r s'. f (es_store e) = (r, s') \<Longrightarrow> store_step (es_store e) s'"
  shows "engine_wf e'"
  using assms store_step_wf by (auto simp: engine_wf_def on_store_def split: prod.splits)

lemma assign_wf: "engine_wf e \<Longrightarrow> engine_wf (snd (assign now p e))"
  by (auto simp: assign_def Let_def split: prod.splits sum.splits
      elim!: engine_wf_on_store intro: step_enqueue) (simp_all add: engine_wf_def)

lemma cancel_wf: "engine_wf e \<Longrightarrow> engine_wf (snd (cancel now p e))"
  by (auto simp: cancel_def split: prod.splits sum.splits option.splits json.splits
      elim!: engine_wf_on_store intro: step_cancel)

lemma acquire_lease_job:
  "jobs_wf (jobs s) \<Longrightarrow> acquire_lease now tok owner vt s = (Inr (Some job), s') \<Longrightarrow> j_lease_token job = Some tok"
  by (cases rule: acquire_lease_cases [of s now tok owner vt]) (auto simp: lease_row_def)

text \<open>
  A lease acquired by a worker can be refreshed by that worker: \<open>QueueLease.refresh\<close>
  right after \<open>acquire_queue_lease\<close> succeeds, keeps the attempt leased under the same token
  and moves its expiry to the refresh time plus the visibility timeout.
\<close>

theorem fresh_lease_refreshes:
  assumes wf: "jobs_wf (jobs s)" and acq: "acquire_queue_lease now tok owner vt s = (Inr (Some l), s1)"
  shows "\<exists>job s2. lease_refresh later l s1 = (Inr job, s2) \<and> j_attempt_id job = j_attempt_id (ql_job l) \<and>
    j_state job = LEASED \<and> j_lease_token job = Some tok \<and>
    (\<exists>r \<in> set (jobs s2). j_attempt_id r = j_attempt_id job \<and> j_lease_expires_at r = Some (later + vt * 1000))"
proof -
  obtain job where job: "acquire_lease now tok owner vt s = (Inr (Some job), s1)"
    and l: "ql_owner l = owner" "ql_job l = job" "ql_timeout l = vt" "ql_token l = (case j_lease_token job of Some t \<Rightarrow> t | None \<Rightarrow> [])"
    using acq by (auto simp: acquire_queue_lease_def split: prod.splits sum.splits option.splits)
  from acquire_lease_token [OF wf job] obtain r where wf1: "jobs_wf (jobs s1)"
    and r: "attempt_row (jobs s1) (j_attempt_id job) = Some r" "j_lease_token r = Some tok"
      "j_lease_owner r = Some owner" "j_state r = LEASED" by blast
  have tok: "j_lease_token job = Some tok" using acquire_lease_job [OF wf job] .
  note dist = jobs_wf_distinct [OF wf1]
  have in_r: "r \<in> set (jobs s1)" "j_attempt_id r = j_attempt_id job" using attempt_row_Some [OF r(1)] by auto
  let ?c = "\<lambda>x. j_attempt_id x = j_attempt_id job \<and> owned_active (Some owner) (Some tok) x"
  let ?f = "\<lambda>r. r\<lparr>j_lease_expires_at := Some (later + vt * 1000), j_updated_at := later\<rparr>"
  have c: "?c x \<longleftrightarrow> x = r" if "x \<in> set (jobs s1)" for x
    using that in_r r distinct_key_eq [OF dist that in_r(1)] by (auto simp: owned_active_def sql_matches_def)
  have row: "attempt_row (sql_update (\<lambda>x. x = r) ?f (jobs s1)) (j_attempt_id job) = Some (?f r)"
    using attempt_row_update_one [OF dist in_r(1), of ?f] in_r(2) by simp
  note one = sql_update_one [OF dist in_r(1) c]
  have "lease_refresh later l s1 =
      (Inr (load_job (s1\<lparr>jobs := sql_update (\<lambda>x. x = r) ?f (jobs s1)\<rparr>) (?f r)), s1\<lparr>jobs := sql_update (\<lambda>x. x = r) ?f (jobs s1)\<rparr>)"
    using one row tok l by (simp add: lease_refresh_def refresh_lease_def Let_def)
  then show ?thesis
    using in_r r l by (auto simp: set_sql_update intro!: bexI [of _ "?f r"] image_eqI [of _ _ r])
qed

theorem fresh_lease_refreshes_witness:
  "\<exists>l job s2. fst (acquire_queue_lease 200 ''tok-1'' ''worker-0'' 30 (store_with [queued_row])) = Inr (Some l) \<and>
    lease_refresh 1000 l (snd (acquire_queue_lease 200 ''tok-1'' ''worker-0'' 30 (store_with [queued_row]))) = (Inr job, s2) \<and>
    j_lease_token job = Some ''tok-1''"
proof -
  obtain l s1 where l: "acquire_queue_lease 200 ''tok-1'' ''worker-0'' 30 (store_with [queued_row]) = (Inr (Some l), s1)"
    by (simp add: acquire_queue_lease_def acquire_queued)
  show ?thesis using fresh_lease_refreshes [OF _ l, of 1000] l by auto
qed

end
