(* ===== verification/Uplink.thy ===== *)
theory Uplink
  imports Complex_Main Handlers
begin

text \<open>
  The outbound websocket client (\<open>agent/uplink.py\<close>). The connection is a record of what the
  client keeps: the spool's state, whether a socket is open, the frames the socket
  accepted, the heartbeat interval and how many random identifiers were drawn. \<open>ids\<close> is
  the sequence of \<open>uuid.uuid4()\<close> values, \<open>send\<close> says which frames the socket accepts; a
  refused frame raises. \<open>publish_attempt_event\<close> works on any spool that offers
  \<open>next_seq\<close> and \<open>append\<close>, as in the source; the handlers are those of the engine.
\<close>

section \<open>State\<close>

record 's conn =
  c_spool :: 's
  c_ws :: bool
  c_sent :: "string list"
  c_interval :: int
  c_drawn :: nat

section \<open>Publishing\<close>

definition ws_send :: "(string \<Rightarrow> bool) \<Rightarrow> string \<Rightarrow> 's conn \<Rightarrow> unit result \<times> 's conn" where
  "ws_send send frame c =
     (if send frame then (Inr (), c\<lparr>c_sent := c_sent c @ [frame]\<rparr>)
      else (Inl (ConnectionClosed ''connection closed''), c))"

text \<open>The send inside \<open>publish_attempt_event\<close>: any exception drops the socket.\<close>

definition send_or_drop :: "(string \<Rightarrow> bool) \<Rightarrow> envelope \<Rightarrow> 's conn \<Rightarrow> 's conn" where
  "send_or_drop send env c =
     (if \<not> c_ws c then c
      else case to_json env of
          Inl _ \<Rightarrow> c\<lparr>c_ws := False\<rparr>
        | Inr frame \<Rightarrow> (case ws_send send frame c of (Inl _, c') \<Rightarrow> c'\<lparr>c_ws := False\<rparr> | (Inr _, c') \<Rightarrow> c'))"

definition publish_attempt_event ::
  "('s \<Rightarrow> string \<Rightarrow> int result) \<Rightarrow> (int \<Rightarrow> envelope \<Rightarrow> 's \<Rightarrow> unit result \<times> 's) \<Rightarrow>
   clock \<Rightarrow> (nat \<Rightarrow> string) \<Rightarrow> (string \<Rightarrow> bool) \<Rightarrow> string \<Rightarrow> string \<Rightarrow> payload \<Rightarrow> string \<Rightarrow> string \<Rightarrow>
   's conn \<Rightarrow> envelope result \<times> 's conn" where
  "publish_attempt_event nxt app clk ids send engine ty p b a c =
     (case nxt (c_spool c) a of
        Inl e \<Rightarrow> (Inl e, c)
      | Inr seq \<Rightarrow>
          (let c1 = c\<lparr>c_drawn := Suc (c_drawn c)\<rparr> in
           case new_envelope clk (ids (c_drawn c)) ty p engine (Some b) (Some a) (Some seq) None of
             Inl e \<Rightarrow> (Inl e, c1)
           | Inr env \<Rightarrow>
               (case app (clk_now clk div 1000) env (c_spool c1) of
                  (Inl e, s') \<Rightarrow> (Inl e, c1\<lparr>c_spool := s'\<rparr>)
                | (Inr _, s') \<Rightarrow> (Inr env, send_or_drop send env (c1\<lparr>c_spool := s'\<rparr>)))))"

section \<open>Handshake, replay and heartbeats\<close>

definition receive_welcome ::
  "clock \<Rightarrow> string \<Rightarrow> frame option \<Rightarrow> 's conn \<Rightarrow> envelope result \<times> 's conn" where
  "receive_welcome clk engine first c =
     (case first of
        None \<Rightarrow> (Inl (ProtocolError ''Backend closed before welcome''), c)
      | Some f \<Rightarrow>
          (case decode_frame clk (Some INBOUND_MESSAGE_TYPES) f of
             Inl e \<Rightarrow> (Inl e, c)
           | Inr w \<Rightarrow>
               if env_type w \<noteq> ''welcome''
               then (Inl (ProtocolError ''First backend frame must be welcome''), c)
               else if env_engine_id w \<noteq> engine
               then (Inl (ProtocolError ''welcome envelope engine_id does not match credentials''), c)
               else if jget (env_payload w) ''engine_id'' \<noteq> Some (JStr engine)
               then (Inl (ProtocolError ''welcome engine_id does not match credentials''), c)
               else if \<not> (case jget (env_payload w) ''proto_negotiated'' of
                            Some v \<Rightarrow> py_eq_int v PROTOCOL_VERSION | None \<Rightarrow> False)
               then (Inl (ProtocolError ''welcome negotiated an unsupported protocol version''), c)
               else (Inr w, c\<lparr>c_interval := (case jget (env_payload w) ''heartbeat_interval_seconds'' of
                       Some (JInt n) \<Rightarrow> if n > 0 then n else c_interval c
                     | Some (JBool True) \<Rightarrow> 1
                     | _ \<Rightarrow> c_interval c)\<rparr>)))"

text \<open>An unscoped message: \<open>hello\<close>, \<open>heartbeat\<close>, \<open>pong\<close>.\<close>

definition send_message ::
  "clock \<Rightarrow> (nat \<Rightarrow> string) \<Rightarrow> (string \<Rightarrow> bool) \<Rightarrow> string \<Rightarrow> string \<Rightarrow> payload \<Rightarrow> 's conn \<Rightarrow> unit result \<times> 's conn" where
  "send_message clk ids send engine ty p c =
     (let c1 = c\<lparr>c_drawn := Suc (c_drawn c)\<rparr> in
      case rbind (new_envelope clk (ids (c_drawn c)) ty p engine None None None None) to_json of
        Inl e \<Rightarrow> (Inl e, c1)
      | Inr frame \<Rightarrow> ws_send send frame c1)"

definition hello_payload :: "string \<Rightarrow> string \<Rightarrow> json \<Rightarrow> int \<Rightarrow> payload" where
  "hello_payload version image_manifest_version capabilities max_concurrency =
     [(''version'', JStr version), (''proto_version'', JInt PROTOCOL_VERSION),
      (''image_manifest_version'', JStr image_manifest_version), (''capabilities'', capabilities),
      (''max_concurrency'', JInt max_concurrency)]"

fun send_all :: "(string \<Rightarrow> bool) \<Rightarrow> envelope list \<Rightarrow> 's conn \<Rightarrow> unit result \<times> 's conn" where
  "send_all send [] c = (Inr (), c)"
| "send_all send (e # es) c =
     (case to_json e of
        Inl x \<Rightarrow> (Inl x, c)
      | Inr frame \<Rightarrow>
          (case ws_send send frame c of
             (Inl x, c') \<Rightarrow> (Inl x, c')
           | (Inr _, c') \<Rightarrow> send_all send es c'))"

definition replay_spool :: "clock \<Rightarrow> (string \<Rightarrow> bool) \<Rightarrow> envelope \<Rightarrow> engine_state conn \<Rightarrow> unit result \<times> engine_state conn" where
  "replay_spool clk send welcome c =
     (case rbind (last_sequences (env_payload welcome)) (\<lambda>cs. replay_after clk cs (es_store (c_spool c))) of
        Inl e \<Rightarrow> (Inl e, c)
      | Inr es \<Rightarrow> send_all send es c)"

section \<open>Inbound frames\<close>

definition engine_next_seq :: "engine_state \<Rightarrow> string \<Rightarrow> int result" where
  "engine_next_seq e a = next_seq (es_store e) a"

definition engine_append :: "outbox_config \<Rightarrow> int \<Rightarrow> envelope \<Rightarrow> unit eop" where
  "engine_append cfg now env = on_store (append_event cfg now env)"

text \<open>A handler call on the engine under the connection.\<close>

definition on_engine :: "'a eop \<Rightarrow> engine_state conn \<Rightarrow> 'a result \<times> engine_state conn" where
  "on_engine f c = (case f (c_spool c) of (r, e') \<Rightarrow> (r, c\<lparr>c_spool := e'\<rparr>))"

definition optional_payload_str :: "payload \<Rightarrow> string \<Rightarrow> string option result" where
  "optional_payload_str p k = (case jget_opt p k of
      None \<Rightarrow> Inr None
    | Some (JStr s) \<Rightarrow>
        if s = [] then Inl (ProtocolError (''payload '' @ k @ '' must be a non-empty string'')) else Inr (Some s)
    | Some _ \<Rightarrow> Inl (ProtocolError (''payload '' @ k @ '' must be a non-empty string'')))"

definition uplink_required_str :: "payload \<Rightarrow> string \<Rightarrow> string result" where
  "uplink_required_str p k =
     rbind (optional_payload_str p k) (\<lambda>v. case v of
        None \<Rightarrow> Inl (ProtocolError (''payload '' @ k @ '' is required''))
      | Some s \<Rightarrow> Inr s)"

text \<open>What the uplink is configured with.\<close>

record uplink_env =
  ue_cfg :: outbox_config
  ue_clk :: clock
  ue_ids :: "nat \<Rightarrow> string"
  ue_send :: "string \<Rightarrow> bool"
  ue_engine :: string

definition publish :: "uplink_env \<Rightarrow> string \<Rightarrow> payload \<Rightarrow> string \<Rightarrow> string \<Rightarrow> engine_state conn \<Rightarrow>
    envelope result \<times> engine_state conn" where
  "publish u = publish_attempt_event engine_next_seq (engine_append (ue_cfg u)) (ue_clk u) (ue_ids u) (ue_send u) (ue_engine u)"

definition handle_assign :: "uplink_env \<Rightarrow> envelope \<Rightarrow> engine_state conn \<Rightarrow> unit result \<times> engine_state conn" where
  "handle_assign u env c =
     (case attempt_fields env of
        Inl e \<Rightarrow> (Inl e, c)
      | Inr (b, a) \<Rightarrow>
          (let p = jmerge (env_payload env) [(''build_job_id'', JStr b), (''attempt_id'', JStr a)] in
           case on_engine (assign (clk_now (ue_clk u) div 1000) p) c of
             (Inl e, c') \<Rightarrow> (Inl e, c')
           | (Inr result, c') \<Rightarrow>
               (let state = (case cr_state result of
                     Some (x # xs) \<Rightarrow> x # xs
                   | _ \<Rightarrow> if cr_accepted result then ''ASSIGNED'' else ''FAILED'') in
                case publish u ''attempt.status''
                       [(''build_job_id'', JStr b), (''attempt_id'', JStr a), (''state'', JStr state)] b a c' of
                  (Inl e, c'') \<Rightarrow> (Inl e, c'')
                | (Inr _, c'') \<Rightarrow> (Inr (), c''))))"

fun publish_cancelling :: "uplink_env \<Rightarrow> string \<Rightarrow> string \<Rightarrow> string list \<Rightarrow> engine_state conn \<Rightarrow>
    unit result \<times> engine_state conn" where
  "publish_cancelling u b phase [] c = (Inr (), c)"
| "publish_cancelling u b phase (a # as) c =
     (case publish u ''attempt.status''
             [(''build_job_id'', JStr b), (''attempt_id'', JStr a), (''phase'', JStr phase)] b a c of
        (Inl e, c') \<Rightarrow> (Inl e, c')
      | (Inr _, c') \<Rightarrow> publish_cancelling u b phase as c')"

definition handle_cancel :: "uplink_env \<Rightarrow> envelope \<Rightarrow> engine_state conn \<Rightarrow> unit result \<times> engine_state conn" where
  "handle_cancel u env c =
     (case on_engine (cancel (clk_now (ue_clk u) div 1000) (env_payload env)) c of
        (Inl e, c') \<Rightarrow> (Inl e, c')
      | (Inr result, c') \<Rightarrow>
          if cr_affected result = [] \<and> cr_state result \<notin> {Some ''CANCELLED'', Some ''CANCELLING''} then (Inr (), c')
          else
            (case rbind (uplink_required_str (env_payload env) ''build_job_id'') (\<lambda>b.
                  rbind (or_else (env_attempt_id env) (optional_payload_str (env_payload env) ''attempt_id'')) (\<lambda>ao.
                    Inr (b, ao))) of
               Inl e \<Rightarrow> (Inl e, c')
             | Inr (b, ao) \<Rightarrow>
                 (let ids = (if cr_affected result = [] then (case ao of Some a \<Rightarrow> [a] | None \<Rightarrow> [])
                             else cr_affected result);
                      phase = (case cr_state result of Some (x # xs) \<Rightarrow> x # xs | _ \<Rightarrow> ''CANCELLING'')
                  in publish_cancelling u b phase ids c')))"

definition ack_fields :: "envelope \<Rightarrow> (string \<times> int) result" where
  "ack_fields env =
     (let a = (case env_attempt_id env of
                 Some s \<Rightarrow> if s = [] then jget (env_payload env) ''attempt_id'' else Some (JStr s)
               | None \<Rightarrow> jget (env_payload env) ''attempt_id'') in
      case (a, jget (env_payload env) ''last_seq'') of
        (Some (JStr s), Some (JInt n)) \<Rightarrow>
          if is_uuid s \<and> 0 \<le> n then Inr (s, n) else Inl (ProtocolError ''event.ack requires attempt_id and last_seq'')
      | _ \<Rightarrow> Inl (ProtocolError ''event.ack requires attempt_id and last_seq''))"

definition ack_event :: "envelope \<Rightarrow> engine_state conn \<Rightarrow> unit result \<times> engine_state conn" where
  "ack_event env c =
     (case ack_fields env of
        Inl e \<Rightarrow> (Inl e, c)
      | Inr (a, n) \<Rightarrow> on_engine (on_store (ack_through a n)) c)"

definition discard :: "'a result \<times> 's \<Rightarrow> unit result \<times> 's" where
  "discard r = (case r of (Inl e, s) \<Rightarrow> (Inl e, s) | (Inr _, s) \<Rightarrow> (Inr (), s))"

definition handle_frame :: "uplink_env \<Rightarrow> frame \<Rightarrow> engine_state conn \<Rightarrow> unit result \<times> engine_state conn" where
  "handle_frame u f c =
     (case decode_frame (ue_clk u) (Some INBOUND_MESSAGE_TYPES) f of
        Inl e \<Rightarrow> (Inl e, c)
      | Inr env \<Rightarrow>
          if env_engine_id env \<noteq> ue_engine u
          then (Inl (ProtocolError ''Inbound envelope engine_id does not match credentials''), c)
          else if env_type env = ''ping'' then
            send_message (ue_clk u) (ue_ids u) (ue_send u) (ue_engine u) ''pong'' [] c
          else if env_type env = ''job.assign'' then handle_assign u env c
          else if env_type env = ''job.cancel'' then handle_cancel u env c
          else if env_type env = ''event.ack'' then ack_event env c
          else if env_type env = ''drain'' then
            (case jget (env_payload env) ''action'' of
               None \<Rightarrow> discard (on_engine drain c)
             | Some (JStr act) \<Rightarrow>
                 if act = ''resume'' then discard (on_engine resume c)
                 else if act = ''drain'' then discard (on_engine drain c)
                 else (Inl (ProtocolError ''drain action must be drain or resume''), c)
             | Some _ \<Rightarrow> (Inl (ProtocolError ''drain action must be drain or resume''), c))
          else if env_type env = ''cache.reset'' then discard (on_engine (cache_reset (env_payload env)) c)
          else if env_type env = ''welcome'' then
            (Inl (ProtocolError ''welcome is only valid as the first backend frame''), c)
          else (Inl (ProtocolError (''Unhandled inbound message type: '' @ env_type env)), c))"

section \<open>One connection\<close>

text \<open>The \<open>async for\<close> loop: frames are handled in order until one raises or the socket closes.\<close>

fun handle_frames :: "uplink_env \<Rightarrow> frame list \<Rightarrow> engine_state conn \<Rightarrow> unit result \<times> engine_state conn" where
  "handle_frames u [] c = (Inr (), c)"
| "handle_frames u (f # fs) c =
     (case handle_frame u f c of
        (Inl e, c') \<Rightarrow> (Inl e, c')
      | (Inr _, c') \<Rightarrow> handle_frames u fs c')"

text \<open>\<open>connect_once\<close> after the socket is open: \<open>frames\<close> are what the backend sends until it
  closes, \<open>hello\<close> is the hello payload. Heartbeats are sent by a task of their own.\<close>

definition connect_once :: "uplink_env \<Rightarrow> payload \<Rightarrow> frame list \<Rightarrow> engine_state conn \<Rightarrow> unit result \<times> engine_state conn" where
  "connect_once u hello frames c =
     (let (r, c') =
        (case receive_welcome (ue_clk u) (ue_engine u) (fetchone frames) (c\<lparr>c_ws := True\<rparr>) of
           (Inl e, c1) \<Rightarrow> (Inl e, c1)
         | (Inr w, c1) \<Rightarrow>
             (case send_message (ue_clk u) (ue_ids u) (ue_send u) (ue_engine u) ''hello'' hello c1 of
                (Inl e, c2) \<Rightarrow> (Inl e, c2)
              | (Inr _, c2) \<Rightarrow>
                  (case replay_spool (ue_clk u) (ue_send u) w c2 of
                     (Inl e, c3) \<Rightarrow> (Inl e, c3)
                   | (Inr _, c3) \<Rightarrow> handle_frames u (tl frames) c3)))
      in (r, c'\<lparr>c_ws := False\<rparr>))"

section \<open>Reconnect delays\<close>

text \<open>Floats are rationals here, exact for the default policy. Python's float power raises
  \<open>OverflowError\<close> when the result has no finite double.\<close>

record backoff_policy =
  initial_seconds :: rat
  multiplier :: rat
  max_seconds :: rat

definition default_backoff :: backoff_policy where
  "default_backoff = \<lparr>initial_seconds = 1, multiplier = 2, max_seconds = 30\<rparr>"

definition float_power :: "rat \<Rightarrow> nat \<Rightarrow> rat result" where
  "float_power x n = (if \<bar>x ^ n\<bar> < 2 ^ 1024 then Inr (x ^ n)
     else Inl (OverflowError ''Numerical result out of range''))"

definition delay :: "backoff_policy \<Rightarrow> nat \<Rightarrow> rat result" where
  "delay b failures =
     (if failures \<le> 1 then Inr (initial_seconds b)
      else rbind (float_power (multiplier b) (failures - 1)) (\<lambda>x.
        Inr (min (initial_seconds b * x) (max_seconds b))))"

text \<open>\<open>run_forever\<close> over the outcomes of its connections (\<open>True\<close>: closed normally): the delays
  it sleeps, or the exception that ends it.\<close>

fun run_forever :: "backoff_policy \<Rightarrow> nat \<Rightarrow> bool list \<Rightarrow> rat list result" where
  "run_forever b failures [] = Inr []"
| "run_forever b failures (ok # oks) =
     (if ok then run_forever b 0 oks
      else rbind (delay b (failures + 1)) (\<lambda>d.
           rbind (run_forever b (failures + 1) oks) (\<lambda>ds. Inr (d # ds))))"

end
