(* ===== verification/Metrics.thy ===== *)
theory Metrics
  imports Cache Uplink
begin

text \<open>
  Counters and gauges of the engine: \<open>metrics/collector.py\<close>, \<open>metrics/reporter.py\<close> and the heartbeat
  payload of \<open>agent/heartbeat.py\<close>. Methods run under the collector's lock, so each is one
  state transformation. The fdiv of the hit ratio is a float; \<open>fdiv\<close> is the division.
\<close>

section \<open>Heartbeats\<close>

record heartbeat_snapshot =
  hb_workers_busy :: int
  hb_workers_total :: int
  hb_queue_depth :: int
  hb_cache_size_bytes :: int
  hb_disk_free_bytes :: int
  hb_jobs_running :: int
  hb_jobs_completed_total :: int
  hb_docker_errors_total :: int
  hb_uplink_reconnects_total :: int

definition heartbeat_payload :: "heartbeat_snapshot \<Rightarrow> payload" where
  "heartbeat_payload h =
     [(''workers_busy'', JInt (hb_workers_busy h)), (''workers_total'', JInt (hb_workers_total h)),
      (''queue_depth'', JInt (hb_queue_depth h)), (''cache_size_bytes'', JInt (hb_cache_size_bytes h)),
      (''disk_free_bytes'', JInt (hb_disk_free_bytes h)), (''jobs_running'', JInt (hb_jobs_running h)),
      (''jobs_completed_total'', JInt (hb_jobs_completed_total h)),
      (''docker_errors_total'', JInt (hb_docker_errors_total h)),
      (''uplink_reconnects_total'', JInt (hb_uplink_reconnects_total h))]"

definition idle_heartbeat :: "int \<Rightarrow> heartbeat_snapshot" where
  "idle_heartbeat workers =
     \<lparr>hb_workers_busy = 0, hb_workers_total = workers, hb_queue_depth = 0, hb_cache_size_bytes = 0,
      hb_disk_free_bytes = 0, hb_jobs_running = 0, hb_jobs_completed_total = 0, hb_docker_errors_total = 0,
      hb_uplink_reconnects_total = 0\<rparr>"

section \<open>The collector\<close>

record metrics_collector =
  mc_workers_total :: int
  mc_jobs_running :: int
  mc_jobs_completed_total :: int
  mc_docker_errors_total :: int
  mc_uplink_reconnects_total :: int
  mc_cache_hits :: int
  mc_cache_misses :: int

definition new_collector :: "int \<Rightarrow> metrics_collector" where
  "new_collector workers =
     \<lparr>mc_workers_total = workers, mc_jobs_running = 0, mc_jobs_completed_total = 0, mc_docker_errors_total = 0,
      mc_uplink_reconnects_total = 0, mc_cache_hits = 0, mc_cache_misses = 0\<rparr>"

definition job_started :: "metrics_collector \<Rightarrow> metrics_collector" where
  "job_started m = m\<lparr>mc_jobs_running := mc_jobs_running m + 1\<rparr>"

definition job_finished :: "bool \<Rightarrow> metrics_collector \<Rightarrow> metrics_collector" where
  "job_finished completed m =
     (let m' = m\<lparr>mc_jobs_running := max 0 (mc_jobs_running m - 1)\<rparr> in
      if completed then m'\<lparr>mc_jobs_completed_total := mc_jobs_completed_total m' + 1\<rparr> else m')"

definition docker_error :: "metrics_collector \<Rightarrow> metrics_collector" where
  "docker_error m = m\<lparr>mc_docker_errors_total := mc_docker_errors_total m + 1\<rparr>"

definition uplink_reconnect :: "metrics_collector \<Rightarrow> metrics_collector" where
  "uplink_reconnect m = m\<lparr>mc_uplink_reconnects_total := mc_uplink_reconnects_total m + 1\<rparr>"

definition record_cache_event :: "cache_event option \<Rightarrow> metrics_collector \<Rightarrow> metrics_collector" where
  "record_cache_event event m = (case event of
      None \<Rightarrow> m
    | Some HIT \<Rightarrow> m\<lparr>mc_cache_hits := mc_cache_hits m + 1\<rparr>
    | Some _ \<Rightarrow> m\<lparr>mc_cache_misses := mc_cache_misses m + 1\<rparr>)"

section \<open>Snapshots and their text form\<close>

record metrics_snapshot =
  ms_recorded_at :: string
  ms_workers_busy :: int
  ms_workers_total :: int
  ms_queue_depth :: int
  ms_cache_size_bytes :: int
  ms_cache_hit_ratio :: pyfloat
  ms_jobs_running :: int
  ms_jobs_completed_total :: int
  ms_docker_errors_total :: int
  ms_uplink_reconnects_total :: int

definition collector_snapshot ::
  "(int \<Rightarrow> int \<Rightarrow> pyfloat) \<Rightarrow> string \<Rightarrow> int \<Rightarrow> int \<Rightarrow> metrics_collector \<Rightarrow> metrics_snapshot" where
  "collector_snapshot fdiv now_text depth cache_bytes m =
     (let cache_total = mc_cache_hits m + mc_cache_misses m in
      \<lparr>ms_recorded_at = now_text, ms_workers_busy = mc_jobs_running m, ms_workers_total = mc_workers_total m,
       ms_queue_depth = depth, ms_cache_size_bytes = cache_bytes,
       ms_cache_hit_ratio = (if cache_total \<noteq> 0 then fdiv (mc_cache_hits m) cache_total else FNum False 0 0),
       ms_jobs_running = mc_jobs_running m, ms_jobs_completed_total = mc_jobs_completed_total m,
       ms_docker_errors_total = mc_docker_errors_total m,
       ms_uplink_reconnects_total = mc_uplink_reconnects_total m\<rparr>)"

definition to_heartbeat :: "int \<Rightarrow> metrics_snapshot \<Rightarrow> heartbeat_snapshot" where
  "to_heartbeat disk_free s =
     \<lparr>hb_workers_busy = ms_workers_busy s, hb_workers_total = ms_workers_total s, hb_queue_depth = ms_queue_depth s,
      hb_cache_size_bytes = ms_cache_size_bytes s, hb_disk_free_bytes = disk_free,
      hb_jobs_running = ms_jobs_running s, hb_jobs_completed_total = ms_jobs_completed_total s,
      hb_docker_errors_total = ms_docker_errors_total s,
      hb_uplink_reconnects_total = ms_uplink_reconnects_total s\<rparr>"

definition textfile_metrics :: "metrics_snapshot \<Rightarrow> string" where
  "textfile_metrics s = join [CHR 0x0A]
     [''# HELP build_engine_workers_busy Build engine workers currently busy.'',
      ''# TYPE build_engine_workers_busy gauge'',
      ''build_engine_workers_busy '' @ int_str (ms_workers_busy s),
      ''# HELP build_engine_workers_total Build engine configured worker count.'',
      ''# TYPE build_engine_workers_total gauge'',
      ''build_engine_workers_total '' @ int_str (ms_workers_total s),
      ''# HELP build_engine_queue_depth Local queued build attempts.'',
      ''# TYPE build_engine_queue_depth gauge'',
      ''build_engine_queue_depth '' @ int_str (ms_queue_depth s),
      ''# HELP build_engine_cache_size_bytes Build cache size in bytes.'',
      ''# TYPE build_engine_cache_size_bytes gauge'',
      ''build_engine_cache_size_bytes '' @ int_str (ms_cache_size_bytes s),
      ''# HELP build_engine_cache_hit_ratio Build cache hit ratio since process start.'',
      ''# TYPE build_engine_cache_hit_ratio gauge'',
      ''build_engine_cache_hit_ratio '' @ float_repr (ms_cache_hit_ratio s),
      ''# HELP build_engine_jobs_running Local build attempts currently running.'',
      ''# TYPE build_engine_jobs_running gauge'',
      ''build_engine_jobs_running '' @ int_str (ms_jobs_running s),
      ''# HELP build_engine_jobs_completed_total Completed local build attempts.'',
      ''# TYPE build_engine_jobs_completed_total counter'',
      ''build_engine_jobs_completed_total '' @ int_str (ms_jobs_completed_total s),
      ''# HELP build_engine_docker_errors_total Docker infrastructure errors.'',
      ''# TYPE build_engine_docker_errors_total counter'',
      ''build_engine_docker_errors_total '' @ int_str (ms_docker_errors_total s),
      ''# HELP build_engine_uplink_reconnects_total WSS reconnect attempts.'',
      ''# TYPE build_engine_uplink_reconnects_total counter'',
      ''build_engine_uplink_reconnects_total '' @ int_str (ms_uplink_reconnects_total s)] @ [CHR 0x0A]"

end
