(* ===== verification/Artifact.thy ===== *)
theory Artifact
  imports Workspace "HOL-Library.Multiset"
begin

text \<open>
  Build output on its way to storage: \<open>executor/validate.py\<close> and \<open>executor/artifact.py\<close>.
  \<open>listing\<close> is what \<open>rglob("*")\<close> yields below a directory, in the file system's order, with
  links already resolved; \<open>archive\<close> is the deterministic tar and gzip encoding of the members;
  HTTP requests are what the server answers. The texts of library exceptions are abbreviated.
\<close>

section \<open>Output validation\<close>

datatype out_entry = O_File int | O_Dir | O_Link path | O_Other

record output_snapshot =
  os_path :: path
  os_file_count :: int
  os_total_bytes :: int

fun scan_output :: "path \<Rightarrow> int \<Rightarrow> int \<Rightarrow> int \<Rightarrow> (path \<times> out_entry) list \<Rightarrow> (int \<times> int) result" where
  "scan_output root limit files acc [] = Inr (files, acc)"
| "scan_output root limit files acc ((_, e) # es) =
     (case e of
        O_Link target \<Rightarrow>
          if \<not> prefix root target then Inl (OutputValidationError ''Build output contains a symlink escaping output_dir'')
          else scan_output root limit files acc es
      | O_File n \<Rightarrow>
          if limit < acc + n then Inl (OutputValidationError ''Build output exceeds artifact size limit'')
          else scan_output root limit (files + 1) (acc + n) es
      | _ \<Rightarrow> scan_output root limit files acc es)"

definition validate_output_dir ::
  "links \<Rightarrow> (path \<Rightarrow> bool) \<Rightarrow> (path \<Rightarrow> (path \<times> out_entry) list) \<Rightarrow> path \<Rightarrow> string option \<Rightarrow> int \<Rightarrow> output_snapshot result" where
  "validate_output_dir links is_dir listing project_root output_dir limit = (case output_dir of
      Some (c # cs) \<Rightarrow>
        (let root = resolve links project_root []; out = resolve links root (path_parts (c # cs)) in
         if path_absolute (c # cs) then Inl (OutputValidationError ''output_dir must be relative'')
         else if \<not> prefix root out then Inl (OutputValidationError ''output_dir escapes the project root'')
         else if \<not> is_dir out then Inl (OutputValidationError ''Build output directory does not exist'')
         else rbind (scan_output out limit 0 0 (listing out)) (\<lambda>(files, bytes).
                if files = 0 then Inl (OutputValidationError ''Build output directory is empty'')
                else Inr \<lparr>os_path = out, os_file_count = files, os_total_bytes = bytes\<rparr>))
    | _ \<Rightarrow> Inl (OutputValidationError ''No output_dir was resolved for this build''))"

section \<open>Packaging\<close>

record artifact_package =
  ap_bytes :: string
  ap_sha256 :: string
  ap_size_bytes :: int

text \<open>\<open>relative_to(root).as_posix()\<close>.\<close>

definition as_posix :: "path \<Rightarrow> string" where
  "as_posix p = (if p = [] then ''.'' else join ''/'' p)"

definition artifact_members :: "(path \<times> out_entry) list \<Rightarrow> (path \<times> out_entry) list" where
  "artifact_members es = sort_key (as_posix \<circ> fst) (filter (\<lambda>(_, e). e \<noteq> O_Other) es)"

definition package_output ::
  "links \<Rightarrow> (path \<Rightarrow> bool) \<Rightarrow> (path \<Rightarrow> (path \<times> out_entry) list) \<Rightarrow> ((path \<times> out_entry) list \<Rightarrow> string) \<Rightarrow>
   (string \<Rightarrow> string) \<Rightarrow> path \<Rightarrow> string option \<Rightarrow> int \<Rightarrow> artifact_package result" where
  "package_output links is_dir listing archive sha256 project_root output_dir limit =
     (case validate_output_dir links is_dir listing project_root output_dir limit of
        Inl (OutputValidationError m) \<Rightarrow> Inl (ArtifactError m)
      | Inl e \<Rightarrow> Inl e
      | Inr snapshot \<Rightarrow>
          (let bytes = archive (artifact_members (listing (os_path snapshot))); n = int (length bytes) in
           if limit < n then Inl (ArtifactError ''Packaged artifact exceeds configured maximum size'')
           else Inr \<lparr>ap_bytes = bytes, ap_sha256 = sha256 bytes, ap_size_bytes = n\<rparr>))"

section \<open>Upload\<close>

record upload_ticket =
  ut_upload_url :: string
  ut_expires_at :: string
  ut_storage_key :: string

datatype http_answer = Http_Body string | Http_Status int string | Http_Failed string

definition required_text :: "payload \<Rightarrow> string \<Rightarrow> string result" where
  "required_text p key = (case jget p key of
      Some (JStr (c # cs)) \<Rightarrow> Inr (c # cs)
    | _ \<Rightarrow> Inl (ArtifactError (''Artifact upload URL response missing '' @ key)))"

definition upload_ticket_from_payload :: "payload \<Rightarrow> upload_ticket result" where
  "upload_ticket_from_payload p =
     rbind (required_text p ''upload_url'') (\<lambda>url.
     rbind (required_text p ''expires_at'') (\<lambda>exp.
     rbind (required_text p ''storage_key'') (\<lambda>key.
       Inr \<lparr>ut_upload_url = url, ut_expires_at = exp, ut_storage_key = key\<rparr>)))"

text \<open>\<open>hostname\<close> of a network location: without user information and port, in lower case.\<close>

definition hostname :: "string \<Rightarrow> string" where
  "hostname netloc =
     (let hostinfo = last (split_at (CHR ''@'') netloc) in
      lower (if CHR ''['' \<in> set hostinfo
             then takeWhile (\<lambda>c. c \<noteq> CHR '']'') (tl (dropWhile (\<lambda>c. c \<noteq> CHR ''['') hostinfo))
             else takeWhile (\<lambda>c. c \<noteq> CHR '':'') hostinfo))"

definition validate_upload_url :: "(string \<Rightarrow> bool) \<Rightarrow> bool \<Rightarrow> string \<Rightarrow> unit result" where
  "validate_upload_url refused allow_insecure_localhost value =
     rbind (urlparse refused value) (\<lambda>u.
       if u_netloc u = [] then Inl (ArtifactUploadError ''Artifact upload URL must include a host'')
       else if u_scheme u = ''https'' then Inr ()
       else if allow_insecure_localhost \<and> u_scheme u = ''http'' \<and>
               hostname (u_netloc u) \<in> {''127.0.0.1'', ''localhost'', ''::1''} then Inr ()
       else Inl (ArtifactUploadError ''Artifact upload URL must be an HTTPS URL''))"

definition artifact_require_uuid :: "string \<Rightarrow> string \<Rightarrow> unit result" where
  "artifact_require_uuid value name =
     ensure (is_uuid value) (ArtifactUploadError (name @ '' must be a canonical UUID''))"

text \<open>The request's path; \<open>quote\<close> leaves a canonical UUID as it is.\<close>

definition upload_url_path :: "string \<Rightarrow> string \<Rightarrow> string" where
  "upload_url_path build_job_id attempt_id =
     ''/api/v2/build-engines/agent/jobs/'' @ build_job_id @ ''/attempts/'' @ attempt_id @ ''/artifact-upload-url''"

definition upload_url_body :: "artifact_package \<Rightarrow> string" where
  "upload_url_body a = dump (JObj [(''sha256'', JStr (ap_sha256 a)), (''size_bytes'', JInt (ap_size_bytes a))])"

definition request_upload_url ::
  "(string \<Rightarrow> bool) \<Rightarrow> bool \<Rightarrow> (string \<Rightarrow> string \<Rightarrow> http_answer) \<Rightarrow> string \<Rightarrow> string \<Rightarrow> artifact_package \<Rightarrow> upload_ticket result" where
  "request_upload_url refused allow_insecure post build_job_id attempt_id a =
     rbind (artifact_require_uuid build_job_id ''build_job_id'') (\<lambda>_.
     rbind (artifact_require_uuid attempt_id ''attempt_id'') (\<lambda>_.
     rbind (case post (upload_url_path build_job_id attempt_id) (upload_url_body a) of
         Http_Status code detail \<Rightarrow>
           Inl (ArtifactUploadError (''Artifact upload URL request failed: HTTP '' @ int_str code @ '' '' @ detail))
       | Http_Failed m \<Rightarrow> Inl (ArtifactUploadError (''Artifact upload URL request failed: '' @ m))
       | Http_Body text \<Rightarrow>
           if \<not> valid_utf8 text then Inl (ValueError ''invalid start byte'')
           else (case json_loads text of
               Inl JSONDecodeError \<Rightarrow> Inl (ArtifactUploadError ''Artifact upload URL request failed: invalid JSON'')
             | Inl IntTooLong \<Rightarrow> Inl (ValueError ''Exceeds the limit for integer string conversion'')
             | Inr (JObj d) \<Rightarrow> Inr d
             | Inr _ \<Rightarrow> Inl (ArtifactError ''Artifact upload URL response was not a JSON object''))) (\<lambda>d.
     rbind (upload_ticket_from_payload d) (\<lambda>ticket.
     rbind (validate_upload_url refused allow_insecure (ut_upload_url ticket)) (\<lambda>_.
       Inr ticket)))))"

text \<open>The upload: \<open>put\<close> is \<^const>\<open>None\<close> when the server answers with a redirect, which is refused.\<close>

definition upload :: "(string \<Rightarrow> string \<Rightarrow> http_answer option) \<Rightarrow> upload_ticket \<Rightarrow> artifact_package \<Rightarrow> unit result" where
  "upload put ticket a = (case put (ut_upload_url ticket) (ap_bytes a) of
      Some (Http_Body _) \<Rightarrow> Inr ()
    | Some (Http_Status code detail) \<Rightarrow> Inl (ArtifactUploadError (''Artifact upload failed: HTTP '' @ int_str code @ '' '' @ detail))
    | Some (Http_Failed m) \<Rightarrow> Inl (ArtifactUploadError (''Artifact upload failed: '' @ m))
    | None \<Rightarrow> Inl (ArtifactUploadError ''Artifact upload URL returned an unexpected redirect''))"

section \<open>Reproducible archives\<close>

definition entry_bytes :: "path \<times> out_entry \<Rightarrow> int" where
  "entry_bytes pe = (case snd pe of O_File k \<Rightarrow> k | _ \<Rightarrow> 0)"

definition is_out_file :: "path \<times> out_entry \<Rightarrow> bool" where
  "is_out_file pe = (case snd pe of O_File k \<Rightarrow> True | _ \<Rightarrow> False)"

definition link_inside :: "path \<Rightarrow> path \<times> out_entry \<Rightarrow> bool" where
  "link_inside root pe = (case snd pe of O_Link t \<Rightarrow> prefix root t | _ \<Rightarrow> True)"

lemma entry_simps [simp]:
  "entry_bytes (p, O_File k) = k" "entry_bytes (p, O_Dir) = 0" "entry_bytes (p, O_Link t) = 0" "entry_bytes (p, O_Other) = 0"
  "is_out_file (p, O_File k)" "\<not> is_out_file (p, O_Dir)" "\<not> is_out_file (p, O_Link t)" "\<not> is_out_file (p, O_Other)"
  "link_inside root (p, O_File k)" "link_inside root (p, O_Dir)" "link_inside root (p, O_Other)"
  "link_inside root (p, O_Link t) \<longleftrightarrow> prefix root t"
  by (simp_all add: entry_bytes_def is_out_file_def link_inside_def)

text \<open>Sizes are not negative, so the running total stays within the limit exactly when the sum
  does, and the outcome of the scan does not depend on the order of the listing.\<close>

lemma scan_output_iff:
  assumes "\<forall>pe \<in> set es. 0 \<le> entry_bytes pe" and "acc \<le> limit"
  shows "scan_output root limit files acc es = Inr (c, n) \<longleftrightarrow>
    (\<forall>pe \<in> set es. link_inside root pe) \<and> acc + sum_list (map entry_bytes es) \<le> limit \<and>
    c = files + int (length (filter is_out_file es)) \<and> n = acc + sum_list (map entry_bytes es)"
  using assms
proof (induction es arbitrary: files acc)
  case (Cons pe es)
  obtain p e where pe: "pe = (p, e)" by force
  have nn: "0 \<le> sum_list (map entry_bytes es)" using Cons.prems(1) by (intro sum_list_nonneg) auto
  show ?case
  proof (cases e)
    case (O_File k)
    have k: "0 \<le> k" using Cons.prems(1) pe O_File by simp
    show ?thesis
    proof (cases "limit < acc + k")
      case True
      then show ?thesis using pe O_File nn by simp
    next
      case False
      then show ?thesis using Cons.IH [of "acc + k" "files + 1"] Cons.prems(1) pe O_File
        by auto
    qed
  qed (use Cons.IH [of acc files] Cons.prems pe in auto)
qed auto

lemma artifact_members_perm:
  assumes "mset xs = mset ys" and "distinct (map (as_posix \<circ> fst) xs)"
  shows "artifact_members xs = artifact_members ys"
proof -
  let ?f = "\<lambda>(_ :: path, e). e \<noteq> O_Other"
  have "mset (filter ?f xs) = mset (filter ?f ys)" using assms(1) by simp
  moreover have "inj_on (as_posix \<circ> fst) (set (filter ?f xs))" using assms(2) by (auto simp: distinct_map inj_on_def)
  ultimately have "sort_key (as_posix \<circ> fst) (filter ?f ys) = sort_key (as_posix \<circ> fst) (filter ?f xs)"
    by (intro sort_key_inj_key_eq) (auto simp flip: set_mset_mset)
  then show ?thesis by (simp add: artifact_members_def)
qed

lemma validate_output_dir_perm:
  assumes "validate_output_dir links is_dir listing root od limit = Inr snap" and "0 \<le> limit"
    and "mset (listing (os_path snap)) = mset (listing' (os_path snap))"
    and "\<forall>pe \<in> set (listing (os_path snap)). 0 \<le> entry_bytes pe"
  shows "validate_output_dir links is_dir listing' root od limit = Inr snap"
proof -
  let ?xs = "listing (os_path snap)" and ?ys = "listing' (os_path snap)"
  have eq: "set ?ys = set ?xs" "sum_list (map entry_bytes ?ys) = sum_list (map entry_bytes ?xs)"
    "length (filter is_out_file ?ys) = length (filter is_out_file ?xs)"
    using assms(3) by (metis set_mset_mset, metis mset_map sum_mset_sum_list, metis mset_filter size_mset)
  have "scan_output (os_path snap) limit 0 0 ?ys = Inr (c, n)"
    if "scan_output (os_path snap) limit 0 0 ?xs = Inr (c, n)" for c n
    using that scan_output_iff [of ?xs 0 limit "os_path snap" 0] scan_output_iff [of ?ys 0 limit "os_path snap" 0] assms(2,4) eq
    by simp
  then show ?thesis
    using assms(1) by (auto simp: validate_output_dir_def Let_def rbind_Inr_iff split: option.splits list.splits if_splits)
qed

text \<open>
  The artifact of a build is a function of its files: if the same output is listed in
  another order, packaging gives the same bytes, digest and size.
\<close>

theorem package_output_deterministic:
  assumes pack: "package_output links is_dir listing archive sha256 root od limit = Inr a" and "0 \<le> limit"
    and perm: "\<forall>d. mset (listing d) = mset (listing' d) \<and> distinct (map (as_posix \<circ> fst) (listing d)) \<and>
      (\<forall>pe \<in> set (listing d). 0 \<le> entry_bytes pe)"
  shows "package_output links is_dir listing' archive sha256 root od limit = Inr a"
proof -
  obtain snap where snap: "validate_output_dir links is_dir listing root od limit = Inr snap"
    using pack by (auto simp: package_output_def split: sum.splits exn.splits)
  have "validate_output_dir links is_dir listing' root od limit = Inr snap"
    using validate_output_dir_perm [OF snap assms(2)] perm by blast
  moreover have "artifact_members (listing' (os_path snap)) = artifact_members (listing (os_path snap))"
    using artifact_members_perm perm by metis
  ultimately show ?thesis using pack snap by (simp add: package_output_def Let_def)
qed

definition ex_listing :: "(path \<times> out_entry) list" where
  "ex_listing = [([''index.html''], O_File 5), ([''a.css''], O_File 2)]"

theorem package_output_deterministic_witness:
  "\<exists>a. package_output [] (\<lambda>_. True) (\<lambda>_. rev ex_listing) (concat \<circ> map (as_posix \<circ> fst)) id [''w''] (Some ''out'') 100 = Inr a \<and>
     package_output [] (\<lambda>_. True) (\<lambda>_. ex_listing) (concat \<circ> map (as_posix \<circ> fst)) id [''w''] (Some ''out'') 100 = Inr a"
proof -
  have "\<exists>a. package_output [] (\<lambda>_. True) (\<lambda>_. ex_listing) (concat \<circ> map (as_posix \<circ> fst)) id [''w''] (Some ''out'') 100 = Inr a"
    by (simp add: package_output_def validate_output_dir_def resolve_def path_parts_def path_absolute_def ex_listing_def
        artifact_members_def as_posix_def less_char_def less_eq_char_def Let_def)
  moreover have "\<forall>d :: path. mset ex_listing = mset (rev ex_listing) \<and> distinct (map (as_posix \<circ> fst) ex_listing) \<and>
      (\<forall>pe \<in> set ex_listing. 0 \<le> entry_bytes pe)"
    by (simp add: ex_listing_def as_posix_def entry_bytes_def)
  ultimately show ?thesis
    using package_output_deterministic [where listing = "\<lambda>_. ex_listing" and listing' = "\<lambda>_. rev ex_listing" and limit = 100]
    by (metis zero_le_numeral)
qed

end
