(* ===== verification/Auth.thy ===== *)
theory Auth
  imports Artifact "HOL-Library.Word"
begin

unbundle bit_operations_syntax

text \<open>
  Authenticated requests of the agent: \<open>agent/auth.py\<close>. The backend is what it answers to a
  request, given its URL and headers; \<open>version\<close> is the version of the installed package.
\<close>

definition MIN_ENGINE_SECRET_BYTES :: nat where "MIN_ENGINE_SECRET_BYTES = 32"

definition client_headers_for_credentials :: "string \<Rightarrow> engine_credentials \<Rightarrow> (string \<times> string) list" where
  "client_headers_for_credentials version c =
     [(''Authorization'', ''Bearer '' @ cr_session_jwt c), (''User-Agent'', ''mincemeat-build-engine/'' @ version)]"

section \<open>Stored credentials\<close>

definition validate_engine_secret :: "string \<Rightarrow> unit result" where
  "validate_engine_secret value =
     (if \<not> list_all (\<lambda>c. (of_char c :: nat) < 128) value
      then Inl (AuthError ''engine_secret must contain only ASCII characters'')
      else ensure (MIN_ENGINE_SECRET_BYTES \<le> length value)
        (AuthError (''engine_secret must be at least '' @ nat_digits MIN_ENGINE_SECRET_BYTES @ '' bytes'')))"

text \<open>\<open>st_mode\<close> of the file.\<close>

definition validate_secret_file_permissions :: "string \<Rightarrow> nat \<Rightarrow> unit result" where
  "validate_secret_file_permissions path st_mode =
     ensure ((st_mode AND 0xFFF) AND 0x3F = 0) (AuthError (''Secret file permissions are too open: '' @ path))"

section \<open>Attempt secrets\<close>

definition secret_item :: "string \<times> json \<Rightarrow> (string \<times> string) result" where
  "secret_item kv = (case kv of
      (k # ks, JStr (v # vs)) \<Rightarrow> Inr (k # ks, v # vs)
    | _ \<Rightarrow> Inl (AuthError ''Secret fetch response contained an invalid environment value''))"

definition require_uuid_text :: "string \<Rightarrow> string \<Rightarrow> unit result" where
  "require_uuid_text value label = ensure (uuid_parse value \<noteq> None) (AuthError (label @ '' must be a UUID''))"

definition secrets_url :: "string \<Rightarrow> string \<Rightarrow> string \<Rightarrow> string" where
  "secrets_url backend_url build_job_id attempt_id =
     rev (dropWhile (\<lambda>c. c = CHR ''/'') (rev backend_url)) @ ''/api/v2/build-engines/agent/jobs/'' @ build_job_id @
       ''/attempts/'' @ attempt_id @ ''/secrets''"

definition secret_env_of :: "json \<Rightarrow> (string \<times> string) list result" where
  "secret_env_of decoded = (case decoded of
      JObj d \<Rightarrow>
        (case (case jget d ''env'' of Some x \<Rightarrow> x | None \<Rightarrow> JObj d) of
           JObj raw_env \<Rightarrow> each secret_item raw_env
         | _ \<Rightarrow> Inl (AuthError ''Secret fetch response did not contain an env object''))
    | _ \<Rightarrow> Inl (AuthError ''Secret fetch response was not a JSON object''))"

definition fetch_attempt_secrets ::
  "(string \<Rightarrow> (string \<times> string) list \<Rightarrow> http_answer) \<Rightarrow> string \<Rightarrow> string \<Rightarrow> string \<Rightarrow> string \<Rightarrow> engine_credentials \<Rightarrow>
   (string \<times> string) list result" where
  "fetch_attempt_secrets get version backend_url build_job_id attempt_id credentials =
     rbind (require_uuid_text build_job_id ''build_job_id'') (\<lambda>_.
     rbind (require_uuid_text attempt_id ''attempt_id'') (\<lambda>_.
       case get (secrets_url backend_url build_job_id attempt_id)
              (client_headers_for_credentials version credentials @ [(''Accept'', ''application/json'')]) of
         Http_Status code _ \<Rightarrow> Inl (AuthError (''Secret fetch failed: HTTP '' @ int_str code))
       | Http_Failed _ \<Rightarrow> Inl (AuthError ''Secret fetch failed'')
       | Http_Body text \<Rightarrow>
           if \<not> valid_utf8 text then Inl (AuthError ''Secret fetch failed'')
           else (case json_loads text of
               Inl JSONDecodeError \<Rightarrow> Inl (AuthError ''Secret fetch failed'')
             | Inl IntTooLong \<Rightarrow> Inl (ValueError ''Exceeds the limit for integer string conversion'')
             | Inr decoded \<Rightarrow> secret_env_of decoded)))"

end
