(* ===== verification/Log_Stream.thy ===== *)
theory Log_Stream
  imports Protocol
begin

text \<open>
  Build output on its way to the backend: \<open>executor/stream.py\<close>. Python text is a list of code
  points here, because frames are cut between code points; \<open>utf8_encode\<close> gives the bytes that
  other theories work with.
\<close>

section \<open>Code points and UTF-8\<close>

type_synonym ptext = "nat list"

definition utf8_len :: "nat \<Rightarrow> nat" where
  "utf8_len c = (if c < 0x80 then 1 else if c < 0x800 then 2 else if c < 0x10000 then 3 else 4)"

definition utf8_bytes :: "nat \<Rightarrow> nat list" where
  "utf8_bytes c =
     (if c < 0x80 then [c]
      else if c < 0x800 then [0xC0 + c div 64, 0x80 + c mod 64]
      else if c < 0x10000 then [0xE0 + c div 4096, 0x80 + c div 64 mod 64, 0x80 + c mod 64]
      else [0xF0 + c div 262144, 0x80 + c div 4096 mod 64, 0x80 + c div 64 mod 64, 0x80 + c mod 64])"

definition utf8_encode :: "ptext \<Rightarrow> string" where
  "utf8_encode t = map char_of (concat (map utf8_bytes t))"

definition byte_len :: "ptext \<Rightarrow> nat" where
  "byte_len t = sum_list (map utf8_len t)"

text \<open>\<open>bytes.decode("utf-8", errors="replace")\<close>: the longest valid beginning of an ill-formed
  sequence becomes one U+FFFD.\<close>

definition cont :: "nat \<Rightarrow> bool" where "cont b \<longleftrightarrow> 0x80 \<le> b \<and> b \<le> 0xBF"

definition second_ok :: "nat \<Rightarrow> nat \<Rightarrow> bool" where
  "second_ok a b \<longleftrightarrow> cont b \<and> (a = 0xE0 \<longrightarrow> 0xA0 \<le> b) \<and> (a = 0xED \<longrightarrow> b \<le> 0x9F) \<and>
     (a = 0xF0 \<longrightarrow> 0x90 \<le> b) \<and> (a = 0xF4 \<longrightarrow> b \<le> 0x8F)"

definition REPLACEMENT :: nat where "REPLACEMENT = 0xFFFD"

fun decode_replace :: "nat list \<Rightarrow> ptext" where
  "decode_replace [] = []"
| "decode_replace (a # bs) =
     (if a < 0x80 then a # decode_replace bs
      else if a < 0xC2 \<or> 0xF4 < a then REPLACEMENT # decode_replace bs
      else case bs of
          [] \<Rightarrow> [REPLACEMENT]
        | b # cs \<Rightarrow>
            if \<not> second_ok a b then REPLACEMENT # decode_replace bs
            else if a < 0xE0 then ((a - 0xC0) * 64 + (b - 0x80)) # decode_replace cs
            else case cs of
                [] \<Rightarrow> [REPLACEMENT]
              | c # ds \<Rightarrow>
                  if \<not> cont c then REPLACEMENT # decode_replace cs
                  else if a < 0xF0
                  then ((a - 0xE0) * 4096 + (b - 0x80) * 64 + (c - 0x80)) # decode_replace ds
                  else case ds of
                      [] \<Rightarrow> [REPLACEMENT]
                    | d # es \<Rightarrow>
                        if \<not> cont d then REPLACEMENT # decode_replace ds
                        else ((a - 0xF0) * 262144 + (b - 0x80) * 4096 + (c - 0x80) * 64 + (d - 0x80)) #
                             decode_replace es)"

section \<open>Redaction\<close>

text \<open>The redactor's secrets, longest first. \<open>secrets\<close> lists the set of values in the order it
  is iterated.\<close>

definition redactor_secrets :: "ptext list \<Rightarrow> ptext list" where
  "redactor_secrets secrets = sort_key (\<lambda>s. - int (length s)) (filter (\<lambda>s. s \<noteq> []) (remdups secrets))"

definition REDACTED :: ptext where "REDACTED = map of_char ''[REDACTED]''"

definition redact :: "ptext list \<Rightarrow> ptext \<Rightarrow> ptext" where
  "redact secrets value = fold (\<lambda>secret t. py_replace secret REDACTED t) (redactor_secrets secrets) value"

section \<open>Frames\<close>

text \<open>The inner loop: the largest number of code points up to \<open>limit\<close> that fits.\<close>

function fit :: "ptext \<Rightarrow> nat \<Rightarrow> nat" where
  "fit remaining limit =
     (if MAX_LOG_DATA_BYTES < byte_len (take limit remaining) then fit remaining (limit - 1) else limit)"
  by pat_completeness auto
termination
proof (relation "measure snd")
  fix r :: ptext and n assume "MAX_LOG_DATA_BYTES < byte_len (take n r)"
  then show "((r, n - 1), r, n) \<in> measure snd" by (cases n) (auto simp: byte_len_def)
qed simp

declare fit.simps [simp del]

lemma utf8_len_bounds: "1 \<le> utf8_len c" "utf8_len c \<le> 4"
  by (simp_all add: utf8_len_def)

lemma byte_len_take: "byte_len (take n t) \<le> 4 * n"
proof (induction n arbitrary: t)
  case (Suc n)
  then show ?case using utf8_len_bounds(2) by (cases t) (auto simp: byte_len_def intro: add_mono)
qed (simp add: byte_len_def)

lemma fit_le: "fit r n \<le> n"
  by (induction r n rule: fit.induct) (subst fit.simps, auto)

lemma fit_bounded: "byte_len (take (fit r n) r) \<le> MAX_LOG_DATA_BYTES"
  by (induction r n rule: fit.induct) (subst fit.simps, auto)

text \<open>The loop never gives up the last few code points: at least 16384 fit.\<close>

lemma fit_ge: "min n 16384 \<le> fit r n"
proof (induction r n rule: fit.induct)
  case (1 r n)
  have "16384 < n" if "MAX_LOG_DATA_BYTES < byte_len (take n r)"
    using byte_len_take [of n r] that by (simp add: MAX_LOG_DATA_BYTES_def)
  then show ?case using 1 by (subst fit.simps) auto
qed

function frame_loop :: "ptext \<Rightarrow> ptext list" where
  "frame_loop remaining =
     (if remaining = [] then []
      else (let limit = fit remaining (min (length remaining) MAX_LOG_DATA_BYTES)
            in take limit remaining # frame_loop (drop limit remaining)))"
  by pat_completeness auto
termination
proof (relation "measure length")
  fix r :: ptext and x assume "r \<noteq> []" and x: "x = fit r (min (length r) MAX_LOG_DATA_BYTES)"
  then have "0 < min (min (length r) MAX_LOG_DATA_BYTES) 16384" by (simp add: MAX_LOG_DATA_BYTES_def)
  also have "\<dots> \<le> x" unfolding x by (rule fit_ge)
  finally show "(drop x r, r) \<in> measure length" using \<open>r \<noteq> []\<close> by simp
qed simp

declare frame_loop.simps [simp del]

definition frame_chunks :: "ptext \<Rightarrow> ptext list" where
  "frame_chunks value = (if byte_len value \<le> MAX_LOG_DATA_BYTES then [value] else frame_loop value)"

text \<open>\<open>pump_stream\<close>: \<open>reads\<close> are the non-empty byte strings the reader returns until end of
  file; the result is what \<open>publish\<close> is called with.\<close>

definition pump_stream :: "string \<Rightarrow> ptext list \<Rightarrow> nat list list \<Rightarrow> (string \<times> ptext) list" where
  "pump_stream stream secrets reads =
     concat (map (\<lambda>chunk. map (Pair stream) (frame_chunks (redact secrets (decode_replace chunk)))) reads)"

section \<open>Frames lose nothing and fit\<close>

lemma frame_loop_props:
  "concat (frame_loop t) = t \<and> (\<forall>f \<in> set (frame_loop t). f \<noteq> [] \<and> byte_len f \<le> MAX_LOG_DATA_BYTES)"
proof (induction t rule: frame_loop.induct)
  case (1 r)
  show ?case
  proof (cases "r = []")
    case False
    let ?l = "fit r (min (length r) MAX_LOG_DATA_BYTES)"
    have "0 < min (min (length r) MAX_LOG_DATA_BYTES) 16384" using False by (simp add: MAX_LOG_DATA_BYTES_def)
    then have "0 < ?l" using fit_ge [of "min (length r) MAX_LOG_DATA_BYTES" r] by (rule less_le_trans)
    then show ?thesis using 1 [OF False refl] False fit_bounded by (subst (1 2) frame_loop.simps) (simp add: Let_def)
  qed (subst (1 2) frame_loop.simps, simp)
qed

lemma utf8_encode_length: "length (utf8_encode t) = byte_len t"
proof -
  have "length (utf8_bytes c) = utf8_len c" for c by (simp add: utf8_bytes_def utf8_len_def)
  then show ?thesis by (simp add: utf8_encode_def byte_len_def length_concat comp_def)
qed

text \<open>
  The frames of a text are the text cut into pieces: put together again they give it
  back unchanged, and each is within the 64 KiB a log event may carry, so the protocol
  accepts every one of them.
\<close>

theorem frame_chunks_lossless:
  "concat (frame_chunks t) = t \<and>
   (\<lambda>f. check_log ''attempt.log'' [(''stream'', JStr s), (''data'', JStr (utf8_encode f))]) ` set (frame_chunks t) = {Inr ()}"
proof -
  have "frame_loop t \<noteq> []" if "\<not> byte_len t \<le> MAX_LOG_DATA_BYTES"
    using that by (subst frame_loop.simps) (auto simp: byte_len_def Let_def)
  moreover have "length (utf8_encode f) \<le> MAX_LOG_DATA_BYTES" if "f \<in> set (frame_chunks t)" for f
    using that frame_loop_props [of t] by (auto simp: frame_chunks_def utf8_encode_length split: if_splits)
  then have "check_log ''attempt.log'' [(''stream'', JStr s), (''data'', JStr (utf8_encode f))] = Inr ()"
    if "f \<in> set (frame_chunks t)" for f
    using that by (simp add: check_log_def jget_def not_less)
  moreover have "frame_chunks t \<noteq> []" using calculation(1) by (simp add: frame_chunks_def)
  then have "set (frame_chunks t) \<noteq> {}" by simp
  ultimately show ?thesis
    using frame_loop_props [of t] by (auto simp: frame_chunks_def image_constant_conv)
qed

section \<open>What redaction removes\<close>

text \<open>The secret cannot overlap the token that replaces secrets.\<close>

definition separate :: "'a list \<Rightarrow> 'a list \<Rightarrow> bool" where
  "separate w new \<longleftrightarrow> \<not> sublist w new \<and> \<not> sublist new w \<and>
     list_all (\<lambda>x. x = [] \<or> \<not> prefix x new) (suffixes w) \<and> list_all (\<lambda>x. x = [] \<or> \<not> prefix x w) (suffixes new)"

lemma separate_suffix: "separate w new \<Longrightarrow> suffix x w \<Longrightarrow> x \<noteq> [] \<Longrightarrow> \<not> prefix x new"
  by (auto simp: separate_def list_all_iff)

lemma separate_prefix: "separate w new \<Longrightarrow> suffix x new \<Longrightarrow> x \<noteq> [] \<Longrightarrow> \<not> prefix x w"
  by (auto simp: separate_def list_all_iff)

lemma separate_nonempty: "separate w new \<Longrightarrow> w \<noteq> [] \<and> new \<noteq> []"
  by (auto simp: separate_def)

lemma prefix_replace:
  assumes "separate w new"
  shows "suffix w' w \<Longrightarrow> prefix w' (py_replace old new t) \<Longrightarrow> prefix w' t"
  using assms
proof (induction old new t arbitrary: w' rule: py_replace.induct)
  case (2 old new c cs)
  note sep = "2.prems"(3)
  show ?case
  proof (cases "old \<noteq> [] \<and> prefix old (c # cs)")
    case True
    then have "prefix w' new \<or> prefix new w'" using "2.prems"(2) prefix_same_cases [of w' _ new] by simp
    moreover have "\<not> prefix new w'" if "w' \<noteq> []"
      using sep "2.prems"(1) by (auto simp: separate_def dest: prefix_imp_sublist suffix_imp_sublist sublist_order.order_trans)
    ultimately have "w' = []" using separate_suffix [OF sep "2.prems"(1)] by blast
    then show ?thesis by simp
  next
    case False
    then show ?thesis using 2 by (cases w') (auto dest: suffix_ConsD)
  qed
qed simp

lemma sublist_new_append:
  assumes sep: "separate w new"
  shows "suffix n new \<Longrightarrow> sublist w (n @ r) \<Longrightarrow> sublist w r"
proof (induction n)
  case (Cons a n)
  have "\<not> prefix w ((a # n) @ r)"
  proof
    assume "prefix w ((a # n) @ r)"
    then have "prefix w (a # n) \<or> prefix (a # n) w" by (meson prefix_def prefix_same_cases)
    then show False
      using separate_prefix [OF sep Cons.prems(1)] sep Cons.prems(1)
      by (auto simp: separate_def dest: prefix_imp_sublist suffix_imp_sublist sublist_order.order_trans)
  qed
  then show ?case using Cons by (auto simp: sublist_Cons_right dest: suffix_ConsD)
qed simp

lemma sublist_replace:
  assumes "separate w new"
  shows "sublist w (py_replace old new t) \<Longrightarrow> sublist w t"
  using assms
proof (induction old new t rule: py_replace.induct)
  case (2 old new c cs)
  note sep = "2.prems"(2)
  show ?case
  proof (cases "old \<noteq> [] \<and> prefix old (c # cs)")
    case True
    then have "sublist w (py_replace old new (drop (length old - 1) cs))"
      using "2.prems" sublist_new_append [OF sep, of new] by simp
    then have "sublist w (drop (length old - 1) cs)" using 2 True by blast
    then show ?thesis by (meson sublist_Cons_right sublist_drop sublist_order.order_trans)
  next
    case False
    then consider "prefix w (c # py_replace old new cs)" | "sublist w (py_replace old new cs)"
      using "2.prems" by (auto simp: sublist_Cons_right)
    then show ?thesis
    proof cases
      case 1
      then have "prefix w (py_replace old new (c # cs))" using False by auto
      then show ?thesis using prefix_replace [OF sep] by (meson prefix_imp_sublist suffix_order.order_refl)
    next
      case 2
      then have "sublist w cs" using "2.IH"(2) False sep by blast
      then show ?thesis by (simp add: sublist_Cons_right)
    qed
  qed
qed simp

lemma replace_removes:
  assumes sep: "separate old new"
  shows "\<not> sublist old (py_replace old new t)"
  using sep
proof (induction old new t rule: py_replace.induct)
  case (2 old new c cs)
  show ?case
  proof (cases "prefix old (c # cs)")
    case True
    then have "\<not> sublist old (py_replace old new (drop (length old - 1) cs))" using 2 separate_nonempty by blast
    then show ?thesis
      using True separate_nonempty [OF "2.prems"] sublist_new_append [OF "2.prems" suffix_order.order_refl] by auto
  next
    case False
    then have "\<not> prefix old (py_replace old new (c # cs))"
      using prefix_replace [OF "2.prems" suffix_order.order_refl] by blast
    moreover have "\<not> sublist old (py_replace old new cs)" using 2 False by blast
    ultimately show ?thesis using False by (simp add: sublist_Cons_right)
  qed
qed (simp add: separate_nonempty)

lemma fold_replace_keeps:
  "separate w REDACTED \<Longrightarrow> \<not> sublist w t \<Longrightarrow> \<not> sublist w (fold (\<lambda>secret t. py_replace secret REDACTED t) ss t)"
  by (induction ss arbitrary: t) (auto dest: sublist_replace)

lemma fold_replace_removes:
  "separate w REDACTED \<Longrightarrow> w \<in> set ss \<Longrightarrow> \<not> sublist w (fold (\<lambda>secret t. py_replace secret REDACTED t) ss t)"
  by (induction ss arbitrary: t) (auto simp: fold_replace_keeps replace_removes)

lemma redact_removes: "separate w REDACTED \<Longrightarrow> w \<in> set secrets \<Longrightarrow> \<not> sublist w (redact secrets t)"
  using separate_nonempty [of w REDACTED] fold_replace_removes [of w "redactor_secrets secrets"]
  by (simp add: redact_def redactor_secrets_def)

text \<open>
  C29. A secret that lies within one read never reaches the log, nor any piece of output that
  replacing the other secrets could have put together: no published frame contains a secret
  that cannot overlap the replacement token, however many secrets there are and in whatever
  order they are replaced.
\<close>

theorem published_frames_redacted:
  assumes "w \<in> set secrets" and "separate w REDACTED"
  shows "(\<lambda>(_, frame). sublist w frame) ` set (pump_stream stream secrets reads) \<subseteq> {False}"
proof -
  have "\<not> sublist w f" if f: "f \<in> set (frame_chunks (redact secrets t))" for f t
  proof
    assume "sublist w f"
    obtain xs ys where "frame_chunks (redact secrets t) = xs @ f # ys" using split_list [OF f] by blast
    moreover have "concat (frame_chunks (redact secrets t)) = redact secrets t"
      using frame_loop_props by (simp add: frame_chunks_def)
    ultimately have "redact secrets t = concat xs @ f @ concat ys" by (metis concat.simps(2) concat_append)
    then have "sublist f (redact secrets t)" by (auto simp: sublist_def)
    then show False using \<open>sublist w f\<close> redact_removes [OF assms(2,1)] sublist_order.order_trans by blast
  qed
  then show ?thesis by (auto simp: pump_stream_def)
qed

theorem published_frames_redacted_witness:
  "(\<lambda>(_, frame). sublist (map of_char ''hunter2'') frame) `
     set (pump_stream ''stdout'' [map of_char ''hunter2''] [map of_char ''token=hunter2 ok'']) \<subseteq> {False}"
  by (rule published_frames_redacted) (simp_all add: separate_def REDACTED_def sublist_Cons_right)

section \<open>Secrets across reads\<close>

lemma decode_ascii: "list_all (\<lambda>b. b < 0x80) bs \<Longrightarrow> decode_replace bs = bs"
  by (induction bs) auto

lemma byte_len_ascii: "list_all (\<lambda>b. b < 0x80) bs \<Longrightarrow> byte_len bs = length bs"
  by (induction bs) (auto simp: byte_len_def utf8_len_def)

lemma py_replace_shorter: "length t < length old \<Longrightarrow> py_replace old new t = t"
  by (induction t) (auto dest: prefix_length_le)

lemma redact_shorter: "length t < length w \<Longrightarrow> redact [w] t = t"
  by (simp add: redact_def redactor_secrets_def py_replace_shorter)

text \<open>
  C38. A secret that the process writes across two reads is published in full: each half is
  redacted on its own, so cutting the output anywhere inside the secret - and a pipe may
  return any part of what was written - sends the secret to the log unredacted.
\<close>

theorem split_secret_published:
  assumes ascii: "list_all (\<lambda>b. b < 0x80) w" and cut: "0 < k" "k < length w"
    and size: "length w \<le> MAX_LOG_DATA_BYTES"
  shows "concat (map snd (pump_stream stream [w] [take k w, drop k w])) = w"
proof -
  have "list_all (\<lambda>b. b < 0x80) (take k w)" "list_all (\<lambda>b. b < 0x80) (drop k w)"
    using ascii by (metis append_take_drop_id list_all_append)+
  then have "decode_replace (take k w) = take k w" "decode_replace (drop k w) = drop k w"
    "byte_len (take k w) \<le> MAX_LOG_DATA_BYTES" "byte_len (drop k w) \<le> MAX_LOG_DATA_BYTES"
    using size by (simp_all add: decode_ascii byte_len_ascii)
  moreover have "redact [w] (take k w) = take k w" "redact [w] (drop k w) = drop k w"
    using cut by (simp_all add: redact_shorter)
  ultimately show ?thesis by (simp add: pump_stream_def frame_chunks_def)
qed

theorem split_secret_published_witness:
  "concat (map snd (pump_stream ''stdout'' [map of_char ''hunter2'']
     [take 3 (map of_char ''hunter2''), drop 3 (map of_char ''hunter2'')])) = map of_char ''hunter2''"
proof (rule split_secret_published)
  show "list_all (\<lambda>b :: nat. b < 0x80) (map of_char ''hunter2'')" by simp
  show "length (map of_char ''hunter2'' :: nat list) \<le> MAX_LOG_DATA_BYTES" by (simp add: MAX_LOG_DATA_BYTES_def)
qed simp_all

end
