(* ===== verification/Job_Loop.thy ===== *)
theory Job_Loop
  imports Metrics Auth Docker Framework Log_Stream
begin

text \<open>
  The queue workers: \<open>agent/job_loop.py\<close>, with \<open>run_container\<close> of \<open>executor/docker_runner.py\<close>. A
  worker, the uplink, the lease refresher and the other workers are tasks of one event
  loop, so they interleave at \<open>await\<close> only. The world is what they share; \<open>je_others\<close> is
  whatever the other tasks do to it during the \<open>n\<close>-th suspension, and the clocks are read
  as functions of \<open>n\<close>. What the source does to the outside (HTTP, tar, Docker, the
  directory of the build) is an answer given by the environment.
\<close>

section \<open>State and environment\<close>

record world =
  w_conn :: "engine_state conn"
  w_metrics :: metrics_collector
  w_workspaces :: workspaces
  w_time :: nat

record job_loop_options =
  jo_lease_seconds :: int
  jo_retain_failed_workspaces :: bool
  jo_failed_workspace_keep :: nat

definition default_options :: job_loop_options where
  "default_options = \<lparr>jo_lease_seconds = 120, jo_retain_failed_workspaces = False, jo_failed_workspace_keep = 5\<rparr>"

text \<open>One turn of the wait for a container: whether the cancellation monitor ran, what was
  read from the two pipes, how much longer than the poll's timeout the turn took, and the
  exit codes as in \<^typ>\<open>poll\<close>.\<close>

record turn =
  tn_monitor :: bool
  tn_reads :: "(string \<times> nat list) list"
  tn_extra :: nat
  tn_exit :: "int option"
  tn_stopped :: "int option"

text \<open>A started container: its turns and what its pipes hold when it has ended.\<close>

record container =
  co_turns :: "nat \<Rightarrow> turn"
  co_rest :: "(string \<times> nat list) list"

record job_env =
  je_uplink :: uplink_env
  je_clock :: "nat \<Rightarrow> clock"
  je_others :: "nat \<Rightarrow> world \<Rightarrow> world"
  je_now_text :: "nat \<Rightarrow> string"
  je_elapsed :: "nat \<Rightarrow> pyfloat" \<comment> \<open>differences of \<open>time.perf_counter()\<close>\<close>
  je_config :: engine_config
  je_credentials :: engine_credentials
  je_options :: job_loop_options
  je_version :: string
  je_refused :: "string \<Rightarrow> bool"
  je_sha256 :: "string \<Rightarrow> string"
  je_fetch :: "string \<Rightarrow> source_response"
  je_links :: links \<comment> \<open>symbolic links on the disk: in the fresh workspace\<close>
  je_source_links :: links \<comment> \<open>once the archive is unpacked\<close>
  je_output_links :: links \<comment> \<open>once the container has run\<close>
  je_is_dir :: "path \<Rightarrow> bool"
  je_output_is_dir :: "path \<Rightarrow> bool"
  je_members :: "string \<Rightarrow> tar_failure + tar_member list"
  je_unpack :: "tar_member list \<Rightarrow> tar_failure option"
  je_project :: "path \<Rightarrow> tree" \<comment> \<open>the unpacked files below a directory\<close>
  je_specset :: specset
  je_image_manifest :: "string option"
  je_docker :: "string list \<Rightarrow> process_run"
  je_uids :: "nat \<times> nat"
  je_isalnum :: "string \<Rightarrow> bool"
  je_isdigit :: "string \<Rightarrow> bool"
  je_temp :: "string \<Rightarrow> string" \<comment> \<open>the names of temporary files\<close>
  je_container :: "string list \<Rightarrow> container option" \<comment> \<open>\<open>None\<close>: \<open>docker\<close> cannot be started\<close>
  je_get :: "string \<Rightarrow> (string \<times> string) list \<Rightarrow> http_answer"
  je_listing :: "path \<Rightarrow> (path \<times> out_entry) list"
  je_archive :: "(path \<times> out_entry) list \<Rightarrow> string"
  je_post :: "string \<Rightarrow> string \<Rightarrow> http_answer"
  je_put :: "string \<Rightarrow> string \<Rightarrow> http_answer option"

type_synonym 'a act = "world \<Rightarrow> 'a result \<times> world"

definition act_bind :: "'a act \<Rightarrow> ('a \<Rightarrow> 'b act) \<Rightarrow> 'b act" where
  "act_bind m f w = (case m w of (Inl e, w') \<Rightarrow> (Inl e, w') | (Inr x, w') \<Rightarrow> f x w')"

definition lift :: "'a result \<Rightarrow> 'a act" where
  "lift r w = (r, w)"

definition await :: "job_env \<Rightarrow> world \<Rightarrow> world" where
  "await je w = je_others je (w_time w) (w\<lparr>w_time := Suc (w_time w)\<rparr>)"

definition suspend :: "job_env \<Rightarrow> 'a result \<Rightarrow> 'a act" where
  "suspend je r w = (r, await je w)"

definition now_ms :: "job_env \<Rightarrow> world \<Rightarrow> int" where
  "now_ms je w = clk_now (je_clock je (w_time w)) div 1000"

definition db :: "world \<Rightarrow> store" where
  "db w = es_store (c_spool (w_conn w))"

definition on_db :: "'a op \<Rightarrow> 'a act" where
  "on_db f w = (case on_engine (on_store f) (w_conn w) of (r, c) \<Rightarrow> (r, w\<lparr>w_conn := c\<rparr>))"

definition on_metrics :: "(metrics_collector \<Rightarrow> metrics_collector) \<Rightarrow> world \<Rightarrow> world" where
  "on_metrics f w = w\<lparr>w_metrics := f (w_metrics w)\<rparr>"

definition on_cache :: "(cache_root \<Rightarrow> 'a result \<times> cache_root) \<Rightarrow> 'a act" where
  "on_cache f w =
     (case f (es_cache (c_spool (w_conn w))) of
        (r, x) \<Rightarrow> (r, w\<lparr>w_conn := (w_conn w)\<lparr>c_spool := (c_spool (w_conn w))\<lparr>es_cache := x\<rparr>\<rparr>\<rparr>))"

section \<open>Events\<close>

definition publish_event :: "job_env \<Rightarrow> job_record \<Rightarrow> string \<Rightarrow> payload \<Rightarrow> unit act" where
  "publish_event je job ty p w =
     (case publish ((je_uplink je)\<lparr>ue_clk := je_clock je (w_time w)\<rparr>) ty p (j_build_job_id job) (j_attempt_id job) (w_conn w) of
        (Inl e, c) \<Rightarrow> (Inl e, await je (w\<lparr>w_conn := c\<rparr>))
      | (Inr _, c) \<Rightarrow> (Inr (), await je (w\<lparr>w_conn := c\<rparr>)))"

definition status :: "job_env \<Rightarrow> job_record \<Rightarrow> string \<Rightarrow> payload \<Rightarrow> unit act" where
  "status je job phase extra = publish_event je job ''attempt.status'' (jmerge [(''phase'', JStr phase)] extra)"

text \<open>\<open>_log\<close>, and the other reports that suppress every exception.\<close>

definition safely :: "unit act \<Rightarrow> world \<Rightarrow> world" where
  "safely m w = snd (m w)"

definition log_line :: "job_env \<Rightarrow> job_record \<Rightarrow> string \<Rightarrow> ptext \<Rightarrow> world \<Rightarrow> world" where
  "log_line je job stream data =
     safely (publish_event je job ''attempt.log'' [(''stream'', JStr stream), (''data'', JStr (utf8_encode data))])"

definition metric :: "job_env \<Rightarrow> job_record \<Rightarrow> string \<Rightarrow> json \<Rightarrow> unit act" where
  "metric je job name v =
     publish_event je job ''attempt.status'' [(''phase'', JStr ''METRIC''), (''name'', JStr name), (''value'', v)]"

definition timing :: "job_env \<Rightarrow> job_record \<Rightarrow> string \<Rightarrow> unit act" where
  "timing je job name w = metric je job name (JFloat (je_elapsed je (w_time w))) w"

definition ack :: "job_env \<Rightarrow> job_record \<Rightarrow> string \<Rightarrow> string option \<Rightarrow> string option \<Rightarrow> string option \<Rightarrow> unit act" where
  "ack je job state error_class error_code error_message =
     publish_event je job ''attempt.status''
       ([(''build_job_id'', JStr (j_build_job_id job)), (''attempt_id'', JStr (j_attempt_id job)), (''state'', JStr state)] @
        opt_field ''error_class'' JStr error_class @ opt_field ''error_code'' JStr error_code @
        opt_field ''error_message'' JStr error_message)"

definition publish_error :: "job_env \<Rightarrow> job_record \<Rightarrow> string \<Rightarrow> string \<Rightarrow> string \<Rightarrow> unit act" where
  "publish_error je job error_class error_code message =
     publish_event je job ''error''
       [(''error_class'', JStr error_class), (''error_code'', JStr error_code), (''message'', JStr message)]"

section \<open>Assignment payloads\<close>

definition job_optional_str :: "payload \<Rightarrow> string \<Rightarrow> string option result" where
  "job_optional_str p key = (case jget_opt p key of
      None \<Rightarrow> Inr None
    | Some (JStr (c # cs)) \<Rightarrow> Inr (Some (c # cs))
    | Some _ \<Rightarrow> Inl (WorkspaceError (''payload '' @ key @ '' must be a non-empty string'')))"

definition job_required_str :: "payload \<Rightarrow> string \<Rightarrow> string result" where
  "job_required_str p key =
     rbind (job_optional_str p key) (\<lambda>v. case v of
        None \<Rightarrow> Inl (WorkspaceError (''payload '' @ key @ '' is required''))
      | Some s \<Rightarrow> Inr s)"

definition job_optional_int :: "payload \<Rightarrow> string \<Rightarrow> int option result" where
  "job_optional_int p key = (case jget_opt p key of
      None \<Rightarrow> Inr None
    | Some (JInt n) \<Rightarrow>
        if n \<le> 0 then Inl (WorkspaceError (''payload '' @ key @ '' must be a positive integer'')) else Inr (Some n)
    | Some _ \<Rightarrow> Inl (WorkspaceError (''payload '' @ key @ '' must be a positive integer'')))"

text \<open>\<open>[1-9][0-9]*(?:[bkmg])\<close> on \<open>memory.lower()\<close>; besides the ASCII letters, the Kelvin sign has
  one of the suffixes as its lower case.\<close>

definition kelvin :: string where "kelvin = [CHR 0xE2, CHR 0x84, CHR 0xAA]"

definition memory_text :: "string \<Rightarrow> bool" where
  "memory_text s =
     (let t = lower (py_replace kelvin ''k'' s) in
      2 \<le> length t \<and> list_all is_num (butlast t) \<and> hd t \<noteq> CHR ''0'' \<and> last t \<in> {CHR ''b'', CHR ''k'', CHR ''m'', CHR ''g''})"

text \<open>\<open>float(n)\<close> of an integer: too large a value raises.\<close>

definition float_of_int :: "int \<Rightarrow> pyfloat result" where
  "float_of_int n =
     (if \<bar>n\<bar> \<ge> 2 ^ 1024 - 2 ^ 970 then Inl (OverflowError ''int too large to convert to float'')
      else Inr (mk_float (n < 0) (nat \<bar>n\<bar>) 0))"

definition cpu_limit_of :: "json option \<Rightarrow> pyfloat \<Rightarrow> pyfloat option result" where
  "cpu_limit_of v limit =
     (let check = (\<lambda>x. if float_pos x \<and> float_le x limit then Inr (Some x)
                       else Inl (WorkspaceError ''payload resource_limits.cpus exceeds the local limit'')) in
      case v of
        None \<Rightarrow> Inr None
      | Some (JInt n) \<Rightarrow> rbind (float_of_int n) check
      | Some (JFloat x) \<Rightarrow> check x
      | Some _ \<Rightarrow> Inl (WorkspaceError ''payload resource_limits.cpus exceeds the local limit''))"

definition resource_limits :: "payload \<Rightarrow> engine_config \<Rightarrow> (int \<times> string option \<times> pyfloat option \<times> int) result" where
  "resource_limits p config =
     rbind (case (case jget p ''timeout_seconds'' of Some v \<Rightarrow> v | None \<Rightarrow> JInt (cf_build_timeout_seconds config)) of
         JInt t \<Rightarrow> if 1 \<le> t \<and> t \<le> cf_build_timeout_seconds config then Inr t
                   else Inl (WorkspaceError ''payload timeout_seconds exceeds the local bounded limit'')
       | _ \<Rightarrow> Inl (WorkspaceError ''payload timeout_seconds exceeds the local bounded limit'')) (\<lambda>timeout.
     rbind (case jget p ''resource_limits'' of
         None \<Rightarrow> Inr []
       | Some (JObj raw) \<Rightarrow> Inr raw
       | Some _ \<Rightarrow> Inl (WorkspaceError ''payload resource_limits must be an object'')) (\<lambda>raw.
     rbind (case jget_opt raw ''memory'' of
         None \<Rightarrow> Inr None
       | Some (JStr m) \<Rightarrow> if memory_text m then Inr (Some m)
                         else Inl (WorkspaceError ''payload resource_limits.memory is invalid'')
       | Some _ \<Rightarrow> Inl (WorkspaceError ''payload resource_limits.memory is invalid'')) (\<lambda>memory.
     rbind (cpu_limit_of (jget_opt raw ''cpus'') (cf_container_cpus config)) (\<lambda>cpus.
     rbind (case (case jget raw ''pids_limit'' of Some v \<Rightarrow> v | None \<Rightarrow> JInt 1024) of
         JInt n \<Rightarrow> if 1 \<le> n \<and> n \<le> 4096 then Inr n
                   else Inl (WorkspaceError ''payload resource_limits.pids_limit is invalid'')
       | _ \<Rightarrow> Inl (WorkspaceError ''payload resource_limits.pids_limit is invalid'')) (\<lambda>pids.
       Inr (timeout, memory, cpus, pids))))))"

definition cache_flag :: "payload \<Rightarrow> string \<Rightarrow> bool option result" where
  "cache_flag p key = (case jget_opt p key of
      None \<Rightarrow> Inr None
    | Some (JBool b) \<Rightarrow> Inr (Some b)
    | Some _ \<Rightarrow> Inl (WorkspaceError (''payload '' @ key @ '' must be a boolean'')))"

definition cache_enabled :: "payload \<Rightarrow> bool result" where
  "cache_enabled p = (case jget_opt p ''cache_policy'' of
      Some (JObj policy) \<Rightarrow>
        (case jget policy ''enabled'' of
           None \<Rightarrow> Inr True
         | Some (JBool b) \<Rightarrow> Inr b
         | Some _ \<Rightarrow> Inl (WorkspaceError ''payload cache_policy.enabled must be a boolean''))
    | Some _ \<Rightarrow> Inl (WorkspaceError ''payload cache_policy must be an object'')
    | None \<Rightarrow>
        rbind (cache_flag p ''cache_enabled'') (\<lambda>v. case v of
          Some b \<Rightarrow> Inr b
        | None \<Rightarrow> rbind (cache_flag p ''build_cache_enabled'') (\<lambda>v. case v of Some b \<Rightarrow> Inr b | None \<Rightarrow> Inr True)))"

definition combined_command :: "string \<Rightarrow> string \<Rightarrow> string" where
  "combined_command install build = (if install \<noteq> [] then install @ '' && '' @ build else build)"

text \<open>Absolute paths as text.\<close>

definition path_text :: "path \<Rightarrow> string" where
  "path_text p = ''/'' @ join ''/'' p"

definition build_manifest :: "build_plan \<Rightarrow> path \<Rightarrow> path \<Rightarrow> payload" where
  "build_manifest plan source_root project_root =
     [(''framework'', JStr (bp_framework_id plan)),
      (''package_manager'', JStr (manager_str (bp_package_manager plan))),
      (''root'', JStr (if prefix source_root project_root then as_posix (drop (length source_root) project_root) else ''.'')),
      (''install_command'', JStr (bp_install_command plan)), (''build_command'', JStr (bp_build_command plan)),
      (''output_dir'', JStr (case bp_output_dir plan of Some d \<Rightarrow> d | None \<Rightarrow> [])), (''env'', JObj [])]"

definition resolve_builder_image :: "job_env \<Rightarrow> string \<Rightarrow> string result" where
  "resolve_builder_image je img =
     rbind (load_bundled_image_manifest (je_image_manifest je)) (\<lambda>m. resolve_image_reference img (Some m))"

section \<open>Freshness and secrets\<close>

definition stale :: "string \<Rightarrow> exn" where
  "stale m = BuildExecutionError ''STALE_ATTEMPT'' ''STALE_ATTEMPT'' m"

definition ensure_current_attempt :: "job_record \<Rightarrow> string option \<Rightarrow> string option \<Rightarrow> store \<Rightarrow> unit result" where
  "ensure_current_attempt job owner tok s =
     rbind (is_current_attempt s (j_build_job_id job) (j_attempt_id job)) (\<lambda>current.
     rbind (ensure current (stale ''Build attempt was superseded by a newer assignment'')) (\<lambda>_.
       case get_job s (j_build_job_id job) (j_attempt_id job) of
         None \<Rightarrow> Inl (stale ''Build attempt is no longer running'')
       | Some c \<Rightarrow>
           rbind (ensure (j_state c = RUNNING) (stale ''Build attempt is no longer running'')) (\<lambda>_.
           rbind (ensure (owner = None \<or> j_lease_owner c = owner) (stale ''Build lease ownership was lost'')) (\<lambda>_.
           rbind (ensure (tok = None \<or> j_lease_token c = tok) (stale ''Build lease token was replaced'')) (\<lambda>_.
             ensure (\<not> j_cancel_requested c)
               (BuildExecutionError ''CANCELLED'' ''CANCELLED'' ''Build cancellation was requested''))))))"

definition backend_of :: "job_env \<Rightarrow> string option" where
  "backend_of je = str_or (cr_backend_url (je_credentials je)) (cf_backend_url (je_config je)) Some"

definition require_backend :: "job_env \<Rightarrow> string result" where
  "require_backend je = (case backend_of je of
      None \<Rightarrow> Inl (BuildExecutionError ''PLATFORM_ERROR'' ''BACKEND_URL_MISSING'' ''backend_url is missing'')
    | Some u \<Rightarrow> Inr u)"

definition fetch_secret_env :: "job_env \<Rightarrow> job_record \<Rightarrow> (string \<times> string) list act" where
  "fetch_secret_env je job =
     act_bind (lift (require_backend je)) (\<lambda>url.
       suspend je (case fetch_attempt_secrets (je_get je) (je_version je) url (j_build_job_id job) (j_attempt_id job) (je_credentials je) of
          Inl _ \<Rightarrow> Inl (BuildExecutionError ''EXEC_INFRA'' ''SECRET_FETCH_FAILED'' ''Build secret fetch failed'')
        | Inr env \<Rightarrow> Inr env))"

definition monitor_cancel :: "job_record \<Rightarrow> store \<Rightarrow> bool" where
  "monitor_cancel job s = (case get_job s (j_build_job_id job) (j_attempt_id job) of
      None \<Rightarrow> False
    | Some c \<Rightarrow> j_cancel_requested c \<or> j_state c = CANCELLED)"

section \<open>Running the container\<close>

definition log_reads :: "job_env \<Rightarrow> job_record \<Rightarrow> ptext list \<Rightarrow> (string \<times> nat list) list \<Rightarrow> world \<Rightarrow> world" where
  "log_reads je job secrets reads =
     fold (\<lambda>(stream, frame). log_line je job stream frame)
       (concat (map (\<lambda>(stream, chunk). pump_stream stream secrets [chunk]) reads))"

text \<open>\<open>_wait_for_process\<close> with the monitor and the two pumps at its side: a poll that ends
  without a result took its whole timeout, \<open>min(0.25, remaining)\<close>.\<close>

function container_loop ::
  "job_env \<Rightarrow> job_record \<Rightarrow> ptext list \<Rightarrow> (nat \<Rightarrow> turn) \<Rightarrow> int \<Rightarrow> int \<Rightarrow> bool \<Rightarrow> nat \<Rightarrow> world \<Rightarrow> container_result \<times> world" where
  "container_loop je job secrets turns deadline now cancelled i w =
     (let t = turns i; w1 = await je w;
          cancelled' = (cancelled \<or> (tn_monitor t \<and> monitor_cancel job (db w1)));
          w2 = log_reads je job secrets (tn_reads t) w1;
          p = \<lparr>po_cancel = cancelled', po_now = now, po_exit = tn_exit t, po_stopped = tn_stopped t\<rparr>
      in case wait_loop deadline [p] of
           Some r \<Rightarrow> (r, w2)
         | None \<Rightarrow> container_loop je job secrets turns deadline (now + min 250 (deadline - now) + int (tn_extra t))
                     cancelled' (Suc i) w2)"
  by pat_completeness auto
termination
  by (relation "measure (\<lambda>(je, job, secrets, turns, deadline, now, cancelled, i, w). nat (deadline - now))")
    (auto split: if_splits)

declare container_loop.simps [simp del]

definition run_container :: "job_env \<Rightarrow> job_record \<Rightarrow> docker_run_spec \<Rightarrow> container_result act" where
  "run_container je job spec =
     act_bind (lift (if ds_secret_env spec = [] then Inr None
                     else rbind (format_env_file (je_isalnum je) (je_isdigit je) (ds_secret_env spec)) (\<lambda>_. Inr (Some (je_temp je ''env''))))) (\<lambda>env_file.
     act_bind (lift (docker_run_args spec env_file (map_option (\<lambda>_. je_temp je ''manifest'') (ds_build_manifest spec)) (Some (je_temp je ''cid'')))) (\<lambda>args w.
       case je_container je args of
         None \<Rightarrow> (Inl (OSError ''docker could not be started''), await je w)
       | Some c \<Rightarrow>
           (let secrets = map (\<lambda>(_, v). decode_replace (map of_char v)) (ds_secret_env spec);
                start = now_ms je w;
                timeout = (case ds_timeout_seconds spec of
                    Some t \<Rightarrow> if t = 0 then cf_build_timeout_seconds (ds_config spec) else t
                  | None \<Rightarrow> cf_build_timeout_seconds (ds_config spec));
                (r, w') = container_loop je job secrets (co_turns c) (start + 1000 * timeout) start False 0 w
            in (Inr r, log_reads je job secrets (co_rest c) w'))))"

section \<open>One attempt\<close>

text \<open>From the assignment to a plan: nothing of this is suspended.\<close>

definition source_plan :: "job_env \<Rightarrow> workspace_paths \<Rightarrow> payload \<Rightarrow> (path \<times> build_plan) result" where
  "source_plan je ws p =
     rbind (job_required_str p ''source_download_url'') (\<lambda>source_url.
     rbind (job_required_str p ''source_sha256'') (\<lambda>source_sha256.
     rbind (job_optional_int p ''source_size_bytes'') (\<lambda>source_size.
     rbind (download_source (je_refused je) (je_sha256 je) (je_fetch je) (cf_storage_origins (je_config je))
              (cf_allow_local_source_urls (je_config je)) source_url source_sha256 source_size
              (Some (cf_artifact_max_bytes (je_config je)))) (\<lambda>bytes.
     rbind (extract_source (je_links je) (path_parts (wp_source_root ws)) (je_members je bytes) (je_unpack je)) (\<lambda>_.
     rbind (job_optional_str p ''root_directory'') (\<lambda>root_directory.
     rbind (resolve_project_root (je_source_links je) (je_is_dir je) (path_parts (wp_source_root ws)) root_directory) (\<lambda>proj.
     rbind (job_optional_str p ''framework_id'') (\<lambda>framework.
     rbind (plan_build (je_specset je) (path_text proj) (je_project je proj) framework None None None None) (\<lambda>plan.
     rbind (ensure (compatible (bp_compatibility plan))
              (BuildExecutionError ''USER_CONFIG_INVALID'' ''BUILD_INCOMPATIBLE''
                 (json_dumps_default (JArr (map (\<lambda>g. JObj (guidance_dict g)) (co_guidance (bp_compatibility plan))))))) (\<lambda>_.
       Inr (proj, plan)))))))))))"

definition event_str :: "cache_event \<Rightarrow> string" where
  "event_str e = (case e of HIT \<Rightarrow> ''HIT'' | MISS \<Rightarrow> ''MISS'' | WIPED \<Rightarrow> ''WIPED'')"

text \<open>\<open>Path.resolve()\<close> of a host path, as text.\<close>

definition resolved :: "job_env \<Rightarrow> string \<Rightarrow> string" where
  "resolved je s = path_text (resolve (je_source_links je) (path_parts s) [])"

definition prepare_cache :: "job_env \<Rightarrow> job_record \<Rightarrow> path \<Rightarrow> build_plan \<Rightarrow> cache_mount list act" where
  "prepare_cache je job proj plan =
     act_bind (lift (job_required_str (j_payload job) ''site_id'')) (\<lambda>site_id.
     act_bind (lift (cache_enabled (j_payload job))) (\<lambda>enable.
     act_bind (\<lambda>w. on_cache (prepare_site_cache (je_sha256 je) (now_ms je w) (je_now_text je (w_time w)) site_id
                 (bp_package_manager plan) (je_project je proj) (enable \<and> bp_package_manager plan \<noteq> No_Manager)) w) (\<lambda>cache.
     act_bind (\<lambda>w. on_cache (prune_cache (now_ms je w) (cf_cache_site_max_bytes (je_config je)) (cf_cache_ttl_days (je_config je)) [site_id]) w) (\<lambda>_.
     act_bind (suspend je (Inr ())) (\<lambda>_.
     act_bind (\<lambda>w. (Inr (), on_metrics (record_cache_event (cp_event cache)) w)) (\<lambda>_.
     act_bind (case cp_event cache of
         None \<Rightarrow> lift (Inr ())
       | Some e \<Rightarrow> publish_event je job ''attempt.status'' [(''phase'', JStr ''CACHE''), (''event'', JStr (event_str e))]) (\<lambda>_.
       lift (Inr (map (\<lambda>(sub, target).
               \<lparr>cm_host_path = resolved je (cf_state_dir (je_config je) @ ''/cache/'' @ site_id @ ''/'' @ sub),
                cm_container_path = target\<rparr>) (cp_mounts cache)))))))))) "

definition run_spec ::
  "job_env \<Rightarrow> workspace_paths \<Rightarrow> path \<Rightarrow> build_plan \<Rightarrow> string \<Rightarrow> cache_mount list \<Rightarrow>
   int \<times> string option \<times> pyfloat option \<times> int \<Rightarrow> (string \<times> string) list \<Rightarrow> docker_run_spec" where
  "run_spec je ws proj plan img mounts limits secrets = (case limits of (timeout, memory, cpus, pids) \<Rightarrow>
     \<lparr>ds_image = img, ds_project_root = path_text proj, ds_project_parent_out = path_text (butlast proj @ [''out'']),
      ds_command = combined_command (bp_install_command plan) (bp_build_command plan), ds_config = je_config je,
      ds_network_mode = DEFAULT_NETWORK_MODE, ds_source_root = Some (resolved je (wp_source_root ws)),
      ds_output_root = Some (resolved je (wp_output_root ws)),
      ds_build_manifest = Some (build_manifest plan (path_parts (wp_source_root ws)) proj), ds_environment = [],
      ds_cache_mounts = mounts, ds_secret_env = secrets, ds_container_label = ''build-engine.managed=true'',
      ds_host_uid = fst (je_uids je), ds_host_gid = snd (je_uids je), ds_timeout_seconds = Some timeout,
      ds_memory_limit = memory, ds_cpu_limit = cpus, ds_pids_limit = pids\<rparr>)"

definition check_result :: "container_result \<Rightarrow> unit result" where
  "check_result r =
     (if ct_cancelled r then Inl (BuildExecutionError ''CANCELLED'' ''CANCELLED'' ''Build was cancelled'')
      else if ct_timed_out r then Inl (BuildExecutionError ''EXEC_TIMEOUT'' ''TIMEOUT'' ''Build exceeded timeout'')
      else if ct_exit_code r = 137
      then Inl (BuildExecutionError ''EXEC_OOM'' ''EXEC_OOM'' ''Build container was killed after exceeding its memory limit'')
      else ensure (ct_exit_code r = 0)
        (BuildExecutionError ''USER_BUILD_FAILED'' ''CONTAINER_EXIT'' (''Build container exited with code '' @ int_str (ct_exit_code r))))"

definition run_build :: "job_env \<Rightarrow> job_record \<Rightarrow> workspace_paths \<Rightarrow> unit act" where
  "run_build je job ws =
     act_bind (status je job ''PREPARING'' []) (\<lambda>_.
     act_bind (lift (source_plan je ws (j_payload job))) (\<lambda>(proj, plan).
     act_bind (lift (resolve_builder_image je (bp_image plan))) (\<lambda>img.
     act_bind (status je job ''PULLING_IMAGE'' [(''image'', JStr img)]) (\<lambda>_.
     act_bind (suspend je (pull_image (je_docker je) img)) (\<lambda>_.
     act_bind (timing je job ''docker.image_pull_seconds'') (\<lambda>_.
     act_bind (lift (resource_limits (j_payload job) (je_config je))) (\<lambda>limits.
     act_bind (prepare_cache je job proj plan) (\<lambda>mounts.
     act_bind (status je job ''BUILDING'' (to_job_payload_fields plan)) (\<lambda>_.
     act_bind (fetch_secret_env je job) (\<lambda>secrets.
     act_bind (run_container je job (run_spec je ws proj plan img mounts limits secrets)) (\<lambda>r.
     act_bind (timing je job ''build.seconds'') (\<lambda>_.
       lift (check_result r)))))))))))))"

definition package_build :: "job_env \<Rightarrow> job_record \<Rightarrow> workspace_paths \<Rightarrow> artifact_package act" where
  "package_build je job ws =
     act_bind (status je job ''PACKAGING'' []) (\<lambda>_.
     act_bind (suspend je (package_output (je_output_links je) (je_output_is_dir je) (je_listing je) (je_archive je)
                 (je_sha256 je) (path_parts (wp_attempt_dir ws)) (Some ''out'') (cf_artifact_max_bytes (je_config je)))) (\<lambda>a.
     act_bind (timing je job ''package.seconds'') (\<lambda>_.
     act_bind (metric je job ''artifact.bytes'' (JInt (ap_size_bytes a))) (\<lambda>_.
     act_bind (publish_event je job ''artifact.ready''
                 [(''sha256'', JStr (ap_sha256 a)), (''size_bytes'', JInt (ap_size_bytes a))]) (\<lambda>_.
       lift (Inr a))))))"

definition upload_build :: "job_env \<Rightarrow> job_record \<Rightarrow> artifact_package \<Rightarrow> unit act" where
  "upload_build je job a =
     act_bind (status je job ''UPLOADING'' []) (\<lambda>_.
     act_bind (lift (require_backend je)) (\<lambda>_.
     act_bind (suspend je (request_upload_url (je_refused je) False (je_post je) (j_build_job_id job) (j_attempt_id job) a)) (\<lambda>ticket.
     act_bind (suspend je (upload (je_put je) ticket a)) (\<lambda>_.
       timing je job ''upload.seconds''))))"

definition settle_success :: "job_env \<Rightarrow> job_record \<Rightarrow> string option \<Rightarrow> string option \<Rightarrow> unit act" where
  "settle_success je job owner tok =
     act_bind (\<lambda>w. on_db (transition (now_ms je w) (j_attempt_id job) ''SUCCEEDED'' None (Some ''RUNNING'') owner tok) w) (\<lambda>_.
     act_bind (timing je job ''jobs.duration_seconds'') (\<lambda>_.
       ack je job ''SUCCEEDED'' None None None))"

definition build_and_deliver ::
  "job_env \<Rightarrow> job_record \<Rightarrow> string option \<Rightarrow> string option \<Rightarrow> workspace_paths \<Rightarrow> unit act" where
  "build_and_deliver je job owner tok ws =
     act_bind (run_build je job ws) (\<lambda>_.
     act_bind (\<lambda>w. lift (ensure_current_attempt job owner tok (db w)) w) (\<lambda>_.
     act_bind (package_build je job ws) (\<lambda>a.
     act_bind (upload_build je job a) (\<lambda>_.
       settle_success je job owner tok))))"

text \<open>The \<open>except\<close> clauses: the exception that leaves, and \<open>retain_failed\<close>.\<close>

definition convert_error :: "exn \<Rightarrow> exn \<times> bool" where
  "convert_error e = (case e of
      ArtifactUploadError m \<Rightarrow> (BuildExecutionError ''EXEC_INFRA'' ''STORAGE_FAILURE'' m, True)
    | ArtifactError m \<Rightarrow> (BuildExecutionError ''USER_CONFIG_INVALID'' ''ArtifactError'' m, True)
    | DetectionError m \<Rightarrow> (BuildExecutionError ''USER_CONFIG_INVALID'' ''DetectionError'' m, True)
    | WorkspaceError m \<Rightarrow> (BuildExecutionError ''USER_CONFIG_INVALID'' ''WorkspaceError'' m, True)
    | CacheError m \<Rightarrow> (BuildExecutionError ''EXEC_INFRA'' ''CacheError'' m, True)
    | DockerError m \<Rightarrow> (BuildExecutionError ''EXEC_INFRA'' ''DockerError'' m, True)
    | _ \<Rightarrow> (e, False))"

definition cleanup :: "job_env \<Rightarrow> job_record \<Rightarrow> bool \<Rightarrow> world \<Rightarrow> world" where
  "cleanup je job retain_failed w =
     w\<lparr>w_workspaces := cleanup_workspace (j_attempt_id job)
          (retain_failed \<and> jo_retain_failed_workspaces (je_options je)) (jo_failed_workspace_keep (je_options je))
          (now_ms je w) (w_workspaces w)\<rparr>"

definition count_docker_error :: "exn \<Rightarrow> world \<Rightarrow> world" where
  "count_docker_error e w = (case e of DockerError _ \<Rightarrow> on_metrics docker_error w | _ \<Rightarrow> w)"

definition execute_job :: "job_env \<Rightarrow> job_record \<Rightarrow> string option \<Rightarrow> string option \<Rightarrow> unit act" where
  "execute_job je job owner tok w =
     (case create_workspace (cf_state_dir (je_config je)) (j_attempt_id job) (w_workspaces w) of
        (Inl e, x) \<Rightarrow> (Inl e, w\<lparr>w_workspaces := x\<rparr>)
      | (Inr ws, x) \<Rightarrow>
          (case build_and_deliver je job owner tok ws (w\<lparr>w_workspaces := x\<rparr>) of
             (Inr _, w') \<Rightarrow> (Inr (), cleanup je job False w')
           | (Inl e, w') \<Rightarrow>
               (Inl (fst (convert_error e)), cleanup je job (snd (convert_error e)) (count_docker_error e w'))))"

section \<open>Workers\<close>

text \<open>\<open>str(exc)\<close>.\<close>

definition exn_str :: "exn \<Rightarrow> string" where
  "exn_str e = (case e of
      QueueError m \<Rightarrow> m | ProtocolError m \<Rightarrow> m | WorkspaceError m \<Rightarrow> m | DetectionError m \<Rightarrow> m
    | PackageManagerDetectionError m \<Rightarrow> m | PackageJsonError m \<Rightarrow> m | CacheError m \<Rightarrow> m | DockerError m \<Rightarrow> m
    | ArtifactError m \<Rightarrow> m | ArtifactUploadError m \<Rightarrow> m | OutputValidationError m \<Rightarrow> m | NetworkPolicyError m \<Rightarrow> m
    | AuthError m \<Rightarrow> m | ValueError m \<Rightarrow> m | TypeError m \<Rightarrow> m | AttributeError m \<Rightarrow> m | IntegrityError m \<Rightarrow> m | OperationalError m \<Rightarrow> m | OSError m \<Rightarrow> m
    | OverflowError m \<Rightarrow> m | ConnectionClosed m \<Rightarrow> m | StopIteration \<Rightarrow> [] | InvalidSpecifier m \<Rightarrow> m
    | TimeoutExpired m \<Rightarrow> m | HTTPError code m \<Rightarrow> ''HTTP Error '' @ int_str code @ '': '' @ m
    | BuildExecutionError c d m \<Rightarrow> m)"

definition target_state :: "string \<Rightarrow> string" where
  "target_state error_class =
     (if error_class = ''EXEC_TIMEOUT'' then ''TIMED_OUT'' else if error_class = ''CANCELLED'' then ''CANCELLED'' else ''FAILED'')"

definition is_queue_error :: "exn \<Rightarrow> bool" where
  "is_queue_error e = (case e of QueueError _ \<Rightarrow> True | _ \<Rightarrow> False)"

text \<open>The two \<open>except\<close> clauses of \<open>_worker\<close>; the value is \<open>completed\<close>.\<close>

definition worker_failed :: "job_env \<Rightarrow> queue_lease \<Rightarrow> string \<Rightarrow> string \<Rightarrow> string \<Rightarrow> bool act" where
  "worker_failed je l c d m w =
     (let job = ql_job l;
          (r, w1) = (case get_job (db w) (j_build_job_id job) (j_attempt_id job) of
              None \<Rightarrow> (Inr (), w)
            | Some current \<Rightarrow>
                if terminal (j_state current) then (Inr (), w)
                else (case on_db (transition (now_ms je w) (j_attempt_id job) (target_state c) (Some m)
                             (Some (state_str (j_state current))) (Some (ql_owner l)) (Some (ql_token l))) w of
                    (Inl e, w') \<Rightarrow> (if is_queue_error e then Inr () else Inl e, w')
                  | (Inr _, w') \<Rightarrow> (Inr (), w')))
      in case r of
           Inl e \<Rightarrow> (Inl e, w1)
         | Inr _ \<Rightarrow>
             (Inr True, safely (ack je job (target_state c) (Some c) (Some d) (Some m))
                          (safely (publish_error je job c d m) w1)))"

definition worker_crashed :: "job_env \<Rightarrow> queue_lease \<Rightarrow> exn \<Rightarrow> bool act" where
  "worker_crashed je l x w =
     (let job = ql_job l; message = exn_str x in
      if (case get_job (db w) (j_build_job_id job) (j_attempt_id job) of
            Some current \<Rightarrow> terminal (j_state current) | None \<Rightarrow> False)
      then (Inr True, w)
      else case on_db (record_executor_crash (now_ms je w) (j_attempt_id job) message (Some (ql_owner l)) (Some (ql_token l))) w of
          (Inl e, w1) \<Rightarrow>
            if is_queue_error e
            then (Inr False, safely (publish_error je job ''EXEC_INFRA'' ''EXECUTOR_CRASH'' message) w1)
            else (Inl e, w1)
        | (Inr recovered, w1) \<Rightarrow>
            (let w2 = safely (publish_error je job ''EXEC_INFRA'' ''EXECUTOR_CRASH'' message) w1 in
             if j_state recovered = FAILED
             then (Inr True, safely (ack je job ''FAILED'' (Some ''EXEC_INFRA'') (Some ''EXECUTOR_CRASH'') (Some message)) w2)
             else (Inr False, w2)))"

text \<open>The \<open>try\<close> statement with its \<open>finally\<close>: the refresher is stopped and the run is counted.\<close>

definition run_lease :: "job_env \<Rightarrow> queue_lease \<Rightarrow> unit act" where
  "run_lease je l w =
     (let (r, w1) = (case execute_job je (ql_job l) (Some (ql_owner l)) (Some (ql_token l)) (on_metrics job_started w) of
              (Inr _, w1) \<Rightarrow> (Inr True, w1)
            | (Inl (BuildExecutionError c d m), w1) \<Rightarrow> worker_failed je l c d m w1
            | (Inl e, w1) \<Rightarrow> worker_crashed je l e w1);
          w2 = on_metrics (job_finished (case r of Inr completed \<Rightarrow> completed | Inl _ \<Rightarrow> False)) (await je w1)
      in (rbind r (\<lambda>_. Inr ()), w2))"

datatype worker_turn = Stopped | Idle | Lost | Worked

definition worker_step :: "job_env \<Rightarrow> bool \<Rightarrow> string \<Rightarrow> string \<Rightarrow> worker_turn act" where
  "worker_step je stop owner tok w =
     (if stop then (Inr Stopped, w)
      else case on_db (acquire_queue_lease (now_ms je w) tok owner (jo_lease_seconds (je_options je))) w of
          (Inl e, w1) \<Rightarrow> (Inl e, w1)
        | (Inr None, w1) \<Rightarrow> (Inr Idle, await je w1)
        | (Inr (Some l), w1) \<Rightarrow>
            (case on_db (transition (now_ms je w1) (j_attempt_id (ql_job l)) ''RUNNING'' None (Some ''LEASED'')
                    (Some (ql_owner l)) (Some (ql_token l))) w1 of
               (Inl e, w2) \<Rightarrow> (if is_queue_error e then Inr Lost else Inl e, w2)
             | (Inr _, w2) \<Rightarrow> act_bind (run_lease je l) (\<lambda>_. lift (Inr Worked)) w2))"

text \<open>The loop of \<open>_worker\<close>, one turn for each token drawn; an exception ends it.\<close>

fun worker_run :: "job_env \<Rightarrow> string \<Rightarrow> string list \<Rightarrow> unit act" where
  "worker_run je owner [] w = (Inr (), w)"
| "worker_run je owner (tok # toks) w =
     (case worker_step je False owner tok w of
        (Inl e, w') \<Rightarrow> (Inl e, w')
      | (Inr Stopped, w') \<Rightarrow> (Inr (), w')
      | (Inr _, w') \<Rightarrow> worker_run je owner toks w')"

definition worker_owners :: "engine_config \<Rightarrow> string list" where
  "worker_owners config = map (\<lambda>i. ''worker-'' @ nat_digits i) [0..<nat (cf_max_concurrency config)]"

text \<open>\<open>_refresh_lease\<close>: the pause in milliseconds, and one turn; \<open>False\<close>: the loop returns.\<close>

definition refresh_interval :: "int \<Rightarrow> int" where
  "refresh_interval visibility_timeout_seconds = max 1000 (min 30000 (visibility_timeout_seconds * 1000 div 3))"

definition refresh_turn :: "job_env \<Rightarrow> queue_lease \<Rightarrow> bool act" where
  "refresh_turn je l w =
     (case on_db (lease_refresh (now_ms je w) l) w of
        (Inl e, w') \<Rightarrow> (if is_queue_error e then Inr False else Inl e, w')
      | (Inr _, w') \<Rightarrow> (Inr True, w'))"

end
