(* ===== verification/Uplink_Correct.thy ===== *)
theory Uplink_Correct
  imports Uplink
begin

text \<open>
  Correctness of the uplink: the contract it needs of an event spool, the engine's outbox
  as an implementation of it, publishing over a connection that may drop at any moment,
  handling of foreign frames, and the reconnect delays.
\<close>

section \<open>The spool interface\<close>

text \<open>What the uplink relies on (\<open>EventSpoolLike\<close>): an event stamped with the next number of
  its attempt and a new identifier is taken, and the attempt's numbers go on from there.\<close>

locale event_spool =
  fixes inv :: "'s \<Rightarrow> bool"
    and nxt :: "'s \<Rightarrow> string \<Rightarrow> int result"
    and app :: "int \<Rightarrow> envelope \<Rightarrow> 's \<Rightarrow> unit result \<times> 's"
    and used :: "'s \<Rightarrow> string set"
  assumes append_next: "inv s \<Longrightarrow> nxt s a = Inr n \<Longrightarrow> env_attempt_id env = Some a \<Longrightarrow> env_seq env = Some n \<Longrightarrow>
      to_json env = Inr json \<Longrightarrow> env_id env \<notin> used s \<Longrightarrow>
      \<exists>s'. app now env s = (Inr (), s') \<and> nxt s' a = Inr (n + 1)"
    and append_inv: "inv s \<Longrightarrow> inv (snd (app now env s))"
    and append_used: "used (snd (app now env s)) \<subseteq> insert (env_id env) (used s)"
begin

lemma publish_next:
  assumes inv: "inv (c_spool c)" and n: "nxt (c_spool c) a = Inr n"
    and env: "new_envelope clk (ids (c_drawn c)) ty p engine (Some b) (Some a) (Some n) None = Inr env"
    and json: "to_json env = Inr json" and fresh: "ids (c_drawn c) \<notin> used (c_spool c)"
  shows "\<exists>c'. publish_attempt_event nxt app clk ids send engine ty p b a c = (Inr env, c') \<and>
    env_seq env = Some n \<and> env_id env = ids (c_drawn c) \<and> nxt (c_spool c') a = Inr (n + 1) \<and>
    inv (c_spool c') \<and> c_drawn c' = Suc (c_drawn c) \<and> used (c_spool c') \<subseteq> insert (ids (c_drawn c)) (used (c_spool c))"
proof -
  have e: "env_seq env = Some n" "env_id env = ids (c_drawn c)" "env_attempt_id env = Some a"
    using env by (auto simp: new_envelope_def Let_def rbind_Inr_iff)
  let ?now = "clk_now clk div 1000"
  obtain s' where s': "app ?now env (c_spool c) = (Inr (), s')" "nxt s' a = Inr (n + 1)"
    using append_next [OF inv n e(3,1) json] fresh e(2) by auto
  have inv': "inv s'" "used s' \<subseteq> insert (ids (c_drawn c)) (used (c_spool c))"
    using append_inv [OF inv, of ?now env] append_used [of ?now env "c_spool c"] s'(1) e(2) by auto
  have keep: "c_spool (send_or_drop send env x) = c_spool x" "c_drawn (send_or_drop send env x) = c_drawn x"
    for x :: "'s conn"
    by (auto simp: send_or_drop_def ws_send_def split: sum.splits)
  let ?c1 = "(c\<lparr>c_drawn := Suc (c_drawn c)\<rparr>)\<lparr>c_spool := s'\<rparr>"
  have "publish_attempt_event nxt app clk ids send engine ty p b a c = (Inr env, send_or_drop send env ?c1)"
    using n env s'(1) by (simp add: publish_attempt_event_def Let_def)
  then show ?thesis using e s' inv' keep by simp
qed

end

section \<open>A series of events\<close>

text \<open>Events of one attempt published one after the other; \<open>sends\<close> is what the socket does with
  each of them.\<close>

fun publish_series ::
  "('s \<Rightarrow> string \<Rightarrow> int result) \<Rightarrow> (int \<Rightarrow> envelope \<Rightarrow> 's \<Rightarrow> unit result \<times> 's) \<Rightarrow>
   clock \<Rightarrow> (nat \<Rightarrow> string) \<Rightarrow> string \<Rightarrow> string \<Rightarrow> string \<Rightarrow> (string \<times> payload \<times> (string \<Rightarrow> bool)) list \<Rightarrow>
   's conn \<Rightarrow> envelope list result \<times> 's conn" where
  "publish_series nxt app clk ids engine b a [] c = (Inr [], c)"
| "publish_series nxt app clk ids engine b a ((ty, p, send) # ms) c =
     (case publish_attempt_event nxt app clk ids send engine ty p b a c of
        (Inl e, c') \<Rightarrow> (Inl e, c')
      | (Inr env, c') \<Rightarrow>
          (case publish_series nxt app clk ids engine b a ms c' of
             (Inl e, c'') \<Rightarrow> (Inl e, c'')
           | (Inr envs, c'') \<Rightarrow> (Inr (env # envs), c'')))"

text \<open>The message can be sent as an event of the attempt at this position.\<close>

definition publishable :: "clock \<Rightarrow> string \<Rightarrow> string \<Rightarrow> string \<Rightarrow> string \<Rightarrow> int \<Rightarrow> string \<times> payload \<Rightarrow> bool" where
  "publishable clk engine b a fresh n m \<longleftrightarrow>
     (\<exists>env json. new_envelope clk fresh (fst m) (snd m) engine (Some b) (Some a) (Some n) None = Inr env \<and>
        to_json env = Inr json)"

context event_spool
begin

lemma publish_series_consecutive:
  assumes "inv (c_spool c)" and "nxt (c_spool c) a = Inr n"
    and "\<forall>i < length ms. publishable clk engine b a (ids (c_drawn c + i)) (n + int i) (fst (ms ! i), fst (snd (ms ! i)))"
    and "\<forall>i. ids (c_drawn c + i) \<notin> used (c_spool c)" and "inj ids"
  shows "\<exists>envs c'. publish_series nxt app clk ids engine b a ms c = (Inr envs, c') \<and>
    map env_seq envs = map (\<lambda>i. Some (n + int i)) [0..<length ms] \<and> nxt (c_spool c') a = Inr (n + int (length ms))"
  using assms
proof (induction ms arbitrary: c n)
  case (Cons m ms)
  obtain ty p send where m: "m = (ty, p, send)" by (cases m)
  have "publishable clk engine b a (ids (c_drawn c)) n (ty, p)" using Cons.prems(3) m by force
  then obtain env json where env: "new_envelope clk (ids (c_drawn c)) ty p engine (Some b) (Some a) (Some n) None = Inr env"
    "to_json env = Inr json" by (auto simp: publishable_def)
  have fresh: "ids (c_drawn c) \<notin> used (c_spool c)" using Cons.prems(4) [rule_format, of 0] by simp
  obtain c' where c': "publish_attempt_event nxt app clk ids send engine ty p b a c = (Inr env, c')"
    "env_seq env = Some n" "nxt (c_spool c') a = Inr (n + 1)" "inv (c_spool c')" "c_drawn c' = Suc (c_drawn c)"
    "used (c_spool c') \<subseteq> insert (ids (c_drawn c)) (used (c_spool c))"
    using publish_next [where ids = ids, OF Cons.prems(1,2) env fresh, of send] by blast
  have "publishable clk engine b a (ids (c_drawn c' + i)) (n + 1 + int i) (fst (ms ! i), fst (snd (ms ! i)))"
    if "i < length ms" for i
    using Cons.prems(3) [rule_format, of "Suc i"] that c'(5) by (simp add: ac_simps)
  moreover have "ids (c_drawn c' + i) \<notin> used (c_spool c')" for i
  proof -
    have "ids (c_drawn c' + i) \<noteq> ids (c_drawn c)" using injD [OF Cons.prems(5)] c'(5) by fastforce
    then show ?thesis using Cons.prems(4) [rule_format, of "Suc i"] c'(5,6) by auto
  qed
  ultimately obtain envs c'' where rec: "publish_series nxt app clk ids engine b a ms c' = (Inr envs, c'')"
    "map env_seq envs = map (\<lambda>i. Some (n + 1 + int i)) [0..<length ms]" "nxt (c_spool c'') a = Inr (n + 1 + int (length ms))"
    using Cons.IH [OF c'(4,3) _ _ Cons.prems(5)] by blast
  have "map env_seq (env # envs) = map (\<lambda>i. Some (n + int i)) [0..<length (m # ms)]"
    using rec(2) c'(2) by (simp add: upt_conv_Cons map_Suc_upt [symmetric] ac_simps del: upt_Suc)
  then show ?case using m c'(1) rec by (auto simp: ac_simps)
qed simp

end

section \<open>The engine's outbox is a spool\<close>

definition event_ids :: "engine_state \<Rightarrow> string set" where
  "event_ids e = ev_id ` set (events (es_store e))"

lemma append_event_ids: "ev_id ` set (events (snd (append_event cfg now env s))) \<subseteq> insert (env_id env) (ev_id ` set (events s))"
  using append_event_effect [of cfg now env s "fst (append_event cfg now env s)" "snd (append_event cfg now env s)"]
  by (auto simp del: filter_append)

interpretation outbox: event_spool engine_wf engine_next_seq "engine_append cfg" event_ids
proof
  fix s a n env json now
  assume "engine_wf s" "engine_next_seq s a = Inr n" "env_attempt_id env = Some a" "env_seq env = Some n"
    "to_json env = Inr json" "env_id env \<notin> event_ids s"
  then show "\<exists>s'. engine_append cfg now env s = (Inr (), s') \<and> engine_next_seq s' a = Inr (n + 1)"
    using next_seq_append_ok [of "es_store s" a n env json cfg now]
    by (auto simp: engine_wf_def store_wf_def engine_next_seq_def event_ids_def engine_append_def on_store_def)
next
  fix s now env assume "engine_wf s"
  then show "engine_wf (snd (engine_append cfg now env s))"
    using store_step_wf [OF step_append [of cfg now env "es_store s" "fst (append_event cfg now env (es_store s))"]]
    by (simp add: engine_append_def engine_wf_def)
next
  fix now env s
  show "event_ids (snd (engine_append cfg now env s)) \<subseteq> insert (env_id env) (event_ids s)"
    using append_event_ids [of cfg now env "es_store s"] by (simp add: engine_append_def event_ids_def)
qed

text \<open>
  The events an attempt publishes carry consecutive sequence numbers, each starting
  where the outbox left off and none of them lost or reused, whether the socket is open,
  closed, or drops in the middle of the series.
\<close>

theorem published_events_consecutive:
  assumes "engine_wf (c_spool c)" and "engine_next_seq (c_spool c) a = Inr n"
    and "\<forall>i < length ms. publishable clk engine b a (ids (c_drawn c + i)) (n + int i) (fst (ms ! i), fst (snd (ms ! i)))"
    and "\<forall>i. ids (c_drawn c + i) \<notin> event_ids (c_spool c)" and "inj ids"
  shows "\<exists>envs c'. publish_series engine_next_seq (engine_append cfg) clk ids engine b a ms c = (Inr envs, c') \<and>
    map env_seq envs = map (\<lambda>i. Some (n + int i)) [0..<length ms] \<and>
    engine_next_seq (c_spool c') a = Inr (n + int (length ms))"
  by (rule outbox.publish_series_consecutive) (use assms in auto)

section \<open>Assignments over the wire\<close>

lemma publish_ok:
  assumes "engine_wf (c_spool c)" and "engine_next_seq (c_spool c) a = Inr n"
    and "publishable (ue_clk u) (ue_engine u) b a (ue_ids u (c_drawn c)) n (ty, p)"
    and "ue_ids u (c_drawn c) \<notin> event_ids (c_spool c)"
  shows "\<exists>env c'. publish u ty p b a c = (Inr env, c') \<and> env_seq env = Some n \<and>
    engine_next_seq (c_spool c') a = Inr (n + 1) \<and> engine_wf (c_spool c')"
proof -
  obtain env json where env: "new_envelope (ue_clk u) (ue_ids u (c_drawn c)) ty p (ue_engine u) (Some b) (Some a) (Some n) None = Inr env"
    "to_json env = Inr json" using assms(3) by (auto simp: publishable_def)
  from outbox.publish_next [where ids = "ue_ids u", OF assms(1,2) env assms(4), of "ue_cfg u" "ue_send u"]
  show ?thesis unfolding publish_def by blast
qed

lemma send_or_drop_spool [simp]: "c_spool (send_or_drop send env c) = c_spool c"
  by (auto simp: send_or_drop_def ws_send_def split: sum.splits)

text \<open>Publishing touches the spool through \<open>append\<close> only.\<close>

lemma publish_attempt_event_spool:
  assumes "publish_attempt_event nxt app clk ids send engine ty p b a c = (res, c')"
  shows "c_spool c' = c_spool c \<or> (\<exists>now env. c_spool c' = snd (app now env (c_spool c)))"
proof (cases "nxt (c_spool c) a")
  case (Inr n)
  show ?thesis
  proof (cases "new_envelope clk (ids (c_drawn c)) ty p engine (Some b) (Some a) (Some n) None")
    case env: (Inr env)
    obtain r s' where app: "app (clk_now clk div 1000) env (c_spool c) = (r, s')" by force
    have "c_spool c' = s'"
      using assms Inr env app by (auto simp: publish_attempt_event_def Let_def split: sum.splits)
    then show ?thesis using app by (metis snd_conv)
  qed (use assms Inr in \<open>auto simp: publish_attempt_event_def Let_def\<close>)
qed (use assms in \<open>auto simp: publish_attempt_event_def\<close>)

lemma publish_store:
  assumes "publish u ty p b a c = (res, c')"
  obtains "es_store (c_spool c') = es_store (c_spool c)"
  | now env where "es_store (c_spool c') = snd (append_event (ue_cfg u) now env (es_store (c_spool c)))"
  using publish_attempt_event_spool [OF assms [unfolded publish_def]] by (auto simp: engine_append_def)

text \<open>Publishing only moves the cursor of the attempt.\<close>

lemma append_keeps_state:
  assumes "attempt_row (jobs s) x = Some r"
  shows "\<exists>r'. attempt_row (jobs (snd (append_event cfg now env s))) x = Some r' \<and> j_state r' = j_state r"
proof -
  obtain res s' where app: "append_event cfg now env s = (res, s')" by force
  have "jobs s' = jobs s \<or> (\<exists>y n. jobs s' = sql_update (has_attempt y) (bump_cursor now n) (jobs s))"
    using append_event_effect [OF app]
  proof (elim disjE exE conjE)
    fix y n json P
    assume "s' = s\<lparr>events := filter P (events s @ [\<lparr>ev_id = env_id env, ev_attempt_id = y, ev_seq = n,
         ev_type = env_type env, ev_envelope_json = json, ev_created_at = now\<rparr>]),
      jobs := sql_update (has_attempt y) (bump_cursor now n) (jobs s)\<rparr>"
    then have "jobs s' = sql_update (has_attempt y) (bump_cursor now n) (jobs s)" by simp
    then show ?thesis by blast
  qed simp
  then show ?thesis
    using assms app by (auto simp: attempt_row_find find_key_sql_update [of j_attempt_id] bump_cursor_def)
qed

lemma publish_keeps_state:
  assumes "publish u ty p b a c = (res, c')" and "attempt_row (jobs (es_store (c_spool c))) x = Some r"
  shows "\<exists>r'. attempt_row (jobs (es_store (c_spool c'))) x = Some r' \<and> j_state r' = j_state r"
  using publish_store [OF assms(1)] append_keeps_state [OF assms(2)] assms(2) by metis

lemma jget_jmerge_ids:
  "jget (jmerge p [(''build_job_id'', JStr b), (''attempt_id'', JStr a)]) ''build_job_id'' = Some (JStr b)"
  "jget (jmerge p [(''build_job_id'', JStr b), (''attempt_id'', JStr a)]) ''attempt_id'' = Some (JStr a)"
  by (simp_all add: jget_def map_of_jmerge)

definition status_payload :: "string \<Rightarrow> string \<Rightarrow> string \<Rightarrow> payload" where
  "status_payload b a state = [(''build_job_id'', JStr b), (''attempt_id'', JStr a), (''state'', JStr state)]"

text \<open>
  A new assignment that arrives on an engine that is not draining is recorded as a
  \<open>QUEUED\<close> attempt and acknowledged with its first event, number 1, whether or not the
  socket survives sending it.
\<close>

theorem assignment_acknowledged:
  assumes wf: "engine_wf (c_spool c)" and undrained: "\<not> es_drain_marker (c_spool c)"
    and ids: "attempt_fields env = Inr (b, a)" "is_uuid b" "is_uuid a"
    and new: "attempt_row (jobs (es_store (c_spool c))) a = None"
    and msg: "publishable (ue_clk u) (ue_engine u) b a (ue_ids u (c_drawn c)) 1 (''attempt.status'', status_payload b a ''QUEUED'')"
    and fresh: "ue_ids u (c_drawn c) \<notin> event_ids (c_spool c)"
  shows "\<exists>c' r. handle_assign u env c = (Inr (), c') \<and> engine_wf (c_spool c') \<and>
    attempt_row (jobs (es_store (c_spool c'))) a = Some r \<and> j_state r = QUEUED \<and>
    engine_next_seq (c_spool c') a = Inr 2"
proof -
  let ?now = "clk_now (ue_clk u) div 1000" and ?e = "c_spool c"
  let ?p = "jmerge (env_payload env) [(''build_job_id'', JStr b), (''attempt_id'', JStr a)]"
  let ?row = "new_job_row ?now b a ?p (jobs (es_store ?e))"
  have as: "assigns ?p b a" using ids by (simp add: assigns_def jget_jmerge_ids)
  define s1 where "s1 = snd (enqueue ?now ?p (es_store ?e))"
  have enq: "enqueue ?now ?p (es_store ?e) = (Inr \<lparr>enq_job = load_job s1 ?row, enq_inserted = True\<rparr>, s1)"
    and s1: "jobs s1 = jobs (es_store ?e) @ [?row]" "events s1 = events (es_store ?e)"
    by (simp_all add: s1_def enqueue_new [OF as new] Let_def)
  define c1 where "c1 = c\<lparr>c_spool := (?e\<lparr>es_draining := False, es_store := s1\<rparr>)\<rparr>"
  have assign: "assign ?now ?p ?e =
      (Inr \<lparr>cr_accepted = True, cr_state = Some ''QUEUED'', cr_detail = None, cr_affected = []\<rparr>, c_spool c1)"
    using undrained enq by (simp add: assign_def Let_def on_store_def c1_def state_str_def)
  have wf1: "engine_wf (c_spool c1)" using assign_wf [OF wf, of ?now ?p] assign by simp
  have on: "on_engine (assign ?now ?p) c =
      (Inr \<lparr>cr_accepted = True, cr_state = Some ''QUEUED'', cr_detail = None, cr_affected = []\<rparr>, c1)"
    using assign by (simp add: on_engine_def c1_def)
  have "attempt_row (jobs s1) a = Some ?row"
    using new s1 by (simp add: attempt_row_def filter_empty_conv)
  then have row: "attempt_row (jobs (es_store (c_spool c1))) a = Some ?row" "engine_next_seq (c_spool c1) a = Inr 1"
    by (simp_all add: c1_def engine_next_seq_def next_seq_def new_job_row_def)
  have "ue_ids u (c_drawn c1) \<notin> event_ids (c_spool c1)" using fresh s1 by (simp add: c1_def event_ids_def)
  moreover have "publishable (ue_clk u) (ue_engine u) b a (ue_ids u (c_drawn c1)) 1 (''attempt.status'', status_payload b a ''QUEUED'')"
    using msg by (simp add: c1_def)
  ultimately obtain env' c2 where c2:
    "publish u ''attempt.status'' (status_payload b a ''QUEUED'') b a c1 = (Inr env', c2)"
    "engine_next_seq (c_spool c2) a = Inr (1 + 1)" "engine_wf (c_spool c2)"
    using publish_ok [OF wf1 row(2)] by blast
  have "handle_assign u env c = (Inr (), c2)"
    using ids(1) on c2(1) by (simp add: handle_assign_def Let_def status_payload_def)
  moreover have "\<exists>r. attempt_row (jobs (es_store (c_spool c2))) a = Some r \<and> j_state r = QUEUED"
    using publish_keeps_state [OF c2(1) row(1)] by simp
  ultimately show ?thesis using c2 by auto
qed

section \<open>Commands that end the connection\<close>

text \<open>An event for an attempt the database does not know cannot be published.\<close>

lemma publish_unknown_attempt:
  "attempt_row (jobs (es_store (c_spool c))) a = None \<Longrightarrow>
    publish u ty p b a c = (Inl (QueueError ''Cannot allocate an event sequence for an unknown attempt''), c)"
  by (simp add: publish_def publish_attempt_event_def engine_next_seq_def next_seq_def)

text \<open>
  C35. An assignment for a new attempt that reaches a draining engine is not recorded, and
  its rejection is not reported either: the attempt has no row to number the status event
  with, the handler raises \<open>QueueError\<close>, and nothing is sent or stored.
\<close>

theorem draining_rejection_unreported:
  assumes drain: "es_drain_marker (c_spool c)" and ids: "attempt_fields env = Inr (b, a)"
    and new: "attempt_row (jobs (es_store (c_spool c))) a = None"
  shows "\<exists>c'. handle_assign u env c =
      (Inl (QueueError ''Cannot allocate an event sequence for an unknown attempt''), c') \<and>
    c_sent c' = c_sent c \<and> es_store (c_spool c') = es_store (c_spool c)"
proof -
  let ?c = "c\<lparr>c_spool := (c_spool c)\<lparr>es_draining := True\<rparr>\<rparr>"
  have "on_engine (assign now p) c =
      (Inr \<lparr>cr_accepted = False, cr_state = Some ''FAILED'', cr_detail = Some ''Engine is draining'', cr_affected = []\<rparr>, ?c)"
    for now p
    using drain by (simp add: on_engine_def assign_def Let_def)
  then have "handle_assign u env c =
      (Inl (QueueError ''Cannot allocate an event sequence for an unknown attempt''), ?c)"
    using publish_unknown_attempt [of ?c a] new ids by (simp add: handle_assign_def Let_def)
  then show ?thesis by simp
qed

text \<open>
  A cancellation that names an attempt this engine never received raises as well: the
  request is accepted, but no status can be published for the unknown attempt.
\<close>

theorem cancel_unknown_attempt_raises:
  assumes b: "jget (env_payload env) ''build_job_id'' = Some (JStr b)" "b \<noteq> []"
    and a: "jget (env_payload env) ''attempt_id'' = Some (JStr a)" "a \<noteq> []"
    and new: "attempt_row (jobs (es_store (c_spool c))) a = None"
  shows "\<exists>c'. handle_cancel u env c =
      (Inl (QueueError ''Cannot allocate an event sequence for an unknown attempt''), c') \<and> c_sent c' = c_sent c"
proof -
  have "a \<notin> j_attempt_id ` set (jobs (es_store (c_spool c)))" using new by (simp add: attempt_row_None)
  let ?now = "clk_now (ue_clk u) div 1000"
  obtain s' where s': "request_cancel ?now b (Some a) (es_store (c_spool c)) = (Inr [a], s')"
    by (simp add: request_cancel_def Let_def)
  have "map j_attempt_id (jobs s') = map j_attempt_id (jobs (es_store (c_spool c)))"
    using table_evolves_attempts [of _ "jobs s'"] request_cancel_effect [OF s'] by blast
  then have new': "attempt_row (jobs s') a = None"
    using new by (metis attempt_row_None list.set_map)
  let ?c = "c\<lparr>c_spool := (c_spool c)\<lparr>es_store := s'\<rparr>\<rparr>"
  have "on_engine (cancel ?now (env_payload env)) c =
      (Inr \<lparr>cr_accepted = True, cr_state = Some ''CANCELLING'', cr_detail = None, cr_affected = [a]\<rparr>, ?c)"
    using a b s' by (simp add: on_engine_def cancel_def required_str_def jget_opt_def on_store_def)
  moreover have "publish u ty p b a ?c =
      (Inl (QueueError ''Cannot allocate an event sequence for an unknown attempt''), ?c)" for ty p
    using publish_unknown_attempt [of ?c a] new' by simp
  moreover have "\<exists>ao. or_else (env_attempt_id env) (optional_payload_str (env_payload env) ''attempt_id'') = Inr ao"
    using a by (auto simp: or_else_def optional_payload_str_def jget_opt_def split: option.splits)
  ultimately have "handle_cancel u env c =
      (Inl (QueueError ''Cannot allocate an event sequence for an unknown attempt''), ?c)"
    using a b by (auto simp: handle_cancel_def uplink_required_str_def optional_payload_str_def jget_opt_def Let_def)
  then show ?thesis by simp
qed

section \<open>Any backend\<close>

lemma publish_wf:
  assumes "publish u ty p b a c = (res, c')" and "engine_wf (c_spool c)"
  shows "engine_wf (c_spool c')"
  using assms(1)
proof (rule publish_store)
  fix now env assume "es_store (c_spool c') = snd (append_event (ue_cfg u) now env (es_store (c_spool c)))"
  then have "store_step (es_store (c_spool c)) (es_store (c_spool c'))"
    by (metis prod.collapse step_append)
  then show ?thesis using assms(2) store_step_wf by (simp add: engine_wf_def)
qed (use assms(2) in \<open>simp add: engine_wf_def\<close>)

lemma on_engine_wf:
  "on_engine f c = (r, c') \<Longrightarrow> engine_wf (snd (f (c_spool c))) \<Longrightarrow> engine_wf (c_spool c')"
  by (auto simp: on_engine_def split: prod.splits)

lemma handle_assign_wf: "engine_wf (c_spool c) \<Longrightarrow> handle_assign u env c = (r, c') \<Longrightarrow> engine_wf (c_spool c')"
  using assign_wf on_engine_wf publish_wf
  by (fastforce simp: handle_assign_def Let_def split: sum.splits prod.splits)

lemma publish_cancelling_wf:
  "engine_wf (c_spool c) \<Longrightarrow> publish_cancelling u b ph as c = (r, c') \<Longrightarrow> engine_wf (c_spool c')"
  by (induction u b ph as c rule: publish_cancelling.induct)
    (auto split: prod.splits sum.splits dest: publish_wf)

lemma handle_cancel_wf:
  assumes "engine_wf (c_spool c)" and "handle_cancel u env c = (r, c')"
  shows "engine_wf (c_spool c')"
proof -
  obtain res c1 where c1: "on_engine (cancel (clk_now (ue_clk u) div 1000) (env_payload env)) c = (res, c1)" by force
  have wf1: "engine_wf (c_spool c1)" using on_engine_wf [OF c1] cancel_wf [OF assms(1)] by simp
  show ?thesis
    using assms(2) c1 wf1 unfolding handle_cancel_def Let_def
    by (auto split: sum.splits if_splits prod.splits dest: publish_cancelling_wf [OF wf1])
qed

lemma ack_event_wf: "engine_wf (c_spool c) \<Longrightarrow> ack_event env c = (r, c') \<Longrightarrow> engine_wf (c_spool c')"
  using store_step_wf [OF step_ack]
  by (auto simp: ack_event_def on_engine_def on_store_def ack_through_def engine_wf_def split: sum.splits prod.splits)

lemma send_message_spool: "send_message clk ids send e ty p c = (r, c') \<Longrightarrow> c_spool c' = c_spool c"
  by (auto simp: send_message_def ws_send_def Let_def split: sum.splits if_splits)

lemma discard_wf:
  assumes "discard (on_engine g c) = (r, c')" and "engine_wf (snd (g (c_spool c)))"
  shows "engine_wf (c_spool c')"
  using assms by (auto simp: discard_def on_engine_def split: prod.splits sum.splits)

lemma switch_wf:
  assumes "engine_wf e"
  shows "engine_wf (snd (drain e))" "engine_wf (snd (resume e))" "engine_wf (snd (cache_reset p e))"
  using assms by (auto simp: drain_def resume_def cache_reset_def engine_wf_def split: sum.splits prod.splits)

lemma handle_frame_wf:
  assumes wf: "engine_wf (c_spool c)" and h: "handle_frame u f c = (r, c')"
  shows "engine_wf (c_spool c')"
proof (cases "decode_frame (ue_clk u) (Some INBOUND_MESSAGE_TYPES) f")
  case (Inl e)
  then show ?thesis using assms by (simp add: handle_frame_def)
next
  case (Inr env)
  note h' = h [unfolded handle_frame_def Inr sum.case]
  note sw = switch_wf [OF wf]
  show ?thesis
  proof (cases "env_type env = ''drain''")
    case True
    then show ?thesis
      using h' wf discard_wf [where g = drain, OF _ sw(1)] discard_wf [where g = resume, OF _ sw(2)]
      by (auto split: if_split_asm option.split_asm json.split_asm)
  next
    case False
    then show ?thesis
      using h' wf send_message_spool [of "ue_clk u" "ue_ids u" "ue_send u" "ue_engine u" "''pong''" "[]" c r c']
        handle_assign_wf [OF wf] handle_cancel_wf [OF wf] ack_event_wf [OF wf] discard_wf [where g = "cache_reset (env_payload env)", OF _ sw(3)]
      by (simp split: if_split_asm)
  qed
qed

lemma handle_frames_wf:
  "engine_wf (c_spool c) \<Longrightarrow> handle_frames u fs c = (r, c') \<Longrightarrow> engine_wf (c_spool c')"
  by (induction u fs c rule: handle_frames.induct)
    (auto split: prod.splits sum.splits dest: handle_frame_wf)

lemma send_all_spool: "send_all send es c = (r, c') \<Longrightarrow> c_spool c' = c_spool c"
  by (induction send es c rule: send_all.induct)
    (auto simp: ws_send_def split: sum.splits prod.splits if_splits)

lemma connect_once_wf:
  assumes "engine_wf (c_spool c)" and "connect_once u hello frames c = (r, c')"
  shows "engine_wf (c_spool c')"
proof -
  obtain r1 c1 where c1: "receive_welcome (ue_clk u) (ue_engine u) (fetchone frames) (c\<lparr>c_ws := True\<rparr>) = (r1, c1)" by force
  have s1: "c_spool c1 = c_spool c"
    using c1 by (auto simp: receive_welcome_def split: option.splits sum.splits if_splits)
  obtain r2 c2 where c2: "send_message (ue_clk u) (ue_ids u) (ue_send u) (ue_engine u) ''hello'' hello c1 = (r2, c2)" by force
  have s2: "c_spool c2 = c_spool c1"
    using c2 by (auto simp: send_message_def ws_send_def Let_def split: sum.splits if_splits)
  have s3: "c_spool c3 = c_spool c2" if "replay_spool (ue_clk u) (ue_send u) w c2 = (r3, c3)" for w r3 c3
    using that send_all_spool by (auto simp: replay_spool_def split: sum.splits)
  have wf3: "engine_wf (c_spool c3)" if "c_spool c3 = c_spool c" for c3 :: "engine_state conn"
    using that assms(1) by simp
  show ?thesis
    using assms(2) c1 c2 s1 s2 s3 wf3 handle_frames_wf
    unfolding connect_once_def Let_def
    by (auto split: prod.splits sum.splits) metis+
qed


section \<open>Reconnect delays\<close>

lemma default_power: "n < 1024 \<Longrightarrow> float_power 2 n = Inr (2 ^ n)"
  and default_power_overflow: "1024 \<le> n \<Longrightarrow> float_power 2 n = Inl (OverflowError ''Numerical result out of range'')"
proof -
  show "float_power 2 n = Inr (2 ^ n)" if "n < 1024"
  proof -
    have "(2::rat) ^ n < 2 ^ 1024" by (rule power_strict_increasing) (use that in auto)
    then show ?thesis by (simp add: float_power_def)
  qed
  show "float_power 2 n = Inl (OverflowError ''Numerical result out of range'')" if "1024 \<le> n"
  proof -
    have "(2::rat) ^ 1024 \<le> 2 ^ n" by (rule power_increasing) (use that in auto)
    then show ?thesis by (simp add: float_power_def)
  qed
qed

text \<open>
  The default reconnect delay doubles from one second up to thirty and stays there
  for the first 1024 failures in a row; from the 1025th on, computing it raises
  \<open>OverflowError\<close>.
\<close>

theorem default_delay:
  "(1 \<le> n \<and> n \<le> 1024 \<longrightarrow> delay default_backoff n = Inr (min (2 ^ (n - 1)) 30)) \<and>
   (1024 < n \<longrightarrow> delay default_backoff n = Inl (OverflowError ''Numerical result out of range''))"
  by (auto simp: delay_def default_backoff_def default_power default_power_overflow)

lemma run_forever_failures:
  "run_forever b k (replicate m False) = Inr ds \<Longrightarrow> \<forall>i < m. \<exists>d. delay b (k + Suc i) = Inr d"
proof (induction m arbitrary: k ds)
  case (Suc m)
  then obtain d ds' where d: "delay b (k + 1) = Inr d" "run_forever b (k + 1) (replicate m False) = Inr ds'"
    by (auto simp: rbind_Inr_iff)
  show ?case
  proof (intro allI impI)
    fix i assume "i < Suc m"
    then show "\<exists>d. delay b (k + Suc i) = Inr d"
      using d(1) Suc.IH [OF d(2)] by (cases i) auto
  qed
qed simp


section \<open>An engine with a waiting attempt\<close>

definition ex_engine_state :: "job_row list \<Rightarrow> engine_state" where
  "ex_engine_state rows = \<lparr>es_store = store_with rows, es_draining = False, es_drain_marker = False, es_cache = No_Cache, es_cache_resets = None\<rparr>"

definition ex_conn :: "job_row list \<Rightarrow> engine_state conn" where
  "ex_conn rows = \<lparr>c_spool = ex_engine_state rows, c_ws = True, c_sent = [], c_interval = 30, c_drawn = 0\<rparr>"

definition ex_ids :: "nat \<Rightarrow> string" where
  "ex_ids i = (if i = 0 then ex_attempt2 else if i = 1 then ex_engine else replicate (100 + i) (CHR ''x''))"

definition ex_uplink :: uplink_env where
  "ex_uplink = \<lparr>ue_cfg = \<lparr>max_bytes = 1000, retention_days = 7\<rparr>, ue_clk = ex_clock 7, ue_ids = ex_ids,
     ue_send = (\<lambda>_. False), ue_engine = ex_engine\<rparr>"

definition ex_assign :: envelope where
  "ex_assign = ex_event\<lparr>env_type := ''job.assign'', env_payload := ex_payload, env_seq := None\<rparr>"

lemmas ex_uplink_defs = ex_engine_state_def ex_conn_def ex_uplink_def

lemma ex_ids_inj: "inj ex_ids"
proof (rule injI)
  fix i j assume "ex_ids i = ex_ids j"
  moreover have "length ex_attempt2 = 36" "length ex_engine = 36" "ex_attempt2 \<noteq> ex_engine"
    by (simp_all add: is_uuid_length, simp add: ex_attempt2_def ex_engine_def)
  ultimately show "i = j"
    by (auto simp: ex_ids_def split: if_splits dest: arg_cong [where f = length])
qed

definition ex_status :: "string \<Rightarrow> int \<Rightarrow> envelope" where
  "ex_status fresh n = ex_event\<lparr>env_id := fresh, env_seq := Some n,
     env_payload := status_payload ex_build ex_attempt ''QUEUED''\<rparr>"

lemma ex_status_sorted: "sort_keys (JObj (to_dict (ex_status fresh n))) =
   JObj [(''attempt_id'', JStr ex_attempt), (''build_job_id'', JStr ex_build), (''engine_id'', JStr ex_engine),
     (''id'', JStr fresh),
     (''payload'', JObj [(''attempt_id'', JStr ex_attempt), (''build_job_id'', JStr ex_build), (''state'', JStr ''QUEUED'')]),
     (''seq'', JInt n), (''ts'', JStr ''7''), (''type'', JStr ''attempt.status''), (''v'', JInt 2)]"
  by (simp add: to_dict_def ex_status_def ex_event_def status_payload_def opt_field_def less_char_def less_eq_char_def)

lemma ex_status_json:
  assumes "is_uuid fresh" and "n \<in> {1, 2}"
  shows "to_json (ex_status fresh n) = Inr (json_dumps (JObj (to_dict (ex_status fresh n))))"
proof -
  have "length (int_str n) = 1" using assms(2) by (elim insertE emptyE) (simp_all add: int_str_def nat_digits.simps)
  then show ?thesis
    unfolding to_json_def json_dumps_def ex_status_sorted
    by (simp add: dump_str_plain uuid_plain is_uuid_length assms(1) MAX_FRAME_BYTES_def Let_def plain_char_def
        int_str_def [of 2] nat_digits.simps [of 2])
qed

lemma ex_publishable:
  assumes "is_uuid fresh" and "n \<in> {1, 2}"
  shows "publishable (ex_clock 7) ex_engine ex_build ex_attempt fresh n
    (''attempt.status'', status_payload ex_build ex_attempt ''QUEUED'')"
proof -
  have fmt: "clk_fmt (ex_clock 7) 7 = ''7''" by (simp add: ex_clock_def nat_digits.simps digit_char_def char_of_eq_iff)
  have "admissible (ex_clock 7) None (to_dict (ex_status fresh n))"
    using assms
    by (simp add: admissible_def jfield_def jget_to_dict ex_status_def ex_parse MAX_TIMESTAMP_SKEW_def,
      auto simp: ex_event_def to_dict_def opt_field_def envelope_fields_def required_fields_def
        py_eq_int_def allowed_set_def ALL_MESSAGE_TYPES_def INBOUND_MESSAGE_TYPES_def OUTBOUND_MESSAGE_TYPES_def)
  then have "new_envelope (ex_clock 7) fresh ''attempt.status'' (status_payload ex_build ex_attempt ''QUEUED'') ex_engine
      (Some ex_build) (Some ex_attempt) (Some n) None = Inr (ex_status fresh n)"
    using validate_envelope_Inr [of "ex_clock 7" None "JObj (to_dict (ex_status fresh n))"] fmt
    by (simp add: new_envelope_def Let_def format_timestamp_def PROTOCOL_VERSION_def rbind_Inr_iff,
        simp add: ex_status_def ex_event_def)
  moreover have "to_json (ex_status fresh n) = Inr (json_dumps (JObj (to_dict (ex_status fresh n))))"
    using ex_status_json assms by blast
  ultimately show ?thesis unfolding publishable_def by auto
qed

lemma ex_store_wf: "store_wf (store_with [queued_row])" "store_wf (store_with [])"
  using queued_wf by (simp_all add: store_wf_def events_wf_def jobs_wf_def dlq_wf_def)

theorem published_events_consecutive_witness:
  "\<exists>envs c'. publish_series engine_next_seq (engine_append \<lparr>max_bytes = 1000, retention_days = 7\<rparr>) (ex_clock 7) ex_ids ex_engine
       ex_build ex_attempt
       [(''attempt.status'', status_payload ex_build ex_attempt ''QUEUED'', \<lambda>_. False),
        (''attempt.status'', status_payload ex_build ex_attempt ''QUEUED'', \<lambda>_. True)] (ex_conn [queued_row]) = (Inr envs, c') \<and>
     map env_seq envs = [Some 1, Some 2] \<and> engine_next_seq (c_spool c') ex_attempt = Inr 3"
proof -
  let ?m = "\<lambda>b. (''attempt.status'', status_payload ex_build ex_attempt ''QUEUED'', \<lambda>_ :: string. b :: bool)"
  have pub: "\<forall>i < length [?m False, ?m True]. publishable (ex_clock 7) ex_engine ex_build ex_attempt
      (ex_ids (c_drawn (ex_conn [queued_row]) + i)) (1 + int i) (fst ([?m False, ?m True] ! i), fst (snd ([?m False, ?m True] ! i)))"
    using ex_publishable [of ex_attempt2 1] ex_publishable [of ex_engine 2]
    by (simp add: less_Suc_eq ex_ids_def ex_conn_def)
  show ?thesis
    using published_events_consecutive [OF _ _ pub, of "\<lparr>max_bytes = 1000, retention_days = 7\<rparr>"] ex_store_wf(1) ex_ids_inj
    by (simp add: engine_wf_def engine_next_seq_def next_seq_def attempt_row_def ex_conn_def ex_engine_state_def event_ids_def
        del: publish_series.simps)
qed

theorem assignment_acknowledged_witness:
  "\<exists>c' r. handle_assign ex_uplink ex_assign (ex_conn []) = (Inr (), c') \<and> engine_wf (c_spool c') \<and>
    attempt_row (jobs (es_store (c_spool c'))) ex_attempt = Some r \<and> j_state r = QUEUED \<and>
    engine_next_seq (c_spool c') ex_attempt = Inr 2"
proof (rule assignment_acknowledged)
  show "engine_wf (c_spool (ex_conn []))" using ex_store_wf by (simp add: engine_wf_def ex_uplink_defs)
  show "\<not> es_drain_marker (c_spool (ex_conn []))" by (simp add: ex_uplink_defs)
  show "attempt_fields ex_assign = Inr (ex_build, ex_attempt)"
    by (simp add: attempt_fields_def or_else_def ex_assign_def ex_event_def ex_build_def ex_attempt_def)
  show "attempt_row (jobs (es_store (c_spool (ex_conn [])))) ex_attempt = None" by (simp add: ex_uplink_defs attempt_row_def)
  show "publishable (ue_clk ex_uplink) (ue_engine ex_uplink) ex_build ex_attempt (ue_ids ex_uplink (c_drawn (ex_conn []))) 1
      (''attempt.status'', status_payload ex_build ex_attempt ''QUEUED'')"
    using ex_publishable [of ex_attempt2 1] by (simp add: ex_uplink_defs ex_ids_def)
  show "ue_ids ex_uplink (c_drawn (ex_conn [])) \<notin> event_ids (c_spool (ex_conn []))"
    by (simp add: ex_uplink_defs event_ids_def)
qed simp_all

theorem draining_rejection_unreported_witness:
  "\<exists>c'. handle_assign ex_uplink ex_assign ((ex_conn [])\<lparr>c_spool := (ex_engine_state [])\<lparr>es_drain_marker := True\<rparr>\<rparr>) =
      (Inl (QueueError ''Cannot allocate an event sequence for an unknown attempt''), c') \<and> c_sent c' = []"
  using draining_rejection_unreported [of "(ex_conn [])\<lparr>c_spool := (ex_engine_state [])\<lparr>es_drain_marker := True\<rparr>\<rparr>"
      ex_assign ex_build ex_attempt ex_uplink]
  by (simp add: ex_uplink_defs attempt_row_def attempt_fields_def or_else_def ex_assign_def ex_event_def,
      simp add: ex_build_def ex_attempt_def) blast

theorem cancel_unknown_attempt_raises_witness:
  "\<exists>c'. handle_cancel ex_uplink ex_assign (ex_conn []) =
      (Inl (QueueError ''Cannot allocate an event sequence for an unknown attempt''), c') \<and> c_sent c' = []"
  using cancel_unknown_attempt_raises [of ex_assign ex_build ex_attempt "ex_conn []" ex_uplink]
  by (simp add: ex_uplink_defs attempt_row_def ex_assign_def ex_payload_def jget_def,
      simp add: ex_build_def ex_attempt_def)


theorem default_delay_witness:
  "delay default_backoff 4 = Inr 8 \<and> delay default_backoff 9 = Inr 30"
  using default_delay [of 4] default_delay [of 9] by simp

end
