(* ===== verification/Job_Fixtures.thy ===== *)
theory Job_Fixtures
  imports Job_Loop Uplink_Correct
begin

text \<open>
  A concrete engine for the witnesses about workers: a source archive that unpacks to a
  project locked by yarn, a backend and a storage that answer nothing, a Docker daemon that
  cannot be started, and no other task that touches the database.
\<close>

definition ex_config :: engine_config where
  "ex_config = (default_config ''linux'' ''amd64'')\<lparr>cf_state_dir := ''/s''\<rparr>"

definition ex_credentials :: engine_credentials where
  "ex_credentials = \<lparr>cr_engine_id = ex_engine, cr_engine_secret = [], cr_session_jwt = [], cr_session_jwt_expires_at = [],
     cr_backend_url = None, cr_name = None\<rparr>"

definition ex_sha :: string where "ex_sha = replicate 64 (CHR ''0'')"

definition ex_env :: job_env where
  "ex_env = \<lparr>je_uplink = ex_uplink, je_clock = (\<lambda>_. ex_clock 7), je_others = (\<lambda>_ w. w), je_now_text = (\<lambda>_. []),
     je_elapsed = (\<lambda>_. FNum False 0 0), je_config = ex_config, je_credentials = ex_credentials, je_options = default_options,
     je_version = [], je_refused = (\<lambda>_. False), je_sha256 = (\<lambda>_. ex_sha), je_fetch = (\<lambda>_. Src_Body None [] None),
     je_links = [], je_source_links = [], je_output_links = [], je_is_dir = (\<lambda>_. True), je_output_is_dir = (\<lambda>_. False),
     je_members = (\<lambda>_. Inr []), je_unpack = (\<lambda>_. None),
     je_project = (\<lambda>_ p. if p = [''yarn.lock''] then Some (Reg []) else None),
     je_specset = (\<lambda>_. None), je_image_manifest = None, je_docker = (\<lambda>_. Not_Started), je_uids = (0, 0),
     je_isalnum = (\<lambda>_. False), je_isdigit = (\<lambda>_. False), je_temp = (\<lambda>n. n), je_container = (\<lambda>_. None),
     je_get = (\<lambda>_ _. Http_Failed []), je_listing = (\<lambda>_. []), je_archive = (\<lambda>_. []),
     je_post = (\<lambda>_ _. Http_Failed []), je_put = (\<lambda>_ _. None)\<rparr>"

definition ex_world :: "job_row list \<Rightarrow> world" where
  "ex_world rows = \<lparr>w_conn = ex_conn rows, w_metrics = new_collector 1, w_workspaces = [], w_time = 0\<rparr>"

lemma ex_world_db [simp]: "db (ex_world rows) = store_with rows"
  by (simp add: db_def ex_world_def ex_conn_def ex_engine_state_def)

lemma ex_env_others [simp]: "je_others ex_env n w = w"
  by (simp add: ex_env_def)

end
