(* ===== verification/Job_Correct.thy ===== *)
theory Job_Correct
  imports Job_Fixtures
begin

text \<open>
  Correctness of the workers. The store is seen through the predicates that publishing and
  the other tasks keep; what one attempt does to the queue then comes down to the calls of
  the queue in \<open>_worker\<close> and \<open>execute_job\<close>.
\<close>

section \<open>What an attempt leaves alone\<close>

text \<open>What is assumed of the other tasks: they keep a predicate on the database.\<close>

definition rely :: "job_env \<Rightarrow> (store \<Rightarrow> bool) \<Rightarrow> bool" where
  "rely je P \<longleftrightarrow> (\<forall>n w. P (db w) \<longrightarrow> P (db (je_others je n w)))"

definition keeps :: "(store \<Rightarrow> bool) \<Rightarrow> 'a act \<Rightarrow> bool" where
  "keeps P m \<longleftrightarrow> (\<forall>w. P (db w) \<longrightarrow> P (db (snd (m w))))"

named_theorems keeps_intros \<open>actions that keep a predicate on the database\<close>

lemma db_simps [simp]:
  "db (w\<lparr>w_time := n\<rparr>) = db w" "db (w\<lparr>w_workspaces := x\<rparr>) = db w" "db (w\<lparr>w_metrics := m\<rparr>) = db w"
  "db (w\<lparr>w_conn := c\<rparr>) = es_store (c_spool c)" "db (on_metrics f w) = db w"
  "db (cleanup je job b w) = db w" "db (count_docker_error e w) = db w"
  by (simp_all add: db_def on_metrics_def cleanup_def count_docker_error_def split: exn.split)

lemma on_db_eq: "on_db f w = (fst (f (db w)), w\<lparr>w_conn := (w_conn w)\<lparr>c_spool := (c_spool (w_conn w))\<lparr>es_store := snd (f (db w))\<rparr>\<rparr>\<rparr>)"
  by (simp add: on_db_def on_engine_def on_store_def db_def split: prod.split)

lemma on_db_db [simp]: "fst (on_db f w) = fst (f (db w))" "db (snd (on_db f w)) = snd (f (db w))"
  by (simp_all add: on_db_eq)

lemma on_dbE:
  assumes "on_db f w = (r, w')"
  shows "f (db w) = (r, db w')"
  using assms on_db_db [of f w] by (metis fst_conv prod.collapse snd_conv)

lemma keeps_bind [keeps_intros]: "keeps P m \<Longrightarrow> (\<And>x. keeps P (f x)) \<Longrightarrow> keeps P (act_bind m f)"
  by (auto simp: keeps_def act_bind_def split: prod.splits sum.splits)

lemma keeps_lift [keeps_intros]: "keeps P (lift r)" "keeps P (\<lambda>w. lift (f w) w)"
  by (simp_all add: keeps_def lift_def)

lemma rely_await: "rely je P \<Longrightarrow> P (db w) \<Longrightarrow> P (db (await je w))"
  by (simp add: rely_def await_def)

lemma keeps_suspend [keeps_intros]: "rely je P \<Longrightarrow> keeps P (suspend je r)"
  by (simp add: keeps_def suspend_def rely_await)

lemma keeps_on_cache [keeps_intros]: "keeps P (\<lambda>w. on_cache (f w) w)"
  by (auto simp: keeps_def on_cache_def db_def split: prod.splits)

lemma keeps_on_metrics [keeps_intros]: "keeps P (\<lambda>w. (Inr (), on_metrics f w))"
  by (simp add: keeps_def)

text \<open>A view of the database that the outbox leaves as it is. Whatever a worker does between its
  calls of the queue goes through the outbox, so it keeps every such view.\<close>

locale spool_view =
  fixes P :: "store \<Rightarrow> bool"
  assumes append_keeps: "P s \<Longrightarrow> P (snd (append_event cfg now env s))"
begin

lemma keeps_publish_event [keeps_intros]:
  assumes "rely je P"
  shows "keeps P (publish_event je job ty p)"
  unfolding keeps_def
proof (intro allI impI)
  fix w assume P: "P (db w)"
  obtain r c where pub: "publish ((je_uplink je)\<lparr>ue_clk := je_clock je (w_time w)\<rparr>) ty p (j_build_job_id job) (j_attempt_id job) (w_conn w) = (r, c)"
    by force
  have "P (es_store (c_spool c))"
    using pub by (rule publish_store) (use P assms in \<open>auto simp: db_def append_keeps\<close>)
  then show "P (db (snd (publish_event je job ty p w)))"
    using pub rely_await [OF assms] by (auto simp: publish_event_def split: sum.splits)
qed

lemma keeps_reports [keeps_intros]:
  assumes "rely je P"
  shows "keeps P (status je job phase extra)" "keeps P (metric je job name v)" "keeps P (timing je job name)"
    "keeps P (ack je job st a b c)" "keeps P (publish_error je job ec d m)"
  using keeps_publish_event [OF assms]
  by (simp_all add: status_def metric_def ack_def publish_error_def) (simp add: timing_def keeps_def metric_def)

lemma keeps_safely: "keeps P m \<Longrightarrow> P (db w) \<Longrightarrow> P (db (safely m w))"
  by (simp add: keeps_def safely_def)

lemma log_reads_keeps:
  assumes "rely je P" and "P (db w)"
  shows "P (db (log_reads je job secrets reads w))"
proof -
  have "P (db (fold (\<lambda>(stream, frame). log_line je job stream frame) fs w))" for fs
    using assms(2)
  proof (induction fs arbitrary: w)
    case (Cons f fs)
    have "P (db (log_line je job (fst f) (snd f) w))"
      unfolding log_line_def by (rule keeps_safely) (simp_all add: keeps_publish_event assms(1) Cons.prems)
    then show ?case using Cons.IH by (simp add: case_prod_beta)
  qed simp
  then show ?thesis by (simp add: log_reads_def)
qed

lemma container_loop_keeps:
  assumes "rely je P" and "P (db w)"
  shows "P (db (snd (container_loop je job secrets turns deadline now cancelled i w)))"
  using assms(2,1)
proof (induction je job secrets turns deadline now cancelled i w rule: container_loop.induct)
  case (1 je job secrets turns deadline now cancelled i w)
  let ?w2 = "log_reads je job secrets (tn_reads (turns i)) (await je w)"
  have "P (db ?w2)" using "1.prems" rely_await log_reads_keeps by blast
  then show ?case
    using "1.IH" "1.prems" by (subst container_loop.simps) (auto simp: Let_def split: option.split)
qed

lemma keeps_run_container [keeps_intros]:
  assumes "rely je P"
  shows "keeps P (run_container je job spec)"
  unfolding run_container_def
proof (intro keeps_bind keeps_lift)
  fix env_file args
  let ?run = "\<lambda>w. case je_container je args of
         None \<Rightarrow> (Inl (OSError ''docker could not be started''), await je w)
       | Some c \<Rightarrow>
           (let secrets = map (\<lambda>(_, v). decode_replace (map of_char v)) (ds_secret_env spec);
                start = now_ms je w;
                timeout = (case ds_timeout_seconds spec of
                    Some t \<Rightarrow> if t = 0 then cf_build_timeout_seconds (ds_config spec) else t
                  | None \<Rightarrow> cf_build_timeout_seconds (ds_config spec));
                (r, w') = container_loop je job secrets (co_turns c) (start + 1000 * timeout) start False 0 w
            in (Inr r, log_reads je job secrets (co_rest c) w'))"
  show "keeps P ?run"
    unfolding keeps_def
  proof (intro allI impI)
    fix w assume "P (db w)"
    then show "P (db (snd (?run w)))"
      using container_loop_keeps [OF assms] log_reads_keeps [OF assms] rely_await [OF assms]
      by (cases "je_container je args") (simp_all add: Let_def case_prod_beta)
  qed
qed

lemma keeps_parts:
  assumes "rely je P"
  shows "keeps P (prepare_cache je job proj plan)" "keeps P (fetch_secret_env je job)"
    "keeps P (run_build je job ws)" "keeps P (package_build je job ws)" "keeps P (upload_build je job a)"
proof -
  show cache: "keeps P (prepare_cache je job proj plan)" for proj plan
    unfolding prepare_cache_def by (intro keeps_intros assms) (auto split: option.split intro: keeps_intros assms)
  show env: "keeps P (fetch_secret_env je job)"
    unfolding fetch_secret_env_def by (intro keeps_intros assms)
  show "keeps P (run_build je job ws)"
    unfolding run_build_def by (intro keeps_intros cache env assms | simp add: case_prod_beta)+
  show "keeps P (package_build je job ws)"
    unfolding package_build_def by (intro keeps_intros assms)
  show "keeps P (upload_build je job a)"
    unfolding upload_build_def by (intro keeps_intros assms)
qed

end

text \<open>An action raises where \<open>P\<close> still holds, or has led to \<open>Q\<close>.\<close>

definition settles :: "(store \<Rightarrow> bool) \<Rightarrow> (store \<Rightarrow> bool) \<Rightarrow> unit act \<Rightarrow> bool" where
  "settles P Q m \<longleftrightarrow> (\<forall>w. P (db w) \<longrightarrow> P (db (snd (m w))) \<and> isl (fst (m w)) \<or> Q (db (snd (m w))))"

text \<open>An attempt under a lease: before the final transition the database satisfies \<open>P\<close>, and the
  transition leads to \<open>Q\<close>.\<close>

locale attempt_view = P: spool_view P + Q: spool_view Q
  for P :: "store \<Rightarrow> bool" and Q :: "store \<Rightarrow> bool" +
  fixes a :: string and owner :: "string option" and tok :: "string option"
  assumes settle: "P s \<Longrightarrow> transition now a ''SUCCEEDED'' None (Some ''RUNNING'') owner tok s = (Inr job', s') \<Longrightarrow> Q s'"
begin

lemma settles_bind: "keeps P m \<Longrightarrow> (\<And>x. settles P Q (f x)) \<Longrightarrow> settles P Q (act_bind m f)"
  by (fastforce simp: keeps_def settles_def act_bind_def split: prod.splits sum.splits)

lemma settles_success:
  assumes "rely je P" and "rely je Q" and "j_attempt_id job = a"
  shows "settles P Q (settle_success je job owner tok)"
  unfolding settles_def
proof (intro allI impI)
  fix w assume P: "P (db w)"
  let ?rest = "act_bind (timing je job ''jobs.duration_seconds'') (\<lambda>_. ack je job ''SUCCEEDED'' None None None)"
  have rest: "keeps Q ?rest" by (intro keeps_bind Q.keeps_reports assms)
  obtain r w1 where t: "on_db (transition (now_ms je w) a ''SUCCEEDED'' None (Some ''RUNNING'') owner tok) w = (r, w1)" by force
  note call = on_dbE [OF t]
  show "P (db (snd (settle_success je job owner tok w))) \<and> isl (fst (settle_success je job owner tok w)) \<or>
    Q (db (snd (settle_success je job owner tok w)))"
  proof (cases r)
    case (Inl e)
    then show ?thesis
      using t P assms(3) transition_effect(3) [OF call] by (simp add: settle_success_def act_bind_def)
  next
    case (Inr job')
    then have "Q (db w1)" using settle [OF P] call by simp
    then show ?thesis using t Inr assms(3) rest by (simp add: settle_success_def act_bind_def keeps_def)
  qed
qed

lemma execute_job_settles:
  assumes rely: "rely je P" "rely je Q" and job: "j_attempt_id job = a"
    and "P (db w)" and ex: "execute_job je job owner tok w = (r, w')"
  shows "P (db w') \<and> isl r \<or> Q (db w')"
proof (cases "create_workspace (cf_state_dir (je_config je)) (j_attempt_id job) (w_workspaces w)")
  case (Pair c x)
  show ?thesis
  proof (cases c)
    case (Inl e)
    then show ?thesis using ex Pair assms(4) by (auto simp: execute_job_def)
  next
    case (Inr ws)
    have "settles P Q (build_and_deliver je job owner tok ws)"
      unfolding build_and_deliver_def
      by (intro settles_bind P.keeps_parts settles_success keeps_lift assms)
    then have "P (db (snd (build_and_deliver je job owner tok ws (w\<lparr>w_workspaces := x\<rparr>)))) \<and>
        isl (fst (build_and_deliver je job owner tok ws (w\<lparr>w_workspaces := x\<rparr>))) \<or>
        Q (db (snd (build_and_deliver je job owner tok ws (w\<lparr>w_workspaces := x\<rparr>))))"
      using assms(4) by (simp add: settles_def)
    then show ?thesis using ex Pair Inr by (auto simp: execute_job_def split: prod.splits sum.splits)
  qed
qed

end

end
