(* ===== verification/Lease_Safety.thy ===== *)
theory Lease_Safety
  imports Job_Correct
begin

text \<open>
  A worker and its lease, while every other task of the engine keeps using the same
  database: no turn of a worker ends with its lease still in the table, and none is ended
  by an exception.
\<close>

section \<open>The holder's calls\<close>

lemma legal_previous_neq: "j \<in> set (LEGAL_PREVIOUS_STATES st) \<Longrightarrow> j \<noteq> st"
  by (cases st) (auto simp: LEGAL_PREVIOUS_STATES_def)

lemma transition_own:
  assumes wf: "jobs_wf (jobs s)" and row: "attempt_row (jobs s) a = Some r"
    and own: "j_lease_owner r = Some owner" "j_lease_token r = Some tok"
    and legal: "j_state r \<in> set (LEGAL_PREVIOUS_STATES st)"
  shows "\<exists>job. transition now a (state_str st) err (Some (state_str (j_state r))) (Some owner) (Some tok) s =
    (Inr job, s\<lparr>jobs := sql_update (\<lambda>x. x = r) (transition_row now st err) (jobs s)\<rparr>)"
proof -
  note dist = jobs_wf_distinct [OF wf]
  have r: "r \<in> set (jobs s)" "j_attempt_id r = a" using attempt_row_Some [OF row] by auto
  let ?c = "\<lambda>x. j_attempt_id x = a \<and> (j_state x = j_state r \<and> sql_matches (Some owner) (j_lease_owner x) \<and>
      sql_matches (Some tok) (j_lease_token x))"
  have c: "?c x \<longleftrightarrow> x = r" if "x \<in> set (jobs s)" for x
    using that r own distinct_key_eq [OF dist that r(1)] by (auto simp: sql_matches_def)
  note one = sql_update_one [OF dist r(1) c]
  have "attempt_row (sql_update (\<lambda>x. x = r) (transition_row now st err) (jobs s)) a = Some (transition_row now st err r)"
    using attempt_row_update_one [OF dist r(1), of "transition_row now st err"] r(2) by (simp add: transition_row_def Let_def)
  then show ?thesis
    using row own legal one legal_previous_neq [OF legal] by (simp add: transition_def Let_def)
qed

lemma crash_own:
  assumes wf: "jobs_wf (jobs s)" and row: "attempt_row (jobs s) a = Some r"
    and own: "j_lease_owner r = Some owner" "j_lease_token r = Some tok" "active (j_state r)"
  shows "\<exists>job s'. record_executor_crash now a err (Some owner) (Some tok) s = (Inr job, s') \<and>
    jobs s' = sql_update (\<lambda>x. x = r) (crash_row now (if MAX_LOCAL_CRASHES \<le> j_attempts r then FAILED else QUEUED) err) (jobs s)"
proof -
  note dist = jobs_wf_distinct [OF wf]
  have r: "r \<in> set (jobs s)" "j_attempt_id r = a" using attempt_row_Some [OF row] by auto
  let ?c = "\<lambda>x. j_attempt_id x = a \<and> owned_active (Some owner) (Some tok) x"
  have c: "?c x \<longleftrightarrow> x = r" if "x \<in> set (jobs s)" for x
    using that r own distinct_key_eq [OF dist that r(1)] by (auto simp: owned_active_def sql_matches_def)
  note one = sql_update_one(1) [OF dist r(1) c]
  have "filter ?c (jobs s) \<noteq> []" using r c by (auto simp: filter_empty_conv)
  then obtain x where x: "fetchone (filter ?c (jobs s)) = Some x" by (cases "filter ?c (jobs s)") auto
  have first: "fetchone (filter ?c (jobs s)) = Some r" using x fetchone_Some_in [OF x] c [of x] by simp
  have "attempt_row (sql_update (\<lambda>x. x = r) (crash_row now st err) (jobs s)) a = Some (crash_row now st err r)" for st
    using attempt_row_update_one [OF dist r(1), of "crash_row now st err"] r(2) by (simp add: crash_row_def)
  then show ?thesis using first one by (simp add: record_executor_crash_def Let_def)
qed

lemma queue_calls_errors:
  "transition now a st err ex owner tok s = (Inl e, s') \<Longrightarrow> is_queue_error e"
  "record_executor_crash now a msg owner tok s = (Inl e, s') \<Longrightarrow> is_queue_error e"
  by (auto simp: transition_def record_executor_crash_def Let_def is_queue_error_def split: option.splits if_splits)

section \<open>Who holds the token\<close>

definition free :: "string \<Rightarrow> store \<Rightarrow> bool" where
  "free tok s \<longleftrightarrow> store_wf s \<and> (\<forall>r \<in> set (jobs s). j_lease_token r \<noteq> Some tok)"

definition held :: "string \<Rightarrow> string \<Rightarrow> string \<Rightarrow> string \<Rightarrow> store \<Rightarrow> bool" where
  "held owner tok b a s \<longleftrightarrow> store_wf s \<and> (\<forall>r \<in> set (jobs s). j_lease_token r = Some tok \<longrightarrow>
     j_build_job_id r = b \<and> j_attempt_id r = a \<and> j_lease_owner r = Some owner \<and> j_state r = RUNNING)"

lemma free_wf: "free tok s \<Longrightarrow> store_wf s" and held_wf: "held owner tok b a s \<Longrightarrow> store_wf s"
  by (simp_all add: free_def held_def)

text \<open>Rows that carry the token came from a row that did, with the same holder and state.\<close>

definition tok_kept :: "string \<Rightarrow> job_row list \<Rightarrow> job_row list \<Rightarrow> bool" where
  "tok_kept tok rs rs' \<longleftrightarrow> (\<forall>r' \<in> set rs'. j_lease_token r' = Some tok \<longrightarrow>
     (\<exists>r \<in> set rs. j_lease_token r = Some tok \<and> j_build_job_id r' = j_build_job_id r \<and> j_attempt_id r' = j_attempt_id r \<and>
        j_lease_owner r' = j_lease_owner r \<and> j_state r' = j_state r))"

lemma tok_kept_refl [simp]: "tok_kept tok rs rs"
  by (auto simp: tok_kept_def)

lemma tok_kept_filter [simp]: "tok_kept tok rs (filter P rs)"
  by (auto simp: tok_kept_def)

lemma tok_kept_update:
  assumes "\<And>r. r \<in> set rs \<Longrightarrow> c r \<Longrightarrow> j_lease_token (f r) = Some tok \<Longrightarrow> j_lease_token r = Some tok \<and>
    j_build_job_id (f r) = j_build_job_id r \<and> j_attempt_id (f r) = j_attempt_id r \<and>
    j_lease_owner (f r) = j_lease_owner r \<and> j_state (f r) = j_state r"
  shows "tok_kept tok rs (sql_update c f rs)"
  using assms unfolding tok_kept_def set_sql_update by (auto split: if_splits)

lemma tok_kept_views:
  assumes "tok_kept tok (jobs s) (jobs s')" and "store_wf s'"
  shows "free tok s \<Longrightarrow> free tok s'" and "held owner tok b a s \<Longrightarrow> held owner tok b a s'"
  using assms unfolding tok_kept_def free_def held_def by (metis, metis)

lemma tok_kept_append: "tok_kept tok (jobs s) (jobs (snd (append_event cfg now env s)))"
proof -
  obtain res s' where app: "append_event cfg now env s = (res, s')" by force
  have "s' = s \<or> (\<exists>a n. jobs s' = sql_update (has_attempt a) (bump_cursor now n) (jobs s))"
    using append_event_effect [OF app] by fastforce
  then show ?thesis using app by (auto intro!: tok_kept_update simp: bump_cursor_def)
qed

lemma append_wf: "store_wf s \<Longrightarrow> store_wf (snd (append_event cfg now env s))"
  by (metis prod.collapse step_append store_step_wf)

interpretation free: spool_view "free tok" for tok
  by unfold_locales (rule tok_kept_views(1) [OF tok_kept_append append_wf], simp_all add: free_def)

interpretation held: spool_view "held owner tok b a" for owner tok b a
  by unfold_locales (rule tok_kept_views(2) [OF tok_kept_append append_wf], simp_all add: held_def)

section \<open>The other tasks\<close>

text \<open>What the uplink, the refreshers and the other workers may do to the database while this
  worker is suspended: any call of the queue and of the outbox, except that they draw other
  lease tokens and settle attempts under those.\<close>

inductive other_step :: "string \<Rightarrow> store \<Rightarrow> store \<Rightarrow> bool" for tok where
  other_enqueue: "enqueue now p s = (res, s') \<Longrightarrow> other_step tok s s'"
| other_acquire: "acquire_lease now t owner vt s = (res, s') \<Longrightarrow> t \<noteq> tok \<Longrightarrow> other_step tok s s'"
| other_refresh: "refresh_lease now a owner vt t s = (res, s') \<Longrightarrow> other_step tok s s'"
| other_transition: "transition now a st err ex owner (Some t) s = (res, s') \<Longrightarrow> t \<noteq> tok \<Longrightarrow> other_step tok s s'"
| other_cancel: "request_cancel now b ao s = (res, s') \<Longrightarrow> other_step tok s s'"
| other_crash: "record_executor_crash now a msg owner (Some t) s = (res, s') \<Longrightarrow> t \<noteq> tok \<Longrightarrow> other_step tok s s'"
| other_prune: "prune_terminal now days s = (res, s') \<Longrightarrow> other_step tok s s'"
| other_append: "append_event cfg now env s = (res, s') \<Longrightarrow> other_step tok s s'"
| other_ack: "ack_through a n s = (res, s') \<Longrightarrow> other_step tok s s'"
| other_outbox_prune: "prune cfg now s = (res, s') \<Longrightarrow> other_step tok s s'"

lemma other_step_store_step: "other_step tok s s' \<Longrightarrow> store_step s s'"
  by (induction rule: other_step.induct) (auto intro: store_step.intros)

lemma tok_kept_acquire:
  assumes wf: "jobs_wf (jobs s)" and acq: "acquire_lease now t owner vt s = (res, s')" and "t \<noteq> tok"
  shows "tok_kept tok (jobs s) (jobs s')"
proof -
  obtain rs x where loop: "acquire_loop now (jobs s) = (rs, x)" by force
  have "list_all2 (settled now) (jobs s) rs"
    using acquire_loop_settled [OF jobs_wf_distinct [OF wf], of now] loop by simp
  then have rs: "tok_kept tok (jobs s) rs"
    unfolding tok_kept_def using list_all2_right by (fastforce simp: settled_def cancel_row_def)
  have "tok_kept tok rs (sql_update c (lease_row now owner t ex) rs)" for c ex
    by (rule tok_kept_update) (use assms(3) in \<open>simp add: lease_row_def\<close>)
  then have "tok_kept tok rs (jobs s')"
    using acq loop by (auto simp: acquire_lease_def Let_def split: option.splits)
  with rs show ?thesis unfolding tok_kept_def by metis
qed

lemma tok_kept_other:
  assumes "other_step tok s s'" and "store_wf s"
  shows "tok_kept tok (jobs s) (jobs s')"
  using assms
proof cases
  case (other_enqueue now p res)
  then show ?thesis using enqueue_effect(3) [OF other_enqueue]
    by (auto simp: tok_kept_def insert_job_def new_job_row_def split: if_splits)
next
  case (other_acquire now t owner vt res)
  then show ?thesis using tok_kept_acquire assms(2) by (simp add: store_wf_def)
next
  case (other_refresh now a owner vt t res)
  then show ?thesis by (auto simp: refresh_lease_def Let_def intro!: tok_kept_update split: if_splits option.splits)
next
  case (other_transition now a st err ex owner t res)
  then show ?thesis
    by (auto simp: transition_def Let_def sql_matches_def transition_row_def intro!: tok_kept_update split: if_splits option.splits)
next
  case (other_cancel now b ao res)
  then show ?thesis
    by (auto simp: request_cancel_def Let_def flag_cancel_def intro!: tok_kept_update split: option.splits)
next
  case (other_crash now a msg owner t res)
  then show ?thesis
    by (auto simp: record_executor_crash_def Let_def crash_row_def intro!: tok_kept_update split: option.splits if_splits)
next
  case (other_prune now days res)
  then show ?thesis by (auto simp: prune_terminal_def Let_def sql_delete_def)
next
  case (other_append cfg now env res)
  then show ?thesis using tok_kept_append [of tok s cfg now env] by simp
next
  case (other_ack a n res)
  then show ?thesis by (auto simp: ack_through_def)
next
  case (other_outbox_prune cfg now res)
  then show ?thesis using prune_effect [of cfg now s] by auto
qed

lemma other_steps_views:
  assumes "(other_step tok)\<^sup>*\<^sup>* s s'"
  shows "free tok s \<Longrightarrow> free tok s'" and "held owner tok b a s \<Longrightarrow> held owner tok b a s'"
  using assms
  by (induction rule: rtranclp_induct)
    (blast dest: tok_kept_other tok_kept_views other_step_store_step store_step_wf intro: free_wf held_wf)+

section \<open>One attempt\<close>

lemma free_held: "free tok s \<Longrightarrow> held owner tok b a s"
  by (simp add: free_def held_def)

lemma held_free:
  assumes "held owner tok b a s" and "\<And>r. attempt_row (jobs s) a = Some r \<Longrightarrow> j_lease_token r \<noteq> Some tok"
  shows "free tok s"
proof -
  have "j_lease_token r \<noteq> Some tok" if "r \<in> set (jobs s)" for r
    using assms attempt_row_in [OF jobs_wf_distinct that] that by (auto simp: held_def store_wf_def)
  then show ?thesis using assms(1) by (simp add: free_def held_def)
qed

lemma free_update_one:
  assumes "held owner tok b a s" and "attempt_row (jobs s) a = Some r" and "j_lease_token (f r) = None" and "store_wf s'"
    and "jobs s' = sql_update (\<lambda>x. x = r) f (jobs s)"
  shows "free tok s'"
proof -
  have "x = r" if "x \<in> set (jobs s)" "j_lease_token x = Some tok" for x
    using that assms(1,2) attempt_row_in [OF jobs_wf_distinct that(1)] by (auto simp: held_def store_wf_def)
  then show ?thesis using assms(3-5) by (auto simp: free_def set_sql_update split: if_splits)
qed

lemma transition_wf: "transition now a st err ex owner tok s = (res, s') \<Longrightarrow> store_wf s \<Longrightarrow> store_wf s'"
  and crash_wf: "record_executor_crash now a msg owner tok s = (cres, s') \<Longrightarrow> store_wf s \<Longrightarrow> store_wf s'"
  by (blast intro: store_step_wf step_transition step_crash)+

lemma transition_releases:
  assumes h: "held owner tok b a s" and st: "st \<in> {SUCCEEDED, FAILED, CANCELLED, TIMED_OUT}"
    and t: "transition now a (state_str st) err (Some (state_str st0)) (Some owner) (Some tok) s = (res, s')"
    and cur: "\<And>r. attempt_row (jobs s) a = Some r \<Longrightarrow> j_state r = st0"
  shows "free tok s'"
proof (cases "\<exists>r. attempt_row (jobs s) a = Some r \<and> j_lease_token r = Some tok")
  case True
  then obtain r where r: "attempt_row (jobs s) a = Some r" "j_lease_token r = Some tok" by blast
  have row: "j_lease_owner r = Some owner" "j_state r = RUNNING"
    using h r attempt_row_Some [OF r(1)] by (auto simp: held_def)
  have "s' = s\<lparr>jobs := sql_update (\<lambda>x. x = r) (transition_row now st err) (jobs s)\<rparr>"
    using transition_own [OF _ r(1) row(1) r(2), of st now err] h st row(2) t cur [OF r(1)]
    by (auto simp: held_def store_wf_def LEGAL_PREVIOUS_STATES_def)
  then show ?thesis
    using free_update_one [OF h r(1), of "transition_row now st err" s'] transition_wf [OF t held_wf [OF h]] st
    by (auto simp: transition_row_def terminal_def)
next
  case False
  then have f: "free tok s" using held_free [OF h] by blast
  have "tok_kept tok (jobs s) (jobs s')"
    using t f by (auto simp: transition_def Let_def sql_matches_def transition_row_def free_def
        intro!: tok_kept_update split: if_splits option.splits)
  then show ?thesis using tok_kept_views(1) transition_wf [OF t held_wf [OF h]] f by blast
qed

lemma crash_releases:
  assumes h: "held owner tok b a s" and c: "record_executor_crash now a msg (Some owner) (Some tok) s = (res, s')"
  shows "free tok s'"
proof (cases "\<exists>r. attempt_row (jobs s) a = Some r \<and> j_lease_token r = Some tok")
  case True
  then obtain r where r: "attempt_row (jobs s) a = Some r" "j_lease_token r = Some tok" by blast
  have row: "j_lease_owner r = Some owner" "active (j_state r)"
    using h r attempt_row_Some [OF r(1)] by (auto simp: held_def active_def)
  have "jobs_wf (jobs s)" using h by (simp add: held_def store_wf_def)
  from crash_own [OF this r(1) row(1) r(2) row(2), of now msg] c
  have "jobs s' = sql_update (\<lambda>x. x = r)
      (crash_row now (if MAX_LOCAL_CRASHES \<le> j_attempts r then FAILED else QUEUED) msg) (jobs s)" by auto
  then show ?thesis by (rule free_update_one [OF h r(1) _ crash_wf [OF c held_wf [OF h]], rotated]) (simp add: crash_row_def)
next
  case False
  then have f: "free tok s" using held_free [OF h] by blast
  have "tok_kept tok (jobs s) (jobs s')"
    using c by (auto simp: record_executor_crash_def Let_def crash_row_def
        intro!: tok_kept_update split: if_splits option.splits)
  then show ?thesis using tok_kept_views(1) crash_wf [OF c held_wf [OF h]] f by blast
qed

interpretation lease: attempt_view "held owner tok b a" "free tok" a "Some owner" "Some tok" for owner tok b a
proof unfold_locales
  fix s now job' s'
  assume h: "held owner tok b a s"
    and t: "transition now a ''SUCCEEDED'' None (Some ''RUNNING'') (Some owner) (Some tok) s = (Inr job', s')"
  have "state_str SUCCEEDED = ''SUCCEEDED''" "state_str RUNNING = ''RUNNING''" by (simp_all add: state_str_def)
  moreover have "j_state r = RUNNING" if "attempt_row (jobs s) a = Some r" for r
    using t that state_str_inject [of "j_state r" RUNNING]
    by (auto simp: transition_def state_str_def split: option.splits if_splits)
  ultimately show "free tok s'" using transition_releases [OF h, of SUCCEEDED now None RUNNING] t by auto
qed

section \<open>A worker's turn\<close>

lemma get_job_Some:
  "get_job s b a = Some c \<Longrightarrow> \<exists>r. job_row_of (jobs s) b a = Some r \<and> c = load_job s r"
  by (auto simp: get_job_def)

lemma held_get_job:
  assumes h: "held owner tok b a s"
  shows "get_job s b a = None \<Longrightarrow> free tok s"
    and "get_job s b a = Some c \<Longrightarrow> terminal (j_state c) \<Longrightarrow> free tok s"
    and "get_job s b a = Some c \<Longrightarrow> attempt_row (jobs s) a = Some r \<Longrightarrow> j_state r = j_state c"
proof -
  have wf: "jobs_wf (jobs s)" using h by (simp add: held_def store_wf_def)
  note dist = jobs_wf_distinct [OF wf]
  show "free tok s" if "get_job s b a = None"
    using that h job_row_of_in [OF dist] by (force simp: free_def held_def get_job_def)
  show state: "j_state r = j_state c" if "get_job s b a = Some c" "attempt_row (jobs s) a = Some r" for r
    using get_job_Some [OF that(1)] attempt_row_Some [OF that(2)] distinct_key_eq [OF dist]
    by (auto dest!: job_row_of_Some) metis
  show "free tok s" if c: "get_job s b a = Some c" "terminal (j_state c)"
  proof (rule held_free [OF h])
    fix r assume r: "attempt_row (jobs s) a = Some r"
    then have "row_wf r" using jobs_wf_row [OF wf] attempt_row_Some [OF r] by blast
    then show "j_lease_token r \<noteq> Some tok" using state [OF c(1) r] c(2) by (simp add: row_wf_def)
  qed
qed

lemma target_state_str: "\<exists>st \<in> {FAILED, CANCELLED, TIMED_OUT}. target_state c = state_str st"
  by (auto simp: target_state_def state_str_def)

lemma keeps_safely_report:
  assumes "rely je (free tok)" and "free tok (db w)"
  shows "free tok (db (safely (publish_error je job c d m) w))" "free tok (db (safely (ack je job st ec ed em) w))"
  by (rule free.keeps_safely, rule free.keeps_reports, rule assms, rule assms)+

lemma worker_failed_releases:
  assumes rely: "rely je (free (ql_token l))"
    and h: "held (ql_owner l) (ql_token l) (j_build_job_id (ql_job l)) (j_attempt_id (ql_job l)) (db w)"
    and res: "worker_failed je l c d m w = (r, w')"
  shows "free (ql_token l) (db w') \<and> r = Inr True"
proof -
  let ?job = "ql_job l"
  let ?t = "\<lambda>current. on_db (transition (now_ms je w) (j_attempt_id ?job) (target_state c) (Some m)
      (Some (state_str (j_state current))) (Some (ql_owner l)) (Some (ql_token l))) w"
  let ?inner = "case get_job (db w) (j_build_job_id ?job) (j_attempt_id ?job) of
        None \<Rightarrow> (Inr (), w)
      | Some current \<Rightarrow> if terminal (j_state current) then (Inr (), w)
          else (case ?t current of (Inl e, w') \<Rightarrow> (if is_queue_error e then Inr () else Inl e, w') | (Inr _, w') \<Rightarrow> (Inr (), w'))"
  have "free (ql_token l) (db (snd ?inner)) \<and> fst ?inner = Inr ()"
  proof (cases "get_job (db w) (j_build_job_id ?job) (j_attempt_id ?job)")
    case None
    then show ?thesis using held_get_job(1) [OF h] by simp
  next
    case (Some current)
    show ?thesis
    proof (cases "terminal (j_state current)")
      case True
      then show ?thesis using held_get_job(2) [OF h Some] Some by simp
    next
      case False
      obtain x w1 where t: "?t current = (x, w1)" by force
      obtain st where st: "st \<in> {FAILED, CANCELLED, TIMED_OUT}" "target_state c = state_str st"
        using target_state_str by blast
      note call = on_dbE [OF t]
      have "free (ql_token l) (db w1)"
        using transition_releases [OF h _ call [unfolded st(2)] held_get_job(3) [OF h Some]] st(1) by auto
      then show ?thesis
        using Some False t queue_calls_errors(1) [of _ _ _ _ _ _ _ "db w"] call by (auto split: sum.split)
    qed
  qed
  then show ?thesis
    using res rely keeps_safely_report by (auto simp: worker_failed_def Let_def case_prod_beta)
qed

lemma worker_crashed_releases:
  assumes rely: "rely je (free (ql_token l))"
    and h: "held (ql_owner l) (ql_token l) (j_build_job_id (ql_job l)) (j_attempt_id (ql_job l)) (db w)"
    and res: "worker_crashed je l x w = (r, w')"
  shows "free (ql_token l) (db w') \<and> (\<exists>b. r = Inr b)"
proof (cases "case get_job (db w) (j_build_job_id (ql_job l)) (j_attempt_id (ql_job l)) of
    Some current \<Rightarrow> terminal (j_state current) | None \<Rightarrow> False")
  case True
  then show ?thesis
    using res held_get_job(2) [OF h] by (auto simp: worker_crashed_def Let_def split: option.splits)
next
  case False
  obtain y w1 where c: "on_db (record_executor_crash (now_ms je w) (j_attempt_id (ql_job l)) (exn_str x) (Some (ql_owner l)) (Some (ql_token l))) w = (y, w1)"
    by force
  note call = on_dbE [OF c]
  have f: "free (ql_token l) (db w1)" using crash_releases [OF h call] .
  show ?thesis
  proof (cases y)
    case (Inl e)
    then have "is_queue_error e" using queue_calls_errors(2) call by blast
    then show ?thesis using res False c Inl f rely keeps_safely_report by (auto simp: worker_crashed_def Let_def)
  next
    case (Inr job')
    then show ?thesis
      using res False c f rely keeps_safely_report by (auto simp: worker_crashed_def Let_def split: if_splits)
  qed
qed

text \<open>Everything the other tasks do is some sequence of their calls.\<close>

definition other_tasks :: "job_env \<Rightarrow> string \<Rightarrow> bool" where
  "other_tasks je tok \<longleftrightarrow> (\<forall>n w. (other_step tok)\<^sup>*\<^sup>* (db w) (db (je_others je n w)))"

lemma other_tasks_rely:
  assumes "other_tasks je tok"
  shows "rely je (free tok)" and "rely je (held owner tok b a)"
  using assms other_steps_views unfolding other_tasks_def rely_def by blast+

lemma run_lease_releases:
  assumes others: "other_tasks je (ql_token l)"
    and h: "held (ql_owner l) (ql_token l) (j_build_job_id (ql_job l)) (j_attempt_id (ql_job l)) (db w)"
    and res: "run_lease je l w = (r, w')"
  shows "free (ql_token l) (db w') \<and> r = Inr ()"
proof -
  let ?job = "ql_job l"
  note rely = other_tasks_rely [OF others]
  obtain x w1 where ex: "execute_job je ?job (Some (ql_owner l)) (Some (ql_token l)) (on_metrics job_started w) = (x, w1)" by force
  have after: "held (ql_owner l) (ql_token l) (j_build_job_id ?job) (j_attempt_id ?job) (db w1) \<and> isl x \<or> free (ql_token l) (db w1)"
    using lease.execute_job_settles [OF rely(2,1) _ _ ex] h by simp
  then have h1: "held (ql_owner l) (ql_token l) (j_build_job_id ?job) (j_attempt_id ?job) (db w1)"
    using free_held by blast
  let ?inner = "case x of Inr _ \<Rightarrow> (Inr True, w1)
    | Inl (BuildExecutionError c d m) \<Rightarrow> worker_failed je l c d m w1
    | Inl e \<Rightarrow> worker_crashed je l e w1"
  have "free (ql_token l) (db (snd ?inner)) \<and> (\<exists>b. fst ?inner = Inr b)"
  proof (cases x)
    case (Inl e)
    show ?thesis
      using Inl worker_failed_releases [OF rely(1) h1 prod.collapse [symmetric]]
        worker_crashed_releases [OF rely(1) h1 prod.collapse [symmetric]] by (simp split: exn.split) blast
  qed (use after in auto)
  moreover have "run_lease je l w = (rbind (fst ?inner) (\<lambda>_. Inr ()),
      on_metrics (job_finished (case fst ?inner of Inr completed \<Rightarrow> completed | Inl _ \<Rightarrow> False)) (await je (snd ?inner)))"
    using ex by (simp add: run_lease_def case_prod_beta Let_def split: sum.split exn.split)
  ultimately show ?thesis using res rely_await [OF rely(1)] by auto
qed

lemma acquire_leases:
  assumes f: "free tok s" and acq: "acquire_queue_lease now tok owner vt s = (res, s1)"
  shows "(res = Inr None \<and> free tok s1) \<or>
    (\<exists>l r. res = Inr (Some l) \<and> ql_owner l = owner \<and> ql_token l = tok \<and> store_wf s1 \<and>
      attempt_row (jobs s1) (j_attempt_id (ql_job l)) = Some r \<and> j_build_job_id r = j_build_job_id (ql_job l) \<and>
      j_lease_owner r = Some owner \<and> j_lease_token r = Some tok \<and> j_state r = LEASED \<and>
      (\<forall>x \<in> set (jobs s1). j_lease_token x = Some tok \<longrightarrow> x = r))"
proof -
  have wf: "jobs_wf (jobs s)" using f by (simp add: free_def store_wf_def)
  have wf1: "store_wf s1"
    using acq f store_step_wf step_acquire
    by (auto simp: acquire_queue_lease_def free_def split: prod.splits sum.splits option.splits) blast+
  show ?thesis
    using wf
  proof (cases rule: acquire_lease_cases [of s now tok owner vt])
    case (1 rs)
    have "tok_kept tok (jobs s) rs"
      using acquire_loop_settled [OF jobs_wf_distinct [OF wf], of now] 1(1) list_all2_right
      unfolding tok_kept_def by (fastforce simp: settled_def cancel_row_def)
    then show ?thesis
      using 1 acq wf1 f tok_kept_views(1) [of tok s s1] by (auto simp: acquire_queue_lease_def)
  next
    case (2 rs r s')
    let ?r = "lease_row now owner tok (now + vt * 1000) r"
    have "tok_kept tok (jobs s) rs"
      using acquire_loop_settled [OF jobs_wf_distinct [OF wf], of now] 2(1) list_all2_right
      unfolding tok_kept_def by (fastforce simp: settled_def cancel_row_def)
    then have none: "j_lease_token x \<noteq> Some tok" if "x \<in> set rs" for x
      using that f by (fastforce simp: tok_kept_def free_def)
    have rrs: "r \<in> set rs" using acquire_loop_Some [OF jobs_wf_distinct [OF wf] 2(1)] by blast
    have "distinct (map j_attempt_id rs)" using acquire_loop_distinct [OF jobs_wf_distinct [OF wf] 2(1)] .
    then have "x = ?r" if "x \<in> set (jobs s')" "j_lease_token x = Some tok" for x
      using that none 2(2) rrs distinct_key_eq [of j_attempt_id rs _ r] by (auto simp: set_sql_update has_attempt_def split: if_splits)
    moreover have "attempt_row (jobs s') (j_attempt_id ?r) = Some ?r"
      using attempt_row_in [OF jobs_wf_distinct [OF 2(4)] 2(3)] .
    moreover have "s1 = s'" "res = Inr (Some \<lparr>ql_owner = owner, ql_job = load_job s' ?r, ql_timeout = vt, ql_token = tok\<rparr>)"
      using acq 2(5) by (auto simp: acquire_queue_lease_def lease_row_def)
    ultimately show ?thesis using wf1 by (auto simp: lease_row_def)
  qed
qed

text \<open>
  C1. Whatever the other workers, the uplink and the lease refreshers do to the database
  meanwhile, and however the build ends - success, failure, timeout, cancellation or any
  exception - one turn of a worker ends without an exception, and no attempt is left
  leased or running under the token the turn has drawn.
\<close>

theorem worker_turn_releases:
  assumes "free tok (db w)" and "other_tasks je tok"
  shows "\<exists>t w'. worker_step je stop owner tok w = (Inr t, w') \<and> free tok (db w')"
proof (cases stop)
  case False
  obtain x w1 where a: "on_db (acquire_queue_lease (now_ms je w) tok owner (jo_lease_seconds (je_options je))) w = (x, w1)" by force
  from acquire_leases [OF assms(1) on_dbE [OF a]] show ?thesis
  proof (elim disjE exE conjE)
    assume "x = Inr None" "free tok (db w1)"
    then show ?thesis using a False rely_await [OF other_tasks_rely(1) [OF assms(2)]] by (auto simp: worker_step_def)
  next
    fix l r
    assume l: "x = Inr (Some l)" "ql_owner l = owner" "ql_token l = tok" and wf: "store_wf (db w1)"
      and r: "attempt_row (jobs (db w1)) (j_attempt_id (ql_job l)) = Some r" "j_build_job_id r = j_build_job_id (ql_job l)"
        "j_lease_owner r = Some owner" "j_lease_token r = Some tok" "j_state r = LEASED"
      and only: "\<forall>x \<in> set (jobs (db w1)). j_lease_token x = Some tok \<longrightarrow> x = r"
    obtain y w2 where t: "on_db (transition (now_ms je w1) (j_attempt_id (ql_job l)) ''RUNNING'' None (Some ''LEASED'')
        (Some owner) (Some tok)) w1 = (y, w2)" by force
    note call = on_dbE [OF t]
    have str: "state_str RUNNING = ''RUNNING''" "state_str LEASED = ''LEASED''" by (simp_all add: state_str_def)
    have own: "\<exists>job. y = Inr job" "jobs (db w2) = sql_update (\<lambda>x. x = r) (transition_row (now_ms je w1) RUNNING None) (jobs (db w1))"
      using transition_own [OF _ r(1,3,4), of RUNNING "now_ms je w1" None] call wf r(5) str
      by (auto simp: store_wf_def LEGAL_PREVIOUS_STATES_def)
    have "held owner tok (j_build_job_id (ql_job l)) (j_attempt_id (ql_job l)) (db w2)"
      using own(2) only r attempt_row_Some [OF r(1)] transition_wf [OF call wf]
      by (auto simp: held_def set_sql_update transition_row_def terminal_def split: if_splits)
    then have "\<exists>w'. run_lease je l w2 = (Inr (), w') \<and> free tok (db w')"
      using run_lease_releases [of je l w2 "fst (run_lease je l w2)" "snd (run_lease je l w2)"] assms(2) l
      by (metis prod.collapse)
    then show ?thesis using a l t own(1) False by (auto simp: worker_step_def act_bind_def lift_def)
  qed
qed (use assms in \<open>simp add: worker_step_def\<close>)

lemma ex_store_wfs: "store_wf (store_with [queued_row])" "store_wf (store_with [running_row])"
  by (simp_all add: store_wf_def dlq_wf_def events_wf_def)

theorem worker_turn_releases_witness:
  "\<exists>t w'. worker_step ex_env False ''worker-0'' ''tok-1'' (ex_world [queued_row]) = (Inr t, w') \<and> free ''tok-1'' (db w')"
  by (rule worker_turn_releases) (simp_all add: free_def ex_store_wfs other_tasks_def)

end
