(* ===== verification/Queue_Drain.thy ===== *)
theory Queue_Drain
  imports Lease_Safety
begin

text \<open>
  Progress: as long as no new work arrives, a worker empties the queue, and a build that
  keeps crashing is run three times at most. Rows are compared without their event cursor
  and modification time (\<open>core\<close>), which is all that publishing changes.
\<close>

section \<open>Rows without their bookkeeping\<close>

definition core :: "job_row \<Rightarrow> job_row" where
  "core r = r\<lparr>j_sequence_cursor := 0, j_updated_at := 0\<rparr>"

lemma core_cols [simp]:
  "j_attempt_id (core r) = j_attempt_id r" "j_build_job_id (core r) = j_build_job_id r" "j_state (core r) = j_state r"
  "j_attempts (core r) = j_attempts r" "j_lease_owner (core r) = j_lease_owner r" "j_lease_token (core r) = j_lease_token r"
  "leasable now (core r) = leasable now r"
  by (simp_all add: core_def leasable_def)

definition tracks :: "('v \<Rightarrow> job_row \<Rightarrow> bool) \<Rightarrow> 'v list \<Rightarrow> store \<Rightarrow> bool" where
  "tracks R V s \<longleftrightarrow> store_wf s \<and> list_all2 R V (map core (jobs s))"

lemma core_append: "map core (jobs (snd (append_event cfg now env s))) = map core (jobs s)"
proof -
  obtain res s' where app: "append_event cfg now env s = (res, s')" by force
  have "s' = s \<or> (\<exists>a n. jobs s' = sql_update (has_attempt a) (bump_cursor now n) (jobs s))"
    using append_event_effect [OF app] by fastforce
  then show ?thesis using app by (auto simp: sql_update_def core_def bump_cursor_def)
qed

interpretation tracks: spool_view "tracks R V" for R V
  by unfold_locales (simp add: tracks_def core_append append_wf)

text \<open>The other tasks do not touch the rows of the queue: no assignment, no cancellation, no
  other worker.\<close>

definition quiet :: "job_env \<Rightarrow> bool" where
  "quiet je \<longleftrightarrow> (\<forall>n w. store_wf (db w) \<longrightarrow> store_wf (db (je_others je n w)) \<and>
     map core (jobs (db (je_others je n w))) = map core (jobs (db w)))"

lemma quiet_rely: "quiet je \<Longrightarrow> rely je (tracks R V)"
  by (simp add: quiet_def rely_def tracks_def)

section \<open>One run of an attempt\<close>

definition finished :: "string \<Rightarrow> job_row \<Rightarrow> job_row \<Rightarrow> bool" where
  "finished a v r \<longleftrightarrow> j_attempt_id r = j_attempt_id v \<and>
     (if j_attempt_id v = a then terminal (j_state r) \<and> j_build_job_id r = j_build_job_id v else r = v)"

definition ended :: "string \<Rightarrow> job_row \<Rightarrow> job_row \<Rightarrow> bool" where
  "ended a v r \<longleftrightarrow> j_attempt_id r = j_attempt_id v \<and>
     (if j_attempt_id v = a
      then terminal (j_state r) \<or>
        j_state r = QUEUED \<and> j_attempts r = j_attempts v \<and> j_attempts v < MAX_LOCAL_CRASHES \<and> j_lease_token r = None
      else r = v)"

lemma tracks_finished_ended: "tracks (finished a) V s \<Longrightarrow> tracks (ended a) V s"
  unfolding tracks_def by (auto simp: finished_def ended_def elim!: list_all2_mono)

lemma tracks_update_one:
  assumes "tracks (=) V s" and "store_wf s'" and "attempt_row (jobs s) a = Some r"
    and "map core (jobs s') = map core (sql_update (\<lambda>x. x = r) f (jobs s))" and "R (core r) (core (f r))"
    and "\<And>v. j_attempt_id v \<noteq> a \<Longrightarrow> R v v"
  shows "tracks R V s'"
proof -
  have dist: "distinct (map j_attempt_id (jobs s))" using assms(1) by (simp add: tracks_def store_wf_def jobs_wf_distinct)
  have r: "r \<in> set (jobs s)" "j_attempt_id r = a" using attempt_row_Some [OF assms(3)] by auto
  have "R (core x) (core (if x = r then f x else x))" if "x \<in> set (jobs s)" for x
  proof (cases "x = r")
    case False
    then have "j_attempt_id x \<noteq> a" using distinct_key_eq [OF dist that r(1)] r(2) by auto
    then show ?thesis using assms(6) [of "core x"] False by simp
  qed (use assms(5) in simp)
  then have "list_all2 R (map core (jobs s)) (map core (jobs s'))"
    unfolding assms(4) sql_update_def map_map list.rel_map by (intro list.rel_refl_strong) simp
  moreover have "V = map core (jobs s)" using assms(1) by (simp add: tracks_def list.rel_eq)
  ultimately show ?thesis using assms(2) by (simp add: tracks_def)
qed

interpretation run: attempt_view "tracks (=) V" "tracks (finished a) V" a owner tok for V a owner tok
proof unfold_locales
  fix s now job' s'
  assume P: "tracks (=) V s" and t: "transition now a ''SUCCEEDED'' None (Some ''RUNNING'') owner tok s = (Inr job', s')"
  have wf: "store_wf s" using P by (simp add: tracks_def)
  note dist = jobs_wf_distinct [of "jobs s"]
  have str: "state_of_str ''SUCCEEDED'' = Some SUCCEEDED" using state_of_str_state_str [of SUCCEEDED] by (simp add: state_str_def)
  obtain r where r: "attempt_row (jobs s) a = Some r"
    and s': "s' = s\<lparr>jobs := sql_update (\<lambda>x. j_attempt_id x = a \<and> (j_state x = j_state r \<and>
        sql_matches owner (j_lease_owner x) \<and> sql_matches tok (j_lease_token x))) (transition_row now SUCCEEDED None) (jobs s)\<rparr>"
    and own: "sql_matches owner (j_lease_owner r)" "sql_matches tok (j_lease_token r)"
    using t str by (auto simp: transition_def Let_def sql_matches_def split: option.splits if_splits)
  have ra: "r \<in> set (jobs s)" "j_attempt_id r = a" using attempt_row_Some [OF r] by auto
  have c: "(j_attempt_id x = a \<and> (j_state x = j_state r \<and> sql_matches owner (j_lease_owner x) \<and> sql_matches tok (j_lease_token x))) \<longleftrightarrow> x = r"
    if "x \<in> set (jobs s)" for x
    using that own ra distinct_key_eq [OF dist that ra(1)] wf by (auto simp: store_wf_def)
  have "jobs s' = sql_update (\<lambda>x. x = r) (transition_row now SUCCEEDED None) (jobs s)"
    using s' sql_update_one(1) [OF dist ra(1) c] wf by (simp add: store_wf_def)
  then show "tracks (finished a) V s'"
    by (intro tracks_update_one [OF P transition_wf [OF t wf] r arg_cong [of _ _ "map core"]])
      (use ra in \<open>auto simp: finished_def core_def transition_row_def terminal_def\<close>)
qed

lemma tracks_row:
  assumes "tracks (=) V s" and "attempt_row (jobs s) a = Some r" and "tracks R V s'" and "R (core r) = Q"
    and "\<And>x. Q (core x) \<Longrightarrow> j_attempt_id x = a"
  shows "\<exists>r'. attempt_row (jobs s') a = Some r' \<and> Q (core r')"
proof -
  have "core r \<in> set V" using assms(1) attempt_row_Some [OF assms(2)] by (simp add: tracks_def list.rel_eq)
  then obtain r' where "r' \<in> set (jobs s')" "R (core r) (core r')"
    using list_all2_left [of R V "map core (jobs s')" "core r"] assms(3) by (auto simp: tracks_def)
  moreover have "j_attempt_id r' = a" using calculation(2) assms(4,5) by blast
  ultimately show ?thesis
    using assms(3,4) attempt_row_in [OF jobs_wf_distinct, of "jobs s'" r'] by (auto simp: tracks_def store_wf_def)
qed

lemma get_job_row:
  assumes "store_wf s" and "attempt_row (jobs s) a = Some r"
  shows "get_job s (j_build_job_id r) a = Some (load_job s r)"
  using job_row_of_in [OF jobs_wf_distinct, of "jobs s" r] attempt_row_Some [OF assms(2)] assms(1)
  by (auto simp: get_job_def store_wf_def)

lemma reports_track:
  assumes "quiet je" and "tracks R V (db w)"
  shows "tracks R V (db (safely (publish_error je job c d m) w))" "tracks R V (db (safely (ack je job st ec ed em) w))"
  by (rule tracks.keeps_safely, rule tracks.keeps_reports, rule quiet_rely, rule assms, rule assms)+

text \<open>The worker's handlers, when the attempt is still running under the lease.\<close>

lemma worker_failed_ends:
  assumes q: "quiet je" and P: "tracks (=) V (db w)" and r: "attempt_row (jobs (db w)) (j_attempt_id (ql_job l)) = Some r"
    and own: "j_build_job_id r = j_build_job_id (ql_job l)" "j_lease_owner r = Some (ql_owner l)" "j_lease_token r = Some (ql_token l)" "j_state r = RUNNING"
    and res: "worker_failed je l c d m w = (x, w')"
  shows "tracks (ended (j_attempt_id (ql_job l))) V (db w') \<and> \<not> isl x"
proof -
  let ?a = "j_attempt_id (ql_job l)"
  have wf: "store_wf (db w)" using P by (simp add: tracks_def)
  obtain st where st: "st \<in> {FAILED, CANCELLED, TIMED_OUT}" "target_state c = state_str st" using target_state_str by blast
  obtain y w1 where t: "on_db (transition (now_ms je w) ?a (target_state c) (Some m) (Some (state_str RUNNING))
      (Some (ql_owner l)) (Some (ql_token l))) w = (y, w1)" by force
  note call = on_dbE [OF t]
  have "jobs (db w1) = sql_update (\<lambda>x. x = r) (transition_row (now_ms je w) st (Some m)) (jobs (db w))" and y: "\<exists>job. y = Inr job"
    using transition_own [OF _ r own(2,3), of st "now_ms je w" "Some m"] wf own(4) st call
    by (auto simp: store_wf_def LEGAL_PREVIOUS_STATES_def)
  then have "tracks (finished ?a) V (db w1)"
    using tracks_update_one [OF P transition_wf [OF call wf] r, of "transition_row (now_ms je w) st (Some m)"] st(1) attempt_row_Some [OF r]
    by (auto simp: finished_def core_def transition_row_def terminal_def)
  then have "tracks (ended ?a) V (db w1)" by (rule tracks_finished_ended)
  moreover have "get_job (db w) (j_build_job_id (ql_job l)) ?a = Some (load_job (db w) r)"
    using get_job_row [OF wf r] own(1) by simp
  ultimately show ?thesis
    using res t y own(4) by (auto simp: worker_failed_def Let_def terminal_def intro!: reports_track q)
qed

lemma worker_crashed_table:
  assumes q: "quiet je" and wf: "store_wf (db w)" and r: "attempt_row (jobs (db w)) (j_attempt_id (ql_job l)) = Some r"
    and own: "j_build_job_id r = j_build_job_id (ql_job l)" "j_lease_owner r = Some (ql_owner l)" "j_lease_token r = Some (ql_token l)" "j_state r = RUNNING"
    and res: "worker_crashed je l e w = (x, w')"
  shows "tracks (=) (map core (sql_update (\<lambda>x. x = r)
      (crash_row (now_ms je w) (if MAX_LOCAL_CRASHES \<le> j_attempts r then FAILED else QUEUED) (exn_str e)) (jobs (db w)))) (db w') \<and> \<not> isl x"
proof -
  let ?a = "j_attempt_id (ql_job l)"
  obtain y w1 where t: "on_db (record_executor_crash (now_ms je w) ?a (exn_str e) (Some (ql_owner l)) (Some (ql_token l))) w = (y, w1)"
    by force
  note call = on_dbE [OF t]
  have jobs: "jobs (db w1) = sql_update (\<lambda>x. x = r)
      (crash_row (now_ms je w) (if MAX_LOCAL_CRASHES \<le> j_attempts r then FAILED else QUEUED) (exn_str e)) (jobs (db w))"
    and y: "\<exists>job. y = Inr job"
    using crash_own [OF _ r own(2,3), of "now_ms je w" "exn_str e"] wf own(4) call by (auto simp: store_wf_def active_def)
  have "tracks (=) (map core (jobs (db w1))) (db w1)" using crash_wf [OF call wf] by (simp add: tracks_def list.rel_eq)
  moreover have "get_job (db w) (j_build_job_id (ql_job l)) ?a = Some (load_job (db w) r)"
    using get_job_row [OF wf r] own(1) by simp
  ultimately show ?thesis
    using res t y own(4) unfolding jobs [symmetric]
    by (auto simp: worker_crashed_def Let_def terminal_def intro!: reports_track q split: if_splits)
qed

lemma worker_crashed_ends:
  assumes "quiet je" and P: "tracks (=) V (db w)" and r: "attempt_row (jobs (db w)) (j_attempt_id (ql_job l)) = Some r"
    and own: "j_build_job_id r = j_build_job_id (ql_job l)" "j_lease_owner r = Some (ql_owner l)" "j_lease_token r = Some (ql_token l)" "j_state r = RUNNING"
    and res: "worker_crashed je l e w = (x, w')"
  shows "tracks (ended (j_attempt_id (ql_job l))) V (db w') \<and> \<not> isl x"
proof -
  have "store_wf (db w)" using P by (simp add: tracks_def)
  note table = worker_crashed_table [OF assms(1) this r own res]
  then have "store_wf (db w')" "map core (jobs (db w')) = map core (sql_update (\<lambda>x. x = r)
      (crash_row (now_ms je w) (if MAX_LOCAL_CRASHES \<le> j_attempts r then FAILED else QUEUED) (exn_str e)) (jobs (db w)))"
    by (simp_all add: tracks_def list.rel_eq)
  then have "tracks (ended (j_attempt_id (ql_job l))) V (db w')"
    by (rule tracks_update_one [OF P _ r])
      (use attempt_row_Some [OF r] in \<open>auto simp: ended_def core_def crash_row_def terminal_def\<close>)
  then show ?thesis using table by blast
qed

text \<open>And when it already succeeded: nothing is run again.\<close>

lemma handlers_after_success:
  assumes q: "quiet je" and Q: "tracks (finished (j_attempt_id (ql_job l))) V (db w)"
    and r: "attempt_row (jobs (db w)) (j_attempt_id (ql_job l)) = Some r" "terminal (j_state r)" "j_build_job_id r = j_build_job_id (ql_job l)"
  shows "tracks (finished (j_attempt_id (ql_job l))) V (db (snd (worker_failed je l c d m w))) \<and> \<not> isl (fst (worker_failed je l c d m w))"
    and "tracks (finished (j_attempt_id (ql_job l))) V (db (snd (worker_crashed je l e w))) \<and> \<not> isl (fst (worker_crashed je l e w))"
proof -
  have "get_job (db w) (j_build_job_id (ql_job l)) (j_attempt_id (ql_job l)) = Some (load_job (db w) r)"
    using get_job_row [OF _ r(1)] r(3) Q by (simp add: tracks_def)
  then show "tracks (finished (j_attempt_id (ql_job l))) V (db (snd (worker_failed je l c d m w))) \<and> \<not> isl (fst (worker_failed je l c d m w))"
    and "tracks (finished (j_attempt_id (ql_job l))) V (db (snd (worker_crashed je l e w))) \<and> \<not> isl (fst (worker_crashed je l e w))"
    using Q r(2) by (auto simp: worker_failed_def worker_crashed_def Let_def intro!: reports_track q)
qed

lemma run_lease_ends:
  assumes q: "quiet je" and P: "tracks (=) V (db w)" and r: "attempt_row (jobs (db w)) (j_attempt_id (ql_job l)) = Some r"
    and own: "j_build_job_id r = j_build_job_id (ql_job l)" "j_lease_owner r = Some (ql_owner l)" "j_lease_token r = Some (ql_token l)" "j_state r = RUNNING"
  shows "tracks (ended (j_attempt_id (ql_job l))) V (db (snd (run_lease je l w))) \<and> fst (run_lease je l w) = Inr ()"
proof -
  let ?a = "j_attempt_id (ql_job l)"
  obtain x w1 where ex: "execute_job je (ql_job l) (Some (ql_owner l)) (Some (ql_token l)) (on_metrics job_started w) = (x, w1)" by force
  let ?inner = "case x of Inr _ \<Rightarrow> (Inr True, w1)
    | Inl (BuildExecutionError c d m) \<Rightarrow> worker_failed je l c d m w1
    | Inl e \<Rightarrow> worker_crashed je l e w1"
  have "tracks (=) V (db w1) \<and> isl x \<or> tracks (finished ?a) V (db w1)"
    using run.execute_job_settles [OF quiet_rely [OF q] quiet_rely [OF q] refl _ ex] P by simp
  then have "tracks (ended ?a) V (db (snd ?inner)) \<and> \<not> isl (fst ?inner)"
  proof
    assume *: "tracks (=) V (db w1) \<and> isl x"
    then obtain r1 where r1: "attempt_row (jobs (db w1)) ?a = Some r1" "core r = core r1"
      using tracks_row [OF P r, of "(=)" "db w1" "(=) (core r)"] attempt_row_Some [OF r] by (metis core_cols(1))
    have own1: "j_build_job_id r1 = j_build_job_id (ql_job l)" "j_lease_owner r1 = Some (ql_owner l)"
        "j_lease_token r1 = Some (ql_token l)" "j_state r1 = RUNNING"
      using own arg_cong [OF r1(2), of j_build_job_id] arg_cong [OF r1(2), of j_lease_owner]
        arg_cong [OF r1(2), of j_lease_token] arg_cong [OF r1(2), of j_state] by simp_all
    show ?thesis
      using * worker_failed_ends [OF q _ r1(1) own1 prod.collapse [symmetric]]
        worker_crashed_ends [OF q _ r1(1) own1 prod.collapse [symmetric]] by (cases x) (auto split: exn.split)
  next
    assume f: "tracks (finished ?a) V (db w1)"
    obtain r1 where r1: "attempt_row (jobs (db w1)) ?a = Some r1" "finished ?a (core r) (core r1)"
      using tracks_row [OF P r f refl] attempt_row_Some [OF r] by (auto simp: finished_def)
    then have "terminal (j_state r1)" "j_build_job_id r1 = j_build_job_id (ql_job l)"
      using attempt_row_Some [OF r] own(1) by (simp_all add: finished_def)
    from handlers_after_success [OF q f r1(1) this]
    have "tracks (finished ?a) V (db (snd ?inner)) \<and> \<not> isl (fst ?inner)"
      using f by (cases x) (auto split: exn.split)
    then show ?thesis using tracks_finished_ended by blast
  qed
  moreover have "run_lease je l w = (rbind (fst ?inner) (\<lambda>_. Inr ()),
      on_metrics (job_finished (case fst ?inner of Inr completed \<Rightarrow> completed | Inl _ \<Rightarrow> False)) (await je (snd ?inner)))"
    using ex by (simp add: run_lease_def case_prod_beta Let_def split: sum.split exn.split)
  ultimately show ?thesis using rely_await [OF quiet_rely [OF q]] by (cases "fst ?inner") simp_all
qed

section \<open>One turn of a worker\<close>

definition begun :: "string \<Rightarrow> job_row \<Rightarrow> job_row \<Rightarrow> bool" where
  "begun a v r \<longleftrightarrow> j_attempt_id r = j_attempt_id v \<and>
     (if j_attempt_id v = a then \<not> terminal (j_state v) \<and> j_attempts r = j_attempts v + 1
      else r = v \<or> terminal (j_state r))"

definition advance :: "string \<Rightarrow> job_row \<Rightarrow> job_row \<Rightarrow> bool" where
  "advance a v r \<longleftrightarrow> j_attempt_id r = j_attempt_id v \<and>
     (if j_attempt_id v = a
      then \<not> terminal (j_state v) \<and> (terminal (j_state r) \<or>
        j_state r = QUEUED \<and> j_attempts r = j_attempts v + 1 \<and> j_attempts r < MAX_LOCAL_CRASHES \<and> j_lease_token r = None)
      else r = v \<or> terminal (j_state r))"

lemma begun_ended: "begun a u v \<Longrightarrow> ended a v r \<Longrightarrow> advance a u r"
  by (auto simp: begun_def ended_def advance_def split: if_splits)

lemma acquire_begun:
  assumes wf: "store_wf s" and acq: "acquire_queue_lease now tok owner vt s = (Inr (Some l), s1)"
  shows "tracks (begun (j_attempt_id (ql_job l))) (map core (jobs s)) s1"
proof -
  have jwf: "jobs_wf (jobs s)" using wf by (simp add: store_wf_def)
  note dist = jobs_wf_distinct [OF jwf]
  have wf1: "store_wf s1"
    using acq wf store_step_wf step_acquire
    by (auto simp: acquire_queue_lease_def split: prod.splits sum.splits option.splits) blast+
  show ?thesis
    using jwf
  proof (cases rule: acquire_lease_cases [of s now tok owner vt])
    case (2 rs r s')
    let ?lease = "lease_row now owner tok (now + vt * 1000)"
    have s1: "s1 = s'" "j_attempt_id (ql_job l) = j_attempt_id r"
      using acq 2(5) by (auto simp: acquire_queue_lease_def lease_row_def)
    have r: "r \<in> set rs" "leasable now r" using acquire_loop_Some [OF dist 2(1)] by auto
    have drs: "distinct (map j_attempt_id rs)" using acquire_loop_distinct [OF dist 2(1)] .
    have step: "begun (j_attempt_id r) (core x) (core (if has_attempt (j_attempt_id r) y then ?lease y else y))"
      if y: "y \<in> set rs" "settled now x y" for x y
    proof (cases "y = r")
      case True
      then have "x = r" using y(2) r(2) by (auto simp: settled_def)
      then show ?thesis
        using True leasable_not_terminal [OF r(2)] by (simp add: begun_def has_attempt_def core_def lease_row_def)
    next
      case False
      then have "j_attempt_id y \<noteq> j_attempt_id r" using distinct_key_eq [OF drs y(1) r(1)] by auto
      then show ?thesis
        using y(2) by (auto simp: begun_def settled_def has_attempt_def core_def cancel_row_def terminal_def)
    qed
    have "list_all2 (settled now) (jobs s) rs" using acquire_loop_settled [OF dist, of now] 2(1) by simp
    then have "list_all2 (\<lambda>x y. begun (j_attempt_id r) (core x) (core (if has_attempt (j_attempt_id r) y then ?lease y else y))) (jobs s) rs"
      by (rule list.rel_mono_strong) (rule step)
    then have "list_all2 (begun (j_attempt_id r)) (map core (jobs s)) (map core (jobs s'))"
      unfolding 2(2) by (simp add: sql_update_def list.rel_map comp_def)
    then show ?thesis using s1 wf1 by (simp add: tracks_def)
  qed (use acq in \<open>auto simp: acquire_queue_lease_def\<close>)
qed

lemma begun_running:
  assumes b: "tracks (begun a) V s" and r: "attempt_row (jobs s) a = Some r" and wf: "store_wf s'"
    and jobs: "jobs s' = sql_update (\<lambda>x. x = r) (transition_row now RUNNING None) (jobs s)"
  shows "list_all2 (begun a) V (map core (jobs s'))"
proof -
  have step: "begun a v (core (if x = r then transition_row now RUNNING None x else x))" if "begun a v (core x)" for v x
  proof (cases "x = r")
    case True
    then show ?thesis using that attempt_row_Some [OF r] by (simp add: begun_def transition_row_def terminal_def split: if_splits)
  qed (use that in simp)
  have "list_all2 (\<lambda>v x. begun a v (core x)) V (jobs s)" using b by (simp add: tracks_def list.rel_map)
  then have "list_all2 (\<lambda>v x. begun a v (core (if x = r then transition_row now RUNNING None x else x))) V (jobs s)"
    by (rule list_all2_mono) (rule step)
  then show ?thesis unfolding jobs by (simp add: sql_update_def list.rel_map comp_def)
qed

text \<open>Every attempt that is not settled can be leased, whatever the clock shows during the run.\<close>

definition ready :: "job_env \<Rightarrow> store \<Rightarrow> bool" where
  "ready je s \<longleftrightarrow> store_wf s \<and>
     (\<forall>r \<in> set (jobs s). terminal (j_state r) \<or> (\<forall>n. leasable (clk_now (je_clock je n) div 1000) r))"

lemma worker_step_progress:
  assumes q: "quiet je" and rdy: "ready je (db w)" and f: "free tok (db w)"
  shows "\<exists>t w'. worker_step je False owner tok w = (Inr t, w') \<and> t \<noteq> Stopped \<and> store_wf (db w') \<and>
    (\<exists>a. list_all2 (advance a) (map core (jobs (db w))) (map core (jobs (db w'))) \<and>
      (a \<in> j_attempt_id ` set (jobs (db w)) \<or> (\<forall>r \<in> set (jobs (db w')). terminal (j_state r))))"
proof -
  have wf: "store_wf (db w)" and dist: "distinct (map j_attempt_id (jobs (db w)))"
    using rdy by (simp_all add: ready_def store_wf_def jobs_wf_distinct)
  obtain x w1 where a: "on_db (acquire_queue_lease (now_ms je w) tok owner (jo_lease_seconds (je_options je))) w = (x, w1)" by force
  note acq = on_dbE [OF a]
  from acquire_leases [OF f acq] show ?thesis
  proof (elim disjE exE conjE)
    assume x: "x = Inr None" and f1: "free tok (db w1)"
    have "jobs_wf (jobs (db w))" using wf by (simp add: store_wf_def)
    then have "\<exists>rs. acquire_loop (now_ms je w) (jobs (db w)) = (rs, None) \<and> db w1 = (db w)\<lparr>jobs := rs\<rparr>"
      by (cases rule: acquire_lease_cases [of "db w" "now_ms je w" tok owner "jo_lease_seconds (je_options je)"])
        (use acq x in \<open>auto simp: acquire_queue_lease_def\<close>)
    then obtain rs where loop: "acquire_loop (now_ms je w) (jobs (db w)) = (rs, None)" and rs: "jobs (db w1) = rs" by auto
    have set: "list_all2 (settled (now_ms je w)) (jobs (db w)) rs" using acquire_loop_settled [OF dist, of "now_ms je w"] loop by simp
    have "terminal (j_state y)" if "y \<in> set rs" for y
    proof -
      obtain z where z: "z \<in> set (jobs (db w))" "settled (now_ms je w) z y" using list_all2_right [OF set \<open>y \<in> set rs\<close>] by blast
      have "\<not> leasable (now_ms je w) y" using acquire_loop_None [OF dist loop] that by blast
      then show ?thesis
        using z rdy unfolding settled_def ready_def now_ms_def by (auto simp: cancel_row_def terminal_def)
    qed
    moreover have "list_all2 (advance []) (map core (jobs (db w))) (map core rs)"
      using set unfolding list.rel_map
    proof (rule list.rel_mono_strong)
      fix v y assume "v \<in> set (jobs (db w))" "y \<in> set rs" "settled (now_ms je w) v y"
      then show "advance [] (core v) (core y)"
        using wf jobs_wf_row [of "jobs (db w)" v] is_uuid_not_Nil
        by (auto simp: advance_def settled_def core_def cancel_row_def terminal_def store_wf_def row_wf_def)
    qed
    moreover have "map core (jobs (db (await je w1))) = map core rs" "store_wf (db (await je w1))"
      using q free_wf [OF f1] rs by (simp_all add: quiet_def await_def)
    moreover have "\<forall>r \<in> set (jobs s'). terminal (j_state r)" if "map core (jobs s') = map core rs" "\<forall>r \<in> set rs. terminal (j_state r)" for s'
      using that by (metis (no_types, lifting) core_cols(3) imageE image_eqI list.set_map)
    ultimately show ?thesis using a x by (auto simp: worker_step_def intro!: exI [of _ "[]"])
  next
    fix l r
    assume l: "x = Inr (Some l)" "ql_owner l = owner" "ql_token l = tok" and wf1: "store_wf (db w1)"
      and r: "attempt_row (jobs (db w1)) (j_attempt_id (ql_job l)) = Some r" "j_build_job_id r = j_build_job_id (ql_job l)"
        "j_lease_owner r = Some owner" "j_lease_token r = Some tok" "j_state r = LEASED"
    let ?a = "j_attempt_id (ql_job l)"
    have b: "tracks (begun ?a) (map core (jobs (db w))) (db w1)" using acquire_begun [OF wf] acq l(1) by simp
    obtain y w2 where t: "on_db (transition (now_ms je w1) ?a ''RUNNING'' None (Some ''LEASED'') (Some owner) (Some tok)) w1 = (y, w2)" by force
    note call = on_dbE [OF t]
    have wf2: "store_wf (db w2)" using transition_wf [OF call wf1] .
    have str: "state_str RUNNING = ''RUNNING''" "state_str LEASED = ''LEASED''" by (simp_all add: state_str_def)
    let ?run = "transition_row (now_ms je w1) RUNNING None"
    have own: "\<exists>job. y = Inr job" "jobs (db w2) = sql_update (\<lambda>x. x = r) ?run (jobs (db w1))"
      using transition_own [OF _ r(1,3,4), of RUNNING "now_ms je w1" None] call wf1 r(5) str
      by (auto simp: store_wf_def LEGAL_PREVIOUS_STATES_def)
    let ?V = "map core (jobs (db w2))"
    have bv: "list_all2 (begun ?a) (map core (jobs (db w))) ?V" using begun_running [OF b r(1) wf2 own(2)] .
    have r2: "attempt_row (jobs (db w2)) ?a = Some (?run r)"
      using attempt_row_update_one [of "jobs (db w1)" r ?run] own(2) attempt_row_Some [OF r(1)] wf1
      by (simp add: transition_row_def terminal_def store_wf_def jobs_wf_distinct)
    have "tracks (ended ?a) ?V (db (snd (run_lease je l w2))) \<and> fst (run_lease je l w2) = Inr ()"
      using run_lease_ends [OF q _ r2, of ?V] wf2 r l by (simp add: tracks_def list.rel_eq transition_row_def terminal_def)
    then have adv: "list_all2 (advance ?a) (map core (jobs (db w))) (map core (jobs (db (snd (run_lease je l w2)))))"
      and wf3: "store_wf (db (snd (run_lease je l w2)))" and ok: "fst (run_lease je l w2) = Inr ()"
      using list_all2_trans [OF begun_ended bv] by (auto simp: tracks_def)
    have "core (?run r) \<in> set ?V" using attempt_row_Some [OF r2] by simp
    then have known: "?a \<in> j_attempt_id ` set (jobs (db w))"
      using list_all2_right [OF bv] attempt_row_Some [OF r(1)] by (fastforce simp: begun_def transition_row_def)
    have "worker_step je False owner tok w = (Inr Worked, snd (run_lease je l w2))"
      using a t l own(1) ok by (cases "run_lease je l w2") (auto simp: worker_step_def act_bind_def lift_def)
    then show ?thesis using adv wf3 known by blast
  qed
qed

section \<open>The queue drains\<close>

text \<open>How many runs an attempt can still cost.\<close>

definition runs_left :: "job_row \<Rightarrow> nat" where
  "runs_left r = (if terminal (j_state r) then 0 else nat (max 1 (MAX_LOCAL_CRASHES - j_attempts r)))"

lemma runs_left_core [simp]: "runs_left (core r) = runs_left r"
  by (simp add: runs_left_def)

lemma runs_left_zero: "runs_left r = 0 \<longleftrightarrow> terminal (j_state r)"
  by (simp add: runs_left_def)

lemma runs_left_bound: "row_wf r \<Longrightarrow> runs_left r \<le> 3"
  by (auto simp: runs_left_def row_wf_def MAX_LOCAL_CRASHES_def)

lemma advance_runs_left:
  "advance a v r \<Longrightarrow> runs_left r \<le> runs_left v \<and> (j_attempt_id v = a \<longrightarrow> runs_left r < runs_left v)"
  by (auto simp: advance_def runs_left_def split: if_splits)

lemma sum_runs_left:
  assumes "list_all2 (advance a) us vs"
  shows "sum_list (map runs_left vs) \<le> sum_list (map runs_left us)"
    and "a \<in> j_attempt_id ` set us \<Longrightarrow> sum_list (map runs_left vs) < sum_list (map runs_left us)"
  using assms
proof (induction rule: list_all2_induct)
  case (Cons u us v vs)
  {
    case 1
    then show ?case using Cons advance_runs_left [OF Cons.hyps(1)] by simp
  next
    case 2
    then show ?case using Cons advance_runs_left [OF Cons.hyps(1)] by (auto intro: add_less_le_mono add_le_less_mono)
  }
qed simp_all

lemma advance_keeps:
  assumes adv: "list_all2 (advance a) (map core (jobs s)) (map core (jobs s'))" and wf: "store_wf s'"
  shows "ready je s \<Longrightarrow> ready je s'" and "free t s \<Longrightarrow> free t s'"
    and "map j_attempt_id (jobs s') = map j_attempt_id (jobs s)"
proof -
  have orig: "\<exists>v \<in> set (jobs s). advance a (core v) (core r)" if "r \<in> set (jobs s')" for r
    using list_all2_right [OF adv, of "core r"] that by auto
  have leas: "leasable n (core v) = leasable n v" "j_lease_token (core v) = j_lease_token v" for n v by simp_all
  have row: "terminal (j_state r) \<Longrightarrow> j_lease_token r = None" if "r \<in> set (jobs s')" for r
    using wf that by (auto simp: store_wf_def jobs_wf_def row_wf_def)
  have cases: "terminal (j_state r) \<or> j_state r = QUEUED \<and> j_lease_token r = None \<or>
      (\<exists>v \<in> set (jobs s). core r = core v)" if "r \<in> set (jobs s')" for r
    using orig [OF that] by (auto simp: advance_def split: if_splits)
  show "ready je s'" if "ready je s"
  proof -
    have "terminal (j_state r) \<or> (\<forall>n. leasable (clk_now (je_clock je n) div 1000) r)" if r: "r \<in> set (jobs s')" for r
      using cases [OF r]
    proof (elim disjE bexE)
      fix v assume v: "v \<in> set (jobs s)" "core r = core v"
      then show ?thesis
        using \<open>ready je s\<close> core_cols(3) core_cols(7) unfolding ready_def by metis
    qed (simp_all add: leasable_def)
    then show ?thesis using wf by (simp add: ready_def)
  qed
  show "free t s'" if "free t s"
  proof -
    have "j_lease_token r \<noteq> Some t" if r: "r \<in> set (jobs s')" for r
      using cases [OF r] row [OF r] \<open>free t s\<close> leas(2) unfolding free_def by (metis option.distinct(1))
    then show ?thesis using wf by (simp add: free_def)
  qed
  have "list_all2 (\<lambda>v r. j_attempt_id r = j_attempt_id v) (jobs s) (jobs s')"
    using adv by (auto simp: list.rel_map advance_def elim!: list_all2_mono)
  then show "map j_attempt_id (jobs s') = map j_attempt_id (jobs s)" by (induction rule: list_all2_induct) auto
qed

lemma worker_run_drains:
  assumes "quiet je" and "ready je (db w)" and "\<forall>t \<in> set toks. free t (db w)"
    and "sum_list (map runs_left (jobs (db w))) \<le> length toks"
  shows "\<exists>w'. worker_run je owner toks w = (Inr (), w') \<and> map j_attempt_id (jobs (db w')) = map j_attempt_id (jobs (db w)) \<and>
    (\<forall>r \<in> set (jobs (db w')). terminal (j_state r))"
  using assms(2-4)
proof (induction toks arbitrary: w)
  case Nil
  then show ?case by (auto simp: sum_list_eq_0_iff runs_left_zero)
next
  case (Cons tok toks)
  obtain t w1 a where step: "worker_step je False owner tok w = (Inr t, w1)" "t \<noteq> Stopped" and wf: "store_wf (db w1)"
    and adv: "list_all2 (advance a) (map core (jobs (db w))) (map core (jobs (db w1)))"
    and dec: "a \<in> j_attempt_id ` set (jobs (db w)) \<or> (\<forall>r \<in> set (jobs (db w1)). terminal (j_state r))"
    using worker_step_progress [OF assms(1) Cons.prems(1), of tok owner] Cons.prems(2) by auto
  note keep = advance_keeps [OF adv wf]
  have "sum_list (map runs_left (jobs (db w1))) \<le> length toks"
    using dec
  proof
    assume "\<forall>r \<in> set (jobs (db w1)). terminal (j_state r)"
    then have none: "sum_list (map runs_left (jobs (db w1))) = 0" by (simp add: sum_list_eq_0_iff runs_left_zero)
    show ?thesis unfolding none by simp
  qed (use sum_runs_left(2) [OF adv] Cons.prems(3) in \<open>simp add: comp_def image_image\<close>)
  then obtain w' where "worker_run je owner toks w1 = (Inr (), w')"
    "map j_attempt_id (jobs (db w')) = map j_attempt_id (jobs (db w1))" "\<forall>r \<in> set (jobs (db w')). terminal (j_state r)"
    using Cons.IH [of w1] keep(1) [OF Cons.prems(1)] keep(2) Cons.prems(2) by auto
  then show ?case using step keep(3) by (cases t) auto
qed


lemma ex_env_quiet: "quiet ex_env"
  by (simp add: quiet_def)


end
