(* ===== verification/Job_Outcomes.thy ===== *)
theory Job_Outcomes
  imports Queue_Drain
begin

text \<open>
  What the end of an attempt means: no success without a delivered artifact, and which
  failures are taken for a crash of the executor.
\<close>

definition ex_lease :: queue_lease where
  "ex_lease = \<lparr>ql_owner = ''worker-0'',
     ql_job = (job_record.truncate running_row)\<lparr>j_payload := [(''source_download_url'', JStr ''https://h/x''), (''source_sha256'', JStr ex_sha)]\<rparr>,
     ql_timeout = 30, ql_token = ''tok-1''\<rparr>"

section \<open>Success\<close>

lemma tracks_self: "store_wf s \<Longrightarrow> tracks (=) (map core (jobs s)) s"
  by (simp add: tracks_def list.rel_eq)

lemma act_bind_Inr: "fst (act_bind m f w) = Inr y \<Longrightarrow> \<exists>x. fst (m w) = Inr x \<and> fst (f x (snd (m w))) = Inr y"
  by (auto simp: act_bind_def split: prod.splits sum.splits)

lemma upload_build_Inr:
  assumes "fst (upload_build je job a w) = Inr u"
  shows "\<exists>ticket. request_upload_url (je_refused je) False (je_post je) (j_build_job_id job) (j_attempt_id job) a = Inr ticket \<and>
    upload (je_put je) ticket a = Inr ()"
  using assms unfolding upload_build_def
  by (auto dest!: act_bind_Inr simp: suspend_def)

lemma package_build_Inr:
  assumes "fst (package_build je job ws w) = Inr a"
  shows "package_output (je_output_links je) (je_output_is_dir je) (je_listing je) (je_archive je) (je_sha256 je)
    (path_parts (wp_attempt_dir ws)) (Some ''out'') (cf_artifact_max_bytes (je_config je)) = Inr a"
  using assms unfolding package_build_def
  by (auto dest!: act_bind_Inr simp: suspend_def lift_def)


section \<open>Failures taken for a crash\<close>

definition escapes :: "exn \<Rightarrow> bool" where
  "escapes e \<longleftrightarrow> fst (convert_error e) = e \<and> (case e of BuildExecutionError _ _ _ \<Rightarrow> False | _ \<Rightarrow> True)"

lemma escapes_simps [simp]:
  "escapes (QueueError m)" "escapes (ProtocolError m)" "escapes (IntegrityError m)"
  "escapes (PackageManagerDetectionError m)" "escapes (PackageJsonError m)"
  by (simp_all add: escapes_def convert_error_def)

lemma new_envelope_escapes:
  assumes "new_envelope clk i ty p g bo ao so to = Inl e"
  shows "escapes e"
proof -
  obtain raw where "validate_envelope clk None raw = Inl e"
    using assms by (auto simp: new_envelope_def Let_def rbind_Inl_iff)
  then show ?thesis
    using protocol_error_validate [of clk None raw] by (auto simp: protocol_error_def split: exn.splits)
qed

lemma append_event_escapes:
  assumes "append_event cfg now env s = (Inl e, s')"
  shows "escapes e"
  using assms
  by (auto simp: append_event_def insert_event_def to_json_def Let_def split: option.splits sum.splits if_splits)

lemma publish_event_escapes:
  assumes "publish_event je job ty p w = (Inl e, w')"
  shows "escapes e"
proof -
  obtain u c' where "publish u ty p (j_build_job_id job) (j_attempt_id job) (w_conn w) = (Inl e, c')"
    using assms by (auto simp: publish_event_def split: prod.splits sum.splits)
  then show ?thesis
    using new_envelope_escapes append_event_escapes
    unfolding publish_def publish_attempt_event_def engine_next_seq_def engine_append_def
    by (auto simp: Let_def on_store_def next_seq_def split: sum.splits prod.splits option.splits)
qed

lemma run_build_stops:
  assumes "source_plan je ws (j_payload job) = Inl x" and "escapes x"
  shows "\<exists>e. fst (run_build je job ws w) = Inl e \<and> escapes e"
proof -
  obtain res w1 where st: "status je job ''PREPARING'' [] w = (res, w1)" by force
  then have "escapes e" if "res = Inl e" for e
    using that publish_event_escapes unfolding status_def by blast
  then show ?thesis
    using st assms by (cases res) (auto simp: run_build_def act_bind_def [of "status je job ''PREPARING'' []"] act_bind_def lift_def)
qed

lemma execute_job_escapes:
  assumes ws: "fst (create_workspace (cf_state_dir (je_config je)) (j_attempt_id job) (w_workspaces w)) = Inr ws"
    and "source_plan je ws (j_payload job) = Inl x" "escapes x"
    and q: "quiet je" and wf: "store_wf (db w)"
  shows "\<exists>e w1. execute_job je job owner tok w = (Inl e, w1) \<and> escapes e \<and> tracks (=) (map core (jobs (db w))) (db w1)"
proof -
  obtain x where x: "create_workspace (cf_state_dir (je_config je)) (j_attempt_id job) (w_workspaces w) = (Inr ws, x)"
    using ws by (metis prod.collapse)
  let ?w = "w\<lparr>w_workspaces := x\<rparr>"
  obtain e w1 where run: "run_build je job ws ?w = (Inl e, w1)" "escapes e"
    using run_build_stops [OF assms(2,3), of ?w] by (metis prod.collapse)
  have "keeps (tracks (=) (map core (jobs (db w)))) (run_build je job ws)"
    by (rule tracks.keeps_parts) (rule quiet_rely [OF q])
  then have "tracks (=) (map core (jobs (db w))) (db w1)"
    using run(1) wf tracks_self unfolding keeps_def by (metis db_simps(2) snd_conv)
  moreover have "execute_job je job owner tok w = (Inl e, cleanup je job (snd (convert_error e)) (count_docker_error e w1))"
    using x run by (simp add: execute_job_def build_and_deliver_def act_bind_def escapes_def)
  ultimately show ?thesis using run(2) by simp
qed

text \<open>
  C40. A project that npm and pnpm cannot install is not reported as a configuration error of
  its owner: the exception of the package-manager detection (and the same holds for an
  invalid \<open>package.json\<close>) is none of those \<open>execute_job\<close> turns into a build error, so the
  worker takes it for a crash and queues the attempt again until its third run.
\<close>

theorem unsupported_project_retried:
  assumes q: "quiet je" and wf: "store_wf (db w)"
    and ws: "fst (create_workspace (cf_state_dir (je_config je)) (j_attempt_id (ql_job l)) (w_workspaces w)) = Inr ws"
    and plan: "source_plan je ws (j_payload (ql_job l)) = Inl x" "x \<in> {PackageManagerDetectionError m, PackageJsonError m}"
    and r: "attempt_row (jobs (db w)) (j_attempt_id (ql_job l)) = Some r"
    and own: "j_build_job_id r = j_build_job_id (ql_job l)" "j_lease_owner r = Some (ql_owner l)"
      "j_lease_token r = Some (ql_token l)" "j_state r = RUNNING"
  shows "\<exists>r'. attempt_row (jobs (db (snd (run_lease je l w)))) (j_attempt_id (ql_job l)) = Some r' \<and>
    j_state r' = (if MAX_LOCAL_CRASHES \<le> j_attempts r then FAILED else QUEUED)"
proof -
  let ?a = "j_attempt_id (ql_job l)" and ?st = "if MAX_LOCAL_CRASHES \<le> j_attempts r then FAILED else QUEUED"
  have "escapes x" using plan(2) by auto
  then obtain e w1 where ex: "execute_job je (ql_job l) (Some (ql_owner l)) (Some (ql_token l)) (on_metrics job_started w) = (Inl e, w1)"
    and esc: "escapes e" and P1: "tracks (=) (map core (jobs (db w))) (db w1)"
    using execute_job_escapes [of je "ql_job l" "on_metrics job_started w" ws x "Some (ql_owner l)" "Some (ql_token l)"] ws plan(1) q wf
    by (auto simp: on_metrics_def)
  obtain r1 where r1: "attempt_row (jobs (db w1)) ?a = Some r1" "core r = core r1"
    using tracks_row [OF tracks_self [OF wf] r P1, of "(=) (core r)"] attempt_row_Some [OF r] by (metis core_cols(1))
  have own1: "j_build_job_id r1 = j_build_job_id (ql_job l)" "j_lease_owner r1 = Some (ql_owner l)"
      "j_lease_token r1 = Some (ql_token l)" "j_state r1 = RUNNING" and "j_attempts r1 = j_attempts r"
    using own arg_cong [OF r1(2), of j_build_job_id] arg_cong [OF r1(2), of j_lease_owner] arg_cong [OF r1(2), of j_attempts]
      arg_cong [OF r1(2), of j_lease_token] arg_cong [OF r1(2), of j_state] by simp_all
  obtain y w2 where crash: "worker_crashed je l e w1 = (y, w2)" by force
  let ?V = "map core (sql_update (\<lambda>x. x = r1) (crash_row (now_ms je w1) ?st (exn_str e)) (jobs (db w1)))"
  have "store_wf (db w1)" using P1 by (simp add: tracks_def)
  with worker_crashed_table [OF q _ r1(1) own1 crash] \<open>j_attempts r1 = j_attempts r\<close>
  have V: "tracks (=) ?V (db w2)" by simp
  have run: "snd (run_lease je l w) = on_metrics (job_finished (case y of Inr completed \<Rightarrow> completed | Inl _ \<Rightarrow> False)) (await je w2)"
    using ex crash esc by (simp add: run_lease_def Let_def escapes_def split: exn.splits)
  have "tracks (=) ?V (db (snd (run_lease je l w)))"
    unfolding run using rely_await [OF quiet_rely [OF q] V] by simp
  then have wf': "store_wf (db (snd (run_lease je l w)))" and eq: "map core (jobs (db (snd (run_lease je l w)))) = ?V"
    by (simp_all add: tracks_def list.rel_eq)
  have "core (crash_row (now_ms je w1) ?st (exn_str e) r1) \<in> set ?V"
    using attempt_row_Some [OF r1(1)] by (auto simp: set_sql_update)
  then obtain r' where r': "r' \<in> set (jobs (db (snd (run_lease je l w))))" "core r' = core (crash_row (now_ms je w1) ?st (exn_str e) r1)"
    using eq by (metis (no_types, lifting) imageE list.set_map)
  have "j_attempt_id r' = ?a" "j_state r' = ?st"
    using arg_cong [OF r'(2), of j_attempt_id] arg_cong [OF r'(2), of j_state] attempt_row_Some [OF r1(1)]
    by (simp_all add: crash_row_def)
  then show ?thesis
    using attempt_row_in [OF jobs_wf_distinct r'(1)] wf' by (auto simp: store_wf_def)
qed

section \<open>Witnesses\<close>


lemma ex_workspace:
  "create_workspace (cf_state_dir (je_config ex_env)) ex_attempt [] =
    (Inr \<lparr>wp_attempt_dir = ''/s/workspaces/'' @ ex_attempt, wp_source_archive = ''/s/workspaces/'' @ ex_attempt @ ''/tmp/source.tar.gz'',
      wp_source_root = ''/s/workspaces/'' @ ex_attempt @ ''/src'', wp_artifact_dir = ''/s/workspaces/'' @ ex_attempt @ ''/tmp'',
      wp_output_root = ''/s/workspaces/'' @ ex_attempt @ ''/out'', wp_cache_root = ''/s/workspaces/'' @ ex_attempt @ ''/cache'',
      wp_tmp_root = ''/s/workspaces/'' @ ex_attempt @ ''/tmp''\<rparr>, [(ex_attempt, None)])"
  by (simp add: create_workspace_def validate_path_component_def ex_env_def ex_config_def default_config_def Let_def)

lemma ex_source_root: "path_parts (''/s/workspaces/'' @ ex_attempt @ ''/src'') = [''s'', ''workspaces'', ex_attempt, ''src'']"
  by (simp add: path_parts_def ex_attempt_def)

lemma ex_resolve: "resolve [] [''s'', ''workspaces'', ex_attempt, ''src''] [] = [''s'', ''workspaces'', ex_attempt, ''src'']"
  by (simp add: resolve_def ex_attempt_def)

lemma ex_download: "download_source (\<lambda>_. False) (\<lambda>_. ex_sha) (\<lambda>_. Src_Body None [] None) [] False ''https://h/x'' ex_sha None (Some n) = Inr []"
proof -
  have url: "urlparse (\<lambda>_. False) ''https://h/x'' = Inr \<lparr>u_scheme = ''https'', u_netloc = ''h'', u_path = ''/x''\<rparr>"
    by code_simp
  have "hex_digest_text ex_sha" by (simp add: hex_digest_text_def ex_sha_def is_num_def list_all_iff)
  then show ?thesis by (simp add: download_source_def open_source_def url content_length_def check_size_def)
qed

lemma ex_plan:
  "plan_build specset dir (\<lambda>p. if p = [''yarn.lock''] then Some (Reg []) else None) None None None None None =
    Inl (PackageManagerDetectionError ''Unsupported package manager lockfile 'yarn.lock'; use npm or pnpm'')"
  by (simp add: plan_build_def load_package_json_def detect_package_manager_def LOCKFILE_PRIORITY_def UNSUPPORTED_LOCKFILES_def
      exists_at_def py_repr_def)

lemma ex_lease_cols [simp]:
  "j_attempt_id (ql_job ex_lease) = ex_attempt" "j_build_job_id (ql_job ex_lease) = ex_build"
  "ql_owner ex_lease = ''worker-0''" "ql_token ex_lease = ''tok-1''"
  "j_payload (ql_job ex_lease) = [(''source_download_url'', JStr ''https://h/x''), (''source_sha256'', JStr ex_sha)]"
  by (simp_all add: ex_lease_def job_record.truncate_def running_row_def queued_row_def)

lemma ex_source_plan:
  assumes "path_parts (wp_source_root ws) = [''s'', ''workspaces'', ex_attempt, ''src'']"
  shows "source_plan ex_env ws (j_payload (ql_job ex_lease)) =
    Inl (PackageManagerDetectionError ''Unsupported package manager lockfile 'yarn.lock'; use npm or pnpm'')"
proof -
  have sha: "ex_sha = CHR ''0'' # replicate 63 (CHR ''0'')" by (simp add: ex_sha_def numeral_eq_Suc)
  have "resolve_project_root [] (\<lambda>_. True) [''s'', ''workspaces'', ex_attempt, ''src''] None = Inr [''s'', ''workspaces'', ex_attempt, ''src'']"
    by (simp add: resolve_project_root_def str_or_def Let_def ex_resolve path_parts_def path_absolute_def)
  moreover have "job_required_str (j_payload (ql_job ex_lease)) ''source_sha256'' = Inr ex_sha"
    by (simp add: job_required_str_def job_optional_str_def jget_opt_def jget_def sha)
  ultimately show ?thesis
    by (simp add: source_plan_def assms ex_plan ex_download extract_source_def
        job_required_str_def job_optional_str_def job_optional_int_def jget_opt_def jget_def)
       (simp add: ex_env_def ex_config_def default_config_def ex_download ex_plan)
qed

theorem unsupported_project_retried_witness:
  "\<exists>r'. attempt_row (jobs (db (snd (run_lease ex_env ex_lease (ex_world [running_row]))))) ex_attempt = Some r' \<and>
    j_state r' = QUEUED"
proof -
  obtain ws where ws: "fst (create_workspace (cf_state_dir (je_config ex_env)) ex_attempt []) = Inr ws"
    and root: "wp_source_root ws = ''/s/workspaces/'' @ ex_attempt @ ''/src''" by (simp add: ex_workspace)
  have parts: "path_parts (wp_source_root ws) = [''s'', ''workspaces'', ex_attempt, ''src'']"
    unfolding root by (rule ex_source_root)
  have "w_workspaces (ex_world [running_row]) = []" by (simp add: ex_world_def)
  then show ?thesis
    using unsupported_project_retried [OF ex_env_quiet, of "ex_world [running_row]" ex_lease ws] ex_source_plan [OF parts] ws
      ex_store_wfs(2) by (simp add: attempt_row_def MAX_LOCAL_CRASHES_def)
qed

end
