(* ===== verification/Credentials.thy ===== *)
theory Credentials
  imports Auth Protocol Json_Round
begin

text \<open>
  Persisted credentials (\<open>config.py\<close>: \<open>load_credentials\<close>, \<open>write_credentials\<close>,
  \<open>_chown_service_file\<close>) and the operations of \<open>agent/auth.py\<close> on them: registration, session
  refresh and the validation of the file.

  The \<open>tomllib\<close> module is a pair of functions: the parsed document, and \<open>str()\<close> of the values
  that are neither strings, integers nor booleans. What the proofs use of it is that it reads
  the fragment \<open>toml_flat\<close> below: lines that give a bare key a basic string.
\<close>

section \<open>TOML\<close>

datatype toml_value =
    T_Str string
  | T_Int int
  | T_Float pyfloat
  | T_Bool bool
  | T_Arr "toml_value list"
  | T_Table "(string \<times> toml_value) list"
  | T_Date string

type_synonym toml_doc = "(string \<times> toml_value) list"

record toml_lib =
  toml_loads :: "string \<Rightarrow> toml_doc result"
  toml_show :: "toml_value \<Rightarrow> string"

definition toml_str_of :: "toml_lib \<Rightarrow> toml_value \<Rightarrow> string" where
  "toml_str_of lib v = (case v of
      T_Str s \<Rightarrow> s
    | T_Int i \<Rightarrow> int_str i
    | T_Bool b \<Rightarrow> (if b then ''True'' else ''False'')
    | _ \<Rightarrow> toml_show lib v)"

text \<open>\<open>bool(v)\<close>.\<close>

definition toml_true :: "toml_value \<Rightarrow> bool" where
  "toml_true v = (case v of
      T_Str s \<Rightarrow> s \<noteq> []
    | T_Int i \<Rightarrow> i \<noteq> 0
    | T_Float x \<Rightarrow> (case x of FNum _ m _ \<Rightarrow> m \<noteq> 0 | _ \<Rightarrow> True)
    | T_Bool b \<Rightarrow> b
    | T_Arr vs \<Rightarrow> vs \<noteq> []
    | T_Table kvs \<Rightarrow> kvs \<noteq> []
    | T_Date _ \<Rightarrow> True)"

subsection \<open>Flat documents\<close>

text \<open>The characters of a basic string after its opening quote: \<open>\u\<close> and \<open>\U\<close> escapes must
  name a Unicode scalar value, so the surrogate pairs of JSON are refused.\<close>

definition toml_hex :: "nat \<Rightarrow> string \<Rightarrow> nat option" where
  "toml_hex n r =
     (if length (take n r) = n
      then (case those (map hex_val (take n r)) of
          None \<Rightarrow> None
        | Some ds \<Rightarrow> (let u = foldl (\<lambda>a d. a * 16 + d) 0 ds in if is_scalar u then Some u else None))
      else None)"

definition toml_escape :: "char \<Rightarrow> char option" where
  "toml_escape e =
     (if e = CHR ''b'' then Some (CHR 0x08) else if e = CHR ''t'' then Some (CHR 0x09)
      else if e = CHR ''n'' then Some (CHR 0x0A) else if e = CHR ''f'' then Some (CHR 0x0C)
      else if e = CHR ''r'' then Some (CHR 0x0D) else if e = CHR 0x22 then Some (CHR 0x22)
      else if e = CHR 0x5C then Some (CHR 0x5C) else None)"

fun toml_basic :: "string \<Rightarrow> (string \<times> string) option" where
  "toml_basic [] = None"
| "toml_basic (c # cs) =
     (if c = CHR 0x22 then Some ([], cs)
      else if c = CHR 0x5C then
        (case cs of
           [] \<Rightarrow> None
         | e # r \<Rightarrow>
             if e = CHR ''u'' \<or> e = CHR ''U'' then
               (let n = (if e = CHR ''u'' then 4 else 8) in
                case toml_hex n r of
                  None \<Rightarrow> None
                | Some u \<Rightarrow> map_option (\<lambda>(t, r'). (utf8_encode1 u @ t, r')) (toml_basic (drop n r)))
             else
               (case toml_escape e of
                  None \<Rightarrow> None
                | Some x \<Rightarrow> map_option (\<lambda>(t, r'). (x # t, r')) (toml_basic r)))
      else if ((of_char c :: nat) < 32 \<and> c \<noteq> CHR 0x09) \<or> (of_char c :: nat) = 127 then None
      else map_option (\<lambda>(t, r'). (c # t, r')) (toml_basic cs))"

definition bare_key_char :: "char \<Rightarrow> bool" where
  "bare_key_char c \<longleftrightarrow> is_alpha c \<or> is_num c \<or> c = CHR ''_'' \<or> c = CHR ''-''"

definition toml_blank :: "char \<Rightarrow> bool" where
  "toml_blank c \<longleftrightarrow> c = CHR '' '' \<or> c = CHR 0x09"

definition toml_line :: "string \<Rightarrow> (string \<times> string) option" where
  "toml_line l =
     (let k = takeWhile bare_key_char l in
      case dropWhile toml_blank (dropWhile bare_key_char l) of
        e # r \<Rightarrow>
          if k = [] \<or> e \<noteq> CHR ''='' then None
          else (case dropWhile toml_blank r of
              q # b \<Rightarrow>
                if q \<noteq> CHR 0x22 then None
                else (case toml_basic b of
                    Some (v, t) \<Rightarrow> if dropWhile toml_blank t = [] then Some (k, v) else None
                  | None \<Rightarrow> None)
            | [] \<Rightarrow> None)
      | [] \<Rightarrow> None)"

fun toml_lines :: "string list \<Rightarrow> (string \<times> string) list option" where
  "toml_lines [] = Some []"
| "toml_lines (l # ls) =
     (case toml_lines ls of
        None \<Rightarrow> None
      | Some doc \<Rightarrow>
          if l = [] then Some doc
          else (case toml_line l of
              Some (k, v) \<Rightarrow> if k \<in> fst ` set doc then None else Some ((k, v) # doc)
            | None \<Rightarrow> None))"

definition toml_flat :: "string \<Rightarrow> (string \<times> string) list option" where
  "toml_flat text = (if valid_utf8 text then toml_lines (split_at (CHR 0x0A) text) else None)"

text \<open>A reader agrees with the language on flat documents.\<close>

definition reads_flat :: "toml_lib \<Rightarrow> bool" where
  "reads_flat lib \<longleftrightarrow> (\<forall>text doc. toml_flat text = Some doc \<longrightarrow>
     toml_loads lib text = Inr (map (\<lambda>(k, v). (k, T_Str v)) doc))"

section \<open>The credentials file\<close>

text \<open>The files of the host with what the program reads of their status, and the identity of the
  process: its effective user and group, and the entries of the user and group databases. The
  process may read the files it opens.\<close>

record stored_file =
  fl_text :: string
  fl_mode :: nat
  fl_uid :: int
  fl_gid :: int

type_synonym files = "string \<Rightarrow> stored_file option"

record host =
  h_euid :: int
  h_egid :: int
  h_users :: "string \<Rightarrow> int option"
  h_groups :: "string \<Rightarrow> int option"

definition SERVICE_USER :: string where "SERVICE_USER = ''build-engine''"
definition SERVICE_GROUP :: string where "SERVICE_GROUP = ''build-engine''"

subsection \<open>Reading\<close>

definition required_keys :: "string list" where
  "required_keys = [''engine_id'', ''engine_secret'', ''session_jwt'', ''session_jwt_expires_at'']"

definition load_toml :: "toml_lib \<Rightarrow> files \<Rightarrow> string \<Rightarrow> toml_doc result" where
  "load_toml lib fs path = (case fs path of
      None \<Rightarrow> Inl (OSError (''FileNotFoundError: '' @ path))
    | Some f \<Rightarrow> toml_loads lib (fl_text f))"

definition doc_text :: "toml_lib \<Rightarrow> toml_doc \<Rightarrow> string \<Rightarrow> string option" where
  "doc_text lib raw key = (case map_of raw key of
      None \<Rightarrow> None
    | Some v \<Rightarrow> if toml_true v then Some (toml_str_of lib v) else None)"

definition credentials_of :: "toml_lib \<Rightarrow> toml_doc \<Rightarrow> engine_credentials result" where
  "credentials_of lib raw =
     (let missing = filter (\<lambda>key. doc_text lib raw key = None) required_keys;
          field = (\<lambda>key. the (doc_text lib raw key)) in
      rbind (ensure (missing = []) (ValueError (''Credentials file is missing required keys: '' @ join '', '' missing))) (\<lambda>_.
      rbind (ensure (uuid_parse (field ''engine_id'') \<noteq> None) (ValueError ''Credentials engine_id must be a UUID'')) (\<lambda>_.
        Inr \<lparr>cr_engine_id = field ''engine_id'', cr_engine_secret = field ''engine_secret'',
             cr_session_jwt = field ''session_jwt'', cr_session_jwt_expires_at = field ''session_jwt_expires_at'',
             cr_backend_url = doc_text lib raw ''backend_url'', cr_name = doc_text lib raw ''name''\<rparr>)))"

definition load_credentials :: "toml_lib \<Rightarrow> files \<Rightarrow> string \<Rightarrow> engine_credentials result" where
  "load_credentials lib fs path = rbind (load_toml lib fs path) (credentials_of lib)"

subsection \<open>Writing\<close>

definition toml_string :: "string \<Rightarrow> string" where
  "toml_string value = dump_str value"

definition credentials_lines :: "engine_credentials \<Rightarrow> (string \<times> string) list" where
  "credentials_lines c =
     [(''engine_id'', cr_engine_id c), (''engine_secret'', cr_engine_secret c),
      (''session_jwt'', cr_session_jwt c), (''session_jwt_expires_at'', cr_session_jwt_expires_at c),
      (''backend_url'', case cr_backend_url c of Some u \<Rightarrow> u | None \<Rightarrow> []),
      (''name'', case cr_name c of Some n \<Rightarrow> n | None \<Rightarrow> [])]"

definition credentials_text :: "engine_credentials \<Rightarrow> string" where
  "credentials_text c =
     join [CHR 0x0A] (map (\<lambda>(k, v). k @ '' = '' @ toml_string v) (credentials_lines c) @ [[]])"

text \<open>The file \<open>mkstemp\<close> creates beside the destination; \<open>rnd\<close> is the random part of its name.
  The mode \<open>0x180\<close> is \<open>0o600\<close>.\<close>

definition temp_name :: "string \<Rightarrow> string \<Rightarrow> string" where
  "temp_name path rnd =
     (let name = rev (takeWhile (\<lambda>c. c \<noteq> CHR ''/'') (rev path)) in
      take (length path - length name) path @ ''.'' @ name @ ''.'' @ rnd @ ''.tmp'')"

datatype file_call =
    Make_Parent
  | Make_Temp string
  | Set_Mode string nat
  | Put_Text string string
  | Set_Owner string
  | Replace string string

definition service_ids :: "host \<Rightarrow> (int \<times> int) option" where
  "service_ids h = (case (h_users h ''build-engine'', h_groups h ''build-engine'') of
      (Some u, Some g) \<Rightarrow> Some (u, g) | _ \<Rightarrow> None)"

definition at_file :: "string \<Rightarrow> (stored_file \<Rightarrow> stored_file) \<Rightarrow> files \<Rightarrow> files" where
  "at_file path f fs = fs(path := map_option f (fs path))"

fun apply_call :: "host \<Rightarrow> file_call \<Rightarrow> files \<Rightarrow> files" where
  "apply_call h Make_Parent fs = fs"
| "apply_call h (Make_Temp p) fs =
     fs(p \<mapsto> \<lparr>fl_text = [], fl_mode = 0x180, fl_uid = h_euid h, fl_gid = h_egid h\<rparr>)"
| "apply_call h (Set_Mode p m) fs = at_file p (fl_mode_update (\<lambda>_. m)) fs"
| "apply_call h (Put_Text p t) fs = at_file p (fl_text_update (\<lambda>_. t)) fs"
| "apply_call h (Set_Owner p) fs = (case service_ids h of
      None \<Rightarrow> fs
    | Some (u, g) \<Rightarrow> at_file p (\<lambda>f. f\<lparr>fl_uid := u, fl_gid := g\<rparr>) fs)"
| "apply_call h (Replace p q) fs = fs(q := fs p, p := None)"

text \<open>A call may fail; \<open>_chown_service_file\<close> makes no call when the account does not exist, and
  ignores a refusal unless the process is privileged.\<close>

datatype os_fault = Permission_Denied | Os_Fault string

fun fault_exn :: "os_fault \<Rightarrow> exn" where
  "fault_exn Permission_Denied = OSError ''PermissionError''"
| "fault_exn (Os_Fault m) = OSError m"

definition ignored :: "host \<Rightarrow> file_call \<Rightarrow> os_fault \<Rightarrow> bool" where
  "ignored h c f = (case c of
      Set_Owner _ \<Rightarrow> service_ids h = None \<or> (f = Permission_Denied \<and> h_euid h \<noteq> 0)
    | _ \<Rightarrow> False)"

text \<open>The calls in order; \<open>faults\<close> are the failures of the calls to come.\<close>

fun run_calls :: "host \<Rightarrow> os_fault option list \<Rightarrow> file_call list \<Rightarrow> files \<Rightarrow> unit result \<times> files" where
  "run_calls h faults [] fs = (Inr (), fs)"
| "run_calls h faults (c # cs) fs =
     (case faults of
        Some f # rest \<Rightarrow>
          if ignored h c f then run_calls h rest cs fs else (Inl (fault_exn f), fs)
      | _ \<Rightarrow> run_calls h (drop 1 faults) cs (apply_call h c fs))"

definition create_calls :: "string \<Rightarrow> file_call list" where
  "create_calls temp = [Make_Parent, Make_Temp temp]"

definition install_calls :: "string \<Rightarrow> string \<Rightarrow> string \<Rightarrow> file_call list" where
  "install_calls temp path content =
     [Set_Mode temp 0x180, Put_Text temp content, Set_Owner temp, Replace temp path,
      Set_Mode path 0x180, Set_Owner path]"

definition write_credentials ::
  "host \<Rightarrow> os_fault option list \<Rightarrow> string \<Rightarrow> string \<Rightarrow> engine_credentials \<Rightarrow> files \<Rightarrow> unit result \<times> files" where
  "write_credentials h faults rnd path credentials fs =
     (let temp = temp_name path rnd;
          (r, fs') = run_calls h (take 2 faults) (create_calls temp) fs in
      case r of
        Inl e \<Rightarrow> (Inl e, fs')
      | Inr _ \<Rightarrow>
          (let (r', fs'') = run_calls h (drop 2 faults) (install_calls temp path (credentials_text credentials)) fs' in
           (r', fs''(temp := None))))"

section \<open>The authentication client\<close>

text \<open>A client: its backend, what the backend answers to a request body posted to a URL, and
  \<open>str()\<close> of the JSON values that are neither strings, integers nor booleans.\<close>

record auth_client =
  ac_backend_url :: string
  ac_post :: "string \<Rightarrow> string \<Rightarrow> http_answer"
  ac_show :: "json \<Rightarrow> string"

definition new_client :: "(string \<Rightarrow> string \<Rightarrow> http_answer) \<Rightarrow> (json \<Rightarrow> string) \<Rightarrow> string \<Rightarrow> auth_client" where
  "new_client post show_json backend_url =
     \<lparr>ac_backend_url = rev (dropWhile (\<lambda>c. c = CHR ''/'') (rev backend_url)), ac_post = post, ac_show = show_json\<rparr>"

definition post_json :: "auth_client \<Rightarrow> string \<Rightarrow> payload \<Rightarrow> payload result" where
  "post_json client path p =
     (case ac_post client (ac_backend_url client @ path) (dump_sp '' '' (JObj p)) of
        Http_Status code _ \<Rightarrow> Inl (AuthError (''Backend auth request failed: HTTP '' @ int_str code))
      | Http_Failed reason \<Rightarrow> Inl (AuthError (''Backend auth request failed: '' @ reason))
      | Http_Body data \<Rightarrow>
          if \<not> valid_utf8 data then Inl (ValueError ''UnicodeDecodeError'')
          else (case json_loads data of
              Inl JSONDecodeError \<Rightarrow> Inl (ValueError ''JSONDecodeError'')
            | Inl IntTooLong \<Rightarrow> Inl (ValueError ''Exceeds the limit for integer string conversion'')
            | Inr (JObj decoded) \<Rightarrow> Inr decoded
            | Inr _ \<Rightarrow> Inl (AuthError ''Backend auth response was not a JSON object'')))"

definition json_true :: "json \<Rightarrow> bool" where
  "json_true v = (case v of
      JNull \<Rightarrow> False
    | JBool b \<Rightarrow> b
    | JInt i \<Rightarrow> i \<noteq> 0
    | JFloat x \<Rightarrow> (case x of FNum _ m _ \<Rightarrow> m \<noteq> 0 | _ \<Rightarrow> True)
    | JStr s \<Rightarrow> s \<noteq> []
    | JArr vs \<Rightarrow> vs \<noteq> []
    | JObj kvs \<Rightarrow> kvs \<noteq> [])"

definition json_str_of :: "(json \<Rightarrow> string) \<Rightarrow> json \<Rightarrow> string" where
  "json_str_of show_json v = (case v of
      JStr s \<Rightarrow> s
    | JInt i \<Rightarrow> int_str i
    | JBool b \<Rightarrow> (if b then ''True'' else ''False'')
    | _ \<Rightarrow> show_json v)"

text \<open>\<open>str(payload[key])\<close> of a key whose value is true.\<close>

definition reply_text :: "(json \<Rightarrow> string) \<Rightarrow> payload \<Rightarrow> string \<Rightarrow> string option" where
  "reply_text show_json p key = (case jget p key of
      None \<Rightarrow> None
    | Some v \<Rightarrow> if json_true v then Some (json_str_of show_json v) else None)"

definition parse_datetime :: "clock \<Rightarrow> string \<Rightarrow> int result" where
  "parse_datetime clk value =
     (case clk_iso clk (py_replace ''Z'' ''+00:00'' value) of
        None \<Rightarrow> Inl (ValueError ''Invalid isoformat string'')
      | Some (t, _) \<Rightarrow> Inr t)"

record session =
  ss_engine_id :: string
  ss_token :: string
  ss_expires_at :: int

definition session_from_payload :: "clock \<Rightarrow> (json \<Rightarrow> string) \<Rightarrow> payload \<Rightarrow> session result" where
  "session_from_payload clk show_json p =
     (let missing = filter (\<lambda>key. reply_text show_json p key = None) [''engine_id'', ''session_jwt'', ''session_jwt_expires_at''];
          field = (\<lambda>key. the (reply_text show_json p key)) in
      rbind (ensure (missing = []) (AuthError (''Session response missing required keys: '' @ join '', '' missing))) (\<lambda>_.
      rbind (parse_datetime clk (field ''session_jwt_expires_at'')) (\<lambda>t.
        Inr \<lparr>ss_engine_id = field ''engine_id'', ss_token = field ''session_jwt'', ss_expires_at = t\<rparr>)))"

definition create_session :: "clock \<Rightarrow> auth_client \<Rightarrow> string \<Rightarrow> string \<Rightarrow> session result" where
  "create_session clk client engine_id engine_secret =
     rbind (post_json client ''/api/v2/build-engines/agent/sessions''
              [(''engine_id'', JStr engine_id), (''engine_secret'', JStr engine_secret)])
       (session_from_payload clk (ac_show client))"

definition REFRESH_WINDOW :: int where "REFRESH_WINDOW = 5 * 60 * 1000000"

text \<open>\<open>isofmt\<close> is \<open>datetime.isoformat()\<close> of an instant in UTC.\<close>

definition refresh_session_if_needed ::
  "clock \<Rightarrow> (int \<Rightarrow> string) \<Rightarrow> auth_client \<Rightarrow> engine_credentials \<Rightarrow> engine_credentials result" where
  "refresh_session_if_needed clk isofmt client c =
     rbind (parse_datetime clk (cr_session_jwt_expires_at c)) (\<lambda>expires_at.
       if cr_session_jwt c \<noteq> [] \<and> REFRESH_WINDOW < expires_at - clk_now clk then Inr c
       else rbind (create_session clk client (cr_engine_id c) (cr_engine_secret c)) (\<lambda>session.
         Inr (c\<lparr>cr_session_jwt := ss_token session, cr_session_jwt_expires_at := isofmt (ss_expires_at session)\<rparr>)))"

definition refresh_session ::
  "toml_lib \<Rightarrow> clock \<Rightarrow> (int \<Rightarrow> string) \<Rightarrow> (string \<Rightarrow> auth_client) \<Rightarrow> host \<Rightarrow> os_fault option list \<Rightarrow> string \<Rightarrow>
   string \<Rightarrow> string option \<Rightarrow> files \<Rightarrow> engine_credentials result \<times> files" where
  "refresh_session lib clk isofmt client h faults rnd path backend_url fs =
     (case load_credentials lib fs path of
        Inl e \<Rightarrow> (Inl e, fs)
      | Inr c \<Rightarrow>
          (case (case backend_url of Some (x # xs) \<Rightarrow> Some (x # xs) | _ \<Rightarrow> cr_backend_url c) of
             Some (u # us) \<Rightarrow>
               (case refresh_session_if_needed clk isofmt (client (u # us)) c of
                  Inl e \<Rightarrow> (Inl e, fs)
                | Inr refreshed \<Rightarrow>
                    if refreshed = c then (Inr refreshed, fs)
                    else (let (r, fs') = write_credentials h faults rnd path refreshed fs in
                          (rbind r (\<lambda>_. Inr refreshed), fs')))
           | _ \<Rightarrow> (Inl (AuthError ''backend_url is required to refresh a session''), fs)))"

section \<open>Validation of the file\<close>

definition expected_id :: "(string \<Rightarrow> int option) \<Rightarrow> int \<Rightarrow> string option \<Rightarrow> int" where
  "expected_id db own name = (case name of
      None \<Rightarrow> own
    | Some n \<Rightarrow> (case db n of Some i \<Rightarrow> i | None \<Rightarrow> own))"

definition validate_secret_file_ownership ::
  "host \<Rightarrow> string option \<Rightarrow> string option \<Rightarrow> string \<Rightarrow> stored_file \<Rightarrow> unit result" where
  "validate_secret_file_ownership h service_user service_group path f =
     (let uid = expected_id (h_users h) (h_euid h) service_user;
          gid = expected_id (h_groups h) (h_egid h) service_group in
      ensure (fl_uid f = uid \<and> fl_gid f = gid)
        (AuthError (''Secret file ownership is invalid: '' @ path @ '' uid='' @ int_str (fl_uid f) @ '' gid='' @
           int_str (fl_gid f) @ ''; expected uid='' @ int_str uid @ '' gid='' @ int_str gid)))"

definition validate_credentials_file ::
  "toml_lib \<Rightarrow> clock \<Rightarrow> host \<Rightarrow> string option \<Rightarrow> string option \<Rightarrow> files \<Rightarrow> string \<Rightarrow> engine_credentials result" where
  "validate_credentials_file lib clk h service_user service_group fs path =
     rbind (load_credentials lib fs path) (\<lambda>c.
       case fs path of
         None \<Rightarrow> Inl (OSError (''FileNotFoundError: '' @ path))
       | Some f \<Rightarrow>
           rbind (validate_secret_file_permissions path (fl_mode f)) (\<lambda>_.
           rbind (validate_secret_file_ownership h service_user service_group path f) (\<lambda>_.
           rbind (validate_engine_secret (cr_engine_secret c)) (\<lambda>_.
           rbind (parse_datetime clk (cr_session_jwt_expires_at c)) (\<lambda>_.
             Inr c)))))"

section \<open>Registration\<close>

record registration_result =
  rr_engine_id :: string
  rr_session_jwt_expires_at :: int
  rr_credentials_path :: string

definition register_payload :: "string \<Rightarrow> string \<Rightarrow> payload \<Rightarrow> string \<Rightarrow> payload" where
  "register_payload registration_token name capabilities version =
     [(''registration_token'', JStr registration_token), (''name'', JStr name),
      (''capabilities'', JObj capabilities), (''version'', JStr version)]"

definition credentials_from_registration_response ::
  "(json \<Rightarrow> string) \<Rightarrow> engine_config \<Rightarrow> payload \<Rightarrow> engine_credentials result" where
  "credentials_from_registration_response show_json config p =
     (let missing = filter (\<lambda>key. reply_text show_json p key = None) required_keys;
          field = (\<lambda>key. the (reply_text show_json p key)) in
      rbind (ensure (missing = []) (AuthError (''Registration response missing required keys: '' @ join '', '' missing))) (\<lambda>_.
        Inr \<lparr>cr_engine_id = field ''engine_id'', cr_engine_secret = field ''engine_secret'',
             cr_session_jwt = field ''session_jwt'', cr_session_jwt_expires_at = field ''session_jwt_expires_at'',
             cr_backend_url = cf_backend_url config, cr_name = cf_name config\<rparr>))"

definition register_engine ::
  "toml_lib \<Rightarrow> clock \<Rightarrow> (string \<Rightarrow> auth_client) \<Rightarrow> string \<Rightarrow> host \<Rightarrow> os_fault option list \<Rightarrow> string \<Rightarrow>
   engine_config \<Rightarrow> string \<Rightarrow> files \<Rightarrow> registration_result result \<times> files" where
  "register_engine lib clk client version h faults rnd config registration_token fs =
     (case (cf_backend_url config, cf_name config) of
        (Some (u # us), Some (n # ns)) \<Rightarrow>
          (case rbind (post_json (client (u # us)) ''/api/v2/build-engines/agent/register''
                   (register_payload registration_token (n # ns) (config_capabilities config) version))
                 (credentials_from_registration_response (ac_show (client (u # us))) config) of
             Inl e \<Rightarrow> (Inl e, fs)
           | Inr c \<Rightarrow>
               (let path = cf_credentials_path config;
                    (r, fs') = write_credentials h faults rnd path c fs in
                (rbind r (\<lambda>_.
                 rbind (validate_credentials_file lib clk h None None fs' path) (\<lambda>_.
                 rbind (parse_datetime clk (cr_session_jwt_expires_at c)) (\<lambda>t.
                   Inr \<lparr>rr_engine_id = cr_engine_id c, rr_session_jwt_expires_at = t, rr_credentials_path = path\<rparr>))),
                 fs')))
      | (Some (_ # _), _) \<Rightarrow> (Inl (AuthError ''name is required to register''), fs)
      | _ \<Rightarrow> (Inl (AuthError ''backend_url is required to register''), fs))"

end
