(* ===== verification/Config_Load.thy ===== *)
theory Config_Load
  imports Credentials Workspace
begin

text \<open>
  Loading the configuration (\<open>config.py\<close>: \<open>load_config\<close> and its helpers). The layers are
  dictionaries of values whose types nobody has checked yet: the compiled defaults, the two TOML
  files, the environment and the overrides of the command line. \<open>EngineConfig\<close> is built from
  the merged dictionary; its checks compare whatever values it holds, so an ill-typed value
  raises \<open>TypeError\<close> where Python's comparison does and is kept where Python accepts it.
\<close>

section \<open>Values\<close>

datatype cfg_value =
    V_None
  | V_Toml toml_value
  | V_Path string
  | V_Tuple "string list"

type_synonym cfg_dict = "(string \<times> cfg_value) list"

record cfg_lib = toml_lib +
  tuple_show :: "string list \<Rightarrow> string" \<comment> \<open>\<open>str()\<close> of a tuple of texts\<close>

abbreviation V_Str :: "string \<Rightarrow> cfg_value" where "V_Str s \<equiv> V_Toml (T_Str s)"
abbreviation V_Int :: "int \<Rightarrow> cfg_value" where "V_Int i \<equiv> V_Toml (T_Int i)"
abbreviation V_Bool :: "bool \<Rightarrow> cfg_value" where "V_Bool b \<equiv> V_Toml (T_Bool b)"

definition cfg_str :: "cfg_lib \<Rightarrow> cfg_value \<Rightarrow> string" where
  "cfg_str lib v = (case v of
      V_None \<Rightarrow> ''None''
    | V_Toml t \<Rightarrow> toml_str_of (toml_lib.truncate lib) t
    | V_Path p \<Rightarrow> p
    | V_Tuple ts \<Rightarrow> tuple_show lib ts)"

definition cfg_true :: "cfg_value \<Rightarrow> bool" where
  "cfg_true v = (case v of V_None \<Rightarrow> False | V_Toml t \<Rightarrow> toml_true t | V_Path _ \<Rightarrow> True | V_Tuple ts \<Rightarrow> ts \<noteq> [])"

text \<open>\<open>str(Path(s))\<close>: empty and \<open>.\<close> components are dropped; exactly two leading slashes are kept.\<close>

definition path_of :: "string \<Rightarrow> string" where
  "path_of s =
     (let anchor = (if prefix ''//'' s \<and> \<not> prefix ''///'' s then ''//'' else if prefix ''/'' s then ''/'' else []);
          parts = filter (\<lambda>p. p \<noteq> [] \<and> p \<noteq> ''.'') (split_at (CHR ''/'') s) in
      if parts = [] then (if anchor = [] then ''.'' else anchor) else anchor @ join ''/'' parts)"

definition path_value :: "cfg_lib \<Rightarrow> cfg_value \<Rightarrow> string" where
  "path_value lib v = (case v of V_Path p \<Rightarrow> p | _ \<Rightarrow> path_of (cfg_str lib v))"

text \<open>\<open>float(text)\<close>.\<close>

definition py_float :: "string \<Rightarrow> pyfloat option" where
  "py_float s =
     (let t = lower (strip s);
          (neg, b) = (case t of
              c # cs \<Rightarrow> if c = CHR ''-'' then (True, cs) else if c = CHR ''+'' then (False, cs) else (False, t)
            | [] \<Rightarrow> (False, []));
          run = (\<lambda>c. is_digit c \<or> c = CHR ''_'');
          drop_us = filter (\<lambda>c. c \<noteq> CHR ''_'');
          ip = takeWhile run b;
          r1 = dropWhile run b;
          (fp, r2) = (case r1 of c # cs \<Rightarrow> if c = CHR ''.'' then (takeWhile run cs, dropWhile run cs) else ([], r1)
            | [] \<Rightarrow> ([], []));
          ex = (case r2 of
              [] \<Rightarrow> Some 0
            | c # cs \<Rightarrow>
                (let (sg, ds) = (case cs of
                     d # ds \<Rightarrow> if d = CHR ''-'' then (-1, ds) else if d = CHR ''+'' then (1, ds) else (1, cs)
                   | [] \<Rightarrow> (1, [])) in
                 if c = CHR ''e'' \<and> digit_groups ds then Some (sg * int (digits_val (drop_us ds))) else None)) in
      if b = ''inf'' \<or> b = ''infinity'' then Some (FInf neg)
      else if b = ''nan'' then Some FNan
      else if (ip \<noteq> [] \<or> fp \<noteq> []) \<and> (ip = [] \<or> digit_groups ip) \<and> (fp = [] \<or> digit_groups fp)
      then map_option (\<lambda>x. mk_float neg (digits_val (drop_us ip @ drop_us fp)) (x - int (length (drop_us fp)))) ex
      else None)"

section \<open>Layers\<close>

definition config_dict :: "engine_config \<Rightarrow> cfg_dict" where
  "config_dict c =
     [(''backend_url'', case cf_backend_url c of None \<Rightarrow> V_None | Some u \<Rightarrow> V_Str u),
      (''name'', case cf_name c of None \<Rightarrow> V_None | Some n \<Rightarrow> V_Str n),
      (''max_concurrency'', V_Int (cf_max_concurrency c)),
      (''heartbeat_interval_seconds'', V_Int (cf_heartbeat_interval_seconds c)),
      (''build_timeout_seconds'', V_Int (cf_build_timeout_seconds c)),
      (''sigterm_grace_seconds'', V_Int (cf_sigterm_grace_seconds c)),
      (''container_memory'', V_Str (cf_container_memory c)),
      (''container_cpus'', V_Toml (T_Float (cf_container_cpus c))),
      (''artifact_max_bytes'', V_Int (cf_artifact_max_bytes c)),
      (''cache_site_max_bytes'', V_Int (cf_cache_site_max_bytes c)),
      (''cache_ttl_days'', V_Int (cf_cache_ttl_days c)),
      (''credentials_path'', V_Path (cf_credentials_path c)),
      (''state_dir'', V_Path (cf_state_dir c)),
      (''image_manifest_version'', V_Str (cf_image_manifest_version c)),
      (''images'', V_Tuple (cf_images c)),
      (''storage_origins'', V_Tuple (cf_storage_origins c)),
      (''lease_seconds'', V_Int (cf_lease_seconds c)),
      (''outbox_max_bytes'', V_Int (cf_outbox_max_bytes c)),
      (''state_retention_days'', V_Int (cf_state_retention_days c)),
      (''allow_local_source_urls'', V_Bool (cf_allow_local_source_urls c)),
      (''os'', V_Str (cf_os c)),
      (''arch'', V_Str (cf_arch c))]"

text \<open>\<open>system\<close> and \<open>machine\<close> are what the \<open>platform\<close> module reports.\<close>

definition config_defaults :: "string \<Rightarrow> string \<Rightarrow> cfg_dict" where
  "config_defaults system machine = config_dict (default_config (lower system) (normalize_arch machine))"

definition CONFIG_FIELDS :: "string list" where
  "CONFIG_FIELDS = map fst (config_defaults [] [])"

definition upper_char :: "char \<Rightarrow> char" where
  "upper_char c = (let n = of_char c :: nat in if 97 \<le> n \<and> n \<le> 122 then char_of (n - 32) else c)"

definition env_name :: "string \<Rightarrow> string" where
  "env_name key = ''BUILD_ENGINE_'' @ map upper_char key"

definition INT_FIELDS :: "string list" where
  "INT_FIELDS = [''max_concurrency'', ''heartbeat_interval_seconds'', ''build_timeout_seconds'', ''sigterm_grace_seconds'',
     ''artifact_max_bytes'', ''cache_site_max_bytes'', ''cache_ttl_days'', ''lease_seconds'', ''outbox_max_bytes'',
     ''state_retention_days'']"

definition coerce_env_value :: "string \<Rightarrow> string \<Rightarrow> cfg_value result" where
  "coerce_env_value key value =
     (if key \<in> set INT_FIELDS then
        (case py_int value of Some i \<Rightarrow> Inr (V_Int i) | None \<Rightarrow> Inl (ValueError ''invalid literal for int()''))
      else if key = ''container_cpus'' then
        (case py_float value of
           Some x \<Rightarrow> Inr (V_Toml (T_Float x)) | None \<Rightarrow> Inl (ValueError ''could not convert string to float''))
      else if key = ''allow_local_source_urls'' then rbind (bool_value value) (\<lambda>b. Inr (V_Bool b))
      else if key \<in> {''images'', ''storage_origins''} then Inr (V_Tuple (split_csv value))
      else if suffix ''_path'' key \<or> suffix ''_dir'' key then Inr (V_Path (path_of value))
      else Inr (V_Str value))"

fun env_overrides :: "(string \<times> string) list \<Rightarrow> string list \<Rightarrow> cfg_dict result" where
  "env_overrides env [] = Inr []"
| "env_overrides env (key # keys) =
     (case map_of env (env_name key) of
        None \<Rightarrow> env_overrides env keys
      | Some value \<Rightarrow>
          rbind (coerce_env_value key value) (\<lambda>v. rbind (env_overrides env keys) (\<lambda>d. Inr ((key, v) # d))))"

section \<open>Coercion\<close>

definition coerce_value :: "cfg_lib \<Rightarrow> string \<Rightarrow> cfg_value \<Rightarrow> cfg_value result" where
  "coerce_value lib key v =
     (if key \<in> {''credentials_path'', ''state_dir''} then Inr (V_Path (path_value lib v))
      else if key \<in> {''images'', ''storage_origins''} then
        Inr (case v of
            V_Toml (T_Arr items) \<Rightarrow> V_Tuple (map (toml_str_of (toml_lib.truncate lib)) items)
          | V_Toml (T_Str s) \<Rightarrow> V_Tuple (split_csv s)
          | _ \<Rightarrow> v)
      else if key = ''allow_local_source_urls'' then
        (case v of V_Toml (T_Str s) \<Rightarrow> rbind (bool_value s) (\<lambda>b. Inr (V_Bool b)) | _ \<Rightarrow> Inr v)
      else Inr v)"

definition coerce_config_values :: "cfg_lib \<Rightarrow> cfg_dict \<Rightarrow> cfg_dict result" where
  "coerce_config_values lib d = each (\<lambda>(k, v). rbind (coerce_value lib k v) (\<lambda>v'. Inr (k, v'))) d"

section \<open>Validation of the merged values\<close>

text \<open>\<open>1 <= v <= 16\<close> and \<open>v <= 0\<close>, which raise for values that are not numbers.\<close>

definition in_1_16 :: "cfg_value \<Rightarrow> bool result" where
  "in_1_16 v = (case v of
      V_Toml (T_Int i) \<Rightarrow> Inr (1 \<le> i \<and> i \<le> 16)
    | V_Toml (T_Bool b) \<Rightarrow> Inr b
    | V_Toml (T_Float x) \<Rightarrow> Inr (float_le one x \<and> float_le x (FNum False 16 0))
    | _ \<Rightarrow> Inl (TypeError ''<= not supported''))"

definition le_zero :: "cfg_value \<Rightarrow> bool result" where
  "le_zero v = (case v of
      V_Toml (T_Int i) \<Rightarrow> Inr (i \<le> 0)
    | V_Toml (T_Bool b) \<Rightarrow> Inr (\<not> b)
    | V_Toml (T_Float x) \<Rightarrow> Inr (\<not> float_not_le_zero x)
    | _ \<Rightarrow> Inl (TypeError ''<= not supported''))"

text \<open>\<open>_is_secure_origin\<close> of any value: \<open>urlparse\<close> reads a false value as the empty text.\<close>

definition secure_value :: "(string \<Rightarrow> bool) \<Rightarrow> cfg_value \<Rightarrow> bool result" where
  "secure_value refused v = (case v of
      V_Toml (T_Str s) \<Rightarrow> is_secure_origin refused s
    | _ \<Rightarrow> if cfg_true v then Inl (AttributeError ''decode'') else Inr False)"

text \<open>The elements a \<open>for\<close> loop over the value yields.\<close>

definition cfg_items :: "cfg_value \<Rightarrow> string list result" where
  "cfg_items v = (case v of
      V_Tuple ts \<Rightarrow> Inr ts
    | V_Toml (T_Table kvs) \<Rightarrow> Inr (map fst kvs)
    | _ \<Rightarrow> Inl (TypeError ''object is not iterable''))"

definition cfg_get :: "cfg_dict \<Rightarrow> string \<Rightarrow> cfg_value" where
  "cfg_get d k = (case map_of d k of Some v \<Rightarrow> v | None \<Rightarrow> V_None)"

definition POSITIVE_FIELDS :: "string list" where
  "POSITIVE_FIELDS = [''heartbeat_interval_seconds'', ''build_timeout_seconds'', ''sigterm_grace_seconds'',
     ''artifact_max_bytes'', ''cache_site_max_bytes'', ''cache_ttl_days'', ''lease_seconds'', ''outbox_max_bytes'',
     ''state_retention_days'']"

definition check_values :: "(string \<Rightarrow> bool) \<Rightarrow> cfg_dict \<Rightarrow> unit result" where
  "check_values refused d =
     rbind (rbind (in_1_16 (cfg_get d ''max_concurrency''))
       (\<lambda>ok. ensure ok (ValueError ''max_concurrency must be between 1 and 16''))) (\<lambda>_.
     rbind (each (\<lambda>name. rbind (le_zero (cfg_get d name)) (\<lambda>z. ensure (\<not> z) (ValueError (name @ '' must be positive''))))
       POSITIVE_FIELDS) (\<lambda>_.
     rbind (rbind (le_zero (cfg_get d ''container_cpus'')) (\<lambda>z. ensure (\<not> z) (ValueError ''container_cpus must be positive''))) (\<lambda>_.
     rbind (ensure (cfg_true (cfg_get d ''image_manifest_version'')) (ValueError ''image_manifest_version must not be empty'')) (\<lambda>_.
     rbind (ensure (cfg_true (cfg_get d ''images'')) (ValueError ''at least one builder image must be configured'')) (\<lambda>_.
     rbind (cfg_items (cfg_get d ''storage_origins'')) (\<lambda>origins.
     rbind (ensure (list_all (\<lambda>origin. origin \<noteq> []) origins) (ValueError ''storage_origins must contain non-empty origins'')) (\<lambda>_.
     rbind (case cfg_get d ''backend_url'' of V_None \<Rightarrow> Inr True | v \<Rightarrow> secure_value refused v) (\<lambda>secure.
     rbind (ensure secure (ValueError ''backend_url must use HTTPS'')) (\<lambda>_.
     rbind (all_secure refused origins) (\<lambda>secure.
       ensure secure (ValueError ''storage_origins must use HTTPS'')))))))))))"

section \<open>Loading\<close>

definition credentials_layer :: "toml_doc \<Rightarrow> cfg_dict" where
  "credentials_layer doc =
     concat (map (\<lambda>key. case map_of doc key of Some v \<Rightarrow> [(key, V_Toml v)] | None \<Rightarrow> []) [''backend_url'', ''name''])"

definition load_optional :: "cfg_lib \<Rightarrow> files \<Rightarrow> string \<Rightarrow> toml_doc result" where
  "load_optional lib fs path = (if fs path = None then Inr [] else load_toml (toml_lib.truncate lib) fs path)"

definition merge_layers ::
  "cfg_lib \<Rightarrow> string \<Rightarrow> string \<Rightarrow> files \<Rightarrow> (string \<times> string) list \<Rightarrow> string option \<Rightarrow> string option \<Rightarrow>
   (string \<times> string) list option \<Rightarrow> cfg_dict \<Rightarrow> cfg_dict result" where
  "merge_layers lib system machine fs environ config_path credentials_path env overrides =
     rbind (load_optional lib fs (case config_path of Some p \<Rightarrow> path_of p | None \<Rightarrow> ''/etc/mincemeat/build-engine/config.toml'')) (\<lambda>doc.
     let v1 = jmerge (config_defaults system machine) (map (\<lambda>(k, v). (k, V_Toml v)) doc);
         v2 = (case credentials_path of Some p \<Rightarrow> jput ''credentials_path'' (V_Path (path_of p)) v1 | None \<Rightarrow> v1);
         active = path_value lib (cfg_get v2 ''credentials_path'');
         v3 = jput ''credentials_path'' (V_Path active) v2 in
     rbind (load_optional lib fs active) (\<lambda>creds.
     rbind (env_overrides (case env of Some (e # es) \<Rightarrow> e # es | _ \<Rightarrow> environ) CONFIG_FIELDS) (\<lambda>from_env.
       Inr (jmerge (jmerge (jmerge v3 (credentials_layer creds)) from_env)
              (filter (\<lambda>(k, v). v \<noteq> V_None) overrides)))))"

definition load_config ::
  "cfg_lib \<Rightarrow> (string \<Rightarrow> bool) \<Rightarrow> string \<Rightarrow> string \<Rightarrow> files \<Rightarrow> (string \<times> string) list \<Rightarrow> string option \<Rightarrow> string option \<Rightarrow>
   (string \<times> string) list option \<Rightarrow> cfg_dict \<Rightarrow> cfg_dict result" where
  "load_config lib refused system machine fs environ config_path credentials_path env overrides =
     rbind (merge_layers lib system machine fs environ config_path credentials_path env overrides) (\<lambda>values.
     let unknown = sort (filter (\<lambda>k. k \<notin> set CONFIG_FIELDS) (map fst values)) in
     rbind (ensure (unknown = []) (ValueError (''Unknown configuration keys: '' @ join '', '' unknown))) (\<lambda>_.
     rbind (coerce_config_values lib values) (\<lambda>coerced.
     rbind (check_values refused coerced) (\<lambda>_. Inr coerced))))"

end
