(* ===== verification/Config_Correct.thy ===== *)
theory Config_Correct
  imports Config_Load
begin

text \<open>
  Loading the configuration: the value every setting gets from the layers, and that the checks on
  the merged dictionary are those of the typed record.
\<close>

section \<open>Dictionaries\<close>

lemma map_of_merged: "map_of (jmerge d e) = map_of d ++ map_of (rev e)"
  by (simp add: fun_eq_iff map_of_jmerge map_add_def)

lemma map_of_rev: "distinct (map fst e) \<Longrightarrow> map_of (rev e) = map_of e"
proof (induction e)
  case (Cons kv e)
  then have "map_of (rev e) (fst kv) = None" by (simp add: map_of_eq_None_iff)
  then show ?case using Cons by (auto simp: map_add_def fun_eq_iff split: option.splits)
qed simp

lemma map_of_each:
  "each (\<lambda>(k, v). rbind (f k v) (\<lambda>v'. Inr (k, v'))) d = Inr d' \<Longrightarrow>
   map fst d' = map fst d \<and> (\<forall>k v. map_of d k = Some v \<longrightarrow> (\<exists>v'. f k v = Inr v' \<and> map_of d' k = Some v'))"
  by (induction d arbitrary: d') (auto simp: rbind_Inr_iff)

section \<open>The environment\<close>

definition env_value :: "(string \<times> string) list \<Rightarrow> string \<Rightarrow> cfg_value option" where
  "env_value env k = (case map_of env (env_name k) of
      None \<Rightarrow> None
    | Some s \<Rightarrow> (case coerce_env_value k s of Inr v \<Rightarrow> Some v | Inl _ \<Rightarrow> None))"

lemma env_overrides_Cons:
  assumes "env_overrides env (key # keys) = Inr d"
  obtains "map_of env (env_name key) = None" "env_overrides env keys = Inr d"
  | s v e where "map_of env (env_name key) = Some s" "coerce_env_value key s = Inr v"
      "env_overrides env keys = Inr e" "d = (key, v) # e"
  using assms by (auto simp: rbind_Inr_iff split: option.splits)

lemma env_overrides_keys: "env_overrides env keys = Inr d \<Longrightarrow> distinct keys \<Longrightarrow> distinct (map fst d) \<and> fst ` set d \<subseteq> set keys"
proof (induction keys arbitrary: d)
  case (Cons key keys)
  from Cons.prems(1) show ?case by (rule env_overrides_Cons) (use Cons in force)+
qed simp

lemma env_overrides_value:
  "env_overrides env keys = Inr d \<Longrightarrow> distinct keys \<Longrightarrow> map_of d k = (if k \<in> set keys then env_value env k else None)"
proof (induction keys arbitrary: d)
  case (Cons key keys)
  from Cons.prems(1) show ?case by (rule env_overrides_Cons) (use Cons in \<open>auto simp: env_value_def\<close>)
qed simp

lemma distinct_fields: "distinct CONFIG_FIELDS"
  by (simp add: CONFIG_FIELDS_def config_defaults_def config_dict_def)

lemma default_keys: "map fst (config_defaults system machine) = CONFIG_FIELDS"
  by (simp add: CONFIG_FIELDS_def config_defaults_def config_dict_def)

section \<open>Typed configurations\<close>

lemma each_map: "each f (map g xs) = each (\<lambda>x. f (g x)) xs"
  by (induction xs) simp_all

lemma each_cong: "(\<And>x. x \<in> set xs \<Longrightarrow> f x = g x) \<Longrightarrow> each f xs = each g xs"
  by (induction xs) simp_all

lemma positive_fields_names: "map fst (positive_fields c) = POSITIVE_FIELDS"
  by (simp add: positive_fields_def POSITIVE_FIELDS_def)

lemma positive_fields_values: "list_all (\<lambda>(name, v). cfg_get (config_dict c) name = V_Int v) (positive_fields c)"
  by (simp add: positive_fields_def cfg_get_def config_dict_def)

lemma check_positive:
  "each (\<lambda>name. rbind (le_zero (cfg_get (config_dict c) name)) (\<lambda>z. ensure (\<not> z) (ValueError (name @ '' must be positive''))))
     POSITIVE_FIELDS =
   each (\<lambda>(name, v). ensure (0 < v) (ValueError (name @ '' must be positive''))) (positive_fields c)"
  unfolding positive_fields_names [of c, symmetric] each_map
  using positive_fields_values [of c] by (intro each_cong) (auto simp: list_all_iff le_zero_def not_le)

lemma config_dict_get:
  "cfg_get (config_dict c) ''max_concurrency'' = V_Int (cf_max_concurrency c)"
  "cfg_get (config_dict c) ''container_cpus'' = V_Toml (T_Float (cf_container_cpus c))"
  "cfg_get (config_dict c) ''image_manifest_version'' = V_Str (cf_image_manifest_version c)"
  "cfg_get (config_dict c) ''images'' = V_Tuple (cf_images c)"
  "cfg_get (config_dict c) ''storage_origins'' = V_Tuple (cf_storage_origins c)"
  "cfg_get (config_dict c) ''backend_url'' = (case cf_backend_url c of None \<Rightarrow> V_None | Some u \<Rightarrow> V_Str u)"
  by (simp_all add: cfg_get_def config_dict_def)

lemma rbind_assoc: "rbind (rbind m f) g = rbind m (\<lambda>x. rbind (f x) g)"
  by (cases m) auto

lemma rbind_Inr: "rbind m Inr = m"
  by (cases m) auto

text \<open>
  The checks of \<open>EngineConfig\<close> agree on the two readings of a configuration: on the dictionary
  of a well-typed record the comparisons of untyped values neither raise a \<open>TypeError\<close> nor
  decide differently, so it is accepted, or refused with the same message, exactly when the
  record is.
\<close>

theorem check_values_typed:
  "check_values refused (config_dict c) = rbind (config_post_init refused c) (\<lambda>_. Inr ())"
proof -
  have backend: "(case (case cf_backend_url c of None \<Rightarrow> V_None | Some u \<Rightarrow> V_Str u) of
        V_None \<Rightarrow> Inr True | v \<Rightarrow> secure_value refused v) =
      (case cf_backend_url c of None \<Rightarrow> Inr True | Some u \<Rightarrow> is_secure_origin refused u)"
    by (simp add: secure_value_def split: option.split)
  show ?thesis
    unfolding check_values_def config_post_init_def check_positive config_dict_get backend
    by (simp add: in_1_16_def le_zero_def cfg_true_def toml_true_def cfg_items_def rbind_assoc rbind_Inr)
qed

section \<open>Layers\<close>

fun first_of :: "'a option list \<Rightarrow> 'a option" where
  "first_of [] = None"
| "first_of (None # xs) = first_of xs"
| "first_of (Some x # xs) = Some x"

text \<open>The value of a setting: that of the highest layer that has one. Of the credentials file only the
  backend URL and the name are used, and an explicit credentials path counts above the file.\<close>

definition effective ::
  "string \<Rightarrow> string \<Rightarrow> toml_doc \<Rightarrow> string option \<Rightarrow> toml_doc \<Rightarrow> (string \<times> string) list \<Rightarrow> cfg_dict \<Rightarrow> string \<Rightarrow> cfg_value option" where
  "effective system machine doc credentials_path creds env overrides k = first_of
     [map_of (filter (\<lambda>(k, v). v \<noteq> V_None) overrides) k,
      env_value env k,
      if k \<in> {''backend_url'', ''name''} then map_option V_Toml (map_of creds k) else None,
      if k = ''credentials_path'' then map_option (\<lambda>p. V_Path (path_of p)) credentials_path else None,
      map_option V_Toml (map_of doc k),
      map_of (config_defaults system machine) k]"

lemma map_add_first_of: "(m ++ n) k = first_of [n k, m k]"
  by (cases "n k"; cases "m k") (auto simp: map_add_def)

lemma first_of_nested: "first_of [x, first_of ys] = first_of (x # ys)"
  by (cases x; cases "first_of ys") auto

lemma first_of_append: "first_of (xs @ ys) = first_of [first_of xs, first_of ys]"
  by (induction xs rule: first_of.induct) (auto, metis first_of.simps(2) first_of_nested)

lemma first_of_skip: "first_of (xs @ None # ys) = first_of (xs @ ys)"
  by (induction xs rule: first_of.induct) auto

lemma first_of_None: "first_of xs = None \<longleftrightarrow> set xs \<subseteq> {None}"
  by (induction xs rule: first_of.induct) auto

lemma map_of_credentials_layer:
  "map_of (rev (credentials_layer doc)) k = (if k \<in> {''backend_url'', ''name''} then map_option V_Toml (map_of doc k) else None)"
  by (auto simp: credentials_layer_def split: option.splits)

lemma map_of_toml_layer: "map_of (map (\<lambda>(k, v). (k, V_Toml v)) doc) k = map_option V_Toml (map_of doc k)"
  by (induction doc) auto

lemma path_value_again: "coerce_value lib ''credentials_path'' (V_Path (path_value lib v)) = coerce_value lib ''credentials_path'' v"
  by (simp add: coerce_value_def path_value_def)

lemma distinct_filter: "distinct (map fst e) \<Longrightarrow> distinct (map fst (filter P e))"
  by (simp add: distinct_map_filter)

definition returns_dicts :: "cfg_lib \<Rightarrow> bool" where
  "returns_dicts lib \<longleftrightarrow> (\<forall>text doc. toml_loads lib text = Inr doc \<longrightarrow> distinct (map fst doc))"

definition config_file :: "string option \<Rightarrow> string" where
  "config_file config_path = (case config_path of Some p \<Rightarrow> path_of p | None \<Rightarrow> ''/etc/mincemeat/build-engine/config.toml'')"

text \<open>The credentials file that is read: neither the environment nor the overrides choose it.\<close>

definition credentials_file :: "cfg_lib \<Rightarrow> toml_doc \<Rightarrow> string option \<Rightarrow> string" where
  "credentials_file lib doc credentials_path = (case credentials_path of
      Some p \<Rightarrow> path_of p
    | None \<Rightarrow> (case map_of doc ''credentials_path'' of
        Some v \<Rightarrow> path_value lib (V_Toml v)
      | None \<Rightarrow> ''/etc/mincemeat/build-engine/credentials.toml''))"

definition active_env :: "(string \<times> string) list \<Rightarrow> (string \<times> string) list option \<Rightarrow> (string \<times> string) list" where
  "active_env environ env = (case env of Some (e # es) \<Rightarrow> e # es | _ \<Rightarrow> environ)"

lemma load_optional_distinct: "returns_dicts lib \<Longrightarrow> load_optional lib fs path = Inr doc \<Longrightarrow> distinct (map fst doc)"
  by (auto simp: load_optional_def load_toml_def returns_dicts_def toml_lib.defs split: if_splits option.splits)

lemma default_credentials_path:
  "map_of (config_defaults system machine) ''credentials_path'' = Some (V_Path ''/etc/mincemeat/build-engine/credentials.toml'')"
  by (simp add: config_defaults_def config_dict_def default_config_def)

lemma merge_layers_cases:
  assumes "merge_layers lib system machine fs environ config_path credentials_path env overrides = Inr values"
    and lib: "returns_dicts lib"
  obtains doc creds from_env v3 where "load_optional lib fs (config_file config_path) = Inr doc"
    "load_optional lib fs (credentials_file lib doc credentials_path) = Inr creds"
    "env_overrides (active_env environ env) CONFIG_FIELDS = Inr from_env"
    "values = jmerge (jmerge (jmerge v3 (credentials_layer creds)) from_env) (filter (\<lambda>(k, v). v \<noteq> V_None) overrides)"
    "map_of v3 = (map_of (config_defaults system machine) ++ (\<lambda>k. map_option V_Toml (map_of doc k)))
       (''credentials_path'' \<mapsto> V_Path (credentials_file lib doc credentials_path))"
proof -
  obtain doc where doc: "load_optional lib fs (config_file config_path) = Inr doc"
    using assms(1) by (auto simp: merge_layers_def rbind_Inr_iff config_file_def Let_def)
  let ?v1 = "jmerge (config_defaults system machine) (map (\<lambda>(k, v). (k, V_Toml v)) doc)"
  let ?v2 = "case credentials_path of Some p \<Rightarrow> jput ''credentials_path'' (V_Path (path_of p)) ?v1 | None \<Rightarrow> ?v1"
  have "distinct (map fst (map (\<lambda>(k, v). (k, V_Toml v)) doc))"
    using load_optional_distinct [OF lib doc] by (simp add: case_prod_beta comp_def)
  then have v1: "map_of ?v1 = map_of (config_defaults system machine) ++ (\<lambda>k. map_option V_Toml (map_of doc k))"
    by (simp add: map_of_merged map_of_rev fun_eq_iff map_of_toml_layer map_add_def)
  have act: "path_value lib (cfg_get ?v2 ''credentials_path'') = credentials_file lib doc credentials_path"
    by (auto simp: cfg_get_def credentials_file_def v1 map_add_def default_credentials_path path_value_def split: option.splits)
  let ?v3 = "jput ''credentials_path'' (V_Path (credentials_file lib doc credentials_path)) ?v2"
  have v3: "map_of ?v3 = (map_of (config_defaults system machine) ++ (\<lambda>k. map_option V_Toml (map_of doc k)))
      (''credentials_path'' \<mapsto> V_Path (credentials_file lib doc credentials_path))"
    using v1 by (auto simp: fun_eq_iff split: option.splits)
  obtain creds from_env where "load_optional lib fs (credentials_file lib doc credentials_path) = Inr creds"
    "env_overrides (active_env environ env) CONFIG_FIELDS = Inr from_env"
    "values = jmerge (jmerge (jmerge ?v3 (credentials_layer creds)) from_env) (filter (\<lambda>(k, v). v \<noteq> V_None) overrides)"
    using assms(1) doc by (auto simp: merge_layers_def rbind_Inr_iff config_file_def active_env_def Let_def act)
  then show ?thesis using that doc v3 by blast
qed

lemma sort_Nil_iff: "sort xs = [] \<longleftrightarrow> xs = []"
  by (metis set_empty set_sort)

lemma merged_value:
  assumes "values = jmerge (jmerge (jmerge v3 (credentials_layer creds)) from_env) (filter (\<lambda>(k, v). v \<noteq> V_None) overrides)"
    and v3: "map_of v3 = (map_of (config_defaults system machine) ++ (\<lambda>k. map_option V_Toml (map_of doc k)))
      (''credentials_path'' \<mapsto> V_Path (credentials_file lib doc credentials_path))"
    and env: "env_overrides e CONFIG_FIELDS = Inr from_env"
    and "distinct (map fst overrides)" and k: "k \<in> set CONFIG_FIELDS"
  shows "\<exists>v w. effective system machine doc credentials_path creds e overrides k = Some v \<and> map_of values k = Some w \<and>
    coerce_value lib k w = coerce_value lib k v"
proof -
  let ?over = "filter (\<lambda>(k, v). v \<noteq> V_None) overrides"
  have maps: "map_of (rev ?over) = map_of ?over" "map_of (rev from_env) k = env_value e k"
    using assms(4) env_overrides_keys [OF env distinct_fields] env_overrides_value [OF env distinct_fields, of k] k
    by (simp_all add: map_of_rev distinct_filter)
  let ?top = "[map_of ?over k, env_value e k, if k \<in> {''backend_url'', ''name''} then map_option V_Toml (map_of creds k) else None]"
  have val: "map_of values k = first_of (?top @ [map_of v3 k])"
    unfolding assms(1) map_of_merged map_add_first_of maps map_of_credentials_layer first_of_nested by simp
  define bottom where "bottom = [map_option V_Toml (map_of doc k), map_of (config_defaults system machine) k]"
  have eff: "effective system machine doc credentials_path creds e overrides k =
      first_of (?top @ (if k = ''credentials_path'' then map_option (\<lambda>p. V_Path (path_of p)) credentials_path else None) # bottom)"
    by (simp add: effective_def bottom_def)
  have "\<exists>v w. first_of ((if k = ''credentials_path'' then map_option (\<lambda>p. V_Path (path_of p)) credentials_path else None) # bottom) = Some v \<and>
      map_of v3 k = Some w \<and> coerce_value lib k w = coerce_value lib k v"
  proof (cases "k = ''credentials_path''")
    case True
    then show ?thesis
      by (cases credentials_path; cases "map_of doc k")
        (auto simp: v3 bottom_def credentials_file_def default_credentials_path coerce_value_def path_value_def)
  next
    case False
    have "map_of (config_defaults system machine) k \<noteq> None"
      using k default_keys [of system machine] by (metis map_of_eq_None_iff list.set_map)
    then show ?thesis using False by (cases "map_of doc k") (auto simp: v3 bottom_def map_add_def)
  qed
  then show ?thesis
    unfolding val eff first_of_append [of ?top] by (cases "first_of ?top") (auto simp: first_of.simps)
qed

lemma load_config_values:
  assumes "load_config lib refused system machine fs environ config_path credentials_path env overrides = Inr values"
    and "returns_dicts lib" and "distinct (map fst overrides)"
  shows "\<exists>doc creds. load_optional lib fs (config_file config_path) = Inr doc \<and>
    load_optional lib fs (credentials_file lib doc credentials_path) = Inr creds \<and>
    set (map fst values) = set CONFIG_FIELDS \<and>
    (\<forall>k \<in> set CONFIG_FIELDS. \<exists>v v'.
       effective system machine doc credentials_path creds (active_env environ env) overrides k = Some v \<and>
       coerce_value lib k v = Inr v' \<and> map_of values k = Some v')"
proof -
  obtain merged where m: "merge_layers lib system machine fs environ config_path credentials_path env overrides = Inr merged"
    and known: "filter (\<lambda>k. k \<notin> set CONFIG_FIELDS) (map fst merged) = []"
    and co: "coerce_config_values lib merged = Inr values"
    using assms(1) by (auto simp: load_config_def rbind_Inr_iff Let_def sort_Nil_iff)
  from m assms(2) obtain doc creds from_env v3 where
    doc: "load_optional lib fs (config_file config_path) = Inr doc"
    and creds: "load_optional lib fs (credentials_file lib doc credentials_path) = Inr creds"
    and env: "env_overrides (active_env environ env) CONFIG_FIELDS = Inr from_env"
    and layers: "merged = jmerge (jmerge (jmerge v3 (credentials_layer creds)) from_env) (filter (\<lambda>(k, v). v \<noteq> V_None) overrides)"
      "map_of v3 = (map_of (config_defaults system machine) ++ (\<lambda>k. map_option V_Toml (map_of doc k)))
         (''credentials_path'' \<mapsto> V_Path (credentials_file lib doc credentials_path))"
    by (rule merge_layers_cases)
  note val = merged_value [OF layers env assms(3)]
  have each_key: "map fst values = map fst merged"
    "\<forall>k v. map_of merged k = Some v \<longrightarrow> (\<exists>v'. coerce_value lib k v = Inr v' \<and> map_of values k = Some v')"
    using map_of_each [of "coerce_value lib" merged "values"] co by (simp_all add: coerce_config_values_def)
  have "k \<in> fst ` set merged" if "k \<in> set CONFIG_FIELDS" for k
    using val [OF that] by (metis map_of_eq_None_iff option.distinct(1))
  moreover have "fst ` set merged \<subseteq> set CONFIG_FIELDS" using known by (auto simp: filter_empty_conv)
  ultimately have "set (map fst values) = set CONFIG_FIELDS" using each_key(1) by auto
  moreover have "\<exists>v v'. effective system machine doc credentials_path creds (active_env environ env) overrides k = Some v \<and>
       coerce_value lib k v = Inr v' \<and> map_of values k = Some v'" if "k \<in> set CONFIG_FIELDS" for k
    using val [OF that] each_key(2) by metis
  ultimately show ?thesis using doc creds by blast
qed

text \<open>
  C18. Every setting has the value of the highest layer that gives one. A configuration that loads
  has exactly the known settings, each being the coerced value of the first of: a
  command line override, the environment, the credentials file (backend URL and name only), an
  explicit credentials path, the configuration file, the default. The credentials file that is
  read is the one named by the command line or the configuration file: a path given by
  the environment or an override does not change which file provides the backend URL and the name.
\<close>

theorem load_config_layers:
  assumes "load_config lib refused system machine fs environ config_path credentials_path env overrides = Inr values"
    and "returns_dicts lib" and "distinct (map fst overrides)"
  shows "\<exists>doc creds. load_optional lib fs (config_file config_path) = Inr doc \<and>
    load_optional lib fs (credentials_file lib doc credentials_path) = Inr creds \<and>
    set (map fst values) = set CONFIG_FIELDS \<and>
    (\<forall>k \<in> set CONFIG_FIELDS. \<exists>v v'.
       effective system machine doc credentials_path creds (active_env environ env) overrides k = Some v \<and>
       coerce_value lib k v = Inr v' \<and> map_of values k = Some v')"
  using assms by (rule load_config_values)

definition ex_cfg_lib :: cfg_lib where
  "ex_cfg_lib = \<lparr>toml_loads = (\<lambda>_. Inr []), toml_show = (\<lambda>_. ''?''), tuple_show = (\<lambda>_. ''?'')\<rparr>"

definition ex_load :: "cfg_dict result" where
  "ex_load = load_config ex_cfg_lib (\<lambda>_. False) ''Linux'' ''x86_64'' (\<lambda>_. None) [(''BUILD_ENGINE_MAX_CONCURRENCY'', ''4'')]
     None None None [(''name'', V_Str ''cli''), (''backend_url'', V_None)]"

lemma ex_load_value: "(case ex_load of Inl _ \<Rightarrow> False | Inr d \<Rightarrow> map_of d ''max_concurrency'' = Some (V_Int 4))"
  by code_simp

theorem load_config_layers_witness:
  "\<exists>values. ex_load = Inr values \<and> set (map fst values) = set CONFIG_FIELDS \<and> map_of values ''name'' = Some (V_Str ''cli'')"
proof -
  obtain d where v: "ex_load = Inr d" using ex_load_value by (auto split: sum.splits)
  have lib: "returns_dicts ex_cfg_lib" by (simp add: returns_dicts_def ex_cfg_lib_def)
  have "''name'' \<in> set CONFIG_FIELDS" by (simp add: CONFIG_FIELDS_def config_defaults_def config_dict_def)
  moreover have "distinct (map fst [(''name'', V_Str ''cli''), (''backend_url'', V_None)])" by simp
  note layers = load_config_layers [OF v [unfolded ex_load_def] lib this]
  moreover have "coerce_value ex_cfg_lib ''name'' x = Inr x" for x by (simp add: coerce_value_def)
  moreover have "effective ''Linux'' ''x86_64'' doc None creds e [(''name'', V_Str ''cli''), (''backend_url'', V_None)] ''name'' =
      Some (V_Str ''cli'')" for doc creds e by (simp add: effective_def)
  ultimately have "set (map fst d) = set CONFIG_FIELDS" "map_of d ''name'' = Some (V_Str ''cli'')" by fastforce+
  then show ?thesis using v by blast
qed

end
