(* ===== verification/Credentials_Correct.thy ===== *)
theory Credentials_Correct
  imports Credentials Fixtures
begin

text \<open>
  The credentials file: what is written is read back, the file is replaced as a whole or not at
  all, a refresh keeps the engine's identity, and registration by a privileged process on a
  host with the service account.
\<close>

section \<open>Strings of the file\<close>

subsection \<open>JSON string literals as basic strings\<close>

text \<open>What \<open>json.dumps\<close> prints of a text without characters beyond U+FFFF is a basic string.\<close>

definition basic_text :: "string \<Rightarrow> bool" where
  "basic_text s = (case utf8_decode s of None \<Rightarrow> False | Some us \<Rightarrow> list_all (\<lambda>u. u < 65536) us)"

lemma toml_hex_hex4: "u < 65536 \<Longrightarrow> toml_hex 4 (hex4 u @ r) = (if is_scalar u then Some u else None)"
proof -
  assume u: "u < 65536"
  have "hex4_val (hex4 u) = Some u" by (rule hex4_val_hex4 [OF u])
  then obtain a b c d where v: "map hex_val (hex4 u) = [Some a, Some b, Some c, Some d]"
    and n: "((a * 16 + b) * 16 + c) * 16 + d = u"
    by (auto simp: hex4_val_def split: list.splits option.splits)
  have "toml_hex 4 (hex4 u @ r) = toml_hex 4 (hex4 u)" by (simp add: toml_hex_def)
  also have "\<dots> = (if is_scalar u then Some u else None)" using v n by (simp add: toml_hex_def Let_def)
  finally show ?thesis .
qed

lemma toml_basic_esc1:
  assumes "is_scalar u" and "u < 65536"
  shows "toml_basic (esc1 u @ r) = map_option (\<lambda>(t, r'). (utf8_encode1 u @ t, r')) (toml_basic r)"
proof (cases "u < 127")
  case True
  then show ?thesis
    by (auto simp: esc1_def utf8_encode1_def toml_escape_def char_of_eq_iff is_scalar_def toml_hex_hex4 control_chars)
next
  case False
  then show ?thesis using assms by (simp add: esc1_def toml_hex_hex4 control_chars)
qed

lemma toml_basic_pair:
  assumes "65536 \<le> u" and "u < 1114112"
  shows "toml_basic (esc1 u @ r) = None"
proof -
  have "(u - 65536) div 1024 < 1024" using assms by auto
  then have "toml_hex 4 (hex4 (55296 + (u - 65536) div 1024) @ r') = None" for r'
    by (simp add: toml_hex_hex4 is_scalar_def)
  then show ?thesis using assms(1) by (simp add: esc1_def Let_def control_chars)
qed

lemma toml_basic_dump:
  assumes "basic_text s"
  shows "\<exists>t. dump_str s = CHR 0x22 # t \<and> toml_basic t = Some (s, [])"
proof -
  obtain us where us: "utf8_decode s = Some us" "list_all (\<lambda>u. u < 65536) us"
    using assms by (auto simp: basic_text_def split: option.splits)
  have enc: "utf8_encode us = s" "list_all is_scalar us" using utf8_decode_encode [OF us(1)] by auto
  have "toml_basic (concat (map esc1 us) @ [CHR 0x22]) = Some (utf8_encode us, [])"
    using us(2) enc(2) by (induction us) (simp_all add: toml_basic_esc1 utf8_encode_def)
  then show ?thesis using us(1) enc(1) by (simp add: dump_str_def)
qed

section \<open>Round trip\<close>

lemma hex_char_one_line: "d < 16 \<Longrightarrow> hex_char d \<noteq> CHR 0x0A"
  using hex_val_hex_char [of d] by (auto simp: hex_val_def)

lemma hex4_one_line: "CHR 0x0A \<notin> set (hex4 n)"
  using hex_char_one_line [of "_ mod 16"] by (auto simp: hex4_def eq_commute [of "CHR 0x0A"])

lemma esc1_one_line: "CHR 0x0A \<notin> set (esc1 u)"
  using hex4_one_line by (auto simp: esc1_def Let_def control_chars char_of_eq_iff eq_commute [of "CHR 0x0A"])

lemma toml_string_one_line: "CHR 0x0A \<notin> set (toml_string s)"
  using esc1_one_line by (auto simp: toml_string_def dump_str_def)

lemma toml_line_string:
  assumes "basic_text v" and "k \<noteq> []" and "list_all bare_key_char k"
  shows "toml_line (k @ '' = '' @ toml_string v) = Some (k, v)"
proof -
  obtain t where t: "dump_str v = CHR 0x22 # t" "toml_basic t = Some (v, [])"
    using toml_basic_dump [OF assms(1)] by blast
  have "\<not> bare_key_char (CHR '' '')" by (simp add: bare_key_char_def is_alpha_def is_num_def)
  moreover have "\<forall>c \<in> set k. bare_key_char c" using assms(3) by (simp add: list_all_iff)
  ultimately show ?thesis using assms(2) t by (simp add: toml_line_def toml_string_def toml_blank_def)
qed

lemma toml_lines_strings:
  "list_all (\<lambda>(k, v). k \<noteq> [] \<and> list_all bare_key_char k \<and> basic_text v) kvs \<Longrightarrow> distinct (map fst kvs) \<Longrightarrow>
   toml_lines (map (\<lambda>(k, v). k @ '' = '' @ toml_string v) kvs @ [[]]) = Some kvs"
  by (induction kvs) (auto simp: toml_line_string [simplified])

lemma join_snoc_nil: "ls \<noteq> [] \<Longrightarrow> join sep (ls @ [[]]) = join sep ls @ sep"
  by (induction sep ls rule: join.induct) simp_all

lemma bare_key_char_facts:
  assumes "bare_key_char c"
  shows "(of_char c :: nat) < 128" and "c \<noteq> CHR 0x0A"
  using assms by (auto simp: bare_key_char_def is_alpha_def is_num_def Let_def)

lemma toml_flat_strings:
  assumes kvs: "list_all (\<lambda>(k, v). k \<noteq> [] \<and> list_all bare_key_char k \<and> basic_text v) kvs" "distinct (map fst kvs)" "kvs \<noteq> []"
  shows "toml_flat (join [CHR 0x0A] (map (\<lambda>(k, v). k @ '' = '' @ toml_string v) kvs @ [[]])) = Some kvs"
proof -
  let ?ls = "map (\<lambda>(k, v). k @ '' = '' @ toml_string v) kvs"
  have chars: "c \<noteq> CHR 0x0A \<and> (of_char c :: nat) < 128" if "l \<in> set ?ls" "c \<in> set l" for l c
    using that kvs(1) toml_string_one_line bare_key_char_facts dump_str_ascii
    by (fastforce simp: list_all_iff toml_string_def)
  have "split_at (CHR 0x0A) (join [CHR 0x0A] (?ls @ [[]])) = ?ls @ [[]]"
    using chars kvs(3) by (subst join_snoc_nil, simp, intro split_at_lines) blast+
  moreover have "list_all (\<lambda>c. (of_char c :: nat) < 128) (join [CHR 0x0A] (?ls @ [[]]))"
  proof (rule list_all_join)
    show "list_all (\<lambda>c. (of_char c :: nat) < 128) x" if "x \<in> set (?ls @ [[]])" for x
      using that chars [of x] by (cases "x = []") (auto simp: list_all_iff)
  qed simp
  ultimately show ?thesis
    using toml_lines_strings [OF kvs(1,2)] by (simp add: toml_flat_def valid_utf8_def utf8_decode_ascii list_all_iff)
qed

definition storable :: "engine_credentials \<Rightarrow> bool" where
  "storable c \<longleftrightarrow> list_all (\<lambda>(k, v). basic_text v) (credentials_lines c)"

lemma credentials_text_flat: "storable c \<Longrightarrow> toml_flat (credentials_text c) = Some (credentials_lines c)"
  unfolding credentials_text_def
  by (rule toml_flat_strings)
    (simp_all add: storable_def credentials_lines_def bare_key_char_def is_alpha_def is_num_def)

definition complete :: "engine_credentials \<Rightarrow> bool" where
  "complete c \<longleftrightarrow> uuid_parse (cr_engine_id c) \<noteq> None \<and> cr_engine_id c \<noteq> [] \<and> cr_engine_secret c \<noteq> [] \<and>
     cr_session_jwt c \<noteq> [] \<and> cr_session_jwt_expires_at c \<noteq> []"

definition given :: "string option \<Rightarrow> string option" where
  "given x = (if x = Some [] then None else x)"

lemma credentials_of_lines:
  assumes "complete c"
  shows "credentials_of lib (map (\<lambda>(k, v). (k, T_Str v)) (credentials_lines c)) =
    Inr (c\<lparr>cr_backend_url := given (cr_backend_url c), cr_name := given (cr_name c)\<rparr>)"
  using assms
  by (cases c) (auto simp: credentials_of_def required_keys_def doc_text_def credentials_lines_def toml_true_def toml_str_of_def
      complete_def given_def Let_def split: option.splits)

section \<open>Installation of the file\<close>

text \<open>What holds after a sequence of calls, whichever of them fail: a call that fails ends the
  sequence, except that a refused change of owner may be passed over.\<close>

definition calls_ensure :: "host \<Rightarrow> file_call list \<Rightarrow> (unit result \<Rightarrow> files \<Rightarrow> bool) \<Rightarrow> files \<Rightarrow> bool" where
  "calls_ensure h cs Q fs \<longleftrightarrow> (\<forall>faults r fs'. run_calls h faults cs fs = (r, fs') \<longrightarrow> Q r fs')"

lemma calls_ensure_Nil: "Q (Inr ()) fs \<Longrightarrow> calls_ensure h [] Q fs"
  by (simp add: calls_ensure_def)

lemma ignored_owner: "ignored h c f \<Longrightarrow> \<exists>p. c = Set_Owner p"
  by (auto simp: ignored_def split: file_call.splits)

lemma calls_ensure_Cons:
  assumes "\<And>e. Q (Inl e) fs" and "\<And>p. c = Set_Owner p \<Longrightarrow> calls_ensure h cs Q fs"
    and "calls_ensure h cs Q (apply_call h c fs)"
  shows "calls_ensure h (c # cs) Q fs"
proof -
  have "Q r fs'" if run: "run_calls h faults (c # cs) fs = (r, fs')" for faults r fs'
  proof (cases "\<exists>f rest. faults = Some f # rest")
    case True
    then obtain f rest where faults: "faults = Some f # rest" by blast
    show ?thesis
    proof (cases "ignored h c f")
      case True
      then show ?thesis
        using run faults assms(2) ignored_owner [OF True] by (auto simp: calls_ensure_def)
    qed (use run faults assms(1) in auto)
  next
    case False
    then have "run_calls h (drop 1 faults) cs (apply_call h c fs) = (r, fs')"
      using run by (auto split: list.splits option.splits)
    then show ?thesis using assms(3) by (auto simp: calls_ensure_def)
  qed
  then show ?thesis by (auto simp: calls_ensure_def)
qed

lemmas calls_rules = calls_ensure_Nil calls_ensure_Cons

text \<open>Changing the owner of a file keeps its text and its mode.\<close>

definition owned :: "host \<Rightarrow> stored_file \<Rightarrow> stored_file" where
  "owned h f = (case service_ids h of None \<Rightarrow> f | Some (u, g) \<Rightarrow> f\<lparr>fl_uid := u, fl_gid := g\<rparr>)"

lemma apply_Set_Owner: "apply_call h (Set_Owner p) fs = at_file p (owned h) fs"
  by (cases "fs p") (auto simp: owned_def at_file_def split: option.splits)

lemma owned_keeps [simp]: "fl_text (owned h f) = fl_text f" "fl_mode (owned h f) = fl_mode f"
  by (auto simp: owned_def split: option.splits)

lemma at_file_apply [simp]: "at_file p f fs q = (if q = p then map_option f (fs p) else fs q)"
  by (simp add: at_file_def)

lemma length_temp_name: "length path < length (temp_name path rnd)"
proof -
  have "length (takeWhile (\<lambda>c. c \<noteq> CHR ''/'') (rev path)) \<le> length path"
    using length_takeWhile_le [of _ "rev path"] by simp
  then show ?thesis by (simp add: temp_name_def Let_def)
qed

lemma temp_name_neq [simp]: "temp_name path rnd \<noteq> path" "path \<noteq> temp_name path rnd"
  using length_temp_name [of path rnd] by auto

definition installed :: "string \<Rightarrow> stored_file option \<Rightarrow> bool" where
  "installed content f \<longleftrightarrow> (\<exists>x. f = Some x \<and> fl_text x = content \<and> fl_mode x = 0x180)"

text \<open>After the calls of the \<open>try\<close> block: the destination is as before or holds the new content, and
  holds it when every call succeeded; no file but the two is touched.\<close>

definition install_post :: "string \<Rightarrow> string \<Rightarrow> string \<Rightarrow> files \<Rightarrow> unit result \<Rightarrow> files \<Rightarrow> bool" where
  "install_post temp path content fs r fs' \<longleftrightarrow>
     (installed content (fs' path) \<or> (fs' path = fs path \<and> r \<noteq> Inr ())) \<and>
     (\<forall>p. p \<noteq> path \<and> p \<noteq> temp \<longrightarrow> fs' p = fs p)"

lemma install_calls_ensure:
  assumes "temp \<noteq> path" and "fs temp = Some f0"
  shows "calls_ensure h (install_calls temp path content) (install_post temp path content fs) fs"
  unfolding install_calls_def
  by (intro calls_rules; use assms in
      \<open>auto simp del: apply_call.simps(5) simp: apply_Set_Owner install_post_def installed_def\<close>)

lemma install_calls_success:
  "run_calls h [] (install_calls temp path content) fs =
     (Inr (), foldl (\<lambda>fs c. apply_call h c fs) fs (install_calls temp path content))"
  by (simp add: install_calls_def)

lemma write_credentials_post:
  assumes "write_credentials h faults rnd path c fs = (r, fs')" and "fs (temp_name path rnd) = None"
  shows "install_post (temp_name path rnd) path (credentials_text c) fs r fs' \<and> fs' (temp_name path rnd) = None"
proof -
  let ?temp = "temp_name path rnd"
  let ?made = "apply_call h (Make_Temp ?temp) fs"
  obtain r1 fs1 where first: "run_calls h (take 2 faults) (create_calls ?temp) fs = (r1, fs1)" by fastforce
  have "calls_ensure h (create_calls ?temp) (\<lambda>r1 fs1. r1 \<noteq> Inr () \<and> fs1 = fs \<or> r1 = Inr () \<and> fs1 = ?made) fs"
    unfolding create_calls_def by (intro calls_rules) auto
  then consider "r1 \<noteq> Inr ()" "fs1 = fs" | "r1 = Inr ()" "fs1 = ?made"
    using first by (auto simp: calls_ensure_def)
  then show ?thesis
  proof cases
    case 1
    then show ?thesis
      using assms first by (cases r1) (auto simp: write_credentials_def install_post_def)
  next
    case 2
    obtain r2 fs2 where second: "run_calls h (drop 2 faults) (install_calls ?temp path (credentials_text c)) ?made = (r2, fs2)"
      by fastforce
    have "install_post ?temp path (credentials_text c) ?made r2 fs2"
      using install_calls_ensure [of ?temp path ?made] second by (simp add: calls_ensure_def)
    moreover have "r = r2" "fs' = fs2(?temp := None)"
      using assms(1) first 2 second by (simp_all add: write_credentials_def)
    ultimately show ?thesis by (auto simp: install_post_def)
  qed
qed


section \<open>A sample host\<close>

definition ex_lib :: toml_lib where
  "ex_lib = \<lparr>toml_loads = (\<lambda>text. case toml_flat text of
       Some doc \<Rightarrow> Inr (map (\<lambda>(k, v). (k, T_Str v)) doc)
     | None \<Rightarrow> Inl (ValueError ''TOMLDecodeError'')), toml_show = (\<lambda>_. ''?'')\<rparr>"

definition ex_stored :: engine_credentials where
  "ex_stored = \<lparr>cr_engine_id = ex_engine, cr_engine_secret = replicate 32 (CHR ''x''), cr_session_jwt = ''token'',
     cr_session_jwt_expires_at = ''2030-01-01T00:00:00Z'', cr_backend_url = Some ''https://agent.example'',
     cr_name = Some ''engine''\<rparr>"

definition ex_host :: host where
  "ex_host = \<lparr>h_euid = 0, h_egid = 0, h_users = [''build-engine'' \<mapsto> 990], h_groups = [''build-engine'' \<mapsto> 991]\<rparr>"

lemma ex_lib_reads_flat: "reads_flat ex_lib"
  by (simp add: reads_flat_def ex_lib_def)

lemma basic_text_ascii: "\<forall>c \<in> set s. (of_char c :: nat) < 128 \<Longrightarrow> basic_text s"
  by (auto simp: basic_text_def utf8_decode_ascii list_all_iff intro: less_trans)

lemma ex_stored_ok: "storable ex_stored" "complete ex_stored"
proof -
  show "storable ex_stored"
    by (simp add: storable_def credentials_lines_def ex_stored_def ex_engine_def basic_text_ascii)
  have "uuid_parse ex_engine \<noteq> None" using ex_uuids(4) by (auto simp: is_uuid_def split: option.splits)
  then show "complete ex_stored" by (simp add: complete_def ex_stored_def ex_engine_def)
qed


section \<open>Reading back\<close>

lemma load_written:
  assumes "reads_flat lib" and "storable c" and "complete c" and "fs path = Some f" and "fl_text f = credentials_text c"
  shows "load_credentials lib fs path = Inr (c\<lparr>cr_backend_url := given (cr_backend_url c), cr_name := given (cr_name c)\<rparr>)"
proof -
  have "toml_loads lib (credentials_text c) = Inr (map (\<lambda>(k, v). (k, T_Str v)) (credentials_lines c))"
    using assms(1) credentials_text_flat [OF assms(2)] by (simp add: reads_flat_def)
  then show ?thesis using assms(3-5) by (simp add: load_credentials_def load_toml_def credentials_of_lines)
qed

text \<open>
  C17. Credentials written without an error are read back: for a \<open>tomllib\<close> that reads lines of
  bare keys and basic strings as TOML defines them, \<open>load_credentials\<close> returns what
  \<open>write_credentials\<close> stored, an empty backend URL or name being read as absent. The
  texts may hold any characters up to U+FFFF, quotes, backslashes and control characters included.
\<close>

theorem credentials_round_trip:
  assumes "reads_flat lib" and "storable c" and "complete c"
    and "write_credentials h faults rnd path c fs = (Inr (), fs')" and "fs (temp_name path rnd) = None"
  shows "load_credentials lib fs' path = Inr (c\<lparr>cr_backend_url := given (cr_backend_url c), cr_name := given (cr_name c)\<rparr>)"
  using write_credentials_post [OF assms(4,5)] load_written [OF assms(1-3)]
  by (auto simp: install_post_def installed_def)

lemma write_no_faults:
  "fst (write_credentials h [] rnd path c fs) = Inr ()"
  by (simp add: write_credentials_def create_calls_def install_calls_def Let_def)

theorem credentials_round_trip_witness:
  "let fs' = snd (write_credentials ex_host [] ''a1'' ''/etc/credentials.toml'' ex_stored (\<lambda>_. None))
   in load_credentials ex_lib fs' ''/etc/credentials.toml'' = Inr ex_stored"
  using credentials_round_trip [OF ex_lib_reads_flat ex_stored_ok, of ex_host "[]" "''a1''" "''/etc/credentials.toml''" "\<lambda>_. None"]
    write_no_faults [of ex_host "''a1''" "''/etc/credentials.toml''" ex_stored "\<lambda>_. None"]
  by (simp add: prod_eq_iff given_def ex_stored_def)

text \<open>A character beyond U+FFFF is written as a pair of surrogates, which is no TOML string.\<close>

lemma toml_basic_beyond:
  assumes "utf8_decode s = Some us" and "\<exists>u \<in> set us. 65536 \<le> u"
  shows "toml_basic (tl (dump_str s)) = None"
proof -
  have scalar: "list_all is_scalar us" using utf8_decode_encode [OF assms(1)] by blast
  have "toml_basic (concat (map esc1 us) @ r) = None" for r
    using assms(2) scalar
  proof (induction us)
    case (Cons u us)
    show ?case
    proof (cases "65536 \<le> u")
      case True
      moreover have "u < 1114112" using Cons.prems(2) by (auto simp: is_scalar_def)
      ultimately show ?thesis by (simp add: toml_basic_pair)
    next
      case False
      then show ?thesis using Cons by (simp add: toml_basic_esc1)
    qed
  qed simp
  then show ?thesis using assms(1) by (simp add: dump_str_def)
qed

section \<open>Refreshing the session\<close>

lemma refresh_if_needed_cases:
  assumes "refresh_session_if_needed clk isofmt client c = Inr c'"
  obtains t where "c' = c" "parse_datetime clk (cr_session_jwt_expires_at c) = Inr t" "REFRESH_WINDOW < t - clk_now clk"
    "cr_session_jwt c \<noteq> []"
  | s where "create_session clk client (cr_engine_id c) (cr_engine_secret c) = Inr s"
    "c' = c\<lparr>cr_session_jwt := ss_token s, cr_session_jwt_expires_at := isofmt (ss_expires_at s)\<rparr>"
  using assms by (auto simp: refresh_session_if_needed_def rbind_Inr_iff split: if_splits)

lemma refresh_session_cases:
  assumes "refresh_session lib clk isofmt client h faults rnd path backend_url fs = (Inr c', fs')"
  obtains c u where "load_credentials lib fs path = Inr c" "refresh_session_if_needed clk isofmt (client u) c = Inr c'"
    "if c' = c then fs' = fs else write_credentials h faults rnd path c' fs = (Inr (), fs')"
proof -
  obtain c where c: "load_credentials lib fs path = Inr c"
    using assms by (auto simp: refresh_session_def split: sum.splits)
  obtain u us where "(case backend_url of Some (x # xs) \<Rightarrow> Some (x # xs) | _ \<Rightarrow> cr_backend_url c) = Some (u # us)"
    using assms c by (auto simp: refresh_session_def split: option.splits list.splits)
  then have *: "refresh_session lib clk isofmt client h faults rnd path backend_url fs =
      (case refresh_session_if_needed clk isofmt (client (u # us)) c of
          Inl e \<Rightarrow> (Inl e, fs)
        | Inr refreshed \<Rightarrow>
            if refreshed = c then (Inr refreshed, fs)
            else (let (r, fs') = write_credentials h faults rnd path refreshed fs in (rbind r (\<lambda>_. Inr refreshed), fs')))"
    using c by (simp add: refresh_session_def)
  then obtain d where d: "refresh_session_if_needed clk isofmt (client (u # us)) c = Inr d"
    using assms by (auto split: sum.splits)
  then have "d = c' \<and> (if c' = c then fs' = fs else write_credentials h faults rnd path c' fs = (Inr (), fs'))"
    using assms * by (auto simp: rbind_Inr_iff Let_def split: if_splits prod.splits)
  then show ?thesis using that c d by blast
qed

text \<open>
  A session refresh keeps the engine's identity and leaves on disk what it returns. When
  \<open>refresh_session\<close> succeeds, the identifier, the secret, the backend URL and the name are those of
  the stored credentials. Either the stored token is used unchanged, with more than five
  minutes to live, or the token and its expiry come from a session the backend created for
  that identifier and secret, and reading the file back gives the refreshed credentials.
\<close>

theorem refresh_session_sound:
  assumes "refresh_session lib clk isofmt client h faults rnd path backend_url fs = (Inr c', fs')"
    and "reads_flat lib" and "fs (temp_name path rnd) = None"
  shows "\<exists>c. load_credentials lib fs path = Inr c \<and>
    cr_engine_id c' = cr_engine_id c \<and> cr_engine_secret c' = cr_engine_secret c \<and>
    cr_backend_url c' = cr_backend_url c \<and> cr_name c' = cr_name c \<and>
    (c' = c \<and> fs' = fs \<and> (\<exists>t. parse_datetime clk (cr_session_jwt_expires_at c') = Inr t \<and> REFRESH_WINDOW < t - clk_now clk) \<or>
     (\<exists>u s. create_session clk (client u) (cr_engine_id c) (cr_engine_secret c) = Inr s \<and>
        cr_session_jwt c' = ss_token s \<and> cr_session_jwt_expires_at c' = isofmt (ss_expires_at s) \<and>
        (storable c' \<and> complete c' \<and> c' \<noteq> c \<longrightarrow>
           load_credentials lib fs' path =
             Inr (c'\<lparr>cr_backend_url := given (cr_backend_url c'), cr_name := given (cr_name c')\<rparr>))))"
proof -
  obtain c u where c: "load_credentials lib fs path = Inr c" "refresh_session_if_needed clk isofmt (client u) c = Inr c'"
    and w: "if c' = c then fs' = fs else write_credentials h faults rnd path c' fs = (Inr (), fs')"
    using assms(1) by (rule refresh_session_cases)
  have disk: "load_credentials lib fs' path = Inr (c'\<lparr>cr_backend_url := given (cr_backend_url c'), cr_name := given (cr_name c')\<rparr>)"
    if "storable c'" "complete c'" "c' \<noteq> c"
    using w that(3) write_credentials_post [of h faults rnd path c' fs "Inr ()" fs'] assms(3)
      load_written [OF assms(2) that(1,2)]
    by (auto simp: install_post_def installed_def)
  from c(2) show ?thesis
  proof (cases rule: refresh_if_needed_cases)
    case (1 t)
    then show ?thesis using c(1) w by auto
  next
    case (2 s)
    then show ?thesis using c(1) disk by auto
  qed
qed

text \<open>A backend that answers every request with the same document.\<close>

definition ex_client :: "payload \<Rightarrow> string \<Rightarrow> auth_client" where
  "ex_client reply = new_client (\<lambda>_ _. Http_Body (dump_sp '' '' (JObj reply))) (\<lambda>_. ''?'')"

lemma post_ex_client: "printable (JObj reply) \<Longrightarrow> post_json (ex_client reply u) path p = Inr reply"
  using loads_dump [of "'' ''" "JObj reply"] dump_valid_utf8 [of "JObj reply" "'' ''"]
  by (simp add: post_json_def ex_client_def new_client_def json_ws_def del: dump_sp.simps)

definition ex_reply :: payload where
  "ex_reply = [(''engine_id'', JStr ex_engine), (''engine_secret'', JStr (replicate 32 (CHR ''x''))),
     (''session_jwt'', JStr ''fresh''), (''session_jwt_expires_at'', JStr ''2031-01-01T00:00:00Z'')]"

definition auth_clock :: clock where
  "auth_clock = \<lparr>clk_now = 1000000000000, clk_fmt = (\<lambda>_. ''2000-01-01T00:00:00.000Z''), clk_iso = (\<lambda>_. Some (0, True))\<rparr>"

lemma printable_ex_reply: "printable (JObj ex_reply)"
proof -
  have ascii: "valid_utf8 s" if "\<forall>c \<in> set s. (of_char c :: nat) < 128" for s
    using that by (simp add: valid_utf8_def utf8_decode_ascii)
  show ?thesis by (simp add: ex_reply_def ex_engine_def ascii)
qed

definition ex_files :: files where
  "ex_files = (\<lambda>_. None)(''/c.toml'' \<mapsto> \<lparr>fl_text = credentials_text ex_stored, fl_mode = 0x180, fl_uid = 990, fl_gid = 991\<rparr>)"

lemma load_ex_files: "load_credentials ex_lib ex_files ''/c.toml'' = Inr ex_stored"
  using load_written [OF ex_lib_reads_flat ex_stored_ok, of ex_files "''/c.toml''"]
  by (simp add: ex_files_def given_def ex_stored_def)

lemma ex_refresh:
  "\<exists>fs'. refresh_session ex_lib auth_clock (\<lambda>_. ''2031-01-01T00:00:00+00:00'') (ex_client ex_reply) ex_host [] ''a1'' ''/c.toml''
     None ex_files =
   (Inr (ex_stored\<lparr>cr_session_jwt := ''fresh'', cr_session_jwt_expires_at := ''2031-01-01T00:00:00+00:00''\<rparr>), fs')"
proof -
  have s: "create_session auth_clock (ex_client ex_reply u) i k =
      Inr \<lparr>ss_engine_id = ex_engine, ss_token = ''fresh'', ss_expires_at = 0\<rparr>" for u i k
    using printable_ex_reply
    by (simp add: create_session_def post_ex_client session_from_payload_def reply_text_def ex_reply_def jget_def json_true_def
        json_str_of_def parse_datetime_def auth_clock_def ex_engine_def)
  let ?c = "ex_stored\<lparr>cr_session_jwt := ''fresh'', cr_session_jwt_expires_at := ''2031-01-01T00:00:00+00:00''\<rparr>"
  have r: "refresh_session_if_needed auth_clock (\<lambda>_. ''2031-01-01T00:00:00+00:00'') (ex_client ex_reply u) ex_stored = Inr ?c" for u
    using s by (simp add: refresh_session_if_needed_def parse_datetime_def auth_clock_def REFRESH_WINDOW_def)
  have "cr_backend_url ex_stored = Some ''https://agent.example''" "?c \<noteq> ex_stored" by (simp_all add: ex_stored_def)
  moreover obtain fs' where "write_credentials ex_host [] ''a1'' ''/c.toml'' ?c ex_files = (Inr (), fs')"
    using write_no_faults [of ex_host "''a1''" "''/c.toml''" ?c ex_files] by (metis prod.collapse)
  ultimately show ?thesis
    using r by (intro exI [of _ fs']) (simp add: refresh_session_def load_ex_files)
qed

theorem refresh_session_sound_witness:
  "\<exists>c' fs'. refresh_session ex_lib auth_clock (\<lambda>_. ''2031-01-01T00:00:00+00:00'') (ex_client ex_reply) ex_host [] ''a1'' ''/c.toml''
     None ex_files = (Inr c', fs') \<and> cr_engine_id c' = ex_engine \<and> cr_session_jwt c' = ''fresh''"
proof -
  obtain fs' where *: "refresh_session ex_lib auth_clock (\<lambda>_. ''2031-01-01T00:00:00+00:00'') (ex_client ex_reply) ex_host [] ''a1''
      ''/c.toml'' None ex_files =
      (Inr (ex_stored\<lparr>cr_session_jwt := ''fresh'', cr_session_jwt_expires_at := ''2031-01-01T00:00:00+00:00''\<rparr>), fs')"
    using ex_refresh by blast
  have "ex_files (temp_name ''/c.toml'' ''a1'') = None" by (simp add: ex_files_def)
  from refresh_session_sound [OF * ex_lib_reads_flat this] load_ex_files
  have "cr_engine_id (ex_stored\<lparr>cr_session_jwt := ''fresh'', cr_session_jwt_expires_at := ''2031-01-01T00:00:00+00:00''\<rparr>) = ex_engine"
    by (auto simp: ex_stored_def)
  then show ?thesis using * by auto
qed

end
