(* ===== verification/Registration.thy ===== *)
theory Registration
  imports Credentials_Correct
begin

text \<open>
  Registration end to end (\<open>auth.py\<close>: \<open>register_engine\<close>): on a host where the process is the
  service account, or where the account does not exist, it leaves a file that the service
  accepts; run by a privileged process beside the account, it reports a failure after the token
  is spent.
\<close>

section \<open>The file a registration leaves\<close>

definition new_file :: "host \<Rightarrow> engine_credentials \<Rightarrow> stored_file" where
  "new_file h c = owned h \<lparr>fl_text = credentials_text c, fl_mode = 0x180, fl_uid = h_euid h, fl_gid = h_egid h\<rparr>"

lemma owned_owned [simp]: "owned h (owned h f) = owned h f"
  by (auto simp: owned_def split: option.splits)

lemma owned_mode [simp]: "owned h (f\<lparr>fl_mode := m\<rparr>) = (owned h f)\<lparr>fl_mode := m\<rparr>"
  by (auto simp: owned_def split: option.splits)

lemma written_file: "snd (write_credentials h [] rnd path c fs) path = Some (new_file h c)"
  by (simp add: write_credentials_def create_calls_def install_calls_def apply_Set_Owner new_file_def Let_def
      del: apply_call.simps(5))

lemma new_file_text [simp]: "fl_text (new_file h c) = credentials_text c" "fl_mode (new_file h c) = 0x180"
  by (simp_all add: new_file_def)

lemma new_file_owner:
  "(fl_uid (new_file h c), fl_gid (new_file h c)) =
     (case service_ids h of None \<Rightarrow> (h_euid h, h_egid h) | Some ids \<Rightarrow> ids)"
  by (auto simp: new_file_def owned_def split: option.splits)

lemma private_mode: "validate_secret_file_permissions path 0x180 = Inr ()"
  by (simp add: validate_secret_file_permissions_def)

lemma validate_new_file:
  assumes "reads_flat lib" and "storable c" and "complete c" and "fs path = Some (new_file h c)"
  shows "validate_credentials_file lib clk h user grp fs path =
    rbind (validate_secret_file_ownership h user grp path (new_file h c)) (\<lambda>_.
    rbind (validate_engine_secret (cr_engine_secret c)) (\<lambda>_.
    rbind (parse_datetime clk (cr_session_jwt_expires_at c)) (\<lambda>_.
      Inr (c\<lparr>cr_backend_url := given (cr_backend_url c), cr_name := given (cr_name c)\<rparr>))))"
  using load_written [OF assms(1-3), of fs path "new_file h c"] assms(4) by (simp add: validate_credentials_file_def private_mode)

text \<open>The request was answered with an engine's credentials.\<close>

definition accepted :: "(string \<Rightarrow> auth_client) \<Rightarrow> string \<Rightarrow> engine_config \<Rightarrow> string \<Rightarrow> engine_credentials \<Rightarrow> bool" where
  "accepted client version config token c \<longleftrightarrow>
     (case (cf_backend_url config, cf_name config) of
        (Some url, Some name) \<Rightarrow>
          url \<noteq> [] \<and> name \<noteq> [] \<and>
          rbind (post_json (client url) ''/api/v2/build-engines/agent/register''
                   (register_payload token name (config_capabilities config) version))
            (credentials_from_registration_response (ac_show (client url)) config) = Inr c
      | _ \<Rightarrow> False)"

lemma register_accepted:
  assumes "accepted client version config token c"
  shows "register_engine lib clk client version h faults rnd config token fs =
    (let path = cf_credentials_path config; (r, fs') = write_credentials h faults rnd path c fs in
     (rbind r (\<lambda>_.
      rbind (validate_credentials_file lib clk h None None fs' path) (\<lambda>_.
      rbind (parse_datetime clk (cr_session_jwt_expires_at c)) (\<lambda>t.
        Inr \<lparr>rr_engine_id = cr_engine_id c, rr_session_jwt_expires_at = t, rr_credentials_path = path\<rparr>))), fs'))"
  using assms by (auto simp: accepted_def register_engine_def neq_Nil_conv split: option.splits)

section \<open>Registration by the service account\<close>

text \<open>
  Registration yields credentials the service starts with. Let the backend accept the request
  and answer with a UUID, a secret of at least 32 ASCII characters and an expiry that parses, let no
  system call fail, and let the process run as the service account (or the account not
  exist). Then \<open>register_engine\<close> succeeds, and the file it left passes the validation
  that \<open>serve\<close> performs under the service identity, with the credentials of the answer.
\<close>

theorem registration_serves:
  assumes "reads_flat lib" and "accepted client version config token c" and "storable c" and "complete c"
    and "validate_engine_secret (cr_engine_secret c) = Inr ()"
    and "parse_datetime clk (cr_session_jwt_expires_at c) = Inr t"
    and "h_users h SERVICE_USER \<in> {None, Some (h_euid h)}" and "h_groups h SERVICE_GROUP \<in> {None, Some (h_egid h)}"
  shows "\<exists>fs'. register_engine lib clk client version h [] rnd config token fs =
      (Inr \<lparr>rr_engine_id = cr_engine_id c, rr_session_jwt_expires_at = t, rr_credentials_path = cf_credentials_path config\<rparr>, fs') \<and>
    validate_credentials_file lib clk h (Some SERVICE_USER) (Some SERVICE_GROUP) fs' (cf_credentials_path config) =
      Inr (c\<lparr>cr_backend_url := given (cr_backend_url c), cr_name := given (cr_name c)\<rparr>)"
proof -
  let ?path = "cf_credentials_path config"
  obtain fs' where w: "write_credentials h [] rnd ?path c fs = (Inr (), fs')"
    using write_no_faults [of h rnd ?path c fs] by (metis prod.collapse)
  then have stored: "fs' ?path = Some (new_file h c)" using written_file [of h rnd ?path c fs] by simp
  have own: "fl_uid (new_file h c) = h_euid h" "fl_gid (new_file h c) = h_egid h"
    using new_file_owner [of h c] assms(7,8)
    by (auto simp: service_ids_def SERVICE_USER_def SERVICE_GROUP_def split: option.splits)
  have ok: "validate_secret_file_ownership h user grp ?path (new_file h c) = Inr ()"
    if "user \<in> {None, Some SERVICE_USER}" "grp \<in> {None, Some SERVICE_GROUP}" for user grp
    using that own assms(7,8) by (auto simp: validate_secret_file_ownership_def expected_id_def Let_def)
  note v = validate_new_file [where h = h and c = c and path = ?path and fs = fs', OF assms(1,3,4) stored]
  have "register_engine lib clk client version h [] rnd config token fs =
      (Inr \<lparr>rr_engine_id = cr_engine_id c, rr_session_jwt_expires_at = t, rr_credentials_path = ?path\<rparr>, fs')"
    using assms(5,6) w ok [of None None] by (simp add: register_accepted [OF assms(2)] v)
  moreover have "validate_credentials_file lib clk h (Some SERVICE_USER) (Some SERVICE_GROUP) fs' ?path =
      Inr (c\<lparr>cr_backend_url := given (cr_backend_url c), cr_name := given (cr_name c)\<rparr>)"
    using assms(5,6) ok [of "Some SERVICE_USER" "Some SERVICE_GROUP"] by (simp add: v)
  ultimately show ?thesis by blast
qed

section \<open>Registration by a privileged process\<close>

text \<open>
  C22. Registration by a privileged process on a host with the service account reports a failure.
  The new file is given to the account, but its validation expects the owner to be
  the process itself. So even when the backend accepted the one-time token and every system call
  succeeded, \<open>register_engine\<close> ends with an \<open>AuthError\<close>, with the complete credentials on disk.
\<close>

theorem privileged_registration_fails:
  assumes "reads_flat lib" and "accepted client version config token c" and "storable c" and "complete c"
    and "h_euid h = 0" and "service_ids h = Some (u, g)" and "u \<noteq> 0"
  shows "\<exists>message fs' f. register_engine lib clk client version h [] rnd config token fs = (Inl (AuthError message), fs') \<and>
    prefix ''Secret file ownership is invalid: '' message \<and>
    fs' (cf_credentials_path config) = Some f \<and> fl_text f = credentials_text c \<and> fl_uid f = u"
proof -
  let ?path = "cf_credentials_path config"
  obtain fs' where w: "write_credentials h [] rnd ?path c fs = (Inr (), fs')"
    using write_no_faults [of h rnd ?path c fs] by (metis prod.collapse)
  then have stored: "fs' ?path = Some (new_file h c)" using written_file [of h rnd ?path c fs] by simp
  have own: "fl_uid (new_file h c) = u" using new_file_owner [of h c] assms(6) by simp
  obtain rest where "validate_secret_file_ownership h None None ?path (new_file h c) =
      Inl (AuthError (''Secret file ownership is invalid: '' @ rest))"
    using own assms(5,7) by (auto simp: validate_secret_file_ownership_def expected_id_def Let_def)
  then have "register_engine lib clk client version h [] rnd config token fs =
      (Inl (AuthError (''Secret file ownership is invalid: '' @ rest)), fs')"
    using w validate_new_file [where h = h and c = c and path = ?path and fs = fs', OF assms(1,3,4) stored]
    by (simp add: register_accepted [OF assms(2)])
  then show ?thesis using stored own prefixI by fastforce
qed

section \<open>A sample registration\<close>

definition ex_registration :: engine_config where
  "ex_registration = (default_config ''linux'' ''amd64'')\<lparr>cf_backend_url := Some ''https://agent.example'', cf_name := Some ''engine''\<rparr>"

definition ex_registered :: engine_credentials where
  "ex_registered = ex_stored\<lparr>cr_session_jwt := ''fresh'', cr_session_jwt_expires_at := ''2031-01-01T00:00:00Z''\<rparr>"

lemma ex_accepted: "accepted (ex_client ex_reply) ''0.3.0'' ex_registration ''token'' ex_registered"
  using post_ex_client [OF printable_ex_reply]
  by (simp add: accepted_def ex_registration_def default_config_def credentials_from_registration_response_def required_keys_def
      reply_text_def ex_reply_def jget_def json_true_def json_str_of_def ex_registered_def ex_stored_def ex_engine_def)

lemma ex_registered_ok: "storable ex_registered" "complete ex_registered"
  "validate_engine_secret (cr_engine_secret ex_registered) = Inr ()"
  "parse_datetime auth_clock (cr_session_jwt_expires_at ex_registered) = Inr 0"
  using ex_stored_ok
  by (simp_all add: storable_def complete_def credentials_lines_def ex_registered_def ex_stored_def basic_text_ascii
      validate_engine_secret_def MIN_ENGINE_SECRET_BYTES_def parse_datetime_def auth_clock_def list_all_iff)

theorem registration_serves_witness:
  "let h = ex_host\<lparr>h_euid := 990, h_egid := 991\<rparr> in
   \<exists>fs'. validate_credentials_file ex_lib auth_clock h (Some SERVICE_USER) (Some SERVICE_GROUP) fs'
     (cf_credentials_path ex_registration) = Inr ex_registered"
proof -
  let ?h = "ex_host\<lparr>h_euid := 990, h_egid := 991\<rparr>"
  have h: "h_users ?h SERVICE_USER \<in> {None, Some (h_euid ?h)}" "h_groups ?h SERVICE_GROUP \<in> {None, Some (h_egid ?h)}"
    by (simp_all add: ex_host_def SERVICE_USER_def SERVICE_GROUP_def)
  have "ex_registered\<lparr>cr_backend_url := given (cr_backend_url ex_registered), cr_name := given (cr_name ex_registered)\<rparr> = ex_registered"
    by (simp add: ex_registered_def ex_stored_def given_def)
  then show ?thesis
    using registration_serves [OF ex_lib_reads_flat ex_accepted ex_registered_ok h, of "''a1''" "\<lambda>_. None"]
    by (auto simp: Let_def)
qed

theorem privileged_registration_fails_witness:
  "\<exists>message fs'. register_engine ex_lib auth_clock (ex_client ex_reply) ''0.3.0'' ex_host [] ''a1'' ex_registration ''token'' (\<lambda>_. None) =
     (Inl (AuthError message), fs')"
proof -
  have "h_euid ex_host = 0" "service_ids ex_host = Some (990, 991)" "(990::int) \<noteq> 0"
    by (simp_all add: ex_host_def service_ids_def)
  from privileged_registration_fails [OF ex_lib_reads_flat ex_accepted ex_registered_ok(1,2) this] show ?thesis by blast
qed

end
