(* ===== verification/Connection.thy ===== *)
theory Connection
  imports Registration Metrics
begin

text \<open>
  Opening the uplink (\<open>agent/uplink.py\<close>): refreshing the session, the address and the headers of the
  websocket, and one connection from there to its end. The connector is a parameter: given the
  address and the headers it fails, or yields the frames the backend sends until it closes.
\<close>

section \<open>Addresses\<close>

definition AGENT_WS_PATH :: string where "AGENT_WS_PATH = ''/api/v2/build-engines/agent/ws''"

definition rstrip_slash :: "string \<Rightarrow> string" where
  "rstrip_slash s = rev (dropWhile (\<lambda>c. c = CHR ''/'') (rev s))"

definition ws_scheme :: "string \<Rightarrow> string" where
  "ws_scheme s = (if s = ''http'' then ''ws'' else if s = ''https'' then ''wss'' else s)"

text \<open>\<open>urlunparse\<close> of a scheme that takes an authority, without parameters, query and fragment.\<close>

definition urlunparse :: "string \<Rightarrow> string \<Rightarrow> string \<Rightarrow> string" where
  "urlunparse scheme netloc path =
     scheme @ '':'' @
     (if netloc \<noteq> [] then ''//'' @ netloc @ (if path \<noteq> [] \<and> take 1 path \<noteq> ''/'' then ''/'' @ path else path)
      else if prefix ''//'' path then ''//'' @ path
      else if path = [] \<or> take 1 path = ''/'' then ''//'' @ path
      else path)"

definition websocket_url :: "(string \<Rightarrow> bool) \<Rightarrow> string \<Rightarrow> string result" where
  "websocket_url refused backend_url =
     rbind (urlparse refused backend_url) (\<lambda>u.
     rbind (ensure (u_scheme u \<in> {''http'', ''https'', ''ws'', ''wss''}) (ProtocolError ''backend_url must use http(s) or ws(s)'')) (\<lambda>_.
       let base_path = rstrip_slash (u_path u);
           path = (if suffix ''/ws'' base_path then base_path else base_path @ AGENT_WS_PATH) in
       Inr (urlunparse (ws_scheme (u_scheme u)) (u_netloc u) path)))"

definition uplink_headers :: "string \<Rightarrow> engine_config \<Rightarrow> engine_credentials \<Rightarrow> (string \<times> string) list" where
  "uplink_headers version config c =
     client_headers_for_credentials version c @
     [(''X-Build-Engine-Proto'', int_str PROTOCOL_VERSION), (''X-Build-Engine-Version'', version),
      (''X-Image-Manifest-Version'', cf_image_manifest_version config)]"

section \<open>Sessions\<close>

text \<open>\<open>a or b\<close> on optional texts.\<close>

definition or_text :: "string option \<Rightarrow> string option \<Rightarrow> string option" where
  "or_text a b = (case a of Some (x # xs) \<Rightarrow> a | _ \<Rightarrow> b)"

definition refresh_credentials ::
  "clock \<Rightarrow> (int \<Rightarrow> string) \<Rightarrow> (string \<Rightarrow> auth_client) \<Rightarrow> engine_config \<Rightarrow> engine_credentials \<Rightarrow> engine_credentials result" where
  "refresh_credentials clk isofmt client config c =
     (case or_text (cr_backend_url c) (cf_backend_url config) of
        None \<Rightarrow> Inr c
      | Some url \<Rightarrow> refresh_session_if_needed clk isofmt (client url) c)"

definition uplink_hello :: "string \<Rightarrow> engine_config \<Rightarrow> payload" where
  "uplink_hello version config =
     hello_payload version (cf_image_manifest_version config) (JObj (config_capabilities config)) (cf_max_concurrency config)"

text \<open>The address and the headers the connector is called with.\<close>

definition uplink_request ::
  "(string \<Rightarrow> bool) \<Rightarrow> string \<Rightarrow> engine_config \<Rightarrow> engine_credentials \<Rightarrow> (string \<times> (string \<times> string) list) result" where
  "uplink_request refused version config c =
     (case or_text (cr_backend_url c) (cf_backend_url config) of
        Some (x # xs) \<Rightarrow>
          rbind (websocket_url refused (x # xs)) (\<lambda>url. Inr (url, uplink_headers version config c))
      | _ \<Rightarrow> Inl (ProtocolError ''backend_url is required for uplink''))"

text \<open>\<open>connect_once\<close>: the credentials are replaced before the socket is opened.\<close>

definition uplink_connect ::
  "(string \<Rightarrow> bool) \<Rightarrow> string \<Rightarrow> (int \<Rightarrow> string) \<Rightarrow> (string \<Rightarrow> auth_client) \<Rightarrow>
   (string \<Rightarrow> (string \<times> string) list \<Rightarrow> frame list result) \<Rightarrow> engine_config \<Rightarrow> uplink_env \<Rightarrow>
   engine_credentials \<times> engine_state conn \<Rightarrow> unit result \<times> engine_credentials \<times> engine_state conn" where
  "uplink_connect refused version isofmt client connector config u s =
     (let (c, k) = s in
      case refresh_credentials (ue_clk u) isofmt client config c of
        Inl e \<Rightarrow> (Inl e, c, k)
      | Inr c' \<Rightarrow>
          (case rbind (uplink_request refused version config c') (\<lambda>(url, headers). connector url headers) of
             Inl e \<Rightarrow> (Inl e, c', k)
           | Inr frames \<Rightarrow>
               (let (r, k') = connect_once (u\<lparr>ue_engine := cr_engine_id c'\<rparr>) (uplink_hello version config) frames k in
                (r, c', k'))))"

text \<open>One turn of \<open>_heartbeat_loop\<close>.\<close>

definition heartbeat_turn :: "uplink_env \<Rightarrow> heartbeat_snapshot \<Rightarrow> 's conn \<Rightarrow> unit result \<times> 's conn" where
  "heartbeat_turn u h k = send_message (ue_clk u) (ue_ids u) (ue_send u) (ue_engine u) ''heartbeat'' (heartbeat_payload h) k"

section \<open>Facts\<close>

lemma refresh_credentials_identity:
  assumes "refresh_credentials clk isofmt client config c = Inr c'"
  shows "cr_engine_id c' = cr_engine_id c \<and> cr_engine_secret c' = cr_engine_secret c \<and>
    cr_backend_url c' = cr_backend_url c \<and> cr_name c' = cr_name c"
  using assms by (auto simp: refresh_credentials_def split: option.splits elim!: refresh_if_needed_cases)

lemma websocket_url_secure:
  assumes "is_secure_origin refused backend_url = Inr True" and "websocket_url refused backend_url = Inr url"
  shows "prefix ''wss://'' url"
  using assms by (auto simp: is_secure_origin_def websocket_url_def rbind_Inr_iff ws_scheme_def urlunparse_def Let_def)

lemma header_token: "map_of (uplink_headers version config c) ''Authorization'' = Some (''Bearer '' @ cr_session_jwt c)"
  by (simp add: uplink_headers_def client_headers_for_credentials_def)

text \<open>
  C21. Every connection is opened with a live session of this engine. When the uplink reaches the
  connector, the bearer token it presents is either the stored one, with more than five minutes left
  on the engine's clock, or one the backend has just minted for this engine's identifier and
  secret. The connection then runs under the unchanged engine identifier. Its address is derived
  from the backend URL in the credentials when there is one, whatever the configuration says, and
  is a \<open>wss\<close> address if that URL is an HTTPS origin.
\<close>

theorem connection_authenticated:
  assumes "refresh_credentials (ue_clk u) isofmt client config c = Inr c'"
    and "uplink_request refused version config c' = Inr (url, headers)"
    and "connector url headers = Inr frames"
  shows "uplink_connect refused version isofmt client connector config u (c, k) =
      (case connect_once (u\<lparr>ue_engine := cr_engine_id c\<rparr>) (uplink_hello version config) frames k of (r, k') \<Rightarrow> (r, c', k')) \<and>
    map_of headers ''Authorization'' = Some (''Bearer '' @ cr_session_jwt c') \<and>
    (\<exists>backend. or_text (cr_backend_url c) (cf_backend_url config) = Some backend \<and>
       websocket_url refused backend = Inr url \<and>
       (is_secure_origin refused backend = Inr True \<longrightarrow> prefix ''wss://'' url) \<and>
       (c' = c \<and> (\<exists>t. parse_datetime (ue_clk u) (cr_session_jwt_expires_at c) = Inr t \<and> REFRESH_WINDOW < t - clk_now (ue_clk u)) \<or>
        (\<exists>s. create_session (ue_clk u) (client backend) (cr_engine_id c) (cr_engine_secret c) = Inr s \<and>
           cr_session_jwt c' = ss_token s)))"
proof -
  note same = refresh_credentials_identity [OF assms(1)]
  obtain x xs where url: "or_text (cr_backend_url c') (cf_backend_url config) = Some (x # xs)"
      "websocket_url refused (x # xs) = Inr url" "headers = uplink_headers version config c'"
    using assms(2) by (auto simp: uplink_request_def rbind_Inr_iff split: option.splits list.splits)
  then have backend: "or_text (cr_backend_url c) (cf_backend_url config) = Some (x # xs)" using same by simp
  then have "refresh_session_if_needed (ue_clk u) isofmt (client (x # xs)) c = Inr c'"
    using assms(1) by (simp add: refresh_credentials_def)
  then have "c' = c \<and> (\<exists>t. parse_datetime (ue_clk u) (cr_session_jwt_expires_at c) = Inr t \<and> REFRESH_WINDOW < t - clk_now (ue_clk u)) \<or>
      (\<exists>s. create_session (ue_clk u) (client (x # xs)) (cr_engine_id c) (cr_engine_secret c) = Inr s \<and> cr_session_jwt c' = ss_token s)"
    by (rule refresh_if_needed_cases) auto
  moreover have "uplink_connect refused version isofmt client connector config u (c, k) =
      (case connect_once (u\<lparr>ue_engine := cr_engine_id c\<rparr>) (uplink_hello version config) frames k of (r, k') \<Rightarrow> (r, c', k'))"
    using assms same by (simp add: uplink_connect_def)
  ultimately show ?thesis
    using backend url websocket_url_secure [of refused "x # xs" url] header_token [of version config c'] by blast
qed

definition auth_uplink :: uplink_env where
  "auth_uplink = \<lparr>ue_cfg = \<lparr>max_bytes = 1000, retention_days = 7\<rparr>, ue_clk = auth_clock, ue_ids = (\<lambda>_. ex_build), ue_send = (\<lambda>_. True),
     ue_engine = ex_engine\<rparr>"

definition ex_url :: string where "ex_url = ''wss://agent.example/api/v2/build-engines/agent/ws''"

lemma ex_websocket_url: "websocket_url (\<lambda>_. False) ''https://agent.example'' = Inr ex_url"
  by code_simp

lemma ex_request: "uplink_request (\<lambda>_. False) ''0.3.0'' ex_registration ex_stored = Inr (ex_url, uplink_headers ''0.3.0'' ex_registration ex_stored)"
  using ex_websocket_url by (simp add: uplink_request_def or_text_def ex_stored_def)

lemma ex_refreshed:
  "refresh_credentials (auth_clock\<lparr>clk_now := -1000000000\<rparr>) (\<lambda>_. []) (ex_client ex_reply) ex_registration ex_stored = Inr ex_stored"
  by (simp add: refresh_credentials_def or_text_def refresh_session_if_needed_def parse_datetime_def auth_clock_def REFRESH_WINDOW_def
      ex_stored_def)

theorem connection_authenticated_witness:
  "map_of (uplink_headers ''0.3.0'' ex_registration ex_stored) ''Authorization'' = Some ''Bearer token'' \<and> prefix ''wss://'' ex_url"
proof -
  let ?u = "auth_uplink\<lparr>ue_clk := auth_clock\<lparr>clk_now := -1000000000\<rparr>\<rparr>"
  have r: "refresh_credentials (ue_clk ?u) (\<lambda>_. []) (ex_client ex_reply) ex_registration ex_stored = Inr ex_stored"
    using ex_refreshed by simp
  have c: "(\<lambda>_ _. Inr []) ex_url (uplink_headers ''0.3.0'' ex_registration ex_stored) = (Inr [] :: frame list result)" by simp
  from connection_authenticated [OF r ex_request c]
  have "map_of (uplink_headers ''0.3.0'' ex_registration ex_stored) ''Authorization'' = Some (''Bearer '' @ cr_session_jwt ex_stored)"
    by blast
  then show ?thesis by (simp add: ex_stored_def ex_url_def)
qed

end
