(* ===== verification/Doctor.thy ===== *)
theory Doctor
  imports Connection Config_Load Job_Loop
begin

text \<open>
  The operator's diagnostics (\<open>cli/doctor.py\<close>). What the checks observe of the host and the backend
  is a record of answers: processes, paths, disk space, the database's integrity check, the health
  endpoint with its \<open>Date\<close> header, the first frame of a websocket, and the bundled manifest. The
  check itself, what it reports and what it lets escape, is the source's. The texts of JSON
  and SQLite errors and the one-decimal formatting of numbers are answers too.
\<close>

section \<open>Reports\<close>

datatype check_status = Check_Ok | Check_Fail | Check_Skip

record doctor_check =
  dc_name :: string
  dc_status :: check_status
  dc_detail :: string
  dc_values :: "payload option"

record doctor_report =
  dr_version :: string
  dr_protocol_version :: int
  dr_status :: string
  dr_checks :: "doctor_check list"

definition ok_check :: "string \<Rightarrow> string \<Rightarrow> payload option \<Rightarrow> doctor_check" where
  "ok_check name detail vals = \<lparr>dc_name = name, dc_status = Check_Ok, dc_detail = detail, dc_values = vals\<rparr>"

definition fail_check :: "string \<Rightarrow> string \<Rightarrow> payload option \<Rightarrow> doctor_check" where
  "fail_check name detail vals = \<lparr>dc_name = name, dc_status = Check_Fail, dc_detail = detail, dc_values = vals\<rparr>"

definition skip_check :: "string \<Rightarrow> string \<Rightarrow> doctor_check" where
  "skip_check name detail = \<lparr>dc_name = name, dc_status = Check_Skip, dc_detail = detail, dc_values = None\<rparr>"

definition status_str :: "check_status \<Rightarrow> string" where
  "status_str s = (case s of Check_Ok \<Rightarrow> ''ok'' | Check_Fail \<Rightarrow> ''fail'' | Check_Skip \<Rightarrow> ''skip'')"

definition check_to_dict :: "doctor_check \<Rightarrow> payload" where
  "check_to_dict c =
     [(''name'', JStr (dc_name c)), (''status'', JStr (status_str (dc_status c))),
      (''ok'', JBool (dc_status c = Check_Ok)), (''detail'', JStr (dc_detail c))] @
     (case dc_values c of Some (v # vs) \<Rightarrow> [(''values'', JObj (v # vs))] | _ \<Rightarrow> [])"

definition report_to_dict :: "doctor_report \<Rightarrow> payload" where
  "report_to_dict r =
     [(''version'', JStr (dr_version r)), (''protocol_version'', JInt (dr_protocol_version r)),
      (''status'', JStr (dr_status r)), (''checks'', JArr (map (\<lambda>c. JObj (check_to_dict c)) (dr_checks r)))]"

definition status_label :: "check_status \<Rightarrow> string" where
  "status_label s = (case s of Check_Ok \<Rightarrow> ''OK'' | Check_Fail \<Rightarrow> ''FAIL'' | Check_Skip \<Rightarrow> ''SKIP'')"

definition render_human :: "doctor_report \<Rightarrow> string" where
  "render_human r = join [CHR 0x0A]
     ([''build-engine doctor: '' @ dr_status r, ''version: '' @ dr_version r, ''protocol: v'' @ int_str (dr_protocol_version r)] @
      map (\<lambda>c. ''- '' @ dc_name c @ '': '' @ status_label (dc_status c) @ '' ('' @ dc_detail c @ '')'') (dr_checks r))"

definition render_json :: "doctor_report \<Rightarrow> string" where
  "render_json r = json_dumps_default (JObj (report_to_dict r))"

section \<open>What the checks observe\<close>

record doctor_env =
  de_version :: string
  de_lib :: toml_lib
  de_clk :: clock
  de_host :: host
  de_files :: files
  de_refused :: "string \<Rightarrow> bool"
  de_run :: "string list \<Rightarrow> process_run"
  de_exists :: "string \<Rightarrow> bool"
  de_read :: "string \<Rightarrow> string result"
  de_disk_free :: "string \<Rightarrow> int result"
  de_access :: "string \<Rightarrow> bool"
  de_integrity :: "string \<Rightarrow> string option result"
  de_get :: "string \<Rightarrow> (string \<times> string) list \<Rightarrow> http_answer \<times> string option"
  de_date :: "string \<Rightarrow> int option" \<comment> \<open>\<open>parsedate_to_datetime\<close>, in UTC\<close>
  de_skew :: "int \<Rightarrow> pyfloat \<times> string" \<comment> \<open>seconds of a difference, and to one decimal\<close>
  de_gib :: "int \<Rightarrow> string"
  de_json_error :: "string \<Rightarrow> string"
  de_ws :: "string \<Rightarrow> (string \<times> string) list \<Rightarrow> frame result"
  de_resource :: "string option"

definition MIN_FREE_BYTES :: int where "MIN_FREE_BYTES = 20 * 1024 ^ 3"
definition HEALTH_PATH :: string where "HEALTH_PATH = ''/api/v2/build-engines/agent/health''"

definition path_join :: "string \<Rightarrow> string \<Rightarrow> string" where
  "path_join d n = (if d = ''.'' then n else if suffix ''/'' d then d @ n else d @ ''/'' @ n)"

text \<open>\<open>path.parent\<close>.\<close>

definition path_parent :: "string \<Rightarrow> string" where
  "path_parent p =
     (if p \<in> {'''', ''/'', ''//'', ''.''} then p
      else let d = rev (dropWhile (\<lambda>c. c \<noteq> CHR ''/'') (rev p)) in
        if d = [] then ''.'' else if d \<in> {''/'', ''//''} then d else butlast d)"

definition path_measure :: "string \<Rightarrow> nat" where
  "path_measure p = (if p = ''.'' then 0 else Suc (length p))"

lemma length_dropWhile_slash: "length (rev (dropWhile (\<lambda>c. c \<noteq> CHR ''/'') (rev p))) \<le> length p"
  using length_dropWhile_le [of _ "rev p"] by simp

lemma path_parent_less: "path_parent p \<noteq> p \<Longrightarrow> path_measure (path_parent p) < path_measure p"
proof -
  assume p: "path_parent p \<noteq> p"
  define d where "d = rev (dropWhile (\<lambda>c. c \<noteq> CHR ''/'') (rev p))"
  have d: "length d \<le> length p" using length_dropWhile_slash [of p] by (simp add: d_def)
  have special: "p \<notin> {'''', ''/'', ''//'', ''.''}" using p by (metis path_parent_def)
  have pp: "path_parent p = (if d = [] then ''.'' else if d \<in> {''/'', ''//''} then d else butlast d)"
    using special by (simp only: path_parent_def d_def if_False Let_def)
  show ?thesis
  proof (cases "d = [] \<or> d \<notin> {''/'', ''//''}")
    case True
    then show ?thesis using d pp special by (cases d rule: rev_cases) (auto simp: path_measure_def)
  next
    case False
    have "suffix (dropWhile (\<lambda>c. c \<noteq> CHR ''/'') (rev p)) (rev p)" by (rule suffix_dropWhile)
    then have "prefix d p" by (simp add: d_def suffix_to_prefix)
    moreover have "d \<noteq> p" using False special by auto
    ultimately have "length d < length p" using prefix_length_less [of d p] by (auto simp: strict_prefix_def)
    then show ?thesis using False pp by (auto simp: path_measure_def)
  qed
qed

function nearest_existing_path :: "(string \<Rightarrow> bool) \<Rightarrow> string \<Rightarrow> string" where
  "nearest_existing_path present p =
     (if \<not> present p \<and> path_parent p \<noteq> p then nearest_existing_path present (path_parent p) else p)"
  by pat_completeness auto
termination by (relation "measure (\<lambda>(_, p). path_measure p)") (auto simp: path_parent_less)

declare nearest_existing_path.simps [simp del]

section \<open>Local checks\<close>

definition check_version :: "doctor_env \<Rightarrow> doctor_check" where
  "check_version de = ok_check ''version'' (''build-engine '' @ de_version de @ '', protocol v'' @ int_str PROTOCOL_VERSION)
     (Some [(''version'', JStr (de_version de)), (''protocol_version'', JInt PROTOCOL_VERSION)])"

definition text_fields :: "(string \<times> json option) list \<Rightarrow> payload" where
  "text_fields kvs = concat (map (\<lambda>(k, v). case v of Some (JStr s) \<Rightarrow> [(k, JStr s)] | _ \<Rightarrow> []) kvs)"

definition check_docker :: "doctor_env \<Rightarrow> doctor_check result" where
  "check_docker de =
     (case de_run de [''docker'', ''version'', ''--format'', ''{{json .Server}}''] of
        Not_Started \<Rightarrow> Inr (fail_check ''docker'' ''docker could not be started'' None)
      | Timed_Out \<Rightarrow> Inr (fail_check ''docker'' ''docker version timed out'' None)
      | Completed code out err \<Rightarrow>
          if code \<noteq> 0 then
            (let detail = strip (if err = [] then out else err) in
             Inr (fail_check ''docker'' (if detail = [] then ''docker version failed'' else detail) None))
          else (case json_loads out of
              Inl IntTooLong \<Rightarrow> Inl (ValueError ''Exceeds the limit for integer string conversion'')
            | Inr (JObj d) \<Rightarrow>
                (let vals = text_fields [(''version'', jget d ''Version''), (''cgroup_driver'', jget d ''CgroupDriver'')];
                     detail = (case jget d ''Version'' of
                         Some (JStr v) \<Rightarrow> ''daemon reachable, server '' @ v
                       | _ \<Rightarrow> ''daemon reachable'') in
                 Inr (ok_check ''docker'' detail (if vals = [] then None else Some vals)))
            | _ \<Rightarrow> Inr (ok_check ''docker'' ''daemon reachable'' None)))"

definition cgroup_controllers :: string where "cgroup_controllers = ''/sys/fs/cgroup/cgroup.controllers''"

definition check_cgroup_v2 :: "doctor_env \<Rightarrow> doctor_check result" where
  "check_cgroup_v2 de =
     (if \<not> de_exists de cgroup_controllers
      then Inr (fail_check ''cgroup_v2'' ''unified cgroup v2 hierarchy was not detected'' None)
      else (case de_read de cgroup_controllers of
          Inl (OSError m) \<Rightarrow> Inr (fail_check ''cgroup_v2'' m None)
        | Inl e \<Rightarrow> Inl e
        | Inr text \<Rightarrow> Inr (ok_check ''cgroup_v2'' ''unified hierarchy detected''
            (Some [(''controllers'', JArr (map JStr (py_split (strip text))))]))))"

definition check_disk_space :: "doctor_env \<Rightarrow> engine_config \<Rightarrow> doctor_check result" where
  "check_disk_space de config =
     (let target = nearest_existing_path (de_exists de) (cf_state_dir config) in
      case de_disk_free de target of
        Inl (OSError m) \<Rightarrow> Inr (fail_check ''disk_space'' m None)
      | Inl e \<Rightarrow> Inl e
      | Inr free \<Rightarrow>
          (let vals = Some [(''path'', JStr target), (''free_bytes'', JInt free), (''required_bytes'', JInt MIN_FREE_BYTES)] in
           Inr (if free < MIN_FREE_BYTES
                then fail_check ''disk_space'' (de_gib de free @ '' free; '' @ de_gib de MIN_FREE_BYTES @ '' required'') vals
                else ok_check ''disk_space'' (de_gib de free @ '' free'') vals)))"

definition state_paths :: "engine_config \<Rightarrow> string list" where
  "state_paths config = cf_state_dir config # map (path_join (cf_state_dir config)) [''workspaces'', ''cache'', ''tmp'']"

definition check_writable_paths :: "doctor_env \<Rightarrow> engine_config \<Rightarrow> doctor_check" where
  "check_writable_paths de config =
     (let paths = state_paths config;
          inaccessible = filter (\<lambda>p. \<not> de_access de (nearest_existing_path (de_exists de) p)) paths in
      if inaccessible \<noteq> []
      then fail_check ''writable_paths'' ''one or more state paths are not writable''
             (Some [(''paths'', JArr (map JStr paths)), (''inaccessible'', JArr (map JStr inaccessible))])
      else ok_check ''writable_paths'' ''state paths are writable (read-only check)'' (Some [(''paths'', JArr (map JStr paths))]))"

definition check_sqlite_integrity :: "doctor_env \<Rightarrow> string \<Rightarrow> doctor_check result" where
  "check_sqlite_integrity de queue_path =
     (let vals = Some [(''path'', JStr queue_path)] in
      if \<not> de_exists de queue_path
      then Inr (ok_check ''sqlite_integrity'' ''queue database has not been created yet'' vals)
      else (case de_integrity de queue_path of
          Inl (OperationalError m) \<Rightarrow> Inr (fail_check ''sqlite_integrity'' m vals)
        | Inl (IntegrityError m) \<Rightarrow> Inr (fail_check ''sqlite_integrity'' m vals)
        | Inl e \<Rightarrow> Inl e
        | Inr row \<Rightarrow>
            (let result = (case row of Some s \<Rightarrow> s | None \<Rightarrow> []) in
             Inr (if result \<noteq> ''ok''
                  then fail_check ''sqlite_integrity'' (if result = [] then ''integrity_check returned no rows'' else result) vals
                  else ok_check ''sqlite_integrity'' ''ok'' vals))))"

definition check_builder_network :: doctor_check where
  "check_builder_network = ok_check ''builder_network'' ''builders use unrestricted outbound Docker networking''
     (Some [(''network'', JStr ''unrestricted'')])"

section \<open>Checks of the backend\<close>

definition doctor_backend_url :: "engine_config \<Rightarrow> engine_credentials option \<Rightarrow> string option" where
  "doctor_backend_url config credentials = (case credentials of
      Some c \<Rightarrow> or_text (cr_backend_url c) (cf_backend_url config)
    | None \<Rightarrow> cf_backend_url config)"

definition join_backend_path :: "string \<Rightarrow> string \<Rightarrow> string" where
  "join_backend_path backend_url path = rstrip_slash backend_url @ path"

definition clock_skew :: "doctor_env \<Rightarrow> string option \<Rightarrow> int option" where
  "clock_skew de date_header = (case date_header of
      None \<Rightarrow> None
    | Some h \<Rightarrow> map_option (\<lambda>t. clk_now (de_clk de) - t) (de_date de h))"

text \<open>\<open>isinstance(v, int)\<close>: booleans are integers.\<close>

definition int_of_json :: "json option \<Rightarrow> int option" where
  "int_of_json v = (case v of Some (JInt i) \<Rightarrow> Some i | Some (JBool b) \<Rightarrow> Some (if b then 1 else 0) | _ \<Rightarrow> None)"

definition health_report :: "doctor_env \<Rightarrow> payload \<Rightarrow> string option \<Rightarrow> doctor_check" where
  "health_report de d date_header =
     (if jget d ''ok'' \<noteq> Some (JBool True) then fail_check ''agent_health'' ''health endpoint did not report ok'' None
      else case (int_of_json (jget d ''proto_min''), int_of_json (jget d ''proto_max''), jget d ''proto_min'', jget d ''proto_max'') of
        (Some lo, Some hi, Some vlo, Some vhi) \<Rightarrow>
          if \<not> (lo \<le> PROTOCOL_VERSION \<and> PROTOCOL_VERSION \<le> hi)
          then fail_check ''agent_health'' ''backend does not support this protocol version'' None
          else (case clock_skew de date_header of
              None \<Rightarrow> ok_check ''agent_health'' ''healthy; backend Date header unavailable''
                (Some [(''proto_min'', vlo), (''proto_max'', vhi)])
            | Some skew \<Rightarrow>
                (let (seconds, text) = de_skew de skew;
                     vals = Some [(''proto_min'', vlo), (''proto_max'', vhi), (''clock_skew_seconds'', JFloat seconds)] in
                 if 60 * 1000000 < \<bar>skew\<bar> then fail_check ''clock_skew'' (''clock skew is '' @ text @ ''s'') vals
                 else ok_check ''agent_health'' (''healthy; clock skew '' @ text @ ''s'') vals))
      | _ \<Rightarrow> fail_check ''agent_health'' ''backend does not support this protocol version'' None)"

definition check_agent_health :: "doctor_env \<Rightarrow> engine_config \<Rightarrow> engine_credentials option \<Rightarrow> doctor_check result" where
  "check_agent_health de config credentials =
     (case (credentials, doctor_backend_url config credentials) of
        (None, _) \<Rightarrow> Inr (skip_check ''agent_health'' ''credentials are unavailable'')
      | (Some c, Some (x # xs)) \<Rightarrow>
          (case de_get de (join_backend_path (x # xs) HEALTH_PATH) (client_headers_for_credentials (de_version de) c) of
             (Http_Status code _, _) \<Rightarrow> Inr (fail_check ''agent_health'' (''HTTP '' @ int_str code) None)
           | (Http_Failed m, _) \<Rightarrow> Inr (fail_check ''agent_health'' m None)
           | (Http_Body body, date_header) \<Rightarrow>
               if \<not> valid_utf8 body then Inl (ValueError ''UnicodeDecodeError'')
               else (case json_loads body of
                   Inl JSONDecodeError \<Rightarrow>
                     Inr (fail_check ''agent_health'' (''health response was not JSON: '' @ de_json_error de body) None)
                 | Inl IntTooLong \<Rightarrow> Inl (ValueError ''Exceeds the limit for integer string conversion'')
                 | Inr (JObj d) \<Rightarrow> Inr (health_report de d date_header)
                 | Inr _ \<Rightarrow> Inr (fail_check ''agent_health'' ''health endpoint did not report ok'' None)))
      | _ \<Rightarrow> Inr (fail_check ''agent_health'' ''backend_url is not configured'' None))"

definition doctor_welcome :: "doctor_env \<Rightarrow> engine_config \<Rightarrow> engine_credentials \<Rightarrow> envelope result" where
  "doctor_welcome de config c =
     rbind (websocket_url (de_refused de) (case or_text (cr_backend_url c) (cf_backend_url config) of Some u \<Rightarrow> u | None \<Rightarrow> [])) (\<lambda>url.
     rbind (de_ws de url (uplink_headers (de_version de) config c)) (\<lambda>frame.
       decode_frame (de_clk de) None frame))"

definition handshake_error :: "exn \<Rightarrow> bool" where
  "handshake_error e = (case e of
      OSError _ \<Rightarrow> True | ProtocolError _ \<Rightarrow> True | AuthError _ \<Rightarrow> True | ConnectionClosed _ \<Rightarrow> True | _ \<Rightarrow> False)"

definition check_wss_handshake :: "doctor_env \<Rightarrow> engine_config \<Rightarrow> engine_credentials option \<Rightarrow> doctor_check result" where
  "check_wss_handshake de config credentials =
     (case (credentials, doctor_backend_url config credentials) of
        (None, _) \<Rightarrow> Inr (skip_check ''wss_handshake'' ''credentials are unavailable'')
      | (Some c, Some (x # xs)) \<Rightarrow>
          (case doctor_welcome de config c of
             Inl e \<Rightarrow> if handshake_error e then Inr (fail_check ''wss_handshake'' (exn_str e) None) else Inl e
           | Inr welcome \<Rightarrow>
               (case jget (env_payload welcome) ''proto_negotiated'' of
                  Some proto \<Rightarrow>
                    if jget (env_payload welcome) ''engine_id'' = Some (JStr (cr_engine_id c)) \<and> py_eq_int proto PROTOCOL_VERSION
                    then Inr (ok_check ''wss_handshake'' ''welcome frame received'' (Some [(''proto_negotiated'', proto)]))
                    else Inr (fail_check ''wss_handshake'' ''welcome frame did not negotiate this engine/protocol'' None)
                | None \<Rightarrow> Inr (fail_check ''wss_handshake'' ''welcome frame did not negotiate this engine/protocol'' None)))
      | _ \<Rightarrow> Inr (fail_check ''wss_handshake'' ''backend_url is not configured'' None))"

section \<open>The image check\<close>

definition doctor_image :: "doctor_env \<Rightarrow> engine_config \<Rightarrow> string result" where
  "doctor_image de config =
     rbind (load_bundled_image_manifest (de_resource de)) (\<lambda>manifest.
     rbind (case cf_images config of
         img # _ \<Rightarrow> Inr img
       | [] \<Rightarrow> (case manifest of (k, _) # _ \<Rightarrow> Inr k | [] \<Rightarrow> Inl StopIteration)) (\<lambda>configured.
       resolve_image_reference configured (Some manifest)))"

definition check_image_pull :: "doctor_env \<Rightarrow> engine_config \<Rightarrow> doctor_check result" where
  "check_image_pull de config =
     (case doctor_image de config of
        Inl (DockerError m) \<Rightarrow> Inr (fail_check ''image_pull'' m None)
      | Inl e \<Rightarrow> Inl e
      | Inr img \<Rightarrow>
          (case pull_image (de_run de) img of
             Inl (DockerError m) \<Rightarrow> Inr (fail_check ''image_pull'' m (Some [(''image'', JStr img)]))
           | Inl (TimeoutExpired m) \<Rightarrow> Inr (fail_check ''image_pull'' m (Some [(''image'', JStr img)]))
           | Inl (OSError m) \<Rightarrow> Inr (fail_check ''image_pull'' m (Some [(''image'', JStr img)]))
           | Inl e \<Rightarrow> Inl e
           | Inr _ \<Rightarrow> Inr (ok_check ''image_pull'' (''pulled '' @ img) (Some [(''image'', JStr img)]))))"

section \<open>All checks\<close>

definition maybe_skip :: "string \<Rightarrow> string list \<Rightarrow> doctor_check result \<Rightarrow> doctor_check result" where
  "maybe_skip name skipped check =
     (if name \<in> set skipped then Inr (skip_check name ''skipped by operator request'') else check)"

definition credentials_error :: "exn \<Rightarrow> bool" where
  "credentials_error e = (case e of AuthError _ \<Rightarrow> True | ValueError _ \<Rightarrow> True | OSError _ \<Rightarrow> True | _ \<Rightarrow> False)"

definition check_credentials ::
  "doctor_env \<Rightarrow> engine_config \<Rightarrow> string option \<Rightarrow> string option \<Rightarrow> (doctor_check \<times> engine_credentials option) result" where
  "check_credentials de config service_user service_group =
     (case validate_credentials_file (de_lib de) (de_clk de) (de_host de) service_user service_group (de_files de) (cf_credentials_path config) of
        Inl e \<Rightarrow> if credentials_error e then Inr (fail_check ''credentials'' (exn_str e) None, None) else Inl e
      | Inr c \<Rightarrow> Inr (ok_check ''credentials'' (cf_credentials_path config) (Some [(''engine_id'', JStr (cr_engine_id c))]), Some c))"

definition doctor_checks ::
  "doctor_env \<Rightarrow> engine_config \<Rightarrow> string list \<Rightarrow> string option \<Rightarrow> string option \<Rightarrow> doctor_check list result" where
  "doctor_checks de config skipped service_user service_group =
     rbind (check_credentials de config service_user service_group) (\<lambda>(creds_check, credentials).
     rbind (each id
       [check_docker de, check_cgroup_v2 de, check_disk_space de config, Inr (check_writable_paths de config),
        check_sqlite_integrity de (path_join (cf_state_dir config) ''queue.sqlite''),
        maybe_skip ''builder_network'' skipped (Inr check_builder_network),
        maybe_skip ''agent_health'' skipped (check_agent_health de config credentials),
        maybe_skip ''wss_handshake'' skipped (check_wss_handshake de config credentials),
        maybe_skip ''image_pull'' skipped (check_image_pull de config)]) (\<lambda>checks.
       Inr (check_version de # creds_check # checks)))"

definition run_doctor ::
  "doctor_env \<Rightarrow> engine_config \<Rightarrow> string list \<Rightarrow> string option \<Rightarrow> string option \<Rightarrow> doctor_report result" where
  "run_doctor de config skipped service_user service_group =
     rbind (doctor_checks de config skipped service_user service_group) (\<lambda>checks.
       Inr \<lparr>dr_version = de_version de, dr_protocol_version = PROTOCOL_VERSION,
            dr_status = (if list_ex (\<lambda>c. dc_status c = Check_Fail) checks then ''error'' else ''ok''), dr_checks = checks\<rparr>)"

end
