(* ===== verification/Cli.thy ===== *)
theory Cli
  imports Doctor
begin

text \<open>
  The commands (\<open>cli/commands.py\<close>), each after its \<open>load_config\<close>: the exit code, or the exception that
  escapes, and what the command changes. The words of the command line are read in \<open>Cli_Args\<close>;
  of the service itself there are the start, the drain on a signal, and what its
  heartbeat and its metrics file report.
\<close>

section \<open>Credentials\<close>

text \<open>\<open>except (AuthError, ValueError, FileNotFoundError)\<close>.\<close>

definition not_registered :: "exn \<Rightarrow> bool" where
  "not_registered e = (case e of
      AuthError _ \<Rightarrow> True
    | ValueError _ \<Rightarrow> True
    | OSError m \<Rightarrow> prefix ''FileNotFoundError'' m
    | _ \<Rightarrow> False)"

definition cli_register ::
  "toml_lib \<Rightarrow> clock \<Rightarrow> (string \<Rightarrow> auth_client) \<Rightarrow> string \<Rightarrow> host \<Rightarrow> os_fault option list \<Rightarrow> string \<Rightarrow>
   engine_config \<Rightarrow> string \<Rightarrow> files \<Rightarrow> int result \<times> files" where
  "cli_register lib clk client version h faults rnd config token fs =
     (case register_engine lib clk client version h faults rnd config token fs of
        (Inl (AuthError _), fs') \<Rightarrow> (Inr 1, fs')
      | (Inl e, fs') \<Rightarrow> (Inl e, fs')
      | (Inr _, fs') \<Rightarrow> (Inr 0, fs'))"

definition cli_status :: "doctor_env \<Rightarrow> engine_config \<Rightarrow> int result" where
  "cli_status de config =
     (case validate_credentials_file (de_lib de) (de_clk de) (de_host de) (Some SERVICE_USER) (Some SERVICE_GROUP) (de_files de)
             (cf_credentials_path config) of
        Inl e \<Rightarrow> if not_registered e then Inr 1 else Inl e
      | Inr _ \<Rightarrow> Inr 0)"

definition cli_session_refresh ::
  "toml_lib \<Rightarrow> clock \<Rightarrow> (int \<Rightarrow> string) \<Rightarrow> (string \<Rightarrow> auth_client) \<Rightarrow> host \<Rightarrow> os_fault option list \<Rightarrow> string \<Rightarrow>
   engine_config \<Rightarrow> string option \<Rightarrow> files \<Rightarrow> int result \<times> files" where
  "cli_session_refresh lib clk isofmt client h faults rnd config backend_url fs =
     (case refresh_session lib clk isofmt client h faults rnd (cf_credentials_path config)
             (or_text backend_url (cf_backend_url config)) fs of
        (Inl e, fs') \<Rightarrow> (if not_registered e then Inr 1 else Inl e, fs')
      | (Inr _, fs') \<Rightarrow> (Inr 0, fs'))"

section \<open>Diagnostics\<close>

definition skip_checks :: "string list option \<Rightarrow> string list" where
  "skip_checks given_values = (case given_values of
      None \<Rightarrow> []
    | Some vs \<Rightarrow> concat (map (\<lambda>v. filter (\<lambda>p. p \<noteq> []) (map strip (split_at (CHR '','') v))) vs))"

definition cli_doctor :: "doctor_env \<Rightarrow> engine_config \<Rightarrow> string list option \<Rightarrow> bool \<Rightarrow> (int \<times> string) result" where
  "cli_doctor de config skips as_json =
     rbind (run_doctor de config (skip_checks skips) (Some SERVICE_USER) (Some SERVICE_GROUP)) (\<lambda>report.
       Inr (if dr_status report = ''ok'' then 0 else 1,
            (if as_json then render_json report else render_human report) @ [CHR 0x0A]))"

section \<open>Cache and drain\<close>

definition cli_cache_reset :: "string option \<Rightarrow> engine_state \<Rightarrow> int result \<times> engine_state" where
  "cli_cache_reset site_id e =
     (case reset_cache site_id (es_cache e) of (r, cache) \<Rightarrow> (rbind r (\<lambda>_. Inr 0), e\<lparr>es_cache := cache\<rparr>))"

text \<open>A command runs its own handlers object in its own process; with a running service it shares the
  store, the cache and the marker file only.\<close>

definition own_process :: "'a eop \<Rightarrow> 'a eop" where
  "own_process f e =
     (case f (post_init (e\<lparr>es_draining := False, es_cache_resets := None\<rparr>)) of
        (r, e') \<Rightarrow> (r, e'\<lparr>es_draining := es_draining e, es_cache_resets := es_cache_resets e\<rparr>))"

definition cli_drain :: "int eop" where
  "cli_drain e = (case own_process drain e of (r, e') \<Rightarrow> (rbind r (\<lambda>_. Inr 0), e'))"

definition cli_resume :: "int eop" where
  "cli_resume e = (case own_process resume e of (r, e') \<Rightarrow> (rbind r (\<lambda>_. Inr 0), e'))"

section \<open>The service\<close>

text \<open>The gate before the service runs: \<^const>\<open>None\<close> when the command ends with exit code 1.\<close>

definition serve_startup :: "doctor_env \<Rightarrow> engine_config \<Rightarrow> bool \<Rightarrow> engine_credentials option result" where
  "serve_startup de config dev_identity =
     (let user = (if dev_identity then None else Some SERVICE_USER);
          grp = (if dev_identity then None else Some SERVICE_GROUP) in
      case validate_credentials_file (de_lib de) (de_clk de) (de_host de) user grp (de_files de) (cf_credentials_path config) of
        Inl e \<Rightarrow> if not_registered e then Inr None else Inl e
      | Inr c \<Rightarrow>
          rbind (run_doctor de config [''image_pull'', ''wss_handshake''] user grp) (\<lambda>report.
            Inr (if dr_status report \<noteq> ''ok'' then None else Some c)))"

definition service_outbox :: "engine_config \<Rightarrow> outbox_config" where
  "service_outbox config = \<lparr>max_bytes = cf_outbox_max_bytes config, retention_days = cf_state_retention_days config\<rparr>"

text \<open>What \<open>_run_service\<close> does to the store before the uplink and the workers start.\<close>

definition service_begin :: "engine_config \<Rightarrow> int \<Rightarrow> int \<Rightarrow> nat op" where
  "service_begin config now1 now2 s =
     (case prune_terminal now1 (cf_state_retention_days config) s of
        (Inl e, s') \<Rightarrow> (Inl e, s')
      | (Inr _, s') \<Rightarrow> prune (service_outbox config) now2 s')"

record service =
  sv_engine :: engine_state
  sv_stop_workers :: bool
  sv_uplink_stopped :: bool

text \<open>\<open>request_drain\<close>, run on SIGTERM and SIGINT.\<close>

definition request_drain :: "service \<Rightarrow> service" where
  "request_drain sv =
     (if sv_stop_workers sv then sv
      else sv\<lparr>sv_engine := snd (drain (sv_engine sv)), sv_stop_workers := True, sv_uplink_stopped := True\<rparr>)"

definition service_snapshot :: "(int \<Rightarrow> int \<Rightarrow> pyfloat) \<Rightarrow> string \<Rightarrow> metrics_collector \<Rightarrow> engine_state \<Rightarrow> metrics_snapshot" where
  "service_snapshot fdiv now_text m e =
     collector_snapshot fdiv now_text (int (queue_depth (es_store e))) (cache_size_bytes (es_cache e)) m"

definition service_heartbeat ::
  "(int \<Rightarrow> int \<Rightarrow> pyfloat) \<Rightarrow> string \<Rightarrow> int \<Rightarrow> metrics_collector \<Rightarrow> engine_state \<Rightarrow> heartbeat_snapshot" where
  "service_heartbeat fdiv now_text disk_free m e = to_heartbeat disk_free (service_snapshot fdiv now_text m e)"

definition service_metrics :: "(int \<Rightarrow> int \<Rightarrow> pyfloat) \<Rightarrow> string \<Rightarrow> metrics_collector \<Rightarrow> engine_state \<Rightarrow> string" where
  "service_metrics fdiv now_text m e = textfile_metrics (service_snapshot fdiv now_text m e)"

section \<open>Log records\<close>

text \<open>\<open>JsonFormatter.format\<close>: \<open>exc\<close> is the formatted traceback, if the record carries one.\<close>

definition json_log_line :: "string \<Rightarrow> string \<Rightarrow> string \<Rightarrow> string \<Rightarrow> string option \<Rightarrow> string" where
  "json_log_line timestamp levelname logger message exc =
     json_dumps_default (JObj
       ([(''timestamp'', JStr timestamp), (''level'', JStr (lower levelname)), (''logger'', JStr logger), (''message'', JStr message)] @
        opt_field ''exception'' JStr exc))"

end
