(* ===== verification/Cli_Correct.thy ===== *)
theory Cli_Correct
  imports Cli
begin

text \<open>
  What a healthy report guarantees, when the service starts, and how the drain commands reach a
  running service.
\<close>

section \<open>What a healthy report guarantees\<close>

definition failed :: "doctor_check \<Rightarrow> bool" where
  "failed c \<longleftrightarrow> dc_status c = Check_Fail"

lemma failed_simps [simp]:
  "\<not> failed (ok_check n d v)" "failed (fail_check n d v)" "\<not> failed (skip_check n d)"
  by (simp_all add: failed_def ok_check_def fail_check_def skip_check_def)

text \<open>A check that did not fail has seen what it looks for.\<close>

lemma docker_passed: "check_docker de = Inr c \<Longrightarrow> \<not> failed c \<Longrightarrow>
  \<exists>out err. de_run de [''docker'', ''version'', ''--format'', ''{{json .Server}}''] = Completed 0 out err"
  by (auto simp: check_docker_def Let_def split: process_run.splits if_splits)

lemma cgroup_passed: "check_cgroup_v2 de = Inr c \<Longrightarrow> \<not> failed c \<Longrightarrow> de_exists de cgroup_controllers"
  by (auto simp: check_cgroup_v2_def split: if_splits)

lemma disk_passed: "check_disk_space de config = Inr c \<Longrightarrow> \<not> failed c \<Longrightarrow>
  \<exists>free. de_disk_free de (nearest_existing_path (de_exists de) (cf_state_dir config)) = Inr free \<and> MIN_FREE_BYTES \<le> free"
  by (auto simp: check_disk_space_def Let_def not_less split: sum.splits exn.splits if_splits)

lemma writable_passed: "\<not> failed (check_writable_paths de config) \<Longrightarrow>
  \<forall>p \<in> set (state_paths config). de_access de (nearest_existing_path (de_exists de) p)"
  by (auto simp: check_writable_paths_def Let_def filter_empty_conv split: if_splits)

lemma sqlite_passed: "check_sqlite_integrity de path = Inr c \<Longrightarrow> \<not> failed c \<Longrightarrow>
  \<not> de_exists de path \<or> de_integrity de path = Inr (Some ''ok'')"
  by (auto simp: check_sqlite_integrity_def Let_def split: sum.splits exn.splits if_splits option.splits)

lemma credentials_passed: "check_credentials de config user grp = Inr (c, credentials) \<Longrightarrow> \<not> failed c \<Longrightarrow>
  \<exists>k. credentials = Some k \<and>
    validate_credentials_file (de_lib de) (de_clk de) (de_host de) user grp (de_files de) (cf_credentials_path config) = Inr k"
  by (auto simp: check_credentials_def split: sum.splits if_splits)

definition healthy_backend :: "doctor_env \<Rightarrow> payload \<Rightarrow> string option \<Rightarrow> bool" where
  "healthy_backend de d date_header \<longleftrightarrow> jget d ''ok'' = Some (JBool True) \<and>
     (\<exists>lo hi. int_of_json (jget d ''proto_min'') = Some lo \<and> int_of_json (jget d ''proto_max'') = Some hi \<and> lo \<le> 2 \<and> 2 \<le> hi) \<and>
     (case clock_skew de date_header of None \<Rightarrow> True | Some skew \<Rightarrow> \<bar>skew\<bar> \<le> 60 * 1000000)"

lemma health_report_passed: "\<not> failed (health_report de d date_header) \<Longrightarrow> healthy_backend de d date_header"
  by (auto simp: health_report_def healthy_backend_def PROTOCOL_VERSION_def Let_def split: if_splits option.splits prod.splits)

lemma health_passed:
  assumes "check_agent_health de config (Some k) = Inr c" and "\<not> failed c"
  shows "\<exists>url body d date_header.
    or_text (cr_backend_url k) (cf_backend_url config) = Some url \<and>
    de_get de (join_backend_path url HEALTH_PATH) (client_headers_for_credentials (de_version de) k) = (Http_Body body, date_header) \<and>
    json_loads body = Inr (JObj d) \<and> healthy_backend de d date_header"
  using assms health_report_passed
  by (auto simp: check_agent_health_def doctor_backend_url_def
      split: option.splits list.splits prod.splits http_answer.splits if_splits sum.splits json_error.splits json.splits)

lemma handshake_passed:
  assumes "check_wss_handshake de config (Some k) = Inr c" and "\<not> failed c"
  shows "\<exists>w proto. doctor_welcome de config k = Inr w \<and> jget (env_payload w) ''engine_id'' = Some (JStr (cr_engine_id k)) \<and>
    jget (env_payload w) ''proto_negotiated'' = Some proto \<and> py_eq_int proto 2"
  using assms
  by (auto simp: check_wss_handshake_def PROTOCOL_VERSION_def split: option.splits list.splits sum.splits if_splits)

lemma image_passed:
  assumes "check_image_pull de config = Inr c" and "\<not> failed c"
  shows "\<exists>img out err. doctor_image de config = Inr img \<and> pinned_image img \<and> de_run de [''docker'', ''pull'', img] = Completed 0 out err"
proof -
  obtain img where img: "doctor_image de config = Inr img" "pull_image (de_run de) img = Inr ()"
    using assms by (auto simp: check_image_pull_def split: sum.splits exn.splits)
  then show ?thesis
    by (auto simp: pull_image_def require_pinned_image_def rbind_Inr_iff split: process_run.splits if_splits)
qed

lemma maybe_skip_passed: "maybe_skip name skipped check = Inr c \<Longrightarrow> name \<notin> set skipped \<Longrightarrow> check = Inr c"
  by (simp add: maybe_skip_def)

lemma run_doctor_cases:
  assumes "run_doctor de config skipped user grp = Inr report" and "dr_status report = ''ok''"
  obtains creds_check credentials c1 c2 c3 c5 c6 c7 c8 c9 where
    "check_credentials de config user grp = Inr (creds_check, credentials)" "\<not> failed creds_check"
    "check_docker de = Inr c1" "\<not> failed c1" "check_cgroup_v2 de = Inr c2" "\<not> failed c2"
    "check_disk_space de config = Inr c3" "\<not> failed c3" "\<not> failed (check_writable_paths de config)"
    "check_sqlite_integrity de (path_join (cf_state_dir config) ''queue.sqlite'') = Inr c5" "\<not> failed c5"
    "maybe_skip ''builder_network'' skipped (Inr check_builder_network) = Inr c6"
    "maybe_skip ''agent_health'' skipped (check_agent_health de config credentials) = Inr c7" "\<not> failed c7"
    "maybe_skip ''wss_handshake'' skipped (check_wss_handshake de config credentials) = Inr c8" "\<not> failed c8"
    "maybe_skip ''image_pull'' skipped (check_image_pull de config) = Inr c9" "\<not> failed c9"
proof -
  obtain checks where checks: "doctor_checks de config skipped user grp = Inr checks" "\<not> list_ex failed checks"
    using assms by (auto simp: run_doctor_def rbind_Inr_iff failed_def [abs_def] split: if_splits)
  obtain creds_check credentials cs where first: "check_credentials de config user grp = Inr (creds_check, credentials)"
    and rest: "each id
       [check_docker de, check_cgroup_v2 de, check_disk_space de config, Inr (check_writable_paths de config),
        check_sqlite_integrity de (path_join (cf_state_dir config) ''queue.sqlite''),
        maybe_skip ''builder_network'' skipped (Inr check_builder_network),
        maybe_skip ''agent_health'' skipped (check_agent_health de config credentials),
        maybe_skip ''wss_handshake'' skipped (check_wss_handshake de config credentials),
        maybe_skip ''image_pull'' skipped (check_image_pull de config)] = Inr cs"
    and all: "checks = check_version de # creds_check # cs"
    using checks(1) by (auto simp: doctor_checks_def rbind_Inr_iff)
  obtain c1 c2 c3 c4 c5 c6 c7 c8 c9 where cs: "cs = [c1, c2, c3, c4, c5, c6, c7, c8, c9]"
    "check_docker de = Inr c1" "check_cgroup_v2 de = Inr c2" "check_disk_space de config = Inr c3" "c4 = check_writable_paths de config"
    "check_sqlite_integrity de (path_join (cf_state_dir config) ''queue.sqlite'') = Inr c5"
    "maybe_skip ''builder_network'' skipped (Inr check_builder_network) = Inr c6"
    "maybe_skip ''agent_health'' skipped (check_agent_health de config credentials) = Inr c7"
    "maybe_skip ''wss_handshake'' skipped (check_wss_handshake de config credentials) = Inr c8"
    "maybe_skip ''image_pull'' skipped (check_image_pull de config) = Inr c9"
    using rest by (simp add: rbind_Inr_iff) blast
  then show ?thesis using that first checks(2) all by simp
qed

text \<open>
  C23. A healthy report means a host that can build. When \<open>run_doctor\<close> reports \<open>ok\<close>, the credentials file
  passed its validation, the Docker daemon answered, cgroup v2 is mounted, at least 20 GiB are
  free, every state path is writable, and the queue database does not exist or is intact. Unless
  those checks were skipped by name, the backend reported itself healthy for a protocol range
  that contains version 2 with a clock at most a minute away, the websocket handshake
  negotiated this engine and protocol 2, and the builder image was pulled by its pinned digest.
\<close>

theorem healthy_report_sound:
  assumes "run_doctor de config skipped user grp = Inr report" and "dr_status report = ''ok''"
  shows "\<exists>k. validate_credentials_file (de_lib de) (de_clk de) (de_host de) user grp (de_files de) (cf_credentials_path config) = Inr k \<and>
    (\<exists>out err. de_run de [''docker'', ''version'', ''--format'', ''{{json .Server}}''] = Completed 0 out err) \<and>
    de_exists de cgroup_controllers \<and>
    (\<exists>free. de_disk_free de (nearest_existing_path (de_exists de) (cf_state_dir config)) = Inr free \<and> MIN_FREE_BYTES \<le> free) \<and>
    (\<forall>p \<in> set (state_paths config). de_access de (nearest_existing_path (de_exists de) p)) \<and>
    (\<not> de_exists de (path_join (cf_state_dir config) ''queue.sqlite'') \<or>
     de_integrity de (path_join (cf_state_dir config) ''queue.sqlite'') = Inr (Some ''ok'')) \<and>
    (''agent_health'' \<notin> set skipped \<longrightarrow> (\<exists>url body d date_header.
       or_text (cr_backend_url k) (cf_backend_url config) = Some url \<and>
       de_get de (join_backend_path url HEALTH_PATH) (client_headers_for_credentials (de_version de) k) = (Http_Body body, date_header) \<and>
       json_loads body = Inr (JObj d) \<and> healthy_backend de d date_header)) \<and>
    (''wss_handshake'' \<notin> set skipped \<longrightarrow> (\<exists>w proto. doctor_welcome de config k = Inr w \<and>
       jget (env_payload w) ''engine_id'' = Some (JStr (cr_engine_id k)) \<and>
       jget (env_payload w) ''proto_negotiated'' = Some proto \<and> py_eq_int proto 2)) \<and>
    (''image_pull'' \<notin> set skipped \<longrightarrow> (\<exists>img out err. doctor_image de config = Inr img \<and> pinned_image img \<and>
       de_run de [''docker'', ''pull'', img] = Completed 0 out err))"
  using assms
proof (cases rule: run_doctor_cases)
  case (1 creds_check credentials c1 c2 c3 c5 c6 c7 c8 c9)
  obtain k where k: "credentials = Some k"
    "validate_credentials_file (de_lib de) (de_clk de) (de_host de) user grp (de_files de) (cf_credentials_path config) = Inr k"
    using credentials_passed [OF 1(1,2)] by blast
  note local = docker_passed [OF 1(3,4)] cgroup_passed [OF 1(5,6)] disk_passed [OF 1(7,8)] writable_passed [OF 1(9)]
    sqlite_passed [OF 1(10,11)]
  show ?thesis
    using k local 1 maybe_skip_passed [OF 1(13)] maybe_skip_passed [OF 1(15)] maybe_skip_passed [OF 1(17)]
      health_passed [of de config k c7] handshake_passed [of de config k c8] image_passed [of de config c9]
    by (intro exI [of _ k] conjI impI) simp_all
qed

section \<open>A healthy host\<close>

definition ex_health :: payload where
  "ex_health = [(''ok'', JBool True), (''proto_min'', JInt 1), (''proto_max'', JInt 2)]"

definition ex_doctor :: doctor_env where
  "ex_doctor = \<lparr>de_version = ''0.3.0'', de_lib = ex_lib, de_clk = auth_clock, de_host = ex_host, de_files = ex_files,
     de_refused = (\<lambda>_. False), de_run = (\<lambda>_. Completed 0 [] []), de_exists = (\<lambda>_. True), de_read = (\<lambda>_. Inr ''cpu io memory''),
     de_disk_free = (\<lambda>_. Inr 30000000000), de_access = (\<lambda>_. True), de_integrity = (\<lambda>_. Inr (Some ''ok'')),
     de_get = (\<lambda>_ _. (Http_Body (dump_sp '' '' (JObj ex_health)), None)), de_date = (\<lambda>_. None), de_skew = (\<lambda>_. (one, ''0.0'')),
     de_gib = (\<lambda>_. ''27.9 GiB''), de_json_error = (\<lambda>_. []), de_ws = (\<lambda>_ _. Inl (OSError ''refused'')), de_resource = None\<rparr>"

definition ex_serve :: engine_config where
  "ex_serve = ex_registration\<lparr>cf_credentials_path := ''/c.toml''\<rparr>"

lemma validate_ex_files: "validate_credentials_file ex_lib auth_clock ex_host (Some SERVICE_USER) (Some SERVICE_GROUP) ex_files ''/c.toml'' = Inr ex_stored"
proof -
  have "validate_engine_secret (cr_engine_secret ex_stored) = Inr ()"
    by (simp add: ex_stored_def validate_engine_secret_def MIN_ENGINE_SECRET_BYTES_def list_all_iff)
  then show ?thesis
    by (simp add: validate_credentials_file_def load_ex_files) (simp add: ex_files_def private_mode validate_secret_file_ownership_def
      expected_id_def ex_host_def SERVICE_USER_def SERVICE_GROUP_def parse_datetime_def auth_clock_def)
qed

lemma loads_ex_health:
  "json_loads (dump_sp '' '' (JObj ex_health)) = Inr (JObj ex_health)" "valid_utf8 (dump_sp '' '' (JObj ex_health))"
proof -
  have "printable (JObj ex_health)"
    by (simp add: ex_health_def valid_utf8_def utf8_decode_ascii nat_digits.simps)
  then show "json_loads (dump_sp '' '' (JObj ex_health)) = Inr (JObj ex_health)" "valid_utf8 (dump_sp '' '' (JObj ex_health))"
    using loads_dump [of "'' ''" "JObj ex_health"] dump_valid_utf8 [of "JObj ex_health" "'' ''"] by (simp_all add: json_ws_def)
qed

lemma nearest_present: "present p \<Longrightarrow> nearest_existing_path present p = p"
  by (simp add: nearest_existing_path.simps)

lemma ex_health_check: "\<exists>c. check_agent_health ex_doctor ex_serve (Some ex_stored) = Inr c \<and> \<not> failed c"
proof -
  have "doctor_backend_url ex_serve (Some ex_stored) = Some ''https://agent.example''"
    by (simp add: doctor_backend_url_def or_text_def ex_stored_def)
  then show ?thesis
    using loads_ex_health
    by (simp add: check_agent_health_def ex_doctor_def del: dump_sp.simps)
      (simp add: health_report_def ex_health_def jget_def int_of_json_def PROTOCOL_VERSION_def clock_skew_def)
qed

lemma ex_doctor_report:
  "\<exists>report. run_doctor ex_doctor ex_serve [''image_pull'', ''wss_handshake''] (Some SERVICE_USER) (Some SERVICE_GROUP) = Inr report \<and>
     dr_status report = ''ok''"
proof -
  obtain c7 where c7: "check_agent_health ex_doctor ex_serve (Some ex_stored) = Inr c7" "\<not> failed c7" using ex_health_check by blast
  have loads: "json_loads [] = Inl JSONDecodeError" by (simp add: json_loads_def skip_ws_def)
  have "check_credentials ex_doctor ex_serve (Some SERVICE_USER) (Some SERVICE_GROUP) =
      Inr (ok_check ''credentials'' ''/c.toml'' (Some [(''engine_id'', JStr (cr_engine_id ex_stored))]), Some ex_stored)"
    using validate_ex_files by (simp add: check_credentials_def ex_doctor_def ex_serve_def)
  moreover have "check_docker ex_doctor = Inr (ok_check ''docker'' ''daemon reachable'' None)"
    by (simp add: check_docker_def ex_doctor_def loads)
  moreover obtain c2 where "check_cgroup_v2 ex_doctor = Inr c2" "\<not> failed c2"
    by (simp add: check_cgroup_v2_def ex_doctor_def)
  moreover obtain c3 where "check_disk_space ex_doctor ex_serve = Inr c3" "\<not> failed c3"
    by (simp add: check_disk_space_def ex_doctor_def MIN_FREE_BYTES_def Let_def)
  moreover have "\<not> failed (check_writable_paths ex_doctor ex_serve)"
    by (simp add: check_writable_paths_def ex_doctor_def Let_def)
  moreover obtain c5 where "check_sqlite_integrity ex_doctor (path_join (cf_state_dir ex_serve) ''queue.sqlite'') = Inr c5" "\<not> failed c5"
    by (simp add: check_sqlite_integrity_def ex_doctor_def Let_def)
  moreover have "\<not> failed (check_version ex_doctor)" "\<not> failed check_builder_network"
    by (simp_all add: check_version_def check_builder_network_def)
  ultimately have "\<exists>checks. doctor_checks ex_doctor ex_serve [''image_pull'', ''wss_handshake''] (Some SERVICE_USER) (Some SERVICE_GROUP) =
      Inr checks \<and> \<not> list_ex failed checks"
    using c7 by (simp add: doctor_checks_def maybe_skip_def)
  then show ?thesis by (auto simp: run_doctor_def failed_def [abs_def])
qed

theorem healthy_report_sound_witness:
  "\<exists>k free. validate_credentials_file ex_lib auth_clock ex_host (Some SERVICE_USER) (Some SERVICE_GROUP) ex_files ''/c.toml'' = Inr k \<and>
     de_disk_free ex_doctor ''/var/lib/build-engine'' = Inr free \<and> 20 * 1024 ^ 3 \<le> free"
proof -
  obtain report where "run_doctor ex_doctor ex_serve [''image_pull'', ''wss_handshake''] (Some SERVICE_USER) (Some SERVICE_GROUP) = Inr report"
    "dr_status report = ''ok''" using ex_doctor_report by blast
  from healthy_report_sound [OF this] show ?thesis
    by (auto simp: ex_doctor_def ex_serve_def MIN_FREE_BYTES_def)
qed

section \<open>Starting the service\<close>

text \<open>
  The service starts only on valid credentials and a healthy host. When \<open>serve\<close> passes its gate, the
  file was validated with the owner it runs as (the service account, or the process itself when a
  state directory is given), the credentials it uses are those, and the backend has just answered for
  them that it speaks protocol 2.
\<close>

theorem serve_gate:
  assumes "serve_startup de config dev_identity = Inr (Some c)"
  shows "validate_credentials_file (de_lib de) (de_clk de) (de_host de) (if dev_identity then None else Some SERVICE_USER)
      (if dev_identity then None else Some SERVICE_GROUP) (de_files de) (cf_credentials_path config) = Inr c \<and>
    (\<exists>free. de_disk_free de (nearest_existing_path (de_exists de) (cf_state_dir config)) = Inr free \<and> MIN_FREE_BYTES \<le> free) \<and>
    (\<exists>url body d date_header. or_text (cr_backend_url c) (cf_backend_url config) = Some url \<and>
       de_get de (join_backend_path url HEALTH_PATH) (client_headers_for_credentials (de_version de) c) = (Http_Body body, date_header) \<and>
       json_loads body = Inr (JObj d) \<and> healthy_backend de d date_header)"
proof -
  let ?user = "if dev_identity then None else Some SERVICE_USER" and ?grp = "if dev_identity then None else Some SERVICE_GROUP"
  have v: "validate_credentials_file (de_lib de) (de_clk de) (de_host de) ?user ?grp (de_files de) (cf_credentials_path config) = Inr c"
    and r: "\<exists>report. run_doctor de config [''image_pull'', ''wss_handshake''] ?user ?grp = Inr report \<and> dr_status report = ''ok''"
    using assms by (auto simp: serve_startup_def Let_def rbind_Inr_iff split: sum.splits if_splits)
  from r obtain report where "run_doctor de config [''image_pull'', ''wss_handshake''] ?user ?grp = Inr report" "dr_status report = ''ok''"
    by blast
  then show ?thesis
  proof (cases rule: run_doctor_cases)
    case (1 creds_check credentials c1 c2 c3 c5 c6 c7 c8 c9)
    have "credentials = Some c" using credentials_passed [OF 1(1,2)] v by auto
    moreover have "check_agent_health de config credentials = Inr c7" using maybe_skip_passed [OF 1(13)] by simp
    ultimately show ?thesis using v disk_passed [OF 1(7,8)] health_passed [of de config c c7] 1(14) by simp
  qed
qed

theorem serve_gate_witness:
  "serve_startup ex_doctor ex_serve False = Inr (Some ex_stored) \<and>
   (\<exists>d date_header. healthy_backend ex_doctor d date_header)"
proof -
  obtain report where "run_doctor ex_doctor ex_serve [''image_pull'', ''wss_handshake''] (Some SERVICE_USER) (Some SERVICE_GROUP) = Inr report"
    "dr_status report = ''ok''" using ex_doctor_report by blast
  then have s: "serve_startup ex_doctor ex_serve False = Inr (Some ex_stored)"
    using validate_ex_files by (simp add: serve_startup_def ex_doctor_def ex_serve_def)
  then show ?thesis using serve_gate [OF s] by blast
qed

section \<open>Draining\<close>

text \<open>The \<open>drain\<close> and \<open>resume\<close> commands reach a running service through the marker file: its next assignment is
  refused without touching the store, and accepted again afterwards.\<close>

lemma drain_commands_reach_service:
  "fst (assign now p (snd (cli_drain e))) = Inr \<lparr>cr_accepted = False, cr_state = Some ''FAILED'', cr_detail = Some ''Engine is draining'',
     cr_affected = []\<rparr>"
  "es_store (snd (assign now p (snd (cli_drain e)))) = es_store e"
  "assign now p (snd (cli_resume (snd (cli_drain e)))) = assign now p (e\<lparr>es_drain_marker := False\<rparr>)"
  by (simp_all add: assign_def cli_drain_def cli_resume_def own_process_def drain_def resume_def post_init_def)

lemma request_drain_once: "request_drain (request_drain sv) = request_drain sv"
  by (simp add: request_drain_def)

end
