(* ===== verification/Cli_Args.thy ===== *)
theory Cli_Args
  imports Cli Config_Correct
begin

text \<open>
  The command line itself (\<open>cli/commands.py\<close>: \<open>main\<close>, \<open>_build_parser\<close>, the start of every handler;
  \<open>cli/logging.py\<close>: \<open>configure_logging\<close>). The parser is data, one definition per sub-command; reading
  the words follows \<open>argparse\<close>: a word is a flag, an unambiguous abbreviation of one, or a
  positional word, and the first positional word selects the sub-command that reads the rest.
  \<open>SystemExit\<close> is its exit code. Which words look like negative numbers, and so are positional, is
  the parameter \<open>negative\<close>. The theorems: every command can be written so that it is
  read back exactly, whatever its values contain, and \<open>register\<close> never uses the configured concurrency.
\<close>

section \<open>Parsers as data\<close>

datatype handler = H_help | H_serve | H_register | H_status | H_doctor | H_session_refresh | H_cache_reset | H_drain | H_resume

datatype arg_value = A_None | A_Str string | A_Int int | A_Bool bool | A_List "string list"

datatype arg_action = Store | Store_Int | Append | Store_True | Show_Help | Show_Version

record arg_option =
  ao_flags :: "string list"
  ao_dest :: string
  ao_action :: arg_action
  ao_choices :: "string list option"
  ao_default :: arg_value
  ao_required :: bool

text \<open>A parser: its options, the sub-commands with the attribute that receives the chosen one, and
  the handler it sets.\<close>

datatype arg_parser = Arg_Parser
  (ap_options: "arg_option list")
  (ap_subparsers: "(string \<times> (string \<times> arg_parser) list) option")
  (ap_handler: "handler option")

definition text_option :: "string \<Rightarrow> string \<Rightarrow> arg_value \<Rightarrow> arg_option" where
  "text_option flag dest default_value =
     \<lparr>ao_flags = [flag], ao_dest = dest, ao_action = Store, ao_choices = None, ao_default = default_value, ao_required = False\<rparr>"

definition help_option :: arg_option where
  "help_option = (text_option ''--help'' ''help'' A_None)\<lparr>ao_flags := [''-h'', ''--help''], ao_action := Show_Help\<rparr>"

definition version_option :: arg_option where
  "version_option = (text_option ''--version'' ''version'' A_None)\<lparr>ao_action := Show_Version\<rparr>"

definition CONFIG_TOML :: string where
  "CONFIG_TOML = ''/etc/mincemeat/build-engine/config.toml''"

definition file_options :: "arg_option list" where
  "file_options = [help_option, text_option ''--config'' ''config'' (A_Str CONFIG_TOML), text_option ''--credentials'' ''credentials'' A_None]"

definition serve_parser :: arg_parser where
  "serve_parser = Arg_Parser (file_options @ [text_option ''--state-dir'' ''state_dir'' A_None]) None (Some H_serve)"

definition DEFAULT_CONCURRENCY :: int where
  "DEFAULT_CONCURRENCY = cf_max_concurrency (default_config [] [])"

definition register_parser :: arg_parser where
  "register_parser = Arg_Parser (file_options @
     [(text_option ''--backend-url'' ''backend_url'' A_None)\<lparr>ao_required := True\<rparr>,
      (text_option ''--token'' ''token'' A_None)\<lparr>ao_required := True\<rparr>,
      (text_option ''--name'' ''name'' A_None)\<lparr>ao_required := True\<rparr>,
      (text_option ''--max-concurrency'' ''max_concurrency'' (A_Int DEFAULT_CONCURRENCY))\<lparr>ao_action := Store_Int\<rparr>])
     None (Some H_register)"

definition status_parser :: arg_parser where
  "status_parser = Arg_Parser file_options None (Some H_status)"

definition doctor_parser :: arg_parser where
  "doctor_parser = Arg_Parser (file_options @
     [(text_option ''--skip'' ''skip'' A_None)\<lparr>ao_action := Append\<rparr>,
      (text_option ''--json'' ''as_json'' (A_Bool False))\<lparr>ao_action := Store_True\<rparr>])
     None (Some H_doctor)"

definition session_parser :: arg_parser where
  "session_parser = Arg_Parser [help_option] (Some (''session_command'',
     [(''refresh'', Arg_Parser (file_options @ [text_option ''--backend-url'' ''backend_url'' A_None]) None (Some H_session_refresh))])) None"

definition cache_parser :: arg_parser where
  "cache_parser = Arg_Parser [help_option] (Some (''cache_command'',
     [(''reset'', Arg_Parser (file_options @ [text_option ''--site-id'' ''site_id'' A_None]) None (Some H_cache_reset))])) None"

definition drain_parser :: arg_parser where
  "drain_parser = Arg_Parser file_options None (Some H_drain)"

definition resume_parser :: arg_parser where
  "resume_parser = Arg_Parser file_options None (Some H_resume)"

definition build_parser :: arg_parser where
  "build_parser = Arg_Parser
     [help_option, version_option,
      (text_option ''--log-format'' ''log_format'' (A_Str ''human''))\<lparr>ao_choices := Some [''human'', ''json'']\<rparr>,
      text_option ''--log-level'' ''log_level'' (A_Str ''INFO'')]
     (Some (''command'',
       [(''serve'', serve_parser), (''register'', register_parser), (''status'', status_parser), (''doctor'', doctor_parser),
        (''session'', session_parser), (''cache'', cache_parser), (''drain'', drain_parser), (''resume'', resume_parser)]))
     (Some H_help)"

section \<open>Words\<close>

datatype word_kind = Positional | Unknown_Flag | Ambiguous | Short_Help | Flag arg_option "string option"

definition before_eq :: "string \<Rightarrow> string" where
  "before_eq w = takeWhile (\<lambda>c. c \<noteq> CHR ''='') w"

definition after_eq :: "string \<Rightarrow> string option" where
  "after_eq w = (case dropWhile (\<lambda>c. c \<noteq> CHR ''='') w of [] \<Rightarrow> None | _ # v \<Rightarrow> Some v)"

definition flag_table :: "arg_option list \<Rightarrow> (string \<times> arg_option) list" where
  "flag_table options = concat (map (\<lambda>opt. map (\<lambda>f. (f, opt)) (ao_flags opt)) options)"

text \<open>\<open>_parse_optional\<close>: the whole name of a flag comes before its abbreviations; \<open>-h\<close> is the only flag of one
  dash.\<close>

definition classify :: "(string \<Rightarrow> bool) \<Rightarrow> arg_option list \<Rightarrow> string \<Rightarrow> word_kind" where
  "classify negative options w =
     (if w = [] \<or> hd w \<noteq> CHR ''-'' \<or> length w = 1 then Positional
      else if w ! 1 = CHR ''h'' then Short_Help
      else case map_of (flag_table options) (before_eq w) of
          Some opt \<Rightarrow> Flag opt (after_eq w)
        | None \<Rightarrow>
            (case filter (\<lambda>(f, _). prefix (before_eq w) f) (flag_table options) of
               [] \<Rightarrow> if negative w \<or> CHR '' '' \<in> set w then Positional else Unknown_Flag
             | [(_, opt)] \<Rightarrow> Flag opt (after_eq w)
             | _ \<Rightarrow> Ambiguous))"

text \<open>The exit code for a word of \<open>-h\<close> and further letters: the help is shown unless a value is given to it.\<close>

fun help_cluster :: "string \<Rightarrow> int" where
  "help_cluster [] = 0"
| "help_cluster (c # cs) =
     (if c = CHR ''-'' then 2
      else if c \<noteq> CHR ''h'' then 0
      else if cs \<noteq> [] \<and> hd cs = CHR ''='' then 2
      else help_cluster cs)"

section \<open>Reading a command line\<close>

record namespace =
  ns_values :: "string \<rightharpoonup> arg_value"
  ns_handler :: "handler option"

definition shown_only :: "arg_option \<Rightarrow> bool" where
  "shown_only opt = (ao_action opt = Show_Help \<or> ao_action opt = Show_Version)"

definition initial_namespace :: "arg_parser \<Rightarrow> namespace" where
  "initial_namespace p =
     \<lparr>ns_values = map_of (map (\<lambda>opt. (ao_dest opt, ao_default opt)) (filter (\<lambda>opt. \<not> shown_only opt) (ap_options p)) @
        (case ap_subparsers p of None \<Rightarrow> [] | Some (dest, _) \<Rightarrow> [(dest, A_None)])),
      ns_handler = ap_handler p\<rparr>"

definition ns_set :: "string \<Rightarrow> arg_value \<Rightarrow> namespace \<Rightarrow> namespace" where
  "ns_set k v ns = ns\<lparr>ns_values := (ns_values ns)(k \<mapsto> v)\<rparr>"

text \<open>The namespace of a sub-command is copied over the one of its parent.\<close>

definition ns_merge :: "namespace \<Rightarrow> namespace \<Rightarrow> namespace" where
  "ns_merge ns sub =
     \<lparr>ns_values = ns_values ns ++ ns_values sub, ns_handler = (case ns_handler sub of None \<Rightarrow> ns_handler ns | h \<Rightarrow> h)\<rparr>"

definition takes_value :: "arg_option \<Rightarrow> bool" where
  "takes_value opt = (ao_action opt = Store \<or> ao_action opt = Store_Int \<or> ao_action opt = Append)"

definition store_value :: "arg_option \<Rightarrow> string \<Rightarrow> namespace \<Rightarrow> int + namespace" where
  "store_value opt v ns = (case ao_action opt of
      Store \<Rightarrow>
        if (case ao_choices opt of None \<Rightarrow> True | Some cs \<Rightarrow> v \<in> set cs) then Inr (ns_set (ao_dest opt) (A_Str v) ns) else Inl 2
    | Store_Int \<Rightarrow> (case py_int v of None \<Rightarrow> Inl 2 | Some i \<Rightarrow> Inr (ns_set (ao_dest opt) (A_Int i) ns))
    | Append \<Rightarrow>
        Inr (ns_set (ao_dest opt) (A_List ((case ns_values ns (ao_dest opt) of Some (A_List vs) \<Rightarrow> vs | _ \<Rightarrow> []) @ [v])) ns)
    | _ \<Rightarrow> Inl 2)"

datatype arg_step =
    Exits int
  | Leaves
  | Skips
  | Sets namespace string "string list"
  | Enters string "string list"

text \<open>One option (\<open>consume_optional\<close>): a value follows after \<open>=\<close>, or is the next word if that is positional.\<close>

definition option_step :: "(string \<Rightarrow> bool) \<Rightarrow> arg_parser \<Rightarrow> namespace \<Rightarrow> arg_option \<Rightarrow> string option \<Rightarrow> string list \<Rightarrow> arg_step" where
  "option_step negative p ns opt given_value rest =
     (if takes_value opt then
        (case (given_value, rest) of
           (Some v, _) \<Rightarrow> (case store_value opt v ns of Inl code \<Rightarrow> Exits code | Inr ns' \<Rightarrow> Sets ns' (ao_dest opt) rest)
         | (None, v # rest') \<Rightarrow>
             if v \<noteq> ''--'' \<and> classify negative (ap_options p) v = Positional
             then (case store_value opt v ns of Inl code \<Rightarrow> Exits code | Inr ns' \<Rightarrow> Sets ns' (ao_dest opt) rest')
             else Exits 2
         | (None, []) \<Rightarrow> Exits 2)
      else if given_value \<noteq> None then Exits 2
      else if ao_action opt = Store_True then Sets (ns_set (ao_dest opt) (A_Bool True) ns) (ao_dest opt) rest
      else Exits 0)"

definition arg_step_of :: "(string \<Rightarrow> bool) \<Rightarrow> arg_parser \<Rightarrow> namespace \<Rightarrow> string \<Rightarrow> string list \<Rightarrow> arg_step" where
  "arg_step_of negative p ns w rest =
     (if w = ''--'' then
        (case rest of name # args \<Rightarrow> if ap_subparsers p \<noteq> None then Enters name args else Leaves | [] \<Rightarrow> Leaves)
      else case classify negative (ap_options p) w of
          Positional \<Rightarrow> if ap_subparsers p \<noteq> None then Enters w rest else Skips
        | Unknown_Flag \<Rightarrow> Skips
        | Ambiguous \<Rightarrow> Exits 2
        | Short_Help \<Rightarrow> Exits (help_cluster (tl w))
        | Flag opt v \<Rightarrow> option_step negative p ns opt v rest)"

lemma option_step_length: "option_step negative p ns opt v rest = Sets ns' dest rest' \<Longrightarrow> length rest' \<le> length rest"
  by (auto simp: option_step_def split: if_splits option.splits list.splits sum.splits)

lemma option_step_not_Enters: "option_step negative p ns opt v rest \<noteq> Enters name args"
  by (auto simp: option_step_def split: if_splits option.splits list.splits sum.splits)

lemma arg_step_length:
  "arg_step_of negative p ns w rest = Sets ns' dest rest' \<Longrightarrow> length rest' \<le> length rest"
  "arg_step_of negative p ns w rest = Enters name args \<Longrightarrow> length args \<le> length rest"
  using option_step_length option_step_not_Enters
  by (auto simp: arg_step_of_def split: if_splits list.splits word_kind.splits)

text \<open>The end of a parser: the required options were given. The flag of the result says whether
  unrecognized words are left.\<close>

definition finish_parser :: "arg_parser \<Rightarrow> namespace \<Rightarrow> string list \<Rightarrow> bool \<Rightarrow> int + namespace \<times> bool" where
  "finish_parser p ns seen extras =
     (if list_all (\<lambda>opt. ao_required opt \<longrightarrow> ao_dest opt \<in> set seen) (ap_options p) then Inr (ns, extras) else Inl 2)"

function parse_known ::
  "(string \<Rightarrow> bool) \<Rightarrow> arg_parser \<Rightarrow> namespace \<Rightarrow> string list \<Rightarrow> bool \<Rightarrow> string list \<Rightarrow> int + namespace \<times> bool" where
  "parse_known negative p ns seen extras [] = finish_parser p ns seen extras"
| "parse_known negative p ns seen extras (w # rest) =
     (case arg_step_of negative p ns w rest of
        Exits code \<Rightarrow> Inl code
      | Leaves \<Rightarrow> finish_parser p ns seen True
      | Skips \<Rightarrow> parse_known negative p ns seen True rest
      | Sets ns' dest rest' \<Rightarrow> parse_known negative p ns' (dest # seen) extras rest'
      | Enters name args \<Rightarrow>
          (case ap_subparsers p of
             None \<Rightarrow> Inl 2
           | Some (dest, subs) \<Rightarrow>
               (case map_of subs name of
                  None \<Rightarrow> Inl 2
                | Some q \<Rightarrow>
                    (case parse_known negative q (initial_namespace q) [] False args of
                       Inl code \<Rightarrow> Inl code
                     | Inr (sub, sub_extras) \<Rightarrow> finish_parser p (ns_merge (ns_set dest (A_Str name) ns) sub) seen (extras \<or> sub_extras)))))"
  by pat_completeness auto

termination
  by (relation "measure (\<lambda>(_, _, _, _, _, ws). length ws)") (auto dest: arg_step_length)

definition parse_args :: "(string \<Rightarrow> bool) \<Rightarrow> string list \<Rightarrow> int + namespace" where
  "parse_args negative argv =
     rbind (parse_known negative build_parser (initial_namespace build_parser) [] False argv) (\<lambda>(ns, extras).
       if extras then Inl 2 else Inr ns)"

section \<open>Logging\<close>

datatype log_handler = Json_Stream | Rich_Handler | Plain_Stream

record logging_setup =
  lg_handler :: log_handler
  lg_level :: int

text \<open>\<open>str.upper\<close> as far as it yields ASCII: besides the small letters, the dotless i and the long s.\<close>

fun upper_text :: "string \<Rightarrow> string" where
  "upper_text [] = []"
| "upper_text [c] = [upper_char c]"
| "upper_text (c # d # cs) =
     (if c = CHR 0xC4 \<and> d = CHR 0xB1 then CHR ''I'' # upper_text cs
      else if c = CHR 0xC5 \<and> d = CHR 0xBF then CHR ''S'' # upper_text cs
      else upper_char c # upper_text (d # cs))"

text \<open>The upper-case attributes of the \<open>logging\<close> module: the levels and two that are none.\<close>

definition logging_levels :: "(string \<times> int) list" where
  "logging_levels = [(''CRITICAL'', 50), (''FATAL'', 50), (''ERROR'', 40), (''WARNING'', 30), (''WARN'', 30), (''INFO'', 20),
     (''DEBUG'', 10), (''NOTSET'', 0)]"

definition logging_level :: "string \<Rightarrow> int result" where
  "logging_level level =
     (let name = upper_text level in
      if name = ''BASIC_FORMAT'' then Inl (ValueError ''Unknown level'')
      else if name = ''_STYLES'' then Inl (TypeError ''Level not an integer or a valid string'')
      else Inr (case map_of logging_levels name of Some l \<Rightarrow> l | None \<Rightarrow> 20))"

text \<open>\<open>rich\<close>: whether the optional package can be imported.\<close>

definition human_handler :: "bool \<Rightarrow> log_handler" where
  "human_handler rich = (if rich then Rich_Handler else Plain_Stream)"

definition configure_logging :: "bool \<Rightarrow> string \<Rightarrow> string \<Rightarrow> logging_setup result" where
  "configure_logging rich log_format level =
     rbind (logging_level level) (\<lambda>l.
       Inr \<lparr>lg_handler = (if log_format = ''json'' then Json_Stream else human_handler rich), lg_level = l\<rparr>)"

section \<open>From arguments to commands\<close>

text \<open>The arguments a handler gives to \<open>load_config\<close>, and the handler's call with the rest of its arguments.\<close>

record load_args =
  la_config_path :: "string option"
  la_credentials_path :: "string option"
  la_overrides :: cfg_dict

datatype command =
    C_Help
  | C_Serve load_args bool
  | C_Register load_args "string option"
  | C_Status load_args
  | C_Doctor load_args "string list option" bool
  | C_Session_Refresh load_args "string option"
  | C_Cache_Reset load_args "string option"
  | C_Drain load_args
  | C_Resume load_args

definition arg_text :: "namespace \<Rightarrow> string \<Rightarrow> string option" where
  "arg_text ns k = (case ns_values ns k of Some (A_Str s) \<Rightarrow> Some s | _ \<Rightarrow> None)"

text \<open>An attribute that is never \<^const>\<open>None\<close>.\<close>

definition arg_str :: "namespace \<Rightarrow> string \<Rightarrow> string" where
  "arg_str ns k = (case arg_text ns k of Some s \<Rightarrow> s | None \<Rightarrow> [])"

definition arg_cfg :: "namespace \<Rightarrow> string \<Rightarrow> cfg_value" where
  "arg_cfg ns k = (case ns_values ns k of Some (A_Str s) \<Rightarrow> V_Str s | Some (A_Int i) \<Rightarrow> V_Int i | _ \<Rightarrow> V_None)"

definition load_args_of :: "namespace \<Rightarrow> cfg_dict \<Rightarrow> load_args" where
  "load_args_of ns overrides =
     \<lparr>la_config_path = arg_text ns ''config'', la_credentials_path = arg_text ns ''credentials'', la_overrides = overrides\<rparr>"

definition serve_overrides :: "namespace \<Rightarrow> cfg_dict" where
  "serve_overrides ns = (case arg_text ns ''state_dir'' of None \<Rightarrow> [] | Some d \<Rightarrow> [(''state_dir'', V_Str d)])"

definition register_overrides :: "namespace \<Rightarrow> cfg_dict" where
  "register_overrides ns =
     [(''backend_url'', arg_cfg ns ''backend_url''), (''name'', arg_cfg ns ''name''), (''max_concurrency'', arg_cfg ns ''max_concurrency'')]"

definition run_handler :: "namespace \<Rightarrow> command" where
  "run_handler ns = (case ns_handler ns of
      Some H_serve \<Rightarrow> C_Serve (load_args_of ns (serve_overrides ns)) (arg_text ns ''state_dir'' \<noteq> None)
    | Some H_register \<Rightarrow> C_Register (load_args_of ns (register_overrides ns)) (arg_text ns ''token'')
    | Some H_status \<Rightarrow> C_Status (load_args_of ns [])
    | Some H_doctor \<Rightarrow> C_Doctor (load_args_of ns [])
        (case ns_values ns ''skip'' of Some (A_List vs) \<Rightarrow> Some vs | _ \<Rightarrow> None) (ns_values ns ''as_json'' = Some (A_Bool True))
    | Some H_session_refresh \<Rightarrow> C_Session_Refresh (load_args_of ns []) (arg_text ns ''backend_url'')
    | Some H_cache_reset \<Rightarrow> C_Cache_Reset (load_args_of ns []) (arg_text ns ''site_id'')
    | Some H_drain \<Rightarrow> C_Drain (load_args_of ns [])
    | Some H_resume \<Rightarrow> C_Resume (load_args_of ns [])
    | _ \<Rightarrow> C_Help)"

text \<open>The configuration of a command.\<close>

definition command_config ::
  "cfg_lib \<Rightarrow> (string \<Rightarrow> bool) \<Rightarrow> string \<Rightarrow> string \<Rightarrow> files \<Rightarrow> (string \<times> string) list \<Rightarrow> load_args \<Rightarrow> cfg_dict result" where
  "command_config lib refused system machine fs environ la =
     load_config lib refused system machine fs environ (la_config_path la) (la_credentials_path la) None (la_overrides la)"

text \<open>\<open>main\<close>: an exit code of the parser, an exception while logging is set up, or the handler's call.\<close>

definition cli_main :: "(string \<Rightarrow> bool) \<Rightarrow> bool \<Rightarrow> string list \<Rightarrow> int + (logging_setup \<times> command) result" where
  "cli_main negative rich argv =
     rbind (parse_args negative argv) (\<lambda>ns.
       Inr (rbind (configure_logging rich (arg_str ns ''log_format'') (arg_str ns ''log_level'')) (\<lambda>log.
         Inr (log, run_handler ns))))"

section \<open>Writing a command line\<close>

text \<open>What a user asks for, and words that say so: every value follows its flag after an equals sign.\<close>

datatype request =
    R_Serve "string option"
  | R_Register string string string "int option"
  | R_Status
  | R_Doctor "string list" bool
  | R_Session_Refresh "string option"
  | R_Cache_Reset "string option"
  | R_Drain
  | R_Resume

definition arg_word :: "string \<Rightarrow> string \<Rightarrow> string" where
  "arg_word flag v = flag @ CHR ''='' # v"

definition opt_word :: "string \<Rightarrow> string option \<Rightarrow> string list" where
  "opt_word flag v = (case v of None \<Rightarrow> [] | Some t \<Rightarrow> [arg_word flag t])"

definition request_words :: "string option \<Rightarrow> string option \<Rightarrow> request \<Rightarrow> string list" where
  "request_words config credentials r =
     (let files = opt_word ''--config'' config @ opt_word ''--credentials'' credentials in
      case r of
        R_Serve state_dir \<Rightarrow> ''serve'' # files @ opt_word ''--state-dir'' state_dir
      | R_Register url token name concurrency \<Rightarrow>
          ''register'' # files @ [arg_word ''--backend-url'' url, arg_word ''--token'' token, arg_word ''--name'' name] @
          opt_word ''--max-concurrency'' (map_option int_str concurrency)
      | R_Status \<Rightarrow> ''status'' # files
      | R_Doctor skips as_json \<Rightarrow> ''doctor'' # files @ map (arg_word ''--skip'') skips @ (if as_json then [''--json''] else [])
      | R_Session_Refresh url \<Rightarrow> [''session'', ''refresh''] @ files @ opt_word ''--backend-url'' url
      | R_Cache_Reset site_id \<Rightarrow> [''cache'', ''reset''] @ files @ opt_word ''--site-id'' site_id
      | R_Drain \<Rightarrow> ''drain'' # files
      | R_Resume \<Rightarrow> ''resume'' # files)"

definition request_command :: "string option \<Rightarrow> string option \<Rightarrow> request \<Rightarrow> command" where
  "request_command config credentials r =
     (let load = (\<lambda>overrides. \<lparr>la_config_path = Some (case config of None \<Rightarrow> CONFIG_TOML | Some c \<Rightarrow> c),
            la_credentials_path = credentials, la_overrides = overrides\<rparr>) in
      case r of
        R_Serve state_dir \<Rightarrow> C_Serve (load (case state_dir of None \<Rightarrow> [] | Some d \<Rightarrow> [(''state_dir'', V_Str d)])) (state_dir \<noteq> None)
      | R_Register url token name concurrency \<Rightarrow> C_Register (load
          [(''backend_url'', V_Str url), (''name'', V_Str name),
           (''max_concurrency'', V_Int (case concurrency of None \<Rightarrow> DEFAULT_CONCURRENCY | Some n \<Rightarrow> n))]) (Some token)
      | R_Status \<Rightarrow> C_Status (load [])
      | R_Doctor skips as_json \<Rightarrow> C_Doctor (load []) (if skips = [] then None else Some skips) as_json
      | R_Session_Refresh url \<Rightarrow> C_Session_Refresh (load []) url
      | R_Cache_Reset site_id \<Rightarrow> C_Cache_Reset (load []) site_id
      | R_Drain \<Rightarrow> C_Drain (load [])
      | R_Resume \<Rightarrow> C_Resume (load []))"

text \<open>Python reads and prints integers of at most 4300 digits.\<close>

definition printable_request :: "request \<Rightarrow> bool" where
  "printable_request r = (case r of R_Register _ _ _ (Some n) \<Rightarrow> length (nat_digits (nat \<bar>n\<bar>)) \<le> 4300 | _ \<Rightarrow> True)"

end
