(* ===== verification/Cli_Args_Correct.thy ===== *)
theory Cli_Args_Correct
  imports Cli_Args
begin

text \<open>
  The command line is unambiguous: the words written for a request are read back as that request,
  whatever texts its values are. And the effect of the defaults of \<open>register\<close> on the configuration.
\<close>

section \<open>Words with their value\<close>

definition long_flag :: "string \<Rightarrow> bool" where
  "long_flag flag \<longleftrightarrow> prefix ''--'' flag \<and> CHR ''='' \<notin> set flag"

lemma before_eq_word: "CHR ''='' \<notin> set flag \<Longrightarrow> before_eq (arg_word flag v) = flag"
  by (induction flag) (auto simp: before_eq_def arg_word_def)

lemma after_eq_word: "CHR ''='' \<notin> set flag \<Longrightarrow> after_eq (arg_word flag v) = Some v"
  by (induction flag) (auto simp: after_eq_def arg_word_def)

lemma classify_word:
  assumes "long_flag flag" and "map_of (flag_table options) flag = Some opt"
  shows "classify negative options (arg_word flag v) = Flag opt (Some v)"
proof -
  obtain t where "flag = CHR ''-'' # CHR ''-'' # t" using assms(1) by (auto simp: long_flag_def prefix_def)
  then have "arg_word flag v \<noteq> []" "hd (arg_word flag v) = CHR ''-''" "length (arg_word flag v) \<noteq> 1" "arg_word flag v ! 1 \<noteq> CHR ''h''"
    by (simp_all add: arg_word_def)
  then show ?thesis
    using assms by (simp add: classify_def before_eq_word after_eq_word long_flag_def)
qed

lemma arg_word_not_dashes: "arg_word flag v \<noteq> ''--''"
  by (auto simp: arg_word_def append_eq_Cons_conv)

lemma parse_word:
  assumes "long_flag flag" and "map_of (flag_table (ap_options p)) flag = Some opt"
    and "takes_value opt" and "store_value opt v ns = Inr ns'"
  shows "parse_known negative p ns seen extras (arg_word flag v # rest) = parse_known negative p ns' (ao_dest opt # seen) extras rest"
  using assms by (simp add: arg_step_of_def arg_word_not_dashes classify_word option_step_def)

lemma parse_text_word:
  assumes "long_flag flag" and "map_of (flag_table (ap_options p)) flag = Some opt"
    and "ao_action opt = Store" and "case ao_choices opt of None \<Rightarrow> True | Some cs \<Rightarrow> v \<in> set cs"
  shows "parse_known negative p ns seen extras (arg_word flag v # rest) =
    parse_known negative p (ns_set (ao_dest opt) (A_Str v) ns) (ao_dest opt # seen) extras rest"
  using assms by (intro parse_word) (simp_all add: takes_value_def store_value_def)

definition ns_opt :: "string \<Rightarrow> string option \<Rightarrow> namespace \<Rightarrow> namespace" where
  "ns_opt k v ns = (case v of None \<Rightarrow> ns | Some t \<Rightarrow> ns_set k (A_Str t) ns)"

definition seen_opt :: "string \<Rightarrow> string option \<Rightarrow> string list \<Rightarrow> string list" where
  "seen_opt k v seen = (case v of None \<Rightarrow> seen | Some _ \<Rightarrow> k # seen)"

lemma parse_opt_word:
  assumes "long_flag flag" and "map_of (flag_table (ap_options p)) flag = Some opt" and "ao_action opt = Store"
    and "case ao_choices opt of None \<Rightarrow> True | Some cs \<Rightarrow> set_option v \<subseteq> set cs"
  shows "parse_known negative p ns seen extras (opt_word flag v @ rest) =
    parse_known negative p (ns_opt (ao_dest opt) v ns) (seen_opt (ao_dest opt) v seen) extras rest"
  using assms by (cases v) (auto simp: opt_word_def ns_opt_def seen_opt_def parse_text_word simp del: parse_known.simps split: option.splits)

lemma ns_lookup [simp]:
  "ns_values (ns_set k v ns) k' = (if k' = k then Some v else ns_values ns k')"
  "ns_values (ns_opt k t ns) k' = (if k' = k \<and> t \<noteq> None then map_option A_Str t else ns_values ns k')"
  "ns_handler (ns_set k v ns) = ns_handler ns" "ns_handler (ns_opt k t ns) = ns_handler ns"
  by (auto simp: ns_set_def ns_opt_def split: option.splits)

lemma set_seen_opt [simp]: "set (seen_opt k v seen) = set seen \<union> (if v = None then {} else {k})"
  by (auto simp: seen_opt_def split: option.splits)

text \<open>Integers: what \<open>str\<close> prints, \<open>int\<close> reads.\<close>

lemma digit_groups_digits: "s \<noteq> [] \<Longrightarrow> list_all is_digit s \<Longrightarrow> digit_groups s"
  by (induction s rule: digit_groups.induct) (auto simp: is_digit_def)

lemma nat_digits_digits: "list_all is_digit (nat_digits n)"
  using nat_digits_all by (auto simp: list_all_iff)

lemma digit_not_sign: "is_digit c \<Longrightarrow> c \<noteq> CHR ''-'' \<and> c \<noteq> CHR ''+'' \<and> c \<noteq> CHR ''_'' \<and> graph_char c"
  by (auto simp: is_digit_def graph_char_def)

lemma nat_digits_plain: "filter (\<lambda>c. c \<noteq> CHR ''_'') (nat_digits n) = nat_digits n" "list_all graph_char (nat_digits n)"
  using nat_digits_digits [of n] digit_not_sign by (auto simp: filter_id_conv list_all_iff)

lemma int_str_graph: "list_all graph_char (int_str i)"
  using nat_digits_plain(2) by (auto simp: int_str_def graph_char_def)

lemma py_int_str: "length (nat_digits (nat \<bar>i\<bar>)) \<le> 4300 \<Longrightarrow> py_int (int_str i) = Some i"
proof -
  assume len: "length (nat_digits (nat \<bar>i\<bar>)) \<le> 4300"
  obtain c cs where hd: "nat_digits (nat \<bar>i\<bar>) = c # cs" "is_digit c" using digit_head by blast
  note digits = digit_groups_digits [OF nat_digits_nonempty nat_digits_digits, of "nat \<bar>i\<bar>"] nat_digits_plain(1) [of "nat \<bar>i\<bar>"]
    digits_val_nat_digits [of "nat \<bar>i\<bar>"] len
  show ?thesis
  proof (cases "i < 0")
    case True
    then have "int_str i = CHR ''-'' # nat_digits (nat \<bar>i\<bar>)" by (simp add: int_str_def)
    then show ?thesis using True digits strip_graph [OF int_str_graph [of i]] by (simp add: py_int_def)
  next
    case False
    then have "int_str i = nat_digits (nat \<bar>i\<bar>)" by (simp add: int_str_def)
    then show ?thesis
      using False digits(1,2,4) hd digit_not_sign [OF hd(2)] strip_graph [OF int_str_graph [of i]]
        digits_val_nat_digits [of "nat \<bar>i\<bar>", unfolded hd(1)] by (simp add: py_int_def)
  qed
qed

section \<open>Requests\<close>

lemmas parser_defs = serve_parser_def register_parser_def status_parser_def doctor_parser_def session_parser_def cache_parser_def
  drain_parser_def resume_parser_def file_options_def

lemma file_flags [simp]:
  "map_of (flag_table (file_options @ options)) ''--config'' = Some (text_option ''--config'' ''config'' (A_Str CONFIG_TOML))"
  "map_of (flag_table (file_options @ options)) ''--credentials'' = Some (text_option ''--credentials'' ''credentials'' A_None)"
  by (simp_all add: file_options_def flag_table_def help_option_def text_option_def)

lemma text_option_simps [simp]:
  "ao_flags (text_option f d v) = [f]" "ao_dest (text_option f d v) = d" "ao_action (text_option f d v) = Store"
  "ao_choices (text_option f d v) = None" "ao_default (text_option f d v) = v" "ao_required (text_option f d v) = False"
  by (simp_all add: text_option_def)

text \<open>The two options every command has.\<close>

lemma parse_files:
  assumes "ap_options p = file_options @ options"
  shows "parse_known negative p ns seen extras (opt_word ''--config'' config @ opt_word ''--credentials'' credentials @ rest) =
    parse_known negative p (ns_opt ''credentials'' credentials (ns_opt ''config'' config ns))
      (seen_opt ''credentials'' credentials (seen_opt ''config'' config seen)) extras rest"
  using assms by (simp add: parse_opt_word long_flag_def del: parse_known.simps)

definition files_ns :: "string option \<Rightarrow> string option \<Rightarrow> arg_parser \<Rightarrow> namespace" where
  "files_ns config credentials p = ns_opt ''credentials'' credentials (ns_opt ''config'' config (initial_namespace p))"

definition files_seen :: "string option \<Rightarrow> string option \<Rightarrow> string list" where
  "files_seen config credentials = seen_opt ''credentials'' credentials (seen_opt ''config'' config [])"

lemma parse_command:
  assumes "ap_options p = file_options @ options"
  shows "parse_known negative p (initial_namespace p) [] False (opt_word ''--config'' config @ opt_word ''--credentials'' credentials @ rest) =
    parse_known negative p (files_ns config credentials p) (files_seen config credentials) False rest"
  using assms by (simp add: parse_files files_ns_def files_seen_def)

text \<open>The word that selects a sub-command.\<close>

lemma parse_enter:
  assumes "ap_subparsers p = Some (dest, subs)" and "map_of subs name = Some q" and "name \<noteq> []" and "hd name \<noteq> CHR ''-''"
    and "parse_known negative q (initial_namespace q) [] False args = Inr (sub, sub_extras)"
  shows "parse_known negative p ns seen extras (name # args) =
    finish_parser p (ns_merge (ns_set dest (A_Str name) ns) sub) seen (extras \<or> sub_extras)"
  using assms by (auto simp: arg_step_of_def classify_def)

text \<open>What each sub-command reads from the words written for it.\<close>

lemma flag_table_simps [simp]:
  "flag_table [] = []" "flag_table (opt # options) = map (\<lambda>f. (f, opt)) (ao_flags opt) @ flag_table options"
  "flag_table (options @ options') = flag_table options @ flag_table options'"
  by (simp_all add: flag_table_def)

lemma file_table: "map_of (flag_table file_options) k =
  (if k = ''-h'' \<or> k = ''--help'' then Some help_option
   else if k = ''--config'' then Some (text_option ''--config'' ''config'' (A_Str CONFIG_TOML))
   else if k = ''--credentials'' then Some (text_option ''--credentials'' ''credentials'' A_None) else None)"
  by (simp add: file_options_def help_option_def)

lemma parse_last:
  assumes "long_flag flag" and "map_of (flag_table (ap_options p)) flag = Some opt" and "ao_action opt = Store" and "ao_choices opt = None"
  shows "parse_known negative p ns seen extras (opt_word flag v) =
    finish_parser p (ns_opt (ao_dest opt) v ns) (seen_opt (ao_dest opt) v seen) extras"
  using parse_opt_word [OF assms(1-3), of v negative ns seen extras "[]"] assms(4) by simp

lemma file_options_optional [simp]: "list_all (\<lambda>opt. ao_required opt \<longrightarrow> P opt) file_options"
  by (simp add: file_options_def help_option_def)

lemmas parse_file_words = parse_command parse_opt_word parse_text_word parse_last long_flag_def file_table map_add_def finish_parser_def

text \<open>A sub-command with one option of its own.\<close>

lemma parse_one_option:
  assumes "ap_options p = file_options @ [text_option flag dest v]" and "long_flag flag"
    and "map_of (flag_table file_options) flag = None"
  shows "parse_known negative p (initial_namespace p) [] False
     (opt_word ''--config'' config @ opt_word ''--credentials'' credentials @ opt_word flag t) =
   Inr (ns_opt dest t (files_ns config credentials p), False)"
proof -
  have "map_of (flag_table (ap_options p)) flag = Some (text_option flag dest v)"
    using assms(1,3) by (simp add: map_add_def)
  then show ?thesis
    using assms parse_last [of flag p "text_option flag dest v"] by (simp add: parse_command finish_parser_def del: parse_known.simps)
qed

lemma parse_no_option:
  assumes "ap_options p = file_options"
  shows "parse_known negative p (initial_namespace p) [] False (opt_word ''--config'' config @ opt_word ''--credentials'' credentials) =
   Inr (files_ns config credentials p, False)"
  using parse_command [of p "[]" negative config credentials "[]"] assms by (simp add: finish_parser_def)

lemma register_options:
  "ap_options register_parser = file_options @
     [(text_option ''--backend-url'' ''backend_url'' A_None)\<lparr>ao_required := True\<rparr>,
      (text_option ''--token'' ''token'' A_None)\<lparr>ao_required := True\<rparr>,
      (text_option ''--name'' ''name'' A_None)\<lparr>ao_required := True\<rparr>,
      (text_option ''--max-concurrency'' ''max_concurrency'' (A_Int DEFAULT_CONCURRENCY))\<lparr>ao_action := Store_Int\<rparr>]"
  by (simp add: register_parser_def)

definition register_ns :: "string option \<Rightarrow> string option \<Rightarrow> string \<Rightarrow> string \<Rightarrow> string \<Rightarrow> int option \<Rightarrow> namespace" where
  "register_ns config credentials url token name concurrency =
     (case concurrency of None \<Rightarrow> id | Some n \<Rightarrow> ns_set ''max_concurrency'' (A_Int n))
       (ns_set ''name'' (A_Str name) (ns_set ''token'' (A_Str token) (ns_set ''backend_url'' (A_Str url)
         (files_ns config credentials register_parser))))"

lemma parse_register:
  assumes "case concurrency of None \<Rightarrow> True | Some n \<Rightarrow> length (nat_digits (nat \<bar>n\<bar>)) \<le> 4300"
  shows "parse_known negative register_parser (initial_namespace register_parser) [] False
     (opt_word ''--config'' config @ opt_word ''--credentials'' credentials @
      [arg_word ''--backend-url'' url, arg_word ''--token'' token, arg_word ''--name'' name] @
      opt_word ''--max-concurrency'' (map_option int_str concurrency)) =
   Inr (register_ns config credentials url token name concurrency, False)"
proof -
  note word = parse_text_word [where p = register_parser]
  have texts: "parse_known negative register_parser ns seen False
      (arg_word ''--backend-url'' url # arg_word ''--token'' token # arg_word ''--name'' name # rest) =
    parse_known negative register_parser (ns_set ''name'' (A_Str name) (ns_set ''token'' (A_Str token) (ns_set ''backend_url'' (A_Str url) ns)))
      (''name'' # ''token'' # ''backend_url'' # seen) False rest" for ns seen rest
    by (simp add: word register_options file_table map_add_def long_flag_def del: parse_known.simps)
  have "parse_known negative register_parser ns seen False (opt_word ''--max-concurrency'' (map_option int_str concurrency)) =
    finish_parser register_parser ((case concurrency of None \<Rightarrow> id | Some n \<Rightarrow> ns_set ''max_concurrency'' (A_Int n)) ns)
      (case concurrency of None \<Rightarrow> seen | Some _ \<Rightarrow> ''max_concurrency'' # seen) False" for ns seen
  proof (cases concurrency)
    case (Some n)
    have "parse_known negative register_parser ns seen False [arg_word ''--max-concurrency'' (int_str n)] =
        parse_known negative register_parser (ns_set ''max_concurrency'' (A_Int n) ns) (''max_concurrency'' # seen) False []"
      using parse_word [of "''--max-concurrency''" register_parser _ "int_str n" ns "ns_set ''max_concurrency'' (A_Int n) ns"] assms Some
      by (simp add: register_options file_table map_add_def long_flag_def takes_value_def store_value_def py_int_str del: parse_known.simps)
    then show ?thesis using Some by (simp add: opt_word_def)
  qed (simp add: opt_word_def)
  then show ?thesis
    by (simp add: parse_command [OF register_options] texts register_ns_def finish_parser_def register_options
        del: parse_known.simps split: option.split)
qed

lemma doctor_options:
  "ap_options doctor_parser = file_options @
     [(text_option ''--skip'' ''skip'' A_None)\<lparr>ao_action := Append\<rparr>,
      (text_option ''--json'' ''as_json'' (A_Bool False))\<lparr>ao_action := Store_True\<rparr>]"
  by (simp add: doctor_parser_def)

definition skip_ns :: "string list \<Rightarrow> namespace \<Rightarrow> namespace" where
  "skip_ns skips ns = foldl (\<lambda>ns v. ns_set ''skip'' (A_List ((case ns_values ns ''skip'' of Some (A_List vs) \<Rightarrow> vs | _ \<Rightarrow> []) @ [v])) ns) ns skips"

lemma skip_ns_values:
  "ns_values (skip_ns skips ns) k = (if k = ''skip'' \<and> skips \<noteq> [] then
     Some (A_List ((case ns_values ns ''skip'' of Some (A_List vs) \<Rightarrow> vs | _ \<Rightarrow> []) @ skips)) else ns_values ns k)"
  "ns_handler (skip_ns skips ns) = ns_handler ns"
  by (induction skips arbitrary: ns) (auto simp: skip_ns_def split: option.splits arg_value.splits)

lemma parse_skips:
  "\<exists>seen'. parse_known negative doctor_parser ns seen extras (map (arg_word ''--skip'') skips @ rest) =
    parse_known negative doctor_parser (skip_ns skips ns) seen' extras rest"
proof (induction skips arbitrary: ns seen)
  case (Cons v skips)
  have "parse_known negative doctor_parser ns seen extras (arg_word ''--skip'' v # map (arg_word ''--skip'') skips @ rest) =
      parse_known negative doctor_parser (skip_ns [v] ns) (''skip'' # seen) extras (map (arg_word ''--skip'') skips @ rest)"
    using parse_word [of "''--skip''" doctor_parser _ v ns "skip_ns [v] ns"]
    by (simp add: doctor_options file_table map_add_def long_flag_def takes_value_def store_value_def skip_ns_def del: parse_known.simps)
  then show ?case using Cons [of "skip_ns [v] ns"] by (simp add: skip_ns_def del: parse_known.simps)
qed (auto simp: skip_ns_def)

lemma parse_json_flag:
  "parse_known negative doctor_parser ns seen False (if as_json then [''--json''] else []) =
     Inr (if as_json then ns_set ''as_json'' (A_Bool True) ns else ns, False)"
  by (simp add: arg_step_of_def classify_def doctor_options file_table map_add_def before_eq_def after_eq_def option_step_def
      takes_value_def finish_parser_def)

lemma parse_doctor:
  "parse_known negative doctor_parser (initial_namespace doctor_parser) [] False
     (opt_word ''--config'' config @ opt_word ''--credentials'' credentials @
      map (arg_word ''--skip'') skips @ (if as_json then [''--json''] else [])) =
   Inr ((if as_json then ns_set ''as_json'' (A_Bool True) else id) (skip_ns skips (files_ns config credentials doctor_parser)), False)"
proof -
  obtain seen where "parse_known negative doctor_parser (files_ns config credentials doctor_parser) (files_seen config credentials) False
      (map (arg_word ''--skip'') skips @ (if as_json then [''--json''] else [])) =
    parse_known negative doctor_parser (skip_ns skips (files_ns config credentials doctor_parser)) seen False
      (if as_json then [''--json''] else [])"
    using parse_skips by blast
  then show ?thesis
    by (simp only: parse_command [OF doctor_options] parse_json_flag) simp
qed

section \<open>Round trip\<close>

lemma build_options:
  "ap_options build_parser = [help_option, version_option,
     (text_option ''--log-format'' ''log_format'' (A_Str ''human''))\<lparr>ao_choices := Some [''human'', ''json'']\<rparr>,
     text_option ''--log-level'' ''log_level'' (A_Str ''INFO'')]"
  "ap_subparsers build_parser = Some (''command'',
     [(''serve'', serve_parser), (''register'', register_parser), (''status'', status_parser), (''doctor'', doctor_parser),
      (''session'', session_parser), (''cache'', cache_parser), (''drain'', drain_parser), (''resume'', resume_parser)])"
  by (simp_all add: build_parser_def)

lemma finish_build [simp]: "finish_parser build_parser ns seen extras = Inr (ns, extras)"
  by (simp add: finish_parser_def build_options help_option_def version_option_def)

lemma ns_merge_lookup [simp]:
  "ns_values (ns_merge ns sub) k = (case ns_values sub k of None \<Rightarrow> ns_values ns k | Some v \<Rightarrow> Some v)"
  "ns_handler (ns_merge ns sub) = (case ns_handler sub of None \<Rightarrow> ns_handler ns | Some h \<Rightarrow> Some h)"
  by (simp_all add: ns_merge_def map_add_def split: option.splits)

text \<open>The attributes a sub-command sets: its two files, and its own options.\<close>

definition own_defaults :: "arg_option list \<Rightarrow> (string \<times> arg_value) list" where
  "own_defaults options = map (\<lambda>opt. (ao_dest opt, ao_default opt)) (filter (\<lambda>opt. \<not> shown_only opt) options)"

lemma files_ns_lookup:
  assumes "ap_options p = file_options @ options" and "ap_subparsers p = None"
  shows "ns_values (files_ns config credentials p) k =
     (if k = ''config'' then Some (A_Str (case config of None \<Rightarrow> CONFIG_TOML | Some c \<Rightarrow> c))
      else if k = ''credentials'' then Some (case credentials of None \<Rightarrow> A_None | Some c \<Rightarrow> A_Str c)
      else map_of (own_defaults options) k)"
    and "ns_handler (files_ns config credentials p) = ap_handler p"
  using assms
  by (auto simp: files_ns_def initial_namespace_def file_options_def help_option_def shown_only_def own_defaults_def map_add_def
      split: option.splits)

lemmas handler_simps = run_handler_def request_command_def load_args_of_def serve_overrides_def register_overrides_def arg_text_def
  arg_cfg_def own_defaults_def shown_only_def Let_def

text \<open>A sub-command of \<open>session\<close> or \<open>cache\<close>.\<close>

lemma parse_nested:
  assumes "ap_options p = [help_option]" and "ap_subparsers p = Some (dest, [(name, q)])" and "name \<noteq> []" and "hd name \<noteq> CHR ''-''"
    and "parse_known negative q (initial_namespace q) [] False args = Inr (sub, False)"
  shows "parse_known negative p (initial_namespace p) [] False (name # args) =
    Inr (ns_merge (ns_set dest (A_Str name) (initial_namespace p)) sub, False)"
  using parse_enter [OF assms(2) _ assms(3-5), of "initial_namespace p" "[]" False] assms(1)
  by (simp add: finish_parser_def help_option_def del: parse_known.simps)

text \<open>Words are read as a command, and leave the logging options of the top level alone.\<close>

definition reads_as :: "(string \<Rightarrow> bool) \<Rightarrow> string list \<Rightarrow> command \<Rightarrow> bool" where
  "reads_as negative ws cmd \<longleftrightarrow> (\<forall>ns seen. \<exists>ns'. parse_known negative build_parser ns seen False ws = Inr (ns', False) \<and>
     run_handler ns' = cmd \<and> (\<forall>k \<in> {''log_format'', ''log_level''}. ns_values ns' k = ns_values ns k))"

lemma reads_asI:
  assumes "map_of (snd (the (ap_subparsers build_parser))) name = Some q" and "name \<noteq> []" and "hd name \<noteq> CHR ''-''"
    and "parse_known negative q (initial_namespace q) [] False args = Inr (sub, False)"
    and "\<And>ns. run_handler (ns_merge ns sub) = cmd" and "\<forall>k \<in> {''log_format'', ''log_level''}. ns_values sub k = None"
  shows "reads_as negative (name # args) cmd"
proof -
  have "parse_known negative build_parser ns seen False (name # args) = Inr (ns_merge (ns_set ''command'' (A_Str name) ns) sub, False)"
    for ns seen
    using parse_enter [OF build_options(2) _ assms(2-4), of ns seen False] assms(1) build_options(2) by (simp del: parse_known.simps)
  then show ?thesis using assms(5,6) by (auto simp: reads_as_def simp del: parse_known.simps)
qed

lemma reads_serve: "reads_as negative (request_words config credentials (R_Serve state_dir)) (request_command config credentials (R_Serve state_dir))"
proof -
  have opts: "ap_options serve_parser = file_options @ [text_option ''--state-dir'' ''state_dir'' A_None]"
    "ap_subparsers serve_parser = None" "ap_handler serve_parser = Some H_serve"
    by (simp_all add: serve_parser_def)
  have parsed: "parse_known negative serve_parser (initial_namespace serve_parser) [] False
      (opt_word ''--config'' config @ opt_word ''--credentials'' credentials @ opt_word ''--state-dir'' state_dir) =
    Inr (ns_opt ''state_dir'' state_dir (files_ns config credentials serve_parser), False)"
    by (rule parse_one_option [OF opts(1)]) (simp_all add: long_flag_def file_table)
  show ?thesis
    unfolding request_words_def Let_def request.case append_assoc
    by (rule reads_asI [OF _ _ _ parsed])
      (simp_all add: build_options handler_simps files_ns_lookup [OF opts(1,2)] opts(3) split: option.split)
qed

lemma reads_no_option:
  assumes "map_of (snd (the (ap_subparsers build_parser))) name = Some q" and "name \<noteq> []" and "hd name \<noteq> CHR ''-''"
    and q: "q = Arg_Parser file_options None (Some h)"
    and "\<And>ns. run_handler (ns_merge ns (files_ns config credentials q)) = cmd"
  shows "reads_as negative (name # opt_word ''--config'' config @ opt_word ''--credentials'' credentials) cmd"
proof (rule reads_asI [OF assms(1-3) parse_no_option assms(5)])
  show "\<forall>k\<in>{''log_format'', ''log_level''}. ns_values (files_ns config credentials q) k = None"
    using files_ns_lookup(1) [of q "[]" config credentials] q by (simp add: own_defaults_def)
qed (simp add: q)

lemma files_only_lookup:
  "ns_values (files_ns config credentials (Arg_Parser file_options None h)) k =
     (if k = ''config'' then Some (A_Str (case config of None \<Rightarrow> CONFIG_TOML | Some c \<Rightarrow> c))
      else if k = ''credentials'' then Some (case credentials of None \<Rightarrow> A_None | Some c \<Rightarrow> A_Str c) else None)"
  "ns_handler (files_ns config credentials (Arg_Parser file_options None h)) = h"
  using files_ns_lookup [of "Arg_Parser file_options None h" "[]" config credentials] by (simp_all add: own_defaults_def)

lemma reads_status: "reads_as negative (request_words config credentials R_Status) (request_command config credentials R_Status)"
  using reads_no_option [OF _ _ _ status_parser_def, of "''status''" config credentials "request_command config credentials R_Status"]
  by (simp add: request_words_def build_options status_parser_def handler_simps files_only_lookup split: option.splits)

lemma reads_drain: "reads_as negative (request_words config credentials R_Drain) (request_command config credentials R_Drain)"
  using reads_no_option [OF _ _ _ drain_parser_def, of "''drain''" config credentials "request_command config credentials R_Drain"]
  by (simp add: request_words_def build_options drain_parser_def handler_simps files_only_lookup split: option.splits)

lemma reads_resume: "reads_as negative (request_words config credentials R_Resume) (request_command config credentials R_Resume)"
  using reads_no_option [OF _ _ _ resume_parser_def, of "''resume''" config credentials "request_command config credentials R_Resume"]
  by (simp add: request_words_def build_options resume_parser_def handler_simps files_only_lookup split: option.splits)

lemma reads_register:
  assumes "printable_request (R_Register url token name concurrency)"
  shows "reads_as negative (request_words config credentials (R_Register url token name concurrency))
    (request_command config credentials (R_Register url token name concurrency))"
proof -
  have small: "case concurrency of None \<Rightarrow> True | Some n \<Rightarrow> length (nat_digits (nat \<bar>n\<bar>)) \<le> 4300"
    using assms by (simp add: printable_request_def split: option.splits)
  have opts: "ap_subparsers register_parser = None" "ap_handler register_parser = Some H_register"
    by (simp_all add: register_parser_def)
  show ?thesis
    unfolding request_words_def Let_def request.case append_assoc
    by (rule reads_asI [OF _ _ _ parse_register [OF small]])
      (simp_all add: build_options handler_simps register_ns_def files_ns_lookup [OF register_options opts(1)] opts(2) split: option.split)
qed

lemma reads_doctor:
  "reads_as negative (request_words config credentials (R_Doctor skips as_json)) (request_command config credentials (R_Doctor skips as_json))"
proof -
  have opts: "ap_subparsers doctor_parser = None" "ap_handler doctor_parser = Some H_doctor"
    by (simp_all add: doctor_parser_def)
  show ?thesis
    unfolding request_words_def Let_def request.case append_assoc
    by (rule reads_asI [OF _ _ _ parse_doctor])
      (simp_all add: build_options handler_simps skip_ns_values files_ns_lookup [OF doctor_options opts(1)] opts(2) split: option.split)
qed

text \<open>\<open>session refresh\<close> and \<open>cache reset\<close>: a parser inside a parser.\<close>

lemma reads_nested:
  assumes "map_of (snd (the (ap_subparsers build_parser))) outer = Some p" and "outer \<noteq> []" "hd outer \<noteq> CHR ''-''"
    and "p = Arg_Parser [help_option] (Some (dest, [(inner, q)])) None" and "inner \<noteq> []" "hd inner \<noteq> CHR ''-''"
    and q: "q = Arg_Parser (file_options @ [text_option flag key A_None]) None (Some h)" and flag: "long_flag flag" "map_of (flag_table file_options) flag = None"
    and "\<And>ns. run_handler (ns_merge ns (ns_opt key v (files_ns config credentials q))) = cmd"
    and "{dest, key} \<inter> {''log_format'', ''log_level''} = {}"
  shows "reads_as negative (outer # inner # opt_word ''--config'' config @ opt_word ''--credentials'' credentials @ opt_word flag v) cmd"
proof (rule reads_asI [OF assms(1-3)])
  show "parse_known negative p (initial_namespace p) [] False
      (inner # opt_word ''--config'' config @ opt_word ''--credentials'' credentials @ opt_word flag v) =
    Inr (ns_merge (ns_set dest (A_Str inner) (initial_namespace p)) (ns_opt key v (files_ns config credentials q)), False)"
    by (rule parse_nested [OF _ _ assms(5,6) parse_one_option [OF _ flag]]) (simp_all add: assms(4) q)
next
  fix ns
  have "ns_merge ns (ns_merge a b) = ns_merge (ns_merge ns a) b" for a b
    by (simp add: ns_merge_def split: option.splits)
  then show "run_handler (ns_merge ns (ns_merge (ns_set dest (A_Str inner) (initial_namespace p)) (ns_opt key v (files_ns config credentials q)))) = cmd"
    using assms(10) by simp
next
  have "ap_options q = file_options @ [text_option flag key A_None]" "ap_subparsers q = None" using q by simp_all
  note values_q = files_ns_lookup(1) [OF this]
  have "ns_values (initial_namespace p) k = (if k = dest then Some A_None else None)" for k
    by (simp add: assms(4) initial_namespace_def shown_only_def help_option_def)
  then show "\<forall>k\<in>{''log_format'', ''log_level''}.
      ns_values (ns_merge (ns_set dest (A_Str inner) (initial_namespace p)) (ns_opt key v (files_ns config credentials q))) k = None"
    using assms(11) by (auto simp: values_q own_defaults_def shown_only_def)
qed

lemma reads_session_refresh:
  "reads_as negative (request_words config credentials (R_Session_Refresh url)) (request_command config credentials (R_Session_Refresh url))"
proof -
  define q where "q = Arg_Parser (file_options @ [text_option ''--backend-url'' ''backend_url'' A_None]) None (Some H_session_refresh)"
  have opts: "ap_options q = file_options @ [text_option ''--backend-url'' ''backend_url'' A_None]" "ap_subparsers q = None" "ap_handler q = Some H_session_refresh"
    by (simp_all add: q_def)
  show ?thesis
    unfolding request_words_def Let_def request.case append_assoc append_Cons append_Nil
    by (rule reads_nested [OF _ _ _ session_parser_def [folded q_def] _ _ q_def])
      (simp_all add: build_options long_flag_def file_table handler_simps files_ns_lookup [OF opts(1,2)] opts(3) split: option.split)
qed

lemma reads_cache_reset:
  "reads_as negative (request_words config credentials (R_Cache_Reset site_id)) (request_command config credentials (R_Cache_Reset site_id))"
proof -
  define q where "q = Arg_Parser (file_options @ [text_option ''--site-id'' ''site_id'' A_None]) None (Some H_cache_reset)"
  have opts: "ap_options q = file_options @ [text_option ''--site-id'' ''site_id'' A_None]" "ap_subparsers q = None" "ap_handler q = Some H_cache_reset"
    by (simp_all add: q_def)
  show ?thesis
    unfolding request_words_def Let_def request.case append_assoc append_Cons append_Nil
    by (rule reads_nested [OF _ _ _ cache_parser_def [folded q_def] _ _ q_def])
      (simp_all add: build_options long_flag_def file_table handler_simps files_ns_lookup [OF opts(1,2)] opts(3) split: option.split)
qed

lemmas reads_requests = reads_serve reads_register reads_status reads_drain reads_resume reads_doctor reads_session_refresh reads_cache_reset

lemma reads_request: "printable_request r \<Longrightarrow> reads_as negative (request_words config credentials r) (request_command config credentials r)"
  by (cases r) (simp_all add: reads_requests)

definition log_words :: "string option \<Rightarrow> string option \<Rightarrow> string list" where
  "log_words log_format level = opt_word ''--log-format'' log_format @ opt_word ''--log-level'' level"

lemma parse_log_words:
  assumes "log_format \<in> {None, Some ''human'', Some ''json''}"
  shows "parse_known negative build_parser ns seen extras (log_words log_format level @ ws) =
    parse_known negative build_parser (ns_opt ''log_level'' level (ns_opt ''log_format'' log_format ns))
      (seen_opt ''log_level'' level (seen_opt ''log_format'' log_format seen)) extras ws"
  using assms
  by (auto simp: log_words_def parse_opt_word build_options help_option_def version_option_def long_flag_def simp del: parse_known.simps)

lemma parsed_request:
  assumes "printable_request r" and "log_format \<in> {None, Some ''human'', Some ''json''}"
  shows "cli_main negative rich (log_words log_format level @ request_words config credentials r) =
    Inr (rbind (configure_logging rich (case log_format of None \<Rightarrow> ''human'' | Some f \<Rightarrow> f) (case level of None \<Rightarrow> ''INFO'' | Some l \<Rightarrow> l))
      (\<lambda>log. Inr (log, request_command config credentials r)))"
proof -
  let ?ns = "ns_opt ''log_level'' level (ns_opt ''log_format'' log_format (initial_namespace build_parser))"
  obtain ns' where ns': "parse_args negative (log_words log_format level @ request_words config credentials r) = Inr ns'"
    "run_handler ns' = request_command config credentials r" "\<forall>k \<in> {''log_format'', ''log_level''}. ns_values ns' k = ns_values ?ns k"
    using reads_request [OF assms(1), of negative config credentials, unfolded reads_as_def, rule_format,
      of ?ns "seen_opt ''log_level'' level (seen_opt ''log_format'' log_format [])"]
    unfolding parse_args_def parse_log_words [OF assms(2)] by auto
  have "arg_str ns' ''log_format'' = (case log_format of None \<Rightarrow> ''human'' | Some f \<Rightarrow> f)"
    "arg_str ns' ''log_level'' = (case level of None \<Rightarrow> ''INFO'' | Some l \<Rightarrow> l)"
    using ns'(3) by (auto simp: arg_str_def arg_text_def initial_namespace_def build_options shown_only_def help_option_def version_option_def
        split: option.splits)
  then show ?thesis using ns'(1,2) by (simp add: cli_main_def)
qed

text \<open>
  C19. Every request can be given on the command line and is understood exactly. The words written for a request, with every value
  after an equals sign, are read by \<open>main\<close> as that request: the handler is called with these values and
  nothing is rejected, whatever texts the values are (empty, with blanks, equals signs or leading
  dashes, or equal to a flag); options that are left out have their defaults. The only outcome besides
  the call is an exception of the logging setup.
\<close>

theorem command_line_round_trip:
  assumes "printable_request r" and "log_format \<in> {None, Some ''human'', Some ''json''}"
  shows "cli_main negative rich (log_words log_format level @ request_words config credentials r) =
    Inr (rbind (configure_logging rich (case log_format of None \<Rightarrow> ''human'' | Some f \<Rightarrow> f) (case level of None \<Rightarrow> ''INFO'' | Some l \<Rightarrow> l))
      (\<lambda>log. Inr (log, request_command config credentials r)))"
  using assms by (rule parsed_request)

definition ex_request :: request where
  "ex_request = R_Register ''https://x=y'' ''--token'' ''my engine'' (Some (- 3))"

lemma nat_digits_3: "nat_digits 3 = ''3''"
  by code_simp

theorem command_line_round_trip_witness:
  "cli_main (\<lambda>_. False) False ([''--log-format=json''] @
      [''register'', ''--config=-h'', ''--backend-url=https://x=y'', ''--token=--token'', ''--name=my engine'', ''--max-concurrency=-3'']) =
   Inr (Inr (\<lparr>lg_handler = Json_Stream, lg_level = 20\<rparr>,
     C_Register \<lparr>la_config_path = Some ''-h'', la_credentials_path = None, la_overrides =
       [(''backend_url'', V_Str ''https://x=y''), (''name'', V_Str ''my engine''), (''max_concurrency'', V_Int (- 3))]\<rparr> (Some ''--token'')))"
proof -
  have "printable_request ex_request" by (simp add: printable_request_def ex_request_def nat_digits_3)
  moreover have "Some ''json'' \<in> {None, Some ''human'', Some ''json''}" by simp
  moreover have "log_words (Some ''json'') None = [''--log-format=json'']" by (simp add: log_words_def opt_word_def arg_word_def)
  moreover have "request_words (Some ''-h'') None ex_request =
      [''register'', ''--config=-h'', ''--backend-url=https://x=y'', ''--token=--token'', ''--name=my engine'', ''--max-concurrency=-3'']"
    by (simp add: request_words_def ex_request_def opt_word_def arg_word_def int_str_def nat_digits_3)
  moreover have "configure_logging False ''json'' ''INFO'' = Inr \<lparr>lg_handler = Json_Stream, lg_level = 20\<rparr>"
    by code_simp
  ultimately show ?thesis
    using command_line_round_trip [of ex_request "Some ''json''" "\<lambda>_. False" False None "Some ''-h''" None]
    by (simp add: request_command_def ex_request_def)
qed

section \<open>Values as words of their own\<close>

lemma classify_flag:
  assumes "long_flag flag" and "flag \<noteq> ''--''" and "map_of (flag_table options) flag = Some opt"
  shows "classify negative options flag = Flag opt None"
proof -
  obtain t where t: "flag = CHR ''-'' # CHR ''-'' # t" using assms(1) by (auto simp: long_flag_def prefix_def)
  have "\<forall>c \<in> set flag. c \<noteq> CHR ''=''" using assms(1) by (auto simp: long_flag_def)
  then have "before_eq flag = flag" and none: "dropWhile (\<lambda>c. c \<noteq> CHR ''='') flag = []"
    by (simp_all add: before_eq_def takeWhile_eq_all_conv dropWhile_eq_Nil_conv)
  moreover have "after_eq flag = None" unfolding after_eq_def none by simp
  ultimately show ?thesis using t assms(2,3) by (simp add: classify_def)
qed

text \<open>
  A value may also be the word after its flag, unless that word looks like a flag itself: a token
  or a name that begins with a dash (and has no blank in it) ends the command with exit code 2.
\<close>

theorem detached_value:
  assumes "long_flag flag" and "flag \<noteq> ''--''" and "map_of (flag_table (ap_options p)) flag = Some opt" and "takes_value opt"
  shows "parse_known negative p ns seen extras (flag # v # rest) =
    (if v \<noteq> ''--'' \<and> classify negative (ap_options p) v = Positional
     then parse_known negative p ns seen extras (arg_word flag v # rest) else Inl 2)"
  using assms
  by (simp add: arg_step_of_def arg_word_not_dashes classify_word classify_flag option_step_def split: sum.split)

lemma no_command_shows_help: "cli_main negative rich [] = Inr (rbind (configure_logging rich ''human'' ''INFO'') (\<lambda>log. Inr (log, C_Help)))"
proof -
  have "parse_args negative [] = Inr (initial_namespace build_parser)" by (simp add: parse_args_def)
  moreover have "ns_handler (initial_namespace build_parser) = Some H_help" by (simp add: initial_namespace_def build_parser_def)
  moreover have "arg_str (initial_namespace build_parser) ''log_format'' = ''human''" "arg_str (initial_namespace build_parser) ''log_level'' = ''INFO''"
    by (simp_all add: arg_str_def arg_text_def initial_namespace_def build_options shown_only_def help_option_def version_option_def)
  ultimately show ?thesis by (simp add: cli_main_def run_handler_def)
qed

section \<open>The concurrency of a registration\<close>

lemma max_concurrency_field: "''max_concurrency'' \<in> set CONFIG_FIELDS"
  by (simp add: CONFIG_FIELDS_def config_defaults_def config_dict_def)

lemma override_wins:
  assumes "command_config lib refused system machine fs environ la = Inr values" and "returns_dicts lib"
    and "distinct (map fst (la_overrides la))" and "map_of (la_overrides la) ''max_concurrency'' = Some (V_Int n)"
  shows "map_of values ''max_concurrency'' = Some (V_Int n)"
proof -
  have "map_of (filter (\<lambda>(k, v). v \<noteq> V_None) (la_overrides la)) ''max_concurrency'' = Some (V_Int n)"
    using assms(3,4) by (auto simp: map_of_eq_Some_iff distinct_filter)
  then have "effective system machine doc cp creds e (la_overrides la) ''max_concurrency'' = Some (V_Int n)" for doc cp creds e
    by (simp add: effective_def)
  then show ?thesis
    using load_config_values [OF assms(1) [unfolded command_config_def] assms(2,3)] max_concurrency_field
    by (fastforce simp: coerce_value_def)
qed

lemma environment_wins:
  assumes "command_config lib refused system machine fs environ la = Inr values" and "returns_dicts lib"
    and "distinct (map fst (la_overrides la))" and "map_of (la_overrides la) ''max_concurrency'' = None"
    and "map_of environ ''BUILD_ENGINE_MAX_CONCURRENCY'' = Some n_text" and "py_int n_text = Some n"
  shows "map_of values ''max_concurrency'' = Some (V_Int n)"
proof -
  have "map_of (filter (\<lambda>(k, v). v \<noteq> V_None) (la_overrides la)) ''max_concurrency'' = None"
    using assms(4) by (auto simp: map_of_eq_None_iff)
  moreover have "env_name ''max_concurrency'' = ''BUILD_ENGINE_MAX_CONCURRENCY''" by code_simp
  ultimately have "effective system machine doc cp creds environ (la_overrides la) ''max_concurrency'' = Some (V_Int n)" for doc cp creds
    using assms(5,6) by (simp add: effective_def env_value_def coerce_env_value_def INT_FIELDS_def)
  then show ?thesis
    using load_config_values [OF assms(1) [unfolded command_config_def] assms(2,3)] max_concurrency_field
    by (fastforce simp: coerce_value_def active_env_def)
qed

text \<open>
  C20. A registration never announces the configured concurrency. Without \<open>--max-concurrency\<close>, \<open>register\<close> passes
  the compiled default as an override, which wins over the environment and the configuration file;
  the service started in the same environment uses the configured value. The engine then
  registers for 2 builds at a time whatever number it runs.
\<close>

theorem register_ignores_configured_concurrency:
  assumes "cli_main negative rich (request_words config credentials (R_Register url token name None)) = Inr (Inr (setup, C_Register la t))"
    and "cli_main negative rich (request_words config credentials (R_Serve state_dir)) = Inr (Inr (setup', C_Serve la' dev))"
    and "command_config lib refused system machine fs environ la = Inr registered"
    and "command_config lib refused system machine fs environ la' = Inr served"
    and "returns_dicts lib" and "map_of environ ''BUILD_ENGINE_MAX_CONCURRENCY'' = Some n_text" and "py_int n_text = Some n"
  shows "map_of registered ''max_concurrency'' = Some (V_Int 2) \<and> map_of served ''max_concurrency'' = Some (V_Int n)"
proof -
  have main: "cli_main negative rich (request_words config credentials r) =
      Inr (rbind (configure_logging rich ''human'' ''INFO'') (\<lambda>log. Inr (log, request_command config credentials r)))"
    if "printable_request r" for r
    using parsed_request [OF that, of None negative rich None config credentials] by (simp add: log_words_def opt_word_def)
  have la: "request_command config credentials (R_Register url token name None) = C_Register la t"
    and la': "request_command config credentials (R_Serve state_dir) = C_Serve la' dev"
    using assms(1,2) by (simp_all add: main printable_request_def rbind_Inr_iff)
  have "map_of (la_overrides la) ''max_concurrency'' = Some (V_Int 2)" "distinct (map fst (la_overrides la))"
    using la by (auto simp: request_command_def Let_def DEFAULT_CONCURRENCY_def default_config_def)
  moreover have "map_of (la_overrides la') ''max_concurrency'' = None" "distinct (map fst (la_overrides la'))"
    using la' by (auto simp: request_command_def Let_def split: option.splits)
  ultimately show ?thesis
    using override_wins [OF assms(3,5)] environment_wins [OF assms(4,5) _ _ assms(6,7)] by blast
qed

text \<open>An environment that configures four builds at a time.\<close>

definition ex_environ :: "(string \<times> string) list" where
  "ex_environ = [(''BUILD_ENGINE_MAX_CONCURRENCY'', ''4'')]"

definition ex_config :: "cfg_dict \<Rightarrow> cfg_dict result" where
  "ex_config overrides = command_config ex_cfg_lib (\<lambda>_. False) ''Linux'' ''x86_64'' (\<lambda>_. None) ex_environ
     \<lparr>la_config_path = Some CONFIG_TOML, la_credentials_path = None, la_overrides = overrides\<rparr>"

definition ex_register_overrides :: cfg_dict where
  "ex_register_overrides = [(''backend_url'', V_Str ''https://b''), (''name'', V_Str ''e''), (''max_concurrency'', V_Int 2)]"

lemma ex_register_loads: "case ex_config ex_register_overrides of Inl _ \<Rightarrow> False | Inr _ \<Rightarrow> True"
  by code_simp

lemma ex_serve_loads: "case ex_config [] of Inl _ \<Rightarrow> False | Inr _ \<Rightarrow> True"
  by code_simp

lemma ex_words:
  "request_words None None (R_Register ''https://b'' ''t'' ''e'' None) = [''register'', ''--backend-url=https://b'', ''--token=t'', ''--name=e'']"
  "request_words None None (R_Serve None) = [''serve'']"
  by (simp_all add: request_words_def opt_word_def arg_word_def)

lemma ex_mains:
  "cli_main (\<lambda>_. False) False [''register'', ''--backend-url=https://b'', ''--token=t'', ''--name=e''] =
     Inr (Inr (\<lparr>lg_handler = Plain_Stream, lg_level = 20\<rparr>,
       C_Register \<lparr>la_config_path = Some CONFIG_TOML, la_credentials_path = None, la_overrides = ex_register_overrides\<rparr> (Some ''t'')))"
  "cli_main (\<lambda>_. False) False [''serve''] = Inr (Inr (\<lparr>lg_handler = Plain_Stream, lg_level = 20\<rparr>,
       C_Serve \<lparr>la_config_path = Some CONFIG_TOML, la_credentials_path = None, la_overrides = []\<rparr> False))"
proof -
  have log: "configure_logging False ''human'' ''INFO'' = Inr \<lparr>lg_handler = Plain_Stream, lg_level = 20\<rparr>" by code_simp
  show "cli_main (\<lambda>_. False) False [''register'', ''--backend-url=https://b'', ''--token=t'', ''--name=e''] =
     Inr (Inr (\<lparr>lg_handler = Plain_Stream, lg_level = 20\<rparr>,
       C_Register \<lparr>la_config_path = Some CONFIG_TOML, la_credentials_path = None, la_overrides = ex_register_overrides\<rparr> (Some ''t'')))"
    using parsed_request [of "R_Register ''https://b'' ''t'' ''e'' None" None "\<lambda>_. False" False None None None]
    unfolding ex_words by (simp add: printable_request_def log_words_def opt_word_def log request_command_def ex_register_overrides_def
        DEFAULT_CONCURRENCY_def default_config_def)
  show "cli_main (\<lambda>_. False) False [''serve''] = Inr (Inr (\<lparr>lg_handler = Plain_Stream, lg_level = 20\<rparr>,
       C_Serve \<lparr>la_config_path = Some CONFIG_TOML, la_credentials_path = None, la_overrides = []\<rparr> False))"
    using parsed_request [of "R_Serve None" None "\<lambda>_. False" False None None None]
    unfolding ex_words by (simp add: printable_request_def log_words_def opt_word_def log request_command_def)
qed

theorem register_ignores_configured_concurrency_witness:
  "\<exists>registered served. ex_config ex_register_overrides = Inr registered \<and> ex_config [] = Inr served \<and>
     map_of registered ''max_concurrency'' = Some (V_Int 2) \<and> map_of served ''max_concurrency'' = Some (V_Int 4)"
proof -
  obtain registered where r: "ex_config ex_register_overrides = Inr registered" using ex_register_loads by (auto split: sum.splits)
  obtain served where s: "ex_config [] = Inr served" using ex_serve_loads by (auto split: sum.splits)
  have lib: "returns_dicts ex_cfg_lib" by (simp add: returns_dicts_def ex_cfg_lib_def)
  have env: "map_of ex_environ ''BUILD_ENGINE_MAX_CONCURRENCY'' = Some ''4''" by (simp add: ex_environ_def)
  have four: "py_int ''4'' = Some 4" by code_simp
  show ?thesis
    using register_ignores_configured_concurrency [OF ex_mains(1) [folded ex_words(1)] ex_mains(2) [folded ex_words(2)]
        r [unfolded ex_config_def] s [unfolded ex_config_def] lib env four] r s by blast
qed

end
