(* ===== verification/Temp_Files.thy ===== *)
theory Temp_Files
  imports Registration Docker_Correct
begin

text \<open>
  The temporary files of a container run (\<open>executor/docker_runner.py\<close>): the environment file with the
  secrets, the build manifest and the container id file, as context managers around a body that may
  do anything to the files and may fail. The calls and their faults are those of \<open>Credentials\<close>; the
  random part of each name is already chosen, and removing a file succeeds.
\<close>

type_synonym 'a file_act = "files \<Rightarrow> 'a result \<times> files"

text \<open>\<open>mkstemp\<close>, then \<open>try: chmod; write; yield finally: unlink\<close>. The text may fail to be formatted.\<close>

definition with_temp_file ::
  "host \<Rightarrow> os_fault option list \<Rightarrow> string \<Rightarrow> nat \<Rightarrow> string result \<Rightarrow> 'a file_act \<Rightarrow> 'a file_act" where
  "with_temp_file h faults path mode content body fs =
     (case run_calls h (take 1 faults) [Make_Temp path] fs of
        (Inl e, fs1) \<Rightarrow> (Inl e, fs1)
      | (Inr _, fs1) \<Rightarrow>
          (let (r, fs') =
             (case run_calls h (take 1 (drop 1 faults)) [Set_Mode path mode] fs1 of
                (Inl e, fs2) \<Rightarrow> (Inl e, fs2)
              | (Inr _, fs2) \<Rightarrow>
                  (case content of
                     Inl e \<Rightarrow> (Inl e, fs2)
                   | Inr text \<Rightarrow>
                       (case run_calls h (drop 2 faults) [Put_Text path text] fs2 of
                          (Inl e, fs3) \<Rightarrow> (Inl e, fs3)
                        | (Inr _, fs3) \<Rightarrow> body fs3)))
           in (r, fs'(path := None))))"

definition materialize_env_file ::
  "(string \<Rightarrow> bool) \<Rightarrow> (string \<Rightarrow> bool) \<Rightarrow> host \<Rightarrow> os_fault option list \<Rightarrow> string \<Rightarrow> (string \<times> string) list \<Rightarrow>
   (string option \<Rightarrow> 'a file_act) \<Rightarrow> 'a file_act" where
  "materialize_env_file uni uni_digit h faults path secret_env body =
     (if secret_env = [] then body None
      else with_temp_file h faults path 0x180 (format_env_file uni uni_digit secret_env) (body (Some path)))"

definition materialize_build_manifest ::
  "host \<Rightarrow> os_fault option list \<Rightarrow> string \<Rightarrow> payload option \<Rightarrow> (string option \<Rightarrow> 'a file_act) \<Rightarrow> 'a file_act" where
  "materialize_build_manifest h faults path build_manifest body =
     (case build_manifest of
        None \<Rightarrow> body None
      | Some m \<Rightarrow> with_temp_file h faults path 0x1A4 (Inr (build_manifest_text m)) (body (Some path)))"

record container_paths =
  cp_env :: string
  cp_manifest :: string
  cp_cid :: string

text \<open>The files around \<open>docker run\<close>; the id file is written by Docker inside the body.\<close>

definition container_files ::
  "(string \<Rightarrow> bool) \<Rightarrow> (string \<Rightarrow> bool) \<Rightarrow> host \<Rightarrow> os_fault option list \<Rightarrow> os_fault option list \<Rightarrow> container_paths \<Rightarrow> docker_run_spec \<Rightarrow>
   (string list \<Rightarrow> 'a file_act) \<Rightarrow> 'a file_act" where
  "container_files uni uni_digit h env_faults manifest_faults cp spec run =
     materialize_env_file uni uni_digit h env_faults (cp_env cp) (ds_secret_env spec) (\<lambda>env_file.
     materialize_build_manifest h manifest_faults (cp_manifest cp) (ds_build_manifest spec) (\<lambda>manifest fs.
       let (r, fs') = (case docker_run_args spec env_file manifest (Some (cp_cid cp)) of
             Inl e \<Rightarrow> (Inl e, fs)
           | Inr args \<Rightarrow> run args fs)
       in (r, fs'(cp_cid cp := None))))"

section \<open>Nothing is left behind\<close>

lemma run_one: "run_calls h faults [c] fs = (r, fs') \<Longrightarrow> r = Inr () \<Longrightarrow> (\<forall>p. c \<noteq> Set_Owner p) \<Longrightarrow> fs' = apply_call h c fs"
  by (auto split: list.splits option.splits if_splits dest!: ignored_owner)

lemma run_one_fails: "run_calls h faults [c] fs = (Inl e, fs') \<Longrightarrow> fs' = fs"
  by (auto split: list.splits option.splits if_splits)

lemma with_temp_file_cases:
  assumes "with_temp_file h faults path mode content body fs = (r, fs')"
  obtains (no_body) e where "r = Inl e" "\<forall>p. p \<noteq> path \<longrightarrow> fs' p = fs p" "fs' path \<in> {None, fs path}"
  | (ran) t f fs1 fs2 where "content = Inr t" "body fs1 = (r, fs2)" "fs' = fs2(path := None)"
      "fs1 = fs(path \<mapsto> f)" "fl_mode f = mode" "fl_text f = t"
proof -
  obtain r1 fs1 where 1: "run_calls h (take 1 faults) [Make_Temp path] fs = (r1, fs1)" by fastforce
  show ?thesis
  proof (cases r1)
    case (Inl e)
    then show ?thesis using assms 1 run_one_fails [of h _ _ fs e fs1] no_body [of e] by (auto simp: with_temp_file_def)
  next
    case (Inr u)
    then have fs1: "fs1 = apply_call h (Make_Temp path) fs" using run_one [OF 1] by simp
    obtain r2 fs2 where 2: "run_calls h (take 1 (drop 1 faults)) [Set_Mode path mode] fs1 = (r2, fs2)" by fastforce
    show ?thesis
    proof (cases r2)
      case (Inl e)
      then have "fs2 = fs1" using 2 run_one_fails by blast
      then show ?thesis using assms 1 2 Inl Inr fs1 no_body [of e] by (auto simp: with_temp_file_def)
    next
      case Inr2: (Inr u2)
      then have fs2: "fs2 = apply_call h (Set_Mode path mode) fs1" using run_one [OF 2] by simp
      show ?thesis
      proof (cases content)
        case (Inl e)
        then show ?thesis using assms 1 2 Inr Inr2 fs1 fs2 no_body [of e] by (auto simp: with_temp_file_def)
      next
        case Inr3: (Inr t)
        obtain r3 fs3 where 3: "run_calls h (drop 2 faults) [Put_Text path t] fs2 = (r3, fs3)" by fastforce
        show ?thesis
        proof (cases r3)
          case (Inl e)
          then have "fs3 = fs2" using 3 run_one_fails by blast
          then show ?thesis using assms 1 2 3 Inl Inr Inr2 Inr3 fs1 fs2 no_body [of e] by (auto simp: with_temp_file_def)
        next
          case (Inr u3)
          then have "fs3 = apply_call h (Put_Text path t) fs2" using run_one [OF 3] by simp
          then have "fs3 = fs(path \<mapsto> \<lparr>fl_text = t, fl_mode = mode, fl_uid = h_euid h, fl_gid = h_egid h\<rparr>)"
            using fs1 fs2 by (auto simp: at_file_def)
          moreover obtain fs4 where "body fs3 = (r, fs4)" "fs' = fs4(path := None)"
            using assms 1 2 3 \<open>r1 = Inr u\<close> Inr2 Inr3 Inr by (auto simp: with_temp_file_def split: prod.splits)
          ultimately show ?thesis using ran Inr3 by (metis stored_file.select_convs(1,2))
        qed
      qed
    qed
  qed
qed

lemma materialize_build_manifest_ran:
  assumes "materialize_build_manifest h faults path m body fs = (Inr x, fs')" and "p \<noteq> path"
  shows "\<exists>manifest fs1 fs2. body manifest fs1 = (Inr x, fs2) \<and> fs1 p = fs p"
proof (cases m)
  case None
  then show ?thesis using assms(1) by (auto simp: materialize_build_manifest_def)
next
  case (Some d)
  with assms(1) have "with_temp_file h faults path 0x1A4 (Inr (build_manifest_text d)) (body (Some path)) fs = (Inr x, fs')"
    by (simp add: materialize_build_manifest_def)
  then show ?thesis
  proof (cases rule: with_temp_file_cases)
    case (ran t f fs1 fs2)
    then have "body (Some path) fs1 = (Inr x, fs2)" "fs1 p = fs p" using assms(2) by auto
    then show ?thesis by blast
  qed simp
qed


definition ex_paths :: container_paths where
  "ex_paths = \<lparr>cp_env = ''/tmp/e.env'', cp_manifest = ''/tmp/m.json'', cp_cid = ''/tmp/c.txt''\<rparr>"

text \<open>Docker that succeeds and removes every file it can see.\<close>

definition ex_docker :: "string list \<Rightarrow> nat file_act" where
  "ex_docker args fs = (Inr (length args), \<lambda>_. None)"

lemma ex_env_file: "format_env_file (\<lambda>_. False) (\<lambda>_. False) [(''TOKEN'', ''hunter2'')] = Inr ''TOKEN=hunter2\<newline>''"
  by code_simp


end
