(* ===== verification/Contract_Sync.thy ===== *)
theory Contract_Sync
  imports Json_Round Url
begin

text \<open>
  The contract snapshots (\<open>scripts/sync_contracts.py\<close>): the part of the backend's OpenAPI document that
  concerns the engine, and the check that the configured image-manifest version is the shipped
  one. The regular files are a map from paths to bytes, read as UTF-8; the text of the message
  about a drift is abbreviated.
\<close>

section \<open>The script\<close>

text \<open>How the script stops early: \<open>SystemExit\<close>, which is no \<open>Exception\<close>, or an exception.\<close>

datatype sync_stop =
    SystemExit string
  | KeyError string
  | Raised exn

record sync_env =
  se_root :: string
  se_coreapp :: string
  se_manifest_url :: "string option"
  se_fetch :: "string \<Rightarrow> string result"
  se_refused :: "string \<Rightarrow> bool"

type_synonym sync_files = "string \<rightharpoonup> string"

definition COREAPP_OPENAPI :: "sync_env \<Rightarrow> string" where
  "COREAPP_OPENAPI env = se_coreapp env @ ''/frontend/openapi.json''"

definition TARGET_OPENAPI :: "sync_env \<Rightarrow> string" where
  "TARGET_OPENAPI env = se_root env @ ''/contracts/openapi/build-engine.openapi.json''"

definition BUILD_ENGINE_IMAGES_MANIFEST :: "sync_env \<Rightarrow> string" where
  "BUILD_ENGINE_IMAGES_MANIFEST env = se_root env @ ''/manifest.json''"

definition DEFAULT_IMAGE_MANIFEST_VERSION :: string where
  "DEFAULT_IMAGE_MANIFEST_VERSION = ''1.0.0''"

definition BUILD_ENGINE_SCHEMA_NAMES :: "string list" where
  "BUILD_ENGINE_SCHEMA_NAMES =
    [''BuildArtifactUploadUrlRequest'', ''BuildArtifactUploadUrlResponse'', ''BuildEngineAttemptSecretsResponse'',
     ''BuildEngineAgentHealthResponse'', ''BuildEngineAgentRegisterRequest'', ''BuildEngineAgentRegisterResponse'',
     ''BuildEngineAgentSessionRequest'', ''BuildEngineAgentSessionResponse'', ''BuildEngineCacheResetRequest'',
     ''BuildEngineCapabilities'', ''BuildEngineCommandEnvelope'', ''BuildEngineCommandType'',
     ''BuildEngineHeartbeatRequest'', ''BuildEngineListResponse'', ''BuildEngineMetricRollupRequest'',
     ''BuildEngineRegistrationTokenCreate'', ''BuildEngineRegistrationTokenResponse'', ''BuildEngineResponse'',
     ''BuildEngineStatus'', ''BuildEngineUpdateRequest'', ''BuildErrorClass'', ''BuildJobAttemptResponse'',
     ''BuildJobListResponse'', ''BuildJobResponse'', ''BuildJobStatus'', ''BuildPackageManager'',
     ''BuildSourceArchiveFormat'', ''HTTPValidationError'', ''SiteBuildCacheResetResponse'',
     ''SiteBuildConfigResponse'', ''SiteBuildConfigUpdateRequest'', ''SiteBuildSecretItem'',
     ''SiteBuildSecretListResponse'', ''SiteBuildSecretUpsertRequest'', ''ValidationError'']"

definition BUILD_ENGINE_PATH_MARKERS :: "string list" where
  "BUILD_ENGINE_PATH_MARKERS = [''/build-engines'', ''/build-jobs'', ''/build-cache'', ''/build-config'', ''/build-secrets'']"

definition marked :: "string \<Rightarrow> bool" where
  "marked path = list_ex (\<lambda>marker. sublist marker path) BUILD_ENGINE_PATH_MARKERS"

text \<open>\<open>v[k]\<close>, \<open>v.items()\<close> and \<open>k in v\<close> followed by \<open>v[k]\<close>, for a value of any JSON type.\<close>

definition subscript :: "json \<Rightarrow> string \<Rightarrow> sync_stop + json" where
  "subscript v k = (case v of
      JObj d \<Rightarrow> (case jget d k of Some x \<Rightarrow> Inr x | None \<Rightarrow> Inl (KeyError k))
    | _ \<Rightarrow> Inl (Raised (TypeError ''not subscriptable by a string'')))"

definition dict_items :: "json \<Rightarrow> sync_stop + payload" where
  "dict_items v = (case v of JObj d \<Rightarrow> Inr d | _ \<Rightarrow> Inl (Raised (AttributeError ''items'')))"

definition schema_item :: "json \<Rightarrow> string \<Rightarrow> sync_stop + payload" where
  "schema_item schemas name =
     (let here = (case schemas of
            JObj d \<Rightarrow> Inr (jhas d name)
          | JArr vs \<Rightarrow> Inr (JStr name \<in> set vs)
          | JStr s \<Rightarrow> Inr (sublist name s)
          | _ \<Rightarrow> Inl (Raised (TypeError ''not iterable'')))
      in rbind here (\<lambda>b. if b then rbind (subscript schemas name) (\<lambda>v. Inr [(name, v)]) else Inr []))"

text \<open>The document built by \<open>main\<close>.\<close>

definition contract_snapshot :: "payload \<Rightarrow> sync_stop + json" where
  "contract_snapshot source =
     rbind (subscript (JObj source) ''components'') (\<lambda>components.
     rbind (subscript components ''schemas'') (\<lambda>schemas.
     rbind (subscript (JObj source) ''paths'') (\<lambda>all_paths.
     rbind (dict_items all_paths) (\<lambda>items.
     let paths = filter (\<lambda>(path, _). marked path) items in
     rbind (each (schema_item schemas) (sort BUILD_ENGINE_SCHEMA_NAMES)) (\<lambda>named.
     rbind (subscript (JObj source) ''openapi'') (\<lambda>openapi.
     rbind (subscript (JObj source) ''info'') (\<lambda>info.
     rbind (subscript info ''version'') (\<lambda>version.
       Inr (JObj [(''openapi'', openapi),
         (''info'', JObj [(''title'', JStr ''Mincemeat build-engine contract subset''), (''version'', version),
            (''x-source'', JStr ''coreapp/frontend/openapi.json'')]),
         (''paths'', JObj (sort_key fst paths)),
         (''components'', JObj [(''schemas'', JObj (concat named))])])))))))))"

text \<open>\<open>json.dumps(v, indent=2)\<close>: every element on a line of its own, empty containers closed at once.\<close>

definition new_line :: "nat \<Rightarrow> string" where
  "new_line n = CHR 0x0A # replicate n (CHR '' '')"

fun dump_indent :: "nat \<Rightarrow> json \<Rightarrow> string" where
  "dump_indent n (JArr vs) =
     (if vs = [] then ''[]''
      else CHR ''['' # new_line (n + 2) @
        join (CHR '','' # new_line (n + 2)) (map (dump_indent (n + 2)) vs) @ new_line n @ '']'')"
| "dump_indent n (JObj kvs) =
     (if kvs = [] then ''{}''
      else CHR ''{'' # new_line (n + 2) @
        join (CHR '','' # new_line (n + 2)) (map (\<lambda>(k, v). dump_str k @ '': '' @ dump_indent (n + 2) v) kvs) @
        new_line n @ ''}'')"
| "dump_indent n v = dump_sp [] v"

definition snapshot_text :: "json \<Rightarrow> string" where
  "snapshot_text v = dump_indent 0 (sort_keys v) @ [CHR 0x0A]"

definition json_text :: "string \<Rightarrow> sync_stop + json" where
  "json_text t =
     (if \<not> valid_utf8 t then Inl (Raised (ValueError ''invalid start byte''))
      else (case json_loads t of
          Inl JSONDecodeError \<Rightarrow> Inl (Raised (ValueError ''Expecting value''))
        | Inl IntTooLong \<Rightarrow> Inl (Raised (ValueError ''Exceeds the limit for integer string conversion''))
        | Inr v \<Rightarrow> Inr v))"

definition load_json :: "sync_files \<Rightarrow> string \<Rightarrow> sync_stop + payload" where
  "load_json fs path = (case fs path of
      None \<Rightarrow> Inl (Raised (OSError ''No such file or directory''))
    | Some t \<Rightarrow> rbind (json_text t) (\<lambda>v. case v of
          JObj d \<Rightarrow> Inr d
        | _ \<Rightarrow> Inl (SystemExit (''JSON file did not contain an object: '' @ path))))"

definition load_coreapp_openapi_source :: "sync_env \<Rightarrow> sync_files \<Rightarrow> sync_stop + payload option" where
  "load_coreapp_openapi_source env fs =
     (if fs (COREAPP_OPENAPI env) \<noteq> None then rbind (load_json fs (COREAPP_OPENAPI env)) (\<lambda>d. Inr (Some d))
      else if fs (TARGET_OPENAPI env) \<noteq> None then Inr None
      else Inl (SystemExit (''missing coreapp OpenAPI source: '' @ COREAPP_OPENAPI env @
        ''; pinned snapshot is also missing: '' @ TARGET_OPENAPI env)))"

definition load_json_location :: "sync_env \<Rightarrow> sync_files \<Rightarrow> string \<Rightarrow> sync_stop + payload" where
  "load_json_location env fs location = (case urlparse (se_refused env) location of
      Inl e \<Rightarrow> Inl (Raised e)
    | Inr parsed \<Rightarrow>
        let scheme = u_scheme parsed in
        if scheme \<in> {''http'', ''https''} then
          (case se_fetch env location of
             Inl e \<Rightarrow> Inl (Raised e)
           | Inr body \<Rightarrow> rbind (json_text body) (\<lambda>v. case v of
                 JObj d \<Rightarrow> Inr d
               | _ \<Rightarrow> Inl (SystemExit (''manifest location did not return a JSON object: '' @ location))))
        else if scheme = ''file'' then load_json fs (u_path parsed)
        else if scheme \<noteq> [] then Inl (SystemExit (''unsupported manifest URL scheme: '' @ scheme))
        else load_json fs location)"

definition load_image_manifest_source :: "sync_env \<Rightarrow> sync_files \<Rightarrow> sync_stop + payload" where
  "load_image_manifest_source env fs = (case se_manifest_url env of
      Some (c # cs) \<Rightarrow> load_json_location env fs (c # cs)
    | _ \<Rightarrow> load_json fs (BUILD_ENGINE_IMAGES_MANIFEST env))"

definition check_image_manifest_version_drift :: "sync_env \<Rightarrow> sync_files \<Rightarrow> sync_stop + unit" where
  "check_image_manifest_version_drift env fs =
     rbind (load_image_manifest_source env fs) (\<lambda>manifest.
     ensure (jget manifest ''version'' = Some (JStr DEFAULT_IMAGE_MANIFEST_VERSION))
       (SystemExit ''image-manifest version drift''))"

text \<open>\<open>main\<close>: the snapshot is written before the drift is checked. \<open>writable\<close>: opening the target for
  writing succeeds.\<close>

definition sync_main :: "bool \<Rightarrow> sync_env \<Rightarrow> sync_files \<Rightarrow> (sync_stop + int) \<times> sync_files" where
  "sync_main writable env fs =
     (let written = rbind (load_coreapp_openapi_source env fs) (\<lambda>source. case source of
            None \<Rightarrow> Inr fs
          | Some d \<Rightarrow> rbind (contract_snapshot d) (\<lambda>snapshot.
              rbind (ensure writable (Raised (OSError ''cannot write''))) (\<lambda>_.
                Inr (fs(TARGET_OPENAPI env \<mapsto> snapshot_text snapshot)))))
      in case written of
           Inl e \<Rightarrow> (Inl e, fs)
         | Inr fs' \<Rightarrow> (rbind (check_image_manifest_version_drift env fs') (\<lambda>_. Inr 0), fs'))"

section \<open>What a snapshot holds\<close>

lemma jget_sort_key: "jget (sort_key fst d) = jget d"
proof
  fix k
  have "filter (\<lambda>x. fst x = k) (sort_key fst d) = filter (\<lambda>x. fst x = k) d"
    by (rule sort_key_stable)
  moreover have "jget e k = (case filter (\<lambda>x. fst x = k) e of [] \<Rightarrow> None | x # _ \<Rightarrow> Some (snd x))" for e
    by (induction e) (auto simp: jget_def)
  ultimately show "jget (sort_key fst d) k = jget d k" by simp
qed

lemma jget_filter: "jget (filter (\<lambda>(k, _). P k) d) k = (if P k then jget d k else None)"
  by (induction d) (auto simp: jget_def)

text \<open>The part of \<open>schemas\<close> under the names.\<close>

definition schema_of :: "json \<Rightarrow> string \<Rightarrow> json option" where
  "schema_of schemas name = (case schemas of JObj d \<Rightarrow> jget d name | _ \<Rightarrow> None)"

lemma schema_item_Inr:
  "schema_item schemas name = Inr item \<Longrightarrow> item = (case schema_of schemas name of Some v \<Rightarrow> [(name, v)] | None \<Rightarrow> [])"
  by (cases schemas) (auto simp: schema_item_def schema_of_def subscript_def jhas_jget rbind_Inr_iff split: if_splits option.splits)

lemma each_schema_items:
  "each (schema_item schemas) names = Inr named \<Longrightarrow>
   jget (concat named) n = (if n \<in> set names then schema_of schemas n else None)"
  by (induction names arbitrary: named)
    (auto simp: rbind_Inr_iff jget_def map_add_def dest!: schema_item_Inr split: option.splits if_splits)

lemma subscript_Inr: "subscript v k = Inr x \<longleftrightarrow> (\<exists>d. v = JObj d \<and> jget d k = Some x)"
  by (cases v) (auto simp: subscript_def split: option.splits)

lemma dict_items_Inr: "dict_items v = Inr d \<longleftrightarrow> v = JObj d"
  by (cases v) (auto simp: dict_items_def)

lemmas snapshot_steps = contract_snapshot_def rbind_Inr_iff subscript_Inr dict_items_Inr Let_def

text \<open>The specification: the paths with a marker and the named schemas, with their definitions in the source.\<close>

definition contract_of :: "payload \<Rightarrow> payload \<Rightarrow> bool" where
  "contract_of source doc \<longleftrightarrow>
     jget doc ''openapi'' = jget source ''openapi'' \<and>
     (\<exists>paths all_paths. jget doc ''paths'' = Some (JObj paths) \<and> jget source ''paths'' = Some (JObj all_paths) \<and>
        (\<forall>p. jget paths p = (if marked p then jget all_paths p else None))) \<and>
     (\<exists>schemas components all_schemas. jget doc ''components'' = Some (JObj [(''schemas'', JObj schemas)]) \<and>
        jget source ''components'' = Some (JObj components) \<and> jget components ''schemas'' = Some all_schemas \<and>
        (\<forall>n. jget schemas n = (if n \<in> set BUILD_ENGINE_SCHEMA_NAMES then schema_of all_schemas n else None)))"

lemma contract_snapshot_Inr:
  assumes "contract_snapshot source = Inr snap"
  obtains components schemas paths named openapi version where
    "jget source ''components'' = Some (JObj components)" "jget components ''schemas'' = Some schemas"
    "jget source ''paths'' = Some (JObj paths)" "jget source ''openapi'' = Some openapi"
    "each (schema_item schemas) (sort BUILD_ENGINE_SCHEMA_NAMES) = Inr named"
    "snap = JObj [(''openapi'', openapi),
         (''info'', JObj [(''title'', JStr ''Mincemeat build-engine contract subset''), (''version'', version),
            (''x-source'', JStr ''coreapp/frontend/openapi.json'')]),
         (''paths'', JObj (sort_key fst (filter (\<lambda>(path, _). marked path) paths))),
         (''components'', JObj [(''schemas'', JObj (concat named))])]"
  using assms by (auto simp: snapshot_steps)

lemma jget_Cons: "jget ((k, v) # d) k' = (if k' = k then Some v else jget d k')"
  by (simp add: jget_def)

lemma contract_snapshot_exact:
  assumes "contract_snapshot source = Inr snap"
  shows "\<exists>doc. snap = JObj doc \<and> contract_of source doc"
  using assms
proof (cases rule: contract_snapshot_Inr)
  case (1 components schemas paths named openapi version)
  then show ?thesis
    using each_schema_items [OF 1(5)]
    by (auto simp: contract_of_def jget_Cons jget_sort_key jget_filter)
qed

text \<open>Paths are chosen by their markers and schemas by their names, so a snapshot need not be closed
  under references: the response of the cache reset is used by a marked path but is no
  longer among the names.\<close>

fun schema_refs :: "json \<Rightarrow> string list" where
  "schema_refs (JArr vs) = concat (map schema_refs vs)"
| "schema_refs (JObj kvs) =
     concat (map (\<lambda>(k, v). (case v of JStr r \<Rightarrow> if k = ''$ref'' then [r] else [] | _ \<Rightarrow> []) @ schema_refs v) kvs)"
| "schema_refs v = []"

lemma cache_reset_reference_dangles:
  assumes snap: "contract_snapshot source = Inr (JObj doc)" and path: "jget source ''paths'' = Some (JObj all_paths)"
    "jget all_paths p = Some v" "marked p"
    and ref: "''#/components/schemas/BuildEngineCacheResetResponse'' \<in> set (schema_refs v)"
  shows "\<exists>paths schemas. jget doc ''paths'' = Some (JObj paths) \<and>
    ''#/components/schemas/BuildEngineCacheResetResponse'' \<in> set (schema_refs (JObj paths)) \<and>
    jget doc ''components'' = Some (JObj [(''schemas'', JObj schemas)]) \<and>
    jget schemas ''BuildEngineCacheResetResponse'' = None"
proof -
  have "''BuildEngineCacheResetResponse'' \<notin> set BUILD_ENGINE_SCHEMA_NAMES"
    by (simp add: BUILD_ENGINE_SCHEMA_NAMES_def)
  moreover have "contract_of source doc" using contract_snapshot_exact [OF snap] by simp
  ultimately obtain paths schemas where
    "jget doc ''paths'' = Some (JObj paths)" and kept: "jget paths p = Some v" and
    "jget doc ''components'' = Some (JObj [(''schemas'', JObj schemas)])"
    "jget schemas ''BuildEngineCacheResetResponse'' = None"
    using path by (auto simp: contract_of_def)
  moreover have "''#/components/schemas/BuildEngineCacheResetResponse'' \<in> set (schema_refs (JObj paths))"
    using map_of_SomeD [OF kept [unfolded jget_def]] ref by force
  ultimately show ?thesis by blast
qed

text \<open>The snapshot is a fixed point: taken as the source, it is its own snapshot.\<close>

lemma schema_items_again:
  assumes "each (schema_item schemas) names = Inr named" and "distinct names"
    and "\<And>n. n \<in> set names \<Longrightarrow> jget d n = schema_of schemas n"
  shows "each (schema_item (JObj d)) names = Inr named"
  using assms
proof (induction names arbitrary: named)
  case (Cons n names)
  then obtain item rest where "schema_item schemas n = Inr item" "named = item # rest"
    "each (schema_item schemas) names = Inr rest"
    by (auto simp: rbind_Inr_iff)
  moreover have "schema_item (JObj d) n = Inr item"
    using Cons.prems(3) [of n] schema_item_Inr [OF \<open>schema_item schemas n = Inr item\<close>]
    by (auto simp: schema_item_def jhas_jget subscript_def split: option.splits)
  ultimately show ?case using Cons by simp
qed simp

lemma distinct_schema_names: "distinct BUILD_ENGINE_SCHEMA_NAMES"
  by (simp add: BUILD_ENGINE_SCHEMA_NAMES_def)

theorem contract_snapshot_idempotent:
  assumes "contract_snapshot source = Inr (JObj doc)"
  shows "contract_snapshot doc = Inr (JObj doc)"
  using assms
proof (cases rule: contract_snapshot_Inr)
  case (1 components schemas paths named openapi version)
  let ?kept = "sort_key fst (filter (\<lambda>(path, _). marked path) paths)"
  have "filter (\<lambda>(path, _). marked path) ?kept = ?kept"
    by (rule filter_True) auto
  moreover have "sort_key fst ?kept = ?kept"
    by (rule sort_key_id_if_sorted) simp
  moreover have "each (schema_item (JObj (concat named))) (sort BUILD_ENGINE_SCHEMA_NAMES) = Inr named"
    by (rule schema_items_again [OF 1(5)]) (simp_all add: each_schema_items [OF 1(5)] distinct_schema_names)
  ultimately show ?thesis using 1
    by (simp add: contract_snapshot_def subscript_def dict_items_def jget_Cons Let_def)
qed

section \<open>Running the script\<close>

text \<open>The pinned snapshot of \<open>fs'\<close> is the engine's part of the backend's document in \<open>fs\<close>.\<close>

definition copied_contract :: "sync_env \<Rightarrow> sync_files \<Rightarrow> sync_files \<Rightarrow> bool" where
  "copied_contract env fs fs' \<longleftrightarrow>
     (\<exists>source doc. load_json fs (COREAPP_OPENAPI env) = Inr source \<and> contract_of source doc \<and>
        fs' (TARGET_OPENAPI env) = Some (snapshot_text (JObj doc)))"

text \<open>
  The script changes nothing but the pinned snapshot. It leaves it alone or replaces it
  by the engine's part of the backend's document: exactly the paths with a marker and the
  named schemas. If it ends with status 0, a present backend document has been copied in this way,
  an absent one has left an existing snapshot as it was, and the shipped image manifest has the
  version the configuration defaults to.
\<close>

theorem sync_main_sound:
  assumes "sync_main writable env fs = (r, fs')"
  shows "(\<forall>p. p \<noteq> TARGET_OPENAPI env \<longrightarrow> fs' p = fs p) \<and> (copied_contract env fs fs' \<or> fs' = fs) \<and>
    (\<not> isl r \<longrightarrow> r = Inr 0 \<and>
       (if fs (COREAPP_OPENAPI env) \<noteq> None then copied_contract env fs fs' else fs' = fs \<and> fs (TARGET_OPENAPI env) \<noteq> None) \<and>
       (\<exists>manifest. load_image_manifest_source env fs' = Inr manifest \<and>
          jget manifest ''version'' = Some (JStr DEFAULT_IMAGE_MANIFEST_VERSION)))"
proof (cases "load_coreapp_openapi_source env fs")
  case (Inl e)
  then show ?thesis using assms by (auto simp: sync_main_def)
next
  case (Inr found)
  let ?drift = "check_image_manifest_version_drift env"
  have zero: "\<exists>manifest. load_image_manifest_source env fs2 = Inr manifest \<and>
      jget manifest ''version'' = Some (JStr DEFAULT_IMAGE_MANIFEST_VERSION)" if "?drift fs2 = Inr ()" for fs2
    using that by (auto simp: check_image_manifest_version_drift_def rbind_Inr_iff)
  show ?thesis
  proof (cases found)
    case None
    with Inr have "fs (COREAPP_OPENAPI env) = None" "fs (TARGET_OPENAPI env) \<noteq> None"
      by (auto simp: load_coreapp_openapi_source_def rbind_Inr_iff split: if_splits)
    then show ?thesis using assms Inr None zero [of fs] by (cases "?drift fs") (auto simp: sync_main_def)
  next
    case (Some source)
    with Inr have source: "fs (COREAPP_OPENAPI env) \<noteq> None" "load_json fs (COREAPP_OPENAPI env) = Inr source"
      by (auto simp: load_coreapp_openapi_source_def rbind_Inr_iff split: if_splits)
    show ?thesis
    proof (cases "rbind (contract_snapshot source) (\<lambda>snapshot. rbind (ensure writable (Raised (OSError ''cannot write''))) (\<lambda>_. Inr snapshot))")
      case (Inl e)
      then have "fs' = fs" "isl r" using assms Inr Some by (auto simp: sync_main_def rbind_Inl_iff)
      then show ?thesis by simp
    next
      case Inr2: (Inr snap)
      then obtain doc where "contract_of source doc" and snap: "snap = JObj doc"
        using contract_snapshot_exact [of source snap] by (auto simp: rbind_Inr_iff)
      moreover have "fs' = fs(TARGET_OPENAPI env \<mapsto> snapshot_text (JObj doc))" "r = rbind (?drift fs') (\<lambda>_. Inr 0)"
        using assms Inr Some Inr2 snap by (auto simp: sync_main_def rbind_Inr_iff)
      ultimately show ?thesis using source zero [of fs'] by (cases "?drift fs'") (auto simp: copied_contract_def)
    qed
  qed
qed

end
