(* ===== verification/Timestamps.thy ===== *)
theory Timestamps
  imports Queue_Store
begin

text \<open>
  The timestamps the engine stores. Times are integers in milliseconds everywhere else in the
  development; the database columns hold text, written by \<open>_format_datetime\<close>
  (\<open>datetime.isoformat(timespec="milliseconds")\<close> with \<open>Z\<close> for \<open>+00:00\<close>), and SQLite compares and sorts these texts.
  This theory models the proleptic Gregorian calendar of \<open>datetime\<close> and shows that the order of the
  texts is the order of the times, so that the queries on texts are the queries on integers.
\<close>

section \<open>The calendar\<close>

definition is_leap :: "nat \<Rightarrow> bool" where
  "is_leap y \<longleftrightarrow> y mod 4 = 0 \<and> (y mod 100 \<noteq> 0 \<or> y mod 400 = 0)"

definition days_before_year :: "nat \<Rightarrow> nat" where
  "days_before_year y = (let k = y - 1 in k * 365 + k div 4 - k div 100 + k div 400)"

definition month_lengths :: "nat \<Rightarrow> nat list" where
  "month_lengths y = [31, if is_leap y then 29 else 28, 31, 30, 31, 30, 31, 31, 30, 31, 30, 31]"

lemma next_year_sum:
  fixes K a b c :: nat
  assumes "b \<le> a" "q \<Longrightarrow> p" "r \<Longrightarrow> q"
  shows "K + 365 + (a + of_bool p) - (b + of_bool q) + (c + of_bool r) =
    K + a - b + c + (if p \<and> (\<not> q \<or> r) then 366 else 365)"
  using assms by (cases p; cases q; cases r) auto

lemma days_before_next_year:
  assumes "1 \<le> y"
  shows "days_before_year (y + 1) = days_before_year y + (if is_leap y then 366 else 365)"
proof -
  obtain k where y: "y = Suc k" using assms by (cases y) auto
  have next_div: "Suc k div d = k div d + of_bool (Suc k mod d = 0)" if "0 < d" for d
    by (simp add: div_Suc)
  have le: "k div 100 \<le> k div 4" by (rule div_le_mono2) auto
  have "Suc k mod 400 = 0 \<Longrightarrow> Suc k mod 100 = 0" "Suc k mod 100 = 0 \<Longrightarrow> Suc k mod 4 = 0" by presburger+
  note step = next_year_sum [OF le this(2,1), where K = "k * 365" and c = "k div 400"]
  have "days_before_year (y + 1) = k * 365 + 365 + Suc k div 4 - Suc k div 100 + Suc k div 400"
    by (simp only: days_before_year_def Let_def y add_diff_cancel_right' mult_Suc add.commute [of 365])
  also have "\<dots> = k * 365 + k div 4 - k div 100 + k div 400 + (if is_leap y then 366 else 365)"
    unfolding next_div [OF zero_less_numeral] is_leap_def y by (rule step)
  finally show ?thesis by (simp only: days_before_year_def [of "Suc k"] Let_def y diff_Suc_1)
qed

lemma days_before_year_less: "1 \<le> y \<Longrightarrow> y < z \<Longrightarrow> days_before_year (y + 1) \<le> days_before_year z"
proof (induction z)
  case (Suc z)
  then show ?case using days_before_next_year [of z] by (cases "y = z") auto
qed simp

text \<open>The year of the \<open>n\<close>-th day (day 1 is 0001-01-01), searched upwards from a lower bound.\<close>

function find_year :: "nat \<Rightarrow> nat \<Rightarrow> nat" where
  "find_year y n = (if n \<le> days_before_year (y + 1) \<or> y = 0 then y else find_year (y + 1) n)"
  by auto
termination
proof (relation "measure (\<lambda>(y, n). n - days_before_year (y + 1))")
  fix y n assume "\<not> (n \<le> days_before_year (y + 1) \<or> y = 0)"
  then show "((y + 1, n), (y, n)) \<in> measure (\<lambda>(y, n). n - days_before_year (y + 1))"
    using days_before_next_year [of "y + 1"] by auto
qed simp

declare find_year.simps [simp del]

lemma find_year_stop: "n \<le> days_before_year (y + 1) \<Longrightarrow> find_year y n = y"
  by (simp add: find_year.simps)

lemma find_year_next: "\<not> n \<le> days_before_year (y + 1) \<Longrightarrow> 0 < y \<Longrightarrow> find_year y n = find_year (y + 1) n"
  by (simp add: find_year.simps [of y])

definition year_of_day :: "nat \<Rightarrow> nat" where
  "year_of_day n = find_year ((n - 1) div 366 + 1) n"

text \<open>Month and day of the month, from the day of the year.\<close>

fun split_month :: "nat list \<Rightarrow> nat \<Rightarrow> nat \<Rightarrow> nat list" where
  "split_month [] m d = [m, d]"
| "split_month (l # ls) m d = (if d \<le> l then [m, d] else split_month ls (m + 1) (d - l))"

definition date_of_day :: "nat \<Rightarrow> nat list" where
  "date_of_day n = (let y = year_of_day n in y # split_month (month_lengths y) 1 (n - days_before_year y))"

fun split_units :: "nat list \<Rightarrow> nat \<Rightarrow> nat list" where
  "split_units [] x = []"
| "split_units (u # us) x = x div u # split_units us (x mod u)"

text \<open>Year, month, day, hour, minute, second and millisecond of a time in milliseconds since 1970.\<close>

definition epoch_ms :: int where "epoch_ms = 62135596800000"

definition datetime_fields :: "int \<Rightarrow> nat list" where
  "datetime_fields t =
     (let x = nat (t + epoch_ms) in date_of_day (x div 86400000 + 1) @ split_units [3600000, 60000, 1000, 1] (x mod 86400000))"

section \<open>The text\<close>

fun zero_pad :: "nat \<Rightarrow> nat \<Rightarrow> string" where
  "zero_pad 0 n = []"
| "zero_pad (Suc w) n = zero_pad w (n div 10) @ [digit_char (n mod 10)]"

lemma zero_pad_numeral [simp]:
  "zero_pad (numeral k) n = zero_pad (pred_numeral k) (n div 10) @ [digit_char (n mod 10)]"
  by (metis numeral_eq_Suc zero_pad.simps(2))

fun render :: "(nat \<times> string) list \<Rightarrow> nat list \<Rightarrow> string" where
  "render ((w, sep) # cols) (x # xs) = zero_pad w x @ sep @ render cols xs"
| "render _ _ = []"

definition iso_columns :: "(nat \<times> string) list" where
  "iso_columns = [(4, ''-''), (2, ''-''), (2, ''T''), (2, '':''), (2, '':''), (2, ''.''), (3, ''Z'')]"

definition format_datetime :: "int \<Rightarrow> string" where
  "format_datetime t = render iso_columns (datetime_fields t)"

text \<open>The range of \<open>datetime\<close>: years 1 to 9999.\<close>

definition datetime_range :: "int \<Rightarrow> bool" where
  "datetime_range t \<longleftrightarrow> - epoch_ms \<le> t \<and> t < 253402300800000"

lemmas format_datetime_eval = format_datetime_def datetime_fields_def epoch_ms_def date_of_day_def year_of_day_def
  find_year_stop find_year_next days_before_year_def month_lengths_def is_leap_def iso_columns_def digit_char_def Let_def

lemma format_datetime_examples:
  "format_datetime 0 = ''1970-01-01T00:00:00.000Z''"
  "format_datetime 1709210096789 = ''2024-02-29T12:34:56.789Z''"
  "format_datetime 253402300799999 = ''9999-12-31T23:59:59.999Z''"
  by (simp_all add: format_datetime_eval char_of_def bit_iff_odd)

section \<open>The order of the texts\<close>

lemma find_year_bounds:
  assumes "1 \<le> y" "days_before_year y < n"
  shows "1 \<le> find_year y n \<and> days_before_year (find_year y n) < n \<and> n \<le> days_before_year (find_year y n + 1)"
  using assms by (induction y n rule: find_year.induct) (subst find_year.simps, auto simp: find_year.simps)

lemma days_before_year_le: "days_before_year y \<le> (y - 1) * 366"
proof -
  let ?k = "y - 1"
  have "K * 365 + a - c + e \<le> K * 366" if "e \<le> c" "c \<le> a" "a \<le> K" for K a c e :: nat
    using that by linarith
  moreover have "?k div 400 \<le> ?k div 100" by (rule div_le_mono2) simp_all
  moreover have "?k div 100 \<le> ?k div 4" by (rule div_le_mono2) simp_all
  moreover have "?k div 4 \<le> ?k" by (rule div_le_dividend)
  ultimately show ?thesis unfolding days_before_year_def Let_def by blast
qed

lemma year_of_day:
  assumes "1 \<le> n"
  shows "1 \<le> year_of_day n" "days_before_year (year_of_day n) < n" "n \<le> days_before_year (year_of_day n + 1)"
proof -
  have "days_before_year ((n - 1) div 366 + 1) \<le> (n - 1) div 366 * 366"
    using days_before_year_le [of "(n - 1) div 366 + 1"] by simp
  also have "\<dots> < n" using assms div_times_less_eq_dividend [of "n - 1" 366] by linarith
  finally show "1 \<le> year_of_day n" "days_before_year (year_of_day n) < n" "n \<le> days_before_year (year_of_day n + 1)"
    using find_year_bounds [of "(n - 1) div 366 + 1" n] by (simp_all add: year_of_day_def)
qed

lemma year_of_day_mono: "1 \<le> m \<Longrightarrow> m \<le> n \<Longrightarrow> year_of_day m \<le> year_of_day n"
  using year_of_day [of m] year_of_day [of n] days_before_year_less [of "year_of_day n" "year_of_day m"]
  by (meson le_trans less_le_trans linorder_not_le)

lemma split_month_pair: "\<exists>a b. split_month ls m d = [a, b] \<and> m \<le> a"
  by (induction ls m d rule: split_month.induct) fastforce+

lemma split_month_length [simp]: "length (split_month ls m d) = 2"
  using split_month_pair [of ls m d] by auto

lemma split_month_less: "d < e \<Longrightarrow> split_month ls m d < split_month ls m e"
proof (induction ls arbitrary: m d e)
  case (Cons l ls)
  obtain a b where "split_month ls (m + 1) (e - l) = [a, b]" "m < a"
    using split_month_pair [of ls "m + 1" "e - l"] by auto
  moreover have "split_month ls (m + 1) (d - l) < split_month ls (m + 1) (e - l)" if "l < d"
    using that Cons by (simp add: diff_less_mono)
  ultimately show ?case using Cons.prems by auto
qed simp

lemma date_of_day_less:
  assumes "1 \<le> m" "m < n"
  shows "date_of_day m < date_of_day n"
proof (cases "year_of_day m = year_of_day n")
  case True
  then have "m - days_before_year (year_of_day m) < n - days_before_year (year_of_day n)"
    using year_of_day(2) [of m] assms by simp
  then show ?thesis using True split_month_less by (simp add: date_of_day_def Let_def)
next
  case False
  then show ?thesis using year_of_day_mono [of m n] assms by (simp add: date_of_day_def Let_def)
qed

lemma length_date_of_day [simp]: "length (date_of_day n) = 3"
  by (simp add: date_of_day_def Let_def)

lemma split_units_length [simp]: "length (split_units us x) = length us"
  by (induction us x rule: split_units.induct) auto

lemma div_mod_less: "x < y \<Longrightarrow> x div u < y div u \<or> x div u = y div u \<and> x mod u < y mod (u::nat)"
  using div_le_mono [of x y u] mod_div_decomp [of x u] mod_div_decomp [of y u]
  by (metis add_less_cancel_left le_neq_implies_less less_imp_le)

lemma split_units_less: "x < y \<Longrightarrow> us \<noteq> [] \<Longrightarrow> last us = 1 \<Longrightarrow> split_units us x < split_units us y"
proof (induction us arbitrary: x y)
  case (Cons u us)
  show ?case
  proof (cases "us = []")
    case False
    then show ?thesis using Cons div_mod_less [OF Cons.prems(1), of u] by auto
  qed (use Cons.prems in simp)
qed simp

lemma append_less_same_length:
  fixes xs ys :: "'a::order list"
  assumes "length xs = length ys" "xs < ys"
  shows "xs @ us < ys @ vs"
  using assms by (induction xs ys rule: list_induct2) auto

lemma append_less_cancel: "xs @ us < xs @ vs \<longleftrightarrow> us < (vs :: 'a::order list)"
  by (induction xs) auto

lemma datetime_fields_less:
  assumes "- epoch_ms \<le> t" "t < u"
  shows "datetime_fields t < datetime_fields u"
proof -
  let ?x = "nat (t + epoch_ms)" and ?y = "nat (u + epoch_ms)"
  have "?x < ?y" using assms by simp
  from div_mod_less [OF this, of 86400000] show ?thesis
  proof
    assume "?x div 86400000 < ?y div 86400000"
    then show ?thesis using date_of_day_less [of "?x div 86400000 + 1" "?y div 86400000 + 1"]
      by (simp add: datetime_fields_def Let_def append_less_same_length del: split_units.simps)
  next
    assume "?x div 86400000 = ?y div 86400000 \<and> ?x mod 86400000 < ?y mod 86400000"
    then show ?thesis using split_units_less [of "?x mod 86400000" "?y mod 86400000" "[3600000, 60000, 1000, 1]"]
      by (simp add: datetime_fields_def Let_def append_less_cancel del: split_units.simps)
  qed
qed

lemma length_zero_pad [simp]: "length (zero_pad w n) = w"
  by (induction w n rule: zero_pad.induct) auto

lemma digit_char_less: "d < e \<Longrightarrow> e < 10 \<Longrightarrow> digit_char d < digit_char e"
  by (simp add: digit_char_def less_char_def)

lemma zero_pad_less: "a < b \<Longrightarrow> b < 10 ^ w \<Longrightarrow> zero_pad w a < zero_pad w b"
proof (induction w arbitrary: a b)
  case (Suc w)
  from div_mod_less [OF Suc.prems(1), of 10] show ?case
  proof
    assume "a div 10 < b div 10"
    moreover have "b div 10 < 10 ^ w" using Suc.prems(2) by (simp add: div_less_iff_less_mult mult.commute)
    ultimately show ?thesis using Suc.IH by (simp add: append_less_same_length)
  next
    assume "a div 10 = b div 10 \<and> a mod 10 < b mod 10"
    then show ?thesis by (simp add: append_less_cancel digit_char_less)
  qed
qed simp

text \<open>Rendering in columns of fixed width keeps the lexicographic order, as long as the digits fit.\<close>

lemma render_less:
  assumes "xs < ys" "length xs = length cols" "length ys = length cols"
    and "list_all2 (\<lambda>(w, _) y. y < 10 ^ w) cols ys"
  shows "render cols xs < render cols ys"
  using assms
proof (induction cols arbitrary: xs ys)
  case (Cons col cols)
  obtain w sep where col: "col = (w, sep)" by fastforce
  obtain x xs' y ys' where xy: "xs = x # xs'" "ys = y # ys'" using Cons.prems by (auto simp: length_Suc_conv)
  show ?case
  proof (cases "x = y")
    case True
    then show ?thesis using Cons xy col by (simp add: append_less_cancel)
  next
    case False
    then have "zero_pad w x < zero_pad w y" using Cons.prems xy col zero_pad_less by auto
    then show ?thesis using xy col by (simp add: append_less_same_length)
  qed
qed simp

lemma split_month_bounds:
  assumes "d \<le> sum_list ls" "ls \<noteq> []" "\<forall>l \<in> set ls. l \<le> k"
  shows "\<exists>a b. split_month ls m d = [a, b] \<and> a < m + length ls \<and> b \<le> k"
  using assms
proof (induction ls arbitrary: m d)
  case (Cons l ls)
  show ?case
  proof (cases "d \<le> l")
    case False
    then have "\<exists>a b. split_month ls (m + 1) (d - l) = [a, b] \<and> a < m + 1 + length ls \<and> b \<le> k"
      using Cons by (intro Cons.IH) auto
    then show ?thesis using False by auto
  qed (use Cons.prems in auto)
qed simp

lemma month_lengths_sum: "sum_list (month_lengths y) = (if is_leap y then 366 else 365)"
  by (simp add: month_lengths_def)

lemma month_lengths_le: "month_lengths y \<noteq> []" "\<forall>l \<in> set (month_lengths y). l \<le> 31"
  by (simp_all add: month_lengths_def)

lemma length_month_lengths: "length (month_lengths y) = 12"
  by (simp add: month_lengths_def)

lemma date_of_day_bounds:
  assumes "1 \<le> n" "n \<le> 3652059"
  shows "\<exists>y m d. date_of_day n = [y, m, d] \<and> y < 10000 \<and> m < 100 \<and> d < 100"
proof -
  let ?y = "year_of_day n"
  have "days_before_year 10000 = 3652059" by (simp add: days_before_year_def)
  then have "?y < 10000"
    using year_of_day [OF assms(1)] assms(2) days_before_year_less [of 9999 ?y] days_before_year_less [of 10000 ?y]
    by (cases "?y = 10000") fastforce+
  moreover have "n - days_before_year ?y \<le> sum_list (month_lengths ?y)"
    using year_of_day [OF assms(1)] days_before_next_year [of ?y] by (simp add: month_lengths_sum)
  then have "\<exists>m d. split_month (month_lengths ?y) 1 (n - days_before_year ?y) = [m, d] \<and> m < 1 + 12 \<and> d \<le> 31"
    using split_month_bounds [of _ _ 31 1] month_lengths_le length_month_lengths by metis
  ultimately show ?thesis by (auto simp: date_of_day_def Let_def)
qed

lemma datetime_fields_fit:
  assumes "datetime_range t"
  shows "list_all2 (\<lambda>(w, _) y. y < 10 ^ w) iso_columns (datetime_fields t)"
proof -
  let ?x = "nat (t + epoch_ms)"
  have "?x < 3652059 * 86400000" using assms by (auto simp: datetime_range_def epoch_ms_def)
  then have "?x div 86400000 + 1 \<le> 3652059" by (simp add: less_mult_imp_div_less Suc_leI)
  then obtain y m d where "date_of_day (?x div 86400000 + 1) = [y, m, d]" "y < 10000" "m < 100" "d < 100"
    using date_of_day_bounds [of "?x div 86400000 + 1"] by auto
  moreover have "r div 3600000 < 100" if "r < 86400000" for r :: nat
    using that by (simp add: div_less_iff_less_mult)
  moreover have "r mod 3600000 div 60000 < 100" "r mod 3600000 mod 60000 div 1000 < 100" "r mod 1000 < 1000" for r :: nat
    by (simp_all add: div_less_iff_less_mult)
  ultimately show ?thesis by (simp add: datetime_fields_def iso_columns_def Let_def)
qed

lemma format_datetime_less:
  assumes "datetime_range t" "datetime_range u" "t < u"
  shows "format_datetime t < format_datetime u"
  unfolding format_datetime_def
proof (rule render_less)
  show "datetime_fields t < datetime_fields u" using assms by (simp add: datetime_fields_less datetime_range_def)
  show "list_all2 (\<lambda>(w, _) y. y < 10 ^ w) iso_columns (datetime_fields u)" by (rule datetime_fields_fit [OF assms(2)])
qed (simp_all add: datetime_fields_def iso_columns_def Let_def)

lemma format_datetime_order:
  assumes "datetime_range t" "datetime_range u"
  shows "format_datetime t < format_datetime u \<longleftrightarrow> t < u" "format_datetime t \<le> format_datetime u \<longleftrightarrow> t \<le> u"
    "format_datetime t = format_datetime u \<longleftrightarrow> t = u"
  using format_datetime_less [OF assms] format_datetime_less [OF assms(2,1)] by (cases t u rule: linorder_cases; auto)+

section \<open>Queries on texts\<close>

text \<open>The condition and the order of the query of \<open>acquire_lease\<close>, on the columns as they are stored.\<close>

definition leasable_sql :: "string \<Rightarrow> job_row \<Rightarrow> bool" where
  "leasable_sql now r \<longleftrightarrow> j_state r = QUEUED \<or>
     (active (j_state r) \<and> (case map_option format_datetime (j_lease_expires_at r) of None \<Rightarrow> False | Some t \<Rightarrow> t \<le> now))"

definition age_key_sql :: "job_row \<Rightarrow> string \<times> string" where
  "age_key_sql r = (format_datetime (j_created_at r), j_attempt_id r)"

definition oldest_leasable_sql :: "string \<Rightarrow> job_row list \<Rightarrow> job_row option" where
  "oldest_leasable_sql now rs = fetchone (order_by age_key_sql (filter (leasable_sql now) rs))"

definition row_times :: "job_row \<Rightarrow> bool" where
  "row_times r \<longleftrightarrow> datetime_range (j_created_at r) \<and> (case j_lease_expires_at r of None \<Rightarrow> True | Some t \<Rightarrow> datetime_range t)"

text \<open>Sorting by keys that are ordered alike gives the same list.\<close>

lemma insort_key_cong:
  assumes "\<And>y. y \<in> set ys \<Longrightarrow> f x \<le> f y \<longleftrightarrow> g x \<le> g y"
  shows "insort_key f x ys = insort_key g x ys"
  using assms by (induction ys) auto

lemma sort_key_cong_order:
  assumes "\<And>x y. x \<in> set xs \<Longrightarrow> y \<in> set xs \<Longrightarrow> f x \<le> f y \<longleftrightarrow> g x \<le> g y"
  shows "sort_key f xs = sort_key g xs"
  using assms
proof (induction xs)
  case (Cons x xs)
  then have "sort_key f xs = sort_key g xs" by simp
  moreover have "insort_key f x (sort_key g xs) = insort_key g x (sort_key g xs)"
    using Cons.prems by (intro insort_key_cong) auto
  ultimately show ?case by (simp add: sort_key_def)
qed simp

text \<open>
  C8. The query of \<open>acquire_lease\<close> compares and sorts timestamps as texts. On rows whose times are
  representable as \<open>datetime\<close> values it returns the row of the query on the times themselves: the
  oldest attempt that is queued or whose lease has expired by \<open>now\<close>, for every list of rows.
\<close>

theorem text_query_correct:
  assumes "datetime_range now" and "\<forall>r \<in> set rs. row_times r"
  shows "oldest_leasable_sql (format_datetime now) rs = oldest_leasable now rs"
proof -
  have "filter (leasable_sql (format_datetime now)) rs = filter (leasable now) rs"
    using assms by (intro filter_cong)
      (auto simp: leasable_sql_def leasable_def row_times_def format_datetime_order split: option.splits)
  moreover have "order_by age_key_sql (filter (leasable now) rs) = order_by age_key (filter (leasable now) rs)"
    unfolding order_by_def using assms
    by (intro sort_key_cong_order) (auto simp: age_key_sql_def age_key_def row_times_def less_eq_prod_def format_datetime_order)
  ultimately show ?thesis by (simp add: oldest_leasable_sql_def oldest_leasable_def)
qed

definition ex_row :: "string \<Rightarrow> int \<Rightarrow> job_row" where
  "ex_row a created = new_job_row created ''b'' a [] []"

theorem text_query_correct_witness:
  "oldest_leasable_sql (format_datetime 1709210096789) [ex_row ''new'' 1709210096788, ex_row ''old'' 1709210000000] =
     Some (ex_row ''old'' 1709210000000)"
proof -
  have "\<forall>r \<in> set [ex_row ''new'' 1709210096788, ex_row ''old'' 1709210000000]. row_times r" "datetime_range 1709210096789"
    by (simp_all add: row_times_def ex_row_def new_job_row_def datetime_range_def epoch_ms_def)
  from text_query_correct [OF this(2,1)] show ?thesis
    by (simp add: oldest_leasable_def order_by_def leasable_def age_key_def ex_row_def new_job_row_def)
qed

end
