(* ===== verification/Store_Failures.thy ===== *)
theory Store_Failures
  imports Store_Steps
begin

text \<open>
  Failed calls of the database. Some statements of a call run before the check that makes it
  raise; this theory shows that in every database the engine can reach a call that raises has
  changed no table, and that \<open>enqueue\<close> may still have changed the payloads kept in memory.
\<close>

inductive store_raises :: "store \<Rightarrow> exn \<Rightarrow> store \<Rightarrow> bool" where
  raises_enqueue: "enqueue now p s = (Inl e, s') \<Longrightarrow> store_raises s e s'"
| raises_acquire: "acquire_lease now tok owner vt s = (Inl e, s') \<Longrightarrow> store_raises s e s'"
| raises_refresh: "refresh_lease now a owner vt tok s = (Inl e, s') \<Longrightarrow> store_raises s e s'"
| raises_transition: "transition now a state err ex owner tok s = (Inl e, s') \<Longrightarrow> store_raises s e s'"
| raises_cancel: "request_cancel now b ao s = (Inl e, s') \<Longrightarrow> store_raises s e s'"
| raises_crash: "record_executor_crash now a err owner tok s = (Inl e, s') \<Longrightarrow> store_raises s e s'"
| raises_prune_jobs: "prune_terminal now days s = (Inl e, s') \<Longrightarrow> store_raises s e s'"
| raises_append: "append_event cfg now env s = (Inl e, s') \<Longrightarrow> store_raises s e s'"
| raises_ack: "ack_through a n s = (Inl e, s') \<Longrightarrow> store_raises s e s'"
| raises_prune_events: "prune cfg now s = (Inl e, s') \<Longrightarrow> store_raises s e s'"

definition same_tables :: "store \<Rightarrow> store \<Rightarrow> bool" where
  "same_tables s s' \<longleftrightarrow> jobs s' = jobs s \<and> dlq s' = dlq s \<and> events s' = events s"

lemma same_tables_refl [simp]: "same_tables s s"
  by (simp add: same_tables_def)

text \<open>An update whose row count is not one has met no row, where the key is unique.\<close>

lemma missed_update:
  assumes "distinct (map key rs)" and "rowcount (\<lambda>r. key r = k \<and> c r) rs \<noteq> 1"
  shows "sql_update (\<lambda>r. key r = k \<and> c r) f rs = rs"
proof -
  have "rowcount (\<lambda>r. key r = k \<and> c r) rs = 0" using rowcount_key_le1 [OF assms(1), of k c] assms(2) by linarith
  then show ?thesis by (intro sql_update_id) (auto simp: rowcount_def filter_empty_conv)
qed

text \<open>A row that was updated can be loaded again.\<close>

lemma updated_reloads:
  assumes "r \<in> set rs" "j_attempt_id r = a" "\<And>x. j_attempt_id (f x) = j_attempt_id x"
  shows "attempt_row (sql_update c f rs) a \<noteq> None"
proof -
  have "(if c r then f r else r) \<in> set (sql_update c f rs)" using assms(1) by (force simp: sql_update_def)
  moreover have "j_attempt_id (if c r then f r else r) = a" using assms(2,3) by simp
  ultimately show ?thesis unfolding attempt_row_def by (metis (mono_tags, lifting) fetchone_None_iff filter_empty_conv)
qed

lemma refresh_lease_raises:
  assumes "refresh_lease now a owner vt tok s = (Inl e, s')" and "jobs_wf (jobs s)"
  shows "same_tables s s'"
proof -
  let ?c = "\<lambda>r. j_attempt_id r = a \<and> owned_active (Some owner) tok r"
  let ?f = "\<lambda>r. r\<lparr>j_lease_expires_at := Some (now + vt * 1000), j_updated_at := now\<rparr>"
  show ?thesis
  proof (cases "rowcount ?c (jobs s) = 1")
    case True
    then have "filter ?c (jobs s) \<noteq> []" by (auto simp: rowcount_def)
    then obtain r where "r \<in> set (jobs s)" "j_attempt_id r = a" by (auto simp: filter_empty_conv)
    from updated_reloads [OF this, of ?f ?c] show ?thesis using assms True by (auto simp: refresh_lease_def Let_def)
  next
    case False
    then have "sql_update ?c ?f (jobs s) = jobs s"
      using missed_update [of j_attempt_id "jobs s" a "owned_active (Some owner) tok"] assms(2) by (simp add: jobs_wf_def)
    then show ?thesis using assms False by (simp add: refresh_lease_def Let_def same_tables_def)
  qed
qed

lemma crash_raises:
  assumes "record_executor_crash now a err owner tok s = (Inl e, s')"
  shows "same_tables s s'"
proof -
  let ?c = "\<lambda>r. j_attempt_id r = a \<and> owned_active owner tok r"
  show ?thesis
  proof (cases "fetchone (filter ?c (jobs s))")
    case None
    then show ?thesis using assms by (simp add: record_executor_crash_def Let_def)
  next
    case (Some row)
    then have "row \<in> set (jobs s)" "j_attempt_id row = a" by (auto dest: fetchone_Some_in)
    from updated_reloads [OF this, of "crash_row now FAILED err" ?c] updated_reloads [OF this, of "crash_row now QUEUED err" ?c]
    show ?thesis using assms Some by (auto simp: record_executor_crash_def Let_def crash_row_def split: option.splits if_splits)
  qed
qed

lemma append_raises: "append_event cfg now env s = (Inl e, s') \<Longrightarrow> same_tables s s'"
  by (cases "to_json env") (auto simp: append_event_def split: option.splits sum.splits if_splits)

lemma enqueue_raises:
  assumes "enqueue now p s = (Inl e, s')"
  shows "same_tables s s'"
proof (cases "\<exists>b a. assigns p b a")
  case True
  then obtain b a where as: "assigns p b a" by blast
  show ?thesis
  proof (cases "attempt_row (jobs s) a")
    case None
    then show ?thesis using assms by (simp add: enqueue_new [OF as] Let_def)
  qed (use assms in \<open>auto simp: enqueue_assigns [OF as] Let_def insert_job_def same_tables_def split: option.splits\<close>)
next
  case False
  then show ?thesis using assms enqueue_rejects [of p now s] by auto
qed



text \<open>
  The payloads kept in memory are not covered. An assignment for a known attempt under another
  build is refused, but its payload becomes the one the attempt is loaded with, unless the
  engine already holds a payload for the attempt (it holds none after a restart).
\<close>

lemma refused_payload_adopted:
  assumes as: "assigns p b a" and row: "attempt_row (jobs s) a = Some r" "j_build_job_id r \<noteq> b"
    and "jobs_wf (jobs s)" and "transient_payloads s a = None"
  shows "\<exists>s'. enqueue now p s = (Inl (QueueError ''Enqueued job could not be reloaded''), s') \<and>
    j_payload (load_job s' r) = p"
proof -
  have "job_row_of (jobs s) b a = None"
    using attempt_row_Some [OF row(1)] row(2) assms(4)
    by (auto simp: job_row_of_def fetchone_None_iff filter_empty_conv jobs_wf_def distinct_map inj_on_def)
  then show ?thesis
    using assms by (auto simp: enqueue_assigns [OF as] Let_def insert_job_def load_job_def with_transient_payload_def job_from_row_def job_record.defs dest: attempt_row_Some)
qed

end
