(* ===== verification/Service.thy ===== *)
theory Service
  imports Cli_Correct Uplink_Correct
begin

text \<open>
  The running service (\<open>cli/commands.py\<close>: \<open>_run_service\<close>; \<open>agent/uplink.py\<close>: \<open>run_forever\<close>, \<open>stop\<close>;
  \<open>agent/job_loop.py\<close>: \<open>run_worker_pool\<close>) as a state machine. Its tasks are the uplink, the workers, the drain
  task started by a signal, and the coroutine that waits for them. A step is what one task does
  between two suspensions of the event loop. What a build and a connection do to the database is the
  subject of \<open>Job_Loop\<close> and \<open>Uplink\<close>; here only their beginning and end matter. A worker does not
  end by an exception (\<open>Lease_Safety\<close>).
\<close>

section \<open>The state\<close>

datatype uplink_phase =
    U_Check \<comment> \<open>at the condition of the loop\<close>
  | U_Connecting \<comment> \<open>in \<open>connect_once\<close>, before the socket is stored in \<open>_ws\<close>\<close>
  | U_Open \<comment> \<open>in \<open>connect_once\<close>, the socket has been stored\<close>
  | U_Sleep \<comment> \<open>in \<open>_sleep_backoff\<close>\<close>
  | U_Done

datatype drain_phase = No_Drain | Drain_Scheduled | Drain_Closing | Drain_Done | Drain_Failed

datatype worker_phase =
    W_Idle
  | W_Busy \<comment> \<open>in \<open>execute_job\<close>, before the container\<close>
  | W_Container \<comment> \<open>in \<open>run_container\<close>\<close>
  | W_Packing \<comment> \<open>in \<open>execute_job\<close>, after the container\<close>
  | W_Draining \<comment> \<open>cancelled in \<open>run_container\<close>: waits for the container's output to end\<close>
  | W_Done
  | W_Cancelled

datatype main_phase = M_Serving | M_Await_Drain | M_Grace | M_Cancelling | M_Report | M_Finished

record service_run =
  sm_main :: main_phase
  sm_uplink :: uplink_phase
  sm_failures :: nat
  sm_ws :: bool \<comment> \<open>\<open>uplink._ws is not None\<close>\<close>
  sm_socket :: bool \<comment> \<open>the connection is open\<close>
  sm_stop :: bool \<comment> \<open>\<open>uplink._stop\<close>\<close>
  sm_stop_workers :: bool
  sm_marker :: bool \<comment> \<open>the drain marker exists\<close>
  sm_drain :: drain_phase
  sm_workers :: "worker_phase list"
  sm_outbox_open :: bool
  sm_raised :: bool \<comment> \<open>an exception leaves \<open>_run_service\<close>\<close>

definition service_init :: "nat \<Rightarrow> bool \<Rightarrow> service_run" where
  "service_init max_concurrency marker =
     \<lparr>sm_main = M_Serving, sm_uplink = U_Check, sm_failures = 0, sm_ws = False, sm_socket = False, sm_stop = False,
      sm_stop_workers = False, sm_marker = marker, sm_drain = No_Drain, sm_workers = replicate max_concurrency W_Idle,
      sm_outbox_open = True, sm_raised = False\<rparr>"

section \<open>The tasks\<close>

definition drain_settled :: "drain_phase \<Rightarrow> bool" where
  "drain_settled d \<longleftrightarrow> d \<in> {No_Drain, Drain_Done, Drain_Failed}"

lemma drain_settled_simps [simp]:
  "drain_settled No_Drain" "drain_settled Drain_Done" "drain_settled Drain_Failed"
  "\<not> drain_settled Drain_Scheduled" "\<not> drain_settled Drain_Closing"
  by (simp_all add: drain_settled_def)

text \<open>The signal handler: \<open>drain_task is None or drain_task.done()\<close>.\<close>

definition schedule_drain :: "service_run \<Rightarrow> service_run" where
  "schedule_drain s = (if drain_settled (sm_drain s) then s\<lparr>sm_drain := Drain_Scheduled\<rparr> else s)"

text \<open>\<open>uplink.stop\<close>, and \<open>request_drain\<close> up to its first suspension; \<open>ok\<close>: the marker could be written.\<close>

definition uplink_stop :: "service_run \<Rightarrow> service_run" where
  "uplink_stop s = s\<lparr>sm_stop := True, sm_drain := (if sm_ws s then Drain_Closing else Drain_Done)\<rparr>"

definition run_drain :: "bool \<Rightarrow> service_run \<Rightarrow> service_run" where
  "run_drain ok s =
     (if sm_stop_workers s then s\<lparr>sm_drain := Drain_Done\<rparr>
      else if \<not> ok then s\<lparr>sm_drain := Drain_Failed\<rparr>
      else uplink_stop (s\<lparr>sm_marker := True, sm_stop_workers := True\<rparr>))"

text \<open>The handler of a failed connection in \<open>run_forever\<close>, with \<open>_sleep_backoff\<close>.\<close>

definition connection_failed :: "backoff_policy \<Rightarrow> service_run \<Rightarrow> service_run" where
  "connection_failed b s =
     (let s' = s\<lparr>sm_ws := False, sm_failures := sm_failures s + 1\<rparr> in
      case delay b (sm_failures s + 1) of
        Inl _ \<Rightarrow> s'\<lparr>sm_uplink := U_Done, sm_raised := True\<rparr>
      | Inr _ \<Rightarrow> s'\<lparr>sm_uplink := U_Sleep\<rparr>)"

definition connection_ended :: "service_run \<Rightarrow> service_run" where
  "connection_ended s = s\<lparr>sm_uplink := U_Check, sm_ws := False, sm_failures := 0\<rparr>"

definition set_worker :: "nat \<Rightarrow> worker_phase \<Rightarrow> service_run \<Rightarrow> service_run" where
  "set_worker i w s = s\<lparr>sm_workers := (sm_workers s)[i := w]\<rparr>"

text \<open>\<open>wait_for\<close> cancels the pool when the grace period is over and waits for it. In \<open>run_container\<close> the cancellation
  ends \<open>_wait_for_process\<close>, with its deadline, without stopping the container; the \<open>finally\<close> clause then waits until
  both output streams are closed.\<close>

definition cancel_worker :: "worker_phase \<Rightarrow> worker_phase" where
  "cancel_worker w = (case w of W_Done \<Rightarrow> W_Done | W_Container \<Rightarrow> W_Draining | _ \<Rightarrow> W_Cancelled)"

datatype actor = Signal | Backend | Container | Engine

inductive service_step :: "backoff_policy \<Rightarrow> actor \<Rightarrow> service_run \<Rightarrow> service_run \<Rightarrow> bool" for b where
  signal: "sm_main s = M_Serving \<Longrightarrow> service_step b Signal s (schedule_drain s)"
| drain_run: "sm_drain s = Drain_Scheduled \<Longrightarrow> service_step b Engine s (run_drain ok s)"
| drain_closed: "sm_drain s = Drain_Closing \<Longrightarrow> service_step b Engine s (s\<lparr>sm_drain := Drain_Done, sm_socket := False\<rparr>)"
| loop_ends: "sm_uplink s = U_Check \<Longrightarrow> sm_stop s \<Longrightarrow> service_step b Engine s (s\<lparr>sm_uplink := U_Done\<rparr>)"
| loop_connects: "sm_uplink s = U_Check \<Longrightarrow> \<not> sm_stop s \<Longrightarrow> service_step b Engine s (s\<lparr>sm_uplink := U_Connecting\<rparr>)"
| connected: "sm_uplink s = U_Connecting \<Longrightarrow>
    service_step b Engine s (s\<lparr>sm_uplink := U_Open, sm_ws := True, sm_socket := True\<rparr>)"
| refused: "sm_uplink s = U_Connecting \<Longrightarrow> service_step b Engine s (connection_failed b s)"
| frames_end: "sm_uplink s = U_Open \<Longrightarrow> \<not> sm_socket s \<Longrightarrow> service_step b Engine s (connection_ended s)"
| backend_closes: "sm_uplink s = U_Open \<Longrightarrow> service_step b Backend s (connection_ended (s\<lparr>sm_socket := False\<rparr>))"
| backend_breaks: "sm_uplink s = U_Open \<Longrightarrow> service_step b Backend s (connection_failed b (s\<lparr>sm_socket := False\<rparr>))"
| publish_fails: "sm_uplink s = U_Open \<Longrightarrow> sm_ws s \<Longrightarrow> service_step b Engine s (s\<lparr>sm_ws := False\<rparr>)"
| backoff_over: "sm_uplink s = U_Sleep \<Longrightarrow> service_step b Engine s (s\<lparr>sm_uplink := U_Check\<rparr>)"
| worker_stops: "i < length (sm_workers s) \<Longrightarrow> sm_workers s ! i = W_Idle \<Longrightarrow> sm_stop_workers s \<Longrightarrow>
    service_step b Engine s (set_worker i W_Done s)"
| worker_leases: "i < length (sm_workers s) \<Longrightarrow> sm_workers s ! i = W_Idle \<Longrightarrow> \<not> sm_stop_workers s \<Longrightarrow>
    service_step b Engine s (set_worker i W_Busy s)"
| job_fails: "i < length (sm_workers s) \<Longrightarrow> sm_workers s ! i = W_Busy \<Longrightarrow> service_step b Engine s (set_worker i W_Idle s)"
| container_starts: "i < length (sm_workers s) \<Longrightarrow> sm_workers s ! i = W_Busy \<Longrightarrow> service_step b Engine s (set_worker i W_Container s)"
| container_waited: "i < length (sm_workers s) \<Longrightarrow> sm_workers s ! i = W_Container \<Longrightarrow>
    service_step b Engine s (set_worker i W_Packing s)"
| worker_settles: "i < length (sm_workers s) \<Longrightarrow> sm_workers s ! i = W_Packing \<Longrightarrow> service_step b Engine s (set_worker i W_Idle s)"
| container_exits: "i < length (sm_workers s) \<Longrightarrow> sm_workers s ! i = W_Draining \<Longrightarrow>
    service_step b Container s (set_worker i W_Cancelled s)"
| uplink_joined: "sm_main s = M_Serving \<Longrightarrow> sm_uplink s = U_Done \<Longrightarrow> service_step b Engine s (s\<lparr>sm_main := M_Await_Drain\<rparr>)"
| drain_joined: "sm_main s = M_Await_Drain \<Longrightarrow> drain_settled (sm_drain s) \<Longrightarrow>
    service_step b Engine s (s\<lparr>sm_main := M_Grace, sm_stop_workers := True\<rparr>)"
| workers_joined: "sm_main s = M_Grace \<Longrightarrow> list_all (\<lambda>w. w = W_Done) (sm_workers s) \<Longrightarrow>
    service_step b Engine s (s\<lparr>sm_main := M_Report\<rparr>)"
| grace_over: "sm_main s = M_Grace \<Longrightarrow>
    service_step b Engine s (s\<lparr>sm_main := M_Cancelling, sm_workers := map cancel_worker (sm_workers s)\<rparr>)"
| cancelled_joined: "sm_main s = M_Cancelling \<Longrightarrow> list_all (\<lambda>w. w \<in> {W_Done, W_Cancelled}) (sm_workers s) \<Longrightarrow>
    service_step b Engine s (s\<lparr>sm_main := M_Report\<rparr>)"
| report: "sm_main s = M_Report \<Longrightarrow>
    service_step b Engine s (s\<lparr>sm_main := M_Finished, sm_outbox_open := False, sm_raised := (sm_raised s \<or> \<not> metrics_ok)\<rparr>)"

inductive service_run_steps :: "backoff_policy \<Rightarrow> service_run \<Rightarrow> actor list \<Rightarrow> service_run \<Rightarrow> bool" for b where
  run_refl: "service_run_steps b s [] s"
| run_step: "service_step b a s s1 \<Longrightarrow> service_run_steps b s1 as s' \<Longrightarrow> service_run_steps b s (a # as) s'"

inductive_cases run_ConsE: "service_run_steps b s (a # as) s'"

text \<open>\<open>_serve\<close> after \<open>_run_service\<close>: the exit code, \<^const>\<open>None\<close> when the exception escapes.\<close>

definition serve_exit :: "service_run \<Rightarrow> int option" where
  "serve_exit s = (if sm_raised s then None else Some 0)"

definition service_reachable :: "backoff_policy \<Rightarrow> nat \<Rightarrow> bool \<Rightarrow> service_run \<Rightarrow> bool" where
  "service_reachable b n marker s \<longleftrightarrow> (\<exists>as. service_run_steps b (service_init n marker) as s)"

lemmas service_ops = schedule_drain_def run_drain_def uplink_stop_def connection_failed_def connection_ended_def
  set_worker_def Let_def

section \<open>The order of the shutdown\<close>

definition workers_ended :: "worker_phase list \<Rightarrow> bool" where
  "workers_ended ws \<longleftrightarrow> (\<forall>w \<in> set ws. w \<in> {W_Done, W_Cancelled})"

text \<open>The invariant, in the parts that are preserved in turn.\<close>

definition flags_inv :: "service_run \<Rightarrow> bool" where
  "flags_inv s \<longleftrightarrow> (sm_ws s \<longrightarrow> sm_uplink s = U_Open) \<and> (sm_stop s \<longrightarrow> sm_stop_workers s \<and> sm_marker s) \<and>
     (sm_uplink s = U_Done \<longrightarrow> sm_stop s \<or> sm_raised s)"

definition order_inv :: "service_run \<Rightarrow> bool" where
  "order_inv s \<longleftrightarrow> (sm_main s \<noteq> M_Serving \<longrightarrow> sm_uplink s = U_Done) \<and> (\<not> sm_outbox_open s \<longrightarrow> sm_main s = M_Finished)"

definition past_drain :: "main_phase \<Rightarrow> bool" where
  "past_drain m \<longleftrightarrow> m \<in> {M_Grace, M_Cancelling, M_Report, M_Finished}"

definition past_workers :: "main_phase \<Rightarrow> bool" where
  "past_workers m \<longleftrightarrow> m \<in> {M_Report, M_Finished}"

definition workers_cancelled :: "worker_phase list \<Rightarrow> bool" where
  "workers_cancelled ws \<longleftrightarrow> (\<forall>w \<in> set ws. w \<in> {W_Done, W_Draining, W_Cancelled})"

definition joined_inv :: "service_run \<Rightarrow> bool" where
  "joined_inv s \<longleftrightarrow> (past_drain (sm_main s) \<longrightarrow> drain_settled (sm_drain s) \<and> sm_stop_workers s) \<and>
     (sm_main s = M_Cancelling \<longrightarrow> workers_cancelled (sm_workers s)) \<and>
     (past_workers (sm_main s) \<longrightarrow> workers_ended (sm_workers s))"

definition shutdown_inv :: "service_run \<Rightarrow> bool" where
  "shutdown_inv s \<longleftrightarrow> flags_inv s \<and> order_inv s \<and> joined_inv s"

lemma past_simps [simp]:
  "past_drain M_Grace" "past_drain M_Cancelling" "past_drain M_Report" "past_drain M_Finished" "\<not> past_drain M_Serving" "\<not> past_drain M_Await_Drain"
  "past_workers M_Report" "past_workers M_Finished" "\<not> past_workers M_Serving" "\<not> past_workers M_Await_Drain" "\<not> past_workers M_Grace" "\<not> past_workers M_Cancelling"
  by (simp_all add: past_drain_def past_workers_def)

lemma worker_not_ended:
  "i < length ws \<Longrightarrow> ws ! i \<notin> {W_Done, W_Cancelled} \<Longrightarrow> \<not> workers_ended ws"
  "i < length ws \<Longrightarrow> ws ! i \<in> {W_Idle, W_Busy, W_Container, W_Packing} \<Longrightarrow> \<not> workers_cancelled ws"
  by (auto simp: workers_ended_def workers_cancelled_def dest!: nth_mem)

lemma container_exits_cancelled: "workers_cancelled ws \<Longrightarrow> workers_cancelled (ws[i := W_Cancelled])"
  using set_update_subset_insert [of ws i W_Cancelled] by (auto simp: workers_cancelled_def)

lemma cancel_worker_cancelled: "workers_cancelled (map cancel_worker ws)"
  by (auto simp: workers_cancelled_def cancel_worker_def split: worker_phase.splits)

lemma flags_inv_step: "service_step b a s s' \<Longrightarrow> flags_inv s \<Longrightarrow> flags_inv s'"
  by (induction rule: service_step.induct) (auto simp: flags_inv_def service_ops split: sum.splits)

lemma order_inv_step: "service_step b a s s' \<Longrightarrow> order_inv s \<Longrightarrow> order_inv s'"
  by (induction rule: service_step.induct) (auto simp: order_inv_def service_ops split: sum.splits)

lemma joined_inv_step: "service_step b a s s' \<Longrightarrow> order_inv s \<Longrightarrow> joined_inv s \<Longrightarrow> joined_inv s'"
proof (induction rule: service_step.induct)
  case (workers_joined s)
  then show ?case by (auto simp: joined_inv_def workers_ended_def list_all_iff)
next
  case (cancelled_joined s)
  then show ?case by (auto simp: joined_inv_def workers_ended_def list_all_iff)
qed (auto simp: joined_inv_def order_inv_def service_ops worker_not_ended container_exits_cancelled cancel_worker_cancelled
    split: sum.splits)

lemma shutdown_inv_step: "service_step b a s s' \<Longrightarrow> shutdown_inv s \<Longrightarrow> shutdown_inv s'"
  unfolding shutdown_inv_def using flags_inv_step order_inv_step joined_inv_step by blast

lemmas shutdown_inv_defs = shutdown_inv_def flags_inv_def order_inv_def joined_inv_def

lemma shutdown_inv_run: "service_run_steps b s as s' \<Longrightarrow> shutdown_inv s \<Longrightarrow> shutdown_inv s'"
  by (induction rule: service_run_steps.induct) (auto intro: shutdown_inv_step)

lemma reachable_shutdown_inv: "service_reachable b n marker s \<Longrightarrow> shutdown_inv s"
  unfolding service_reachable_def using shutdown_inv_run [of b "service_init n marker"]
  by (auto simp: shutdown_inv_defs service_init_def)

text \<open>
  C11. The shutdown is ordered. However signals, the backend, builds and deadlines interleave, the
  outbox is closed only after the uplink, the drain task and all workers have ended, so that no
  build publishes to a closed outbox; workers are cancelled only after they have been asked to stop,
  and the uplink ends only after a stop request or by an exception.
\<close>

theorem shutdown_ordered:
  assumes "service_reachable b n marker s"
  shows "(\<not> sm_outbox_open s \<longrightarrow> sm_uplink s = U_Done \<and> drain_settled (sm_drain s) \<and> workers_ended (sm_workers s)) \<and>
    ({W_Busy, W_Container, W_Packing, W_Draining} \<inter> set (sm_workers s) \<noteq> {} \<longrightarrow> sm_outbox_open s) \<and>
    (sm_main s \<in> {M_Report, M_Finished} \<longrightarrow> sm_stop_workers s) \<and>
    (sm_uplink s = U_Done \<longrightarrow> sm_stop s \<or> sm_raised s)"
  using reachable_shutdown_inv [OF assms] 
  by (auto simp: shutdown_inv_defs workers_ended_def)

lemma run_snoc: "service_run_steps b s as s1 \<Longrightarrow> service_step b a s1 s2 \<Longrightarrow> service_run_steps b s (as @ [a]) s2"
  by (induction rule: service_run_steps.induct) (auto intro: service_run_steps.intros)

lemma reachable_init: "service_reachable b n marker (service_init n marker)"
  unfolding service_reachable_def using run_refl by blast

lemma reachable_next: "service_reachable b n marker s \<Longrightarrow> service_step b a s s' \<Longrightarrow> service_reachable b n marker s'"
  unfolding service_reachable_def using run_snoc by blast

text \<open>A service with one worker: connecting, connected, and signalled in either phase.\<close>

definition ex_connecting :: service_run where
  "ex_connecting = (service_init 1 False)\<lparr>sm_uplink := U_Connecting\<rparr>"

definition ex_open :: service_run where
  "ex_open = ex_connecting\<lparr>sm_uplink := U_Open, sm_ws := True, sm_socket := True\<rparr>"

lemmas ex_service_defs = ex_connecting_def ex_open_def service_init_def

lemma ex_connecting_reachable: "service_reachable b 1 False ex_connecting"
  unfolding ex_connecting_def by (rule reachable_next [OF reachable_init], rule loop_connects) (simp_all add: service_init_def)

lemma ex_open_reachable: "service_reachable b 1 False ex_open"
  unfolding ex_open_def by (rule reachable_next [OF ex_connecting_reachable], rule connected) (simp add: ex_service_defs)

lemma ex_signalled_reachable:
  "service_reachable b 1 False (schedule_drain ex_connecting)" "service_reachable b 1 False (schedule_drain ex_open)"
  by (rule reachable_next [OF ex_connecting_reachable signal], simp add: ex_service_defs)
    (rule reachable_next [OF ex_open_reachable signal], simp add: ex_service_defs)

text \<open>The connected service with its worker in phase \<open>w\<close> when the signal arrives, at the end of the grace period.\<close>

definition ex_cancelling :: "worker_phase \<Rightarrow> service_run" where
  "ex_cancelling w = ex_open\<lparr>sm_main := M_Cancelling, sm_uplink := U_Done, sm_ws := False, sm_socket := False, sm_stop := True,
     sm_stop_workers := True, sm_marker := True, sm_drain := Drain_Done, sm_workers := [cancel_worker w]\<rparr>"

lemma ex_cancelling_reachable:
  assumes "service_reachable b 1 False (ex_open\<lparr>sm_workers := [w]\<rparr>)"
  shows "service_reachable b 1 False (ex_cancelling w)"
proof -
  let ?o = "ex_open\<lparr>sm_workers := [w]\<rparr>"
  let ?s = "run_drain True (schedule_drain ?o)"
  note reachable_next [OF assms signal]
  note reachable_next [OF this drain_run [where ok = True]]
  note reachable_next [OF this drain_closed]
  note reachable_next [OF this frames_end]
  note reachable_next [OF this loop_ends]
  note reachable_next [OF this uplink_joined]
  note reachable_next [OF this drain_joined]
  note ended = reachable_next [OF this grace_over]
  have "sm_drain ?s = Drain_Closing" by (simp add: ex_service_defs service_ops)
  then show ?thesis using ended by (simp add: ex_service_defs ex_cancelling_def service_ops)
qed

definition ex_finished :: service_run where
  "ex_finished = (ex_cancelling W_Idle)\<lparr>sm_main := M_Finished, sm_outbox_open := False\<rparr>"

lemma ex_finished_reachable: "service_reachable b 1 False ex_finished"
proof -
  have "ex_open\<lparr>sm_workers := [W_Idle]\<rparr> = ex_open" by (simp add: ex_service_defs)
  then have "service_reachable b 1 False (ex_cancelling W_Idle)" using ex_cancelling_reachable ex_open_reachable by metis
  note reachable_next [OF this cancelled_joined]
  note ended = reachable_next [OF this report [where metrics_ok = True]]
  show ?thesis using ended by (simp add: ex_service_defs ex_finished_def ex_cancelling_def cancel_worker_def)
qed

lemma ex_building_reachable: "service_reachable b 1 False (ex_open\<lparr>sm_workers := [W_Container]\<rparr>)"
proof -
  note reachable_next [OF ex_open_reachable worker_leases [where i = 0]]
  note started = reachable_next [OF this container_starts [where i = 0]]
  show ?thesis using started by (simp add: ex_service_defs set_worker_def)
qed

theorem shutdown_ordered_witness:
  "\<not> sm_outbox_open ex_finished \<and> sm_uplink ex_finished = U_Done \<and> workers_ended (sm_workers ex_finished)"
proof -
  have "\<not> sm_outbox_open ex_finished" by (simp add: ex_finished_def)
  then show ?thesis using shutdown_ordered [OF ex_finished_reachable [of default_backoff]] by simp
qed

section \<open>A shutdown ends\<close>

text \<open>A stop request that has reached the connection: none is being opened, and an open one is
  being closed.\<close>

definition stopping :: "service_run \<Rightarrow> bool" where
  "stopping s \<longleftrightarrow> sm_stop s \<and> sm_stop_workers s \<and> sm_uplink s \<noteq> U_Connecting \<and>
     (sm_uplink s = U_Open \<and> sm_socket s \<longrightarrow> sm_drain s = Drain_Closing)"

fun uplink_rank :: "uplink_phase \<Rightarrow> nat" where
  "uplink_rank U_Done = 0" | "uplink_rank U_Check = 1" | "uplink_rank U_Sleep = 2"
| "uplink_rank U_Open = 3" | "uplink_rank U_Connecting = 3"

fun main_rank :: "main_phase \<Rightarrow> nat" where
  "main_rank M_Finished = 0" | "main_rank M_Report = 1" | "main_rank M_Cancelling = 2" | "main_rank M_Grace = 3"
| "main_rank M_Await_Drain = 4" | "main_rank M_Serving = 5"

fun worker_rank :: "worker_phase \<Rightarrow> nat" where
  "worker_rank W_Busy = 4" | "worker_rank W_Container = 3" | "worker_rank W_Packing = 2" | "worker_rank W_Idle = 1"
| "worker_rank W_Draining = 1" | "worker_rank W_Done = 0" | "worker_rank W_Cancelled = 0"

definition work_left :: "service_run \<Rightarrow> nat" where
  "work_left s = main_rank (sm_main s) + (if sm_ws s then 1 else 0) + uplink_rank (sm_uplink s) +
     (if drain_settled (sm_drain s) then 0 else 1) + sum_list (map worker_rank (sm_workers s))"

lemma sum_list_update_nat:
  "i < length xs \<Longrightarrow> sum_list (map f (xs[i := x])) + f (xs ! i) = sum_list (map f xs) + (f x :: nat)"
  by (induction xs arbitrary: i) (auto simp: nth_Cons split: nat.splits)

lemma cancel_rank: "sum_list (map (worker_rank \<circ> cancel_worker) ws) \<le> sum_list (map worker_rank ws)"
  by (rule sum_list_mono) (auto simp: cancel_worker_def split: worker_phase.splits)

lemma worker_rank_less:
  "i < length (sm_workers s) \<Longrightarrow> worker_rank w < worker_rank (sm_workers s ! i) \<Longrightarrow> work_left (set_worker i w s) < work_left s"
  using sum_list_update_nat [of i "sm_workers s" worker_rank w] by (simp add: work_left_def set_worker_def)

lemma stopping_step:
  assumes "service_step b a s s'" "a \<noteq> Signal" "stopping s"
  shows "stopping s' \<and> work_left s' < work_left s"
  using assms
proof (induction rule: service_step.induct)
  case (backend_breaks s)
  then show ?case by (cases "delay b (sm_failures s + 1)") (simp_all add: stopping_def work_left_def service_ops)
next
  case (grace_over s)
  then show ?case using cancel_rank [of "sm_workers s"] by (simp add: stopping_def work_left_def)
qed (simp_all add: worker_rank_less, simp_all add: stopping_def work_left_def service_ops)

lemma stopping_progress:
  assumes "stopping s" "shutdown_inv s" "sm_main s \<noteq> M_Finished"
  shows "(\<exists>s'. service_step b Engine s s') \<or> W_Draining \<in> set (sm_workers s)"
proof (cases "drain_settled (sm_drain s)")
  case False
  then have "sm_drain s = Drain_Scheduled \<or> sm_drain s = Drain_Closing"
    by (cases "sm_drain s") (auto simp: drain_settled_def)
  then show ?thesis using drain_run drain_closed by blast
next
  case True
  show ?thesis
  proof (cases "sm_uplink s")
    case U_Open
    then have "\<not> sm_socket s" using True assms(1) by (auto simp: stopping_def drain_settled_def)
    then show ?thesis using frames_end U_Open by blast
  next
    case U_Done
    show ?thesis
    proof (cases "sm_main s")
      case M_Cancelling
      then have "workers_cancelled (sm_workers s)" using assms(2) by (simp add: shutdown_inv_defs)
      then have "W_Draining \<in> set (sm_workers s) \<or> list_all (\<lambda>w. w \<in> {W_Done, W_Cancelled}) (sm_workers s)"
        by (auto simp: workers_cancelled_def list_all_iff)
      then show ?thesis using cancelled_joined M_Cancelling by blast
    qed (use assms U_Done True uplink_joined drain_joined grace_over report in blast)+
  next
    case U_Sleep
    then show ?thesis using backoff_over by blast
  qed (use assms loop_ends in \<open>auto simp: stopping_def\<close>)
qed

lemma stopping_run:
  assumes "service_run_steps b s as s'" "Signal \<notin> set as" "stopping s"
  shows "stopping s' \<and> length as + work_left s' \<le> work_left s"
  using assms
proof (induction rule: service_run_steps.induct)
  case (run_step a s s1 as s')
  then show ?case using stopping_step [of b a s s1] by fastforce
qed simp

lemma work_left_le: "work_left s \<le> 10 + 4 * length (sm_workers s)"
proof -
  have "worker_rank w \<le> 4" for w by (cases w) simp_all
  then have "sum_list (map worker_rank (sm_workers s)) \<le> length (sm_workers s) * 4"
    using sum_list_mono [of "sm_workers s" worker_rank "\<lambda>_. 4"] by (simp add: sum_list_triv)
  moreover have "uplink_rank (sm_uplink s) \<le> 3" by (cases "sm_uplink s") simp_all
  moreover have "main_rank (sm_main s) \<le> 5" by (cases "sm_main s") simp_all
  ultimately show ?thesis by (simp add: work_left_def)
qed

text \<open>
  C10. SIGTERM ends the service. If the drain task runs while a connection is established or none is
  being opened, and the marker can be written, then every continuation without a further signal
  has at most \<open>10 + 4 n\<close> steps for \<open>n\<close> workers, whatever the backend and the builds do, and as long as the
  service has not finished it can take another step by itself, unless it waits for the container of a
  cancelled build: every continuation leads to the end once these containers have exited.
\<close>

theorem shutdown_completes:
  assumes "service_reachable b n marker s" and "sm_drain s = Drain_Scheduled" and "\<not> sm_stop_workers s"
    and "sm_ws s \<or> sm_uplink s \<in> {U_Check, U_Sleep}"
    and "service_run_steps b (run_drain True s) as s'" and "Signal \<notin> set as"
  shows "length as \<le> 10 + 4 * length (sm_workers s) \<and>
    (sm_main s' = M_Finished \<or> (\<exists>s''. service_step b Engine s' s'') \<or> W_Draining \<in> set (sm_workers s'))"
proof -
  have inv: "shutdown_inv s" by (rule reachable_shutdown_inv [OF assms(1)])
  have stop: "stopping (run_drain True s)" and ws: "sm_workers (run_drain True s) = sm_workers s"
    using assms(2,3,4) inv by (auto simp: stopping_def run_drain_def uplink_stop_def shutdown_inv_defs)
  have "shutdown_inv (run_drain True s)" by (rule shutdown_inv_step [OF drain_run [OF assms(2)] inv])
  then have "shutdown_inv s'" by (rule shutdown_inv_run [OF assms(5)])
  moreover note stopping_run [OF assms(5,6) stop]
  ultimately show ?thesis
    using stopping_progress [of s' b] work_left_le [of "run_drain True s"] ws by auto
qed

theorem shutdown_completes_witness:
  "\<exists>as s'. as \<noteq> [] \<and> service_run_steps default_backoff (run_drain True (schedule_drain ex_open)) as s' \<and>
    length as \<le> 10 + 4 * 1 \<and> (sm_main s' = M_Finished \<or> (\<exists>s''. service_step default_backoff Engine s' s''))"
proof -
  let ?s = "run_drain True (schedule_drain ex_open)" and ?b = default_backoff
  have "service_step ?b Engine ?s (?s\<lparr>sm_drain := Drain_Done, sm_socket := False\<rparr>)"
    by (rule drain_closed) (simp add: ex_service_defs service_ops)
  then have run: "service_run_steps ?b ?s [Engine] (?s\<lparr>sm_drain := Drain_Done, sm_socket := False\<rparr>)"
    by (blast intro: service_run_steps.intros)
  have "sm_drain (schedule_drain ex_open) = Drain_Scheduled" "\<not> sm_stop_workers (schedule_drain ex_open)"
    "sm_ws (schedule_drain ex_open)" "sm_workers (schedule_drain ex_open) = [W_Idle]" "sm_workers ?s = [W_Idle]"
    by (simp_all add: ex_service_defs service_ops)
  with shutdown_completes [OF ex_signalled_reachable(2) _ _ _ run] run show ?thesis
    by (intro exI [of _ "[Engine]"] exI [of _ "?s\<lparr>sm_drain := Drain_Done, sm_socket := False\<rparr>"]) auto
qed

section \<open>A stop request that is lost\<close>

text \<open>\<open>stop\<close> closes the socket that is stored in \<open>_ws\<close>. While a connection is being opened there is none, and
  \<open>connect_once\<close> does not look at the request again.\<close>

definition stop_missed :: "service_run \<Rightarrow> bool" where
  "stop_missed s \<longleftrightarrow> sm_main s = M_Serving \<and> sm_uplink s = U_Open \<and> sm_socket s \<and> sm_stop s \<and> sm_stop_workers s \<and>
     sm_drain s \<noteq> Drain_Closing"

lemma stop_missed_step: "service_step b a s s' \<Longrightarrow> a \<noteq> Backend \<Longrightarrow> stop_missed s \<Longrightarrow> stop_missed s'"
  by (induction rule: service_step.induct) (simp_all add: stop_missed_def service_ops)

lemma stop_missed_run: "service_run_steps b s as s' \<Longrightarrow> Backend \<notin> set as \<Longrightarrow> stop_missed s \<Longrightarrow> stop_missed s'"
  by (induction rule: service_run_steps.induct) (auto intro: stop_missed_step)

text \<open>
  C12. A SIGTERM that arrives while a connection is being opened does not end the service: if the
  connection is then established, the service keeps serving, however many signals follow and whatever
  the engine does by itself, until the backend closes or breaks the connection.
\<close>

theorem stop_lost_while_connecting:
  assumes "service_reachable b n marker s" and "sm_uplink s = U_Connecting"
    and "sm_drain s = Drain_Scheduled" and "\<not> sm_stop_workers s"
  shows "\<exists>s1 s2. service_step b Engine s s1 \<and> sm_stop s1 \<and> service_step b Engine s1 s2 \<and>
    (\<forall>as s'. service_run_steps b s2 as s' \<and> Backend \<notin> set as \<longrightarrow> sm_main s' = M_Serving \<and> sm_uplink s' = U_Open)"
proof -
  let ?s1 = "run_drain True s"
  let ?s2 = "?s1\<lparr>sm_uplink := U_Open, sm_ws := True, sm_socket := True\<rparr>"
  have inv: "shutdown_inv s" by (rule reachable_shutdown_inv [OF assms(1)])
  then have "\<not> sm_ws s" "sm_main s = M_Serving" using assms(2) by (auto simp: shutdown_inv_defs)
  then have s1: "sm_uplink ?s1 = U_Connecting" "sm_stop ?s1" and "stop_missed ?s2"
    using assms(2,4) by (simp_all add: stop_missed_def run_drain_def uplink_stop_def)
  moreover have "service_step b Engine s ?s1" by (rule drain_run [OF assms(3)])
  moreover have "service_step b Engine ?s1 ?s2" by (rule connected [OF s1(1)])
  ultimately show ?thesis using stop_missed_run [of b ?s2] by (metis stop_missed_def)
qed

theorem stop_lost_while_connecting_witness:
  "\<exists>s1 s2. service_step default_backoff Engine (schedule_drain ex_connecting) s1 \<and> sm_stop s1 \<and>
    service_step default_backoff Engine s1 s2 \<and> sm_main s2 = M_Serving"
proof -
  have "sm_uplink (schedule_drain ex_connecting) = U_Connecting" "sm_drain (schedule_drain ex_connecting) = Drain_Scheduled"
    "\<not> sm_stop_workers (schedule_drain ex_connecting)"
    by (simp_all add: ex_service_defs service_ops)
  from stop_lost_while_connecting [OF ex_signalled_reachable(1) this] show ?thesis using run_refl by fastforce
qed

section \<open>Containers of cancelled builds\<close>

lemma draining_kept:
  assumes "service_step b a s s'" "a \<noteq> Container" "sm_main s = M_Cancelling" "W_Draining \<in> set (sm_workers s)" "shutdown_inv s"
  shows "sm_main s' = M_Cancelling \<and> W_Draining \<in> set (sm_workers s')"
proof -
  have "workers_cancelled (sm_workers s)" using assms(3,5) by (simp add: shutdown_inv_defs)
  from assms(1-4) \<open>workers_cancelled (sm_workers s)\<close> show ?thesis
    by (induction rule: service_step.induct) (auto simp: service_ops list_all_iff worker_not_ended(2) split: sum.splits)
qed



text \<open>A signal whose marker cannot be written is lost as well: nothing is stopped.\<close>

lemma drain_failure_keeps_serving:
  "\<not> sm_stop_workers s \<Longrightarrow> run_drain False s = s\<lparr>sm_drain := Drain_Failed\<rparr>"
  by (simp add: run_drain_def)

section \<open>The next run\<close>

text \<open>
  C14. A stop by a signal outlives the process. The drain marker written on SIGTERM is found by the
  next run of the service, which refuses every assignment and records none of them, until a
  \<open>resume\<close> removes the marker.
\<close>

theorem signal_drains_next_run:
  assumes "\<not> Cli.sv_stop_workers sv"
    and "e = post_init (sv_engine (request_drain sv)\<lparr>es_draining := False, es_cache_resets := None\<rparr>)"
  shows "es_draining e \<and> (\<forall>now p. \<exists>r. assign now p e = (Inr r, e) \<and> \<not> cr_accepted r) \<and>
    \<not> es_drain_marker (snd (resume e))"
  using assms by (auto simp: request_drain_def drain_def post_init_def assign_def resume_def)

theorem signal_drains_next_run_witness:
  "es_draining (post_init (sv_engine (request_drain \<lparr>sv_engine = ex_engine_state [], sv_stop_workers = False, sv_uplink_stopped = False\<rparr>)
     \<lparr>es_draining := False, es_cache_resets := None\<rparr>))"
  using signal_drains_next_run [of "\<lparr>sv_engine = ex_engine_state [], sv_stop_workers = False, sv_uplink_stopped = False\<rparr>"] by simp

end
