(* ===== verification/Cache_Locks.thy ===== *)
theory Cache_Locks
  imports Prelude
begin

text \<open>
  The locks of the build cache (\<open>executor/cache.py\<close>). \<open>prepare_site_cache\<close>, \<open>reset_cache\<close> and
  \<open>prune_cache\<close> may be called from any threads (the job loop runs pruning in one); a site-scoped call takes \<open>_CACHE_ALL_LOCK\<close>, finds or creates the lock of its site
  under \<open>_CACHE_LOCKS_GUARD\<close> and takes that too, a reset of all sites takes \<open>_CACHE_ALL_LOCK\<close> only, and pruning
  takes none. No call takes a lock twice, so an owner is enough for a reentrant lock.
\<close>

datatype cache_call = Site_Call string | All_Call | Prune_Call

datatype call_phase =
    L_Start
  | L_All \<comment> \<open>holds \<open>_CACHE_ALL_LOCK\<close>\<close>
  | L_Guard \<comment> \<open>and \<open>_CACHE_LOCKS_GUARD\<close>\<close>
  | L_Found \<comment> \<open>has the site's lock object, the guard is released\<close>
  | L_Body \<comment> \<open>inside the \<open>with\<close> statement\<close>
  | L_Leaving \<comment> \<open>has released the site's lock\<close>
  | L_End

record lock_state =
  lk_calls :: "(cache_call \<times> call_phase) list" \<comment> \<open>one per thread\<close>
  lk_all :: "nat option"
  lk_guard :: "nat option"
  lk_sites :: "string \<rightharpoonup> nat option" \<comment> \<open>\<open>_CACHE_LOCKS\<close> with the owner of each lock\<close>

definition locks_init :: "cache_call list \<Rightarrow> lock_state" where
  "locks_init cs = \<lparr>lk_calls = map (\<lambda>c. (c, L_Start)) cs, lk_all = None, lk_guard = None, lk_sites = Map.empty\<rparr>"

definition at_phase :: "lock_state \<Rightarrow> nat \<Rightarrow> cache_call \<Rightarrow> call_phase \<Rightarrow> bool" where
  "at_phase s i c p \<longleftrightarrow> i < length (lk_calls s) \<and> lk_calls s ! i = (c, p)"

definition goto :: "nat \<Rightarrow> call_phase \<Rightarrow> lock_state \<Rightarrow> lock_state" where
  "goto i p s = s\<lparr>lk_calls := (lk_calls s)[i := (fst (lk_calls s ! i), p)]\<rparr>"

text \<open>\<open>_CACHE_LOCKS.setdefault(site_id, threading.RLock())\<close>.\<close>

definition setdefault_lock :: "string \<Rightarrow> lock_state \<Rightarrow> lock_state" where
  "setdefault_lock site s = (if lk_sites s site = None then s\<lparr>lk_sites := (lk_sites s)(site \<mapsto> None)\<rparr> else s)"

inductive lock_step :: "lock_state \<Rightarrow> lock_state \<Rightarrow> bool" where
  take_all_site: "at_phase s i (Site_Call site) L_Start \<Longrightarrow> lk_all s = None \<Longrightarrow> lock_step s (goto i L_All (s\<lparr>lk_all := Some i\<rparr>))"
| take_guard: "at_phase s i (Site_Call site) L_All \<Longrightarrow> lk_guard s = None \<Longrightarrow> lock_step s (goto i L_Guard (s\<lparr>lk_guard := Some i\<rparr>))"
| find_lock: "at_phase s i (Site_Call site) L_Guard \<Longrightarrow>
    lock_step s (goto i L_Found (setdefault_lock site (s\<lparr>lk_guard := None\<rparr>)))"
| take_site: "at_phase s i (Site_Call site) L_Found \<Longrightarrow> lk_sites s site = Some None \<Longrightarrow>
    lock_step s (goto i L_Body (s\<lparr>lk_sites := (lk_sites s)(site \<mapsto> Some i)\<rparr>))"
| drop_site: "at_phase s i (Site_Call site) L_Body \<Longrightarrow> lock_step s (goto i L_Leaving (s\<lparr>lk_sites := (lk_sites s)(site \<mapsto> None)\<rparr>))"
| drop_all_site: "at_phase s i (Site_Call site) L_Leaving \<Longrightarrow> lock_step s (goto i L_End (s\<lparr>lk_all := None\<rparr>))"
| take_all: "at_phase s i All_Call L_Start \<Longrightarrow> lk_all s = None \<Longrightarrow> lock_step s (goto i L_Body (s\<lparr>lk_all := Some i\<rparr>))"
| drop_all: "at_phase s i All_Call L_Body \<Longrightarrow> lock_step s (goto i L_End (s\<lparr>lk_all := None\<rparr>))"
| prune_starts: "at_phase s i Prune_Call L_Start \<Longrightarrow> lock_step s (goto i L_Body s)"
| prune_ends: "at_phase s i Prune_Call L_Body \<Longrightarrow> lock_step s (goto i L_End s)"

inductive lock_run :: "lock_state \<Rightarrow> nat \<Rightarrow> lock_state \<Rightarrow> bool" where
  lock_run_refl: "lock_run s 0 s"
| lock_run_step: "lock_run s n s1 \<Longrightarrow> lock_step s1 s2 \<Longrightarrow> lock_run s (Suc n) s2"

section \<open>Exclusion and progress\<close>

definition holds_all :: "cache_call \<times> call_phase \<Rightarrow> bool" where
  "holds_all cp = (case cp of
      (Site_Call _, p) \<Rightarrow> p \<in> {L_All, L_Guard, L_Found, L_Body, L_Leaving}
    | (All_Call, p) \<Rightarrow> p = L_Body
    | (Prune_Call, _) \<Rightarrow> False)"

text \<open>Phases a call of each kind can be in.\<close>

definition phase_ok :: "cache_call \<times> call_phase \<Rightarrow> bool" where
  "phase_ok cp = (case cp of (Site_Call _, _) \<Rightarrow> True | (_, p) \<Rightarrow> p \<in> {L_Start, L_Body, L_End})"

text \<open>The owner of each lock is the thread in the phases that hold it.\<close>

definition all_inv :: "lock_state \<Rightarrow> bool" where
  "all_inv s \<longleftrightarrow> (\<forall>i. lk_all s = Some i \<longleftrightarrow> i < length (lk_calls s) \<and> holds_all (lk_calls s ! i))"

definition guard_inv :: "lock_state \<Rightarrow> bool" where
  "guard_inv s \<longleftrightarrow> (\<forall>i. lk_guard s = Some i \<longrightarrow> (\<exists>site. at_phase s i (Site_Call site) L_Guard))"

definition sites_inv :: "lock_state \<Rightarrow> bool" where
  "sites_inv s \<longleftrightarrow> (\<forall>i site. lk_sites s site = Some (Some i) \<longrightarrow> at_phase s i (Site_Call site) L_Body) \<and>
     (\<forall>i site. at_phase s i (Site_Call site) L_Found \<longrightarrow> lk_sites s site \<noteq> None)"

definition phases_inv :: "lock_state \<Rightarrow> bool" where
  "phases_inv s \<longleftrightarrow> list_all phase_ok (lk_calls s)"

definition lock_inv :: "lock_state \<Rightarrow> bool" where
  "lock_inv s \<longleftrightarrow> all_inv s \<and> guard_inv s \<and> sites_inv s \<and> phases_inv s"

lemma lk_goto [simp]:
  "lk_all (goto i p s) = lk_all s" "lk_guard (goto i p s) = lk_guard s" "lk_sites (goto i p s) = lk_sites s"
  "length (lk_calls (goto i p s)) = length (lk_calls s)"
  by (simp_all add: goto_def)

lemma lk_setdefault [simp]:
  "lk_all (setdefault_lock site s) = lk_all s" "lk_guard (setdefault_lock site s) = lk_guard s"
  "lk_calls (setdefault_lock site s) = lk_calls s"
  by (simp_all add: setdefault_lock_def)

lemma calls_goto:
  "lk_calls (goto i p s) ! j = (if j = i \<and> i < length (lk_calls s) then (fst (lk_calls s ! i), p) else lk_calls s ! j)"
  by (auto simp: goto_def nth_list_update list_update_beyond)

lemmas lock_moves = at_phase_def calls_goto

lemma all_inv_move:
  assumes "all_inv s" "at_phase s i c p" "lk_calls s' = lk_calls s"
    and "lk_all s' = (if holds_all (c, q) = holds_all (c, p) then lk_all s else if holds_all (c, q) then Some i else None)"
    and "holds_all (c, q) \<Longrightarrow> holds_all (c, p) \<or> lk_all s = None"
  shows "all_inv (goto i q s')"
proof -
  have i: "i < length (lk_calls s)" "lk_calls s ! i = (c, p)" using assms(2) by (simp_all add: at_phase_def)
  have own: "lk_all s = Some j \<longleftrightarrow> j < length (lk_calls s) \<and> holds_all (lk_calls s ! j)" for j
    using assms(1) by (simp add: all_inv_def)
  have "lk_all s' = Some j \<longleftrightarrow> j < length (lk_calls s) \<and> holds_all (if j = i then (c, q) else lk_calls s ! j)" for j
    using own [of i] own [of j] assms(4,5) i by (cases "lk_all s") auto
  then show ?thesis using assms(3) i by (simp add: all_inv_def calls_goto)
qed

lemma all_inv_step: "lock_step s s' \<Longrightarrow> all_inv s \<Longrightarrow> all_inv s'"
  by (induction rule: lock_step.induct) (rule all_inv_move, assumption, assumption; simp add: holds_all_def)+

lemma guard_inv_step: "lock_step s s' \<Longrightarrow> guard_inv s \<Longrightarrow> guard_inv s'"
  by (induction rule: lock_step.induct) (fastforce simp: guard_inv_def lock_moves)+

lemma phases_inv_step: "lock_step s s' \<Longrightarrow> phases_inv s \<Longrightarrow> phases_inv s'"
  by (induction rule: lock_step.induct)
    (auto simp: phases_inv_def list_all_length phase_ok_def lock_moves split: cache_call.splits)

lemma sites_inv_step: "lock_step s s' \<Longrightarrow> sites_inv s \<Longrightarrow> sites_inv s'"
  by (induction rule: lock_step.induct) (fastforce simp: sites_inv_def lock_moves setdefault_lock_def split: if_splits)+

lemma lock_inv_init: "lock_inv (locks_init cs)"
  by (auto simp: lock_inv_def all_inv_def guard_inv_def sites_inv_def phases_inv_def locks_init_def at_phase_def holds_all_def
      phase_ok_def list_all_iff split: cache_call.splits)

lemma lock_inv_run: "lock_run s n s' \<Longrightarrow> lock_inv s \<Longrightarrow> lock_inv s'"
  by (induction rule: lock_run.induct)
    (auto simp: lock_inv_def intro: all_inv_step guard_inv_step sites_inv_step phases_inv_step)

fun phase_rank :: "call_phase \<Rightarrow> nat" where
  "phase_rank L_Start = 6" | "phase_rank L_All = 5" | "phase_rank L_Guard = 4" | "phase_rank L_Found = 3"
| "phase_rank L_Body = 2" | "phase_rank L_Leaving = 1" | "phase_rank L_End = 0"

definition calls_left :: "lock_state \<Rightarrow> nat" where
  "calls_left s = sum_list (map (phase_rank \<circ> snd) (lk_calls s))"

lemma sum_list_replace: "i < length xs \<Longrightarrow> f x < (f (xs ! i) :: nat) \<Longrightarrow> sum_list (map f (xs[i := x])) < sum_list (map f xs)"
  by (induction xs arbitrary: i) (auto simp: nth_Cons split: nat.splits)

lemma calls_left_goto:
  "at_phase s i c p \<Longrightarrow> lk_calls s' = lk_calls s \<Longrightarrow> phase_rank q < phase_rank p \<Longrightarrow> calls_left (goto i q s') < calls_left s"
  using sum_list_replace [of i "lk_calls s" "phase_rank \<circ> snd" "(c, q)"] by (simp add: calls_left_def goto_def at_phase_def)

lemma calls_left_step: "lock_step s s' \<Longrightarrow> calls_left s' < calls_left s"
  by (induction rule: lock_step.induct) (rule calls_left_goto, assumption; simp)+

lemma calls_left_run: "lock_run s n s' \<Longrightarrow> n + calls_left s' \<le> calls_left s"
  by (induction rule: lock_run.induct) (auto dest: calls_left_step)

lemma same_holder: "all_inv s \<Longrightarrow> at_phase s i c p \<Longrightarrow> holds_all (c, p) \<Longrightarrow> lk_all s = Some i"
  by (simp add: all_inv_def at_phase_def)

lemma holder_steps:
  assumes "lock_inv s" and "at_phase s i c p" and "holds_all (c, p)"
  shows "\<exists>s'. lock_step s s'"
proof (cases c)
  case (Site_Call site)
  have own: "lk_all s = Some i" using assms same_holder by (auto simp: lock_inv_def)
  have other: "j = i" if "at_phase s j d q" "holds_all (d, q)" for j d q
    using same_holder [OF _ that] own assms(1) by (simp add: lock_inv_def)
  consider "p = L_All" | "p = L_Guard" | "p = L_Found" | "p = L_Body" | "p = L_Leaving"
    using assms(3) Site_Call by (auto simp: holds_all_def)
  then show ?thesis
  proof cases
    case 1
    have "lk_guard s = None"
      using other assms(1,2) 1 Site_Call
      by (cases "lk_guard s") (fastforce simp: lock_inv_def guard_inv_def holds_all_def at_phase_def)+
    then show ?thesis using take_guard assms(2) 1 Site_Call by blast
  next
    case 3
    have "lk_sites s site \<noteq> None" using assms(1,2) 3 Site_Call by (auto simp: lock_inv_def sites_inv_def)
    moreover have "lk_sites s site \<noteq> Some (Some j)" for j
      using other [of j "Site_Call site" L_Body] assms(1,2) 3 Site_Call
      by (auto simp: lock_inv_def sites_inv_def holds_all_def at_phase_def)
    ultimately have "lk_sites s site = Some None" by (metis not_None_eq)
    then show ?thesis using take_site assms(2) 3 Site_Call by blast
  qed (use assms(2) Site_Call find_lock drop_site drop_all_site in blast)+
qed (use assms drop_all in \<open>auto simp: holds_all_def\<close>)

lemma no_deadlock:
  assumes "lock_inv s" and "at_phase s i c p" and "p \<noteq> L_End"
  shows "\<exists>s'. lock_step s s'"
proof (cases "lk_all s")
  case (Some j)
  then have "j < length (lk_calls s)" "holds_all (lk_calls s ! j)" using assms(1) by (auto simp: lock_inv_def all_inv_def)
  then show ?thesis using holder_steps [OF assms(1), of j] by (cases "lk_calls s ! j") (auto simp: at_phase_def)
next
  case None
  have "phase_ok (c, p)" using assms(1,2) by (auto simp: lock_inv_def phases_inv_def list_all_length at_phase_def)
  moreover have "\<not> holds_all (c, p)" using same_holder assms(1,2) None by (fastforce simp: lock_inv_def)
  ultimately show ?thesis
    using assms(2,3) None
    by (cases c; cases p) (auto simp: holds_all_def phase_ok_def intro: take_all_site take_all prune_starts prune_ends)
qed

text \<open>
  C15. Locked cache operations exclude each other and never block for good. Whatever calls run in
  parallel, at most one call that takes a lock is in its body at any time; every run has at most six
  steps per call, and as long as some call has not returned, some call can take a step.
\<close>

theorem cache_calls_exclusive:
  assumes "lock_run (locks_init cs) n s"
  shows "(\<forall>i j c d. at_phase s i c L_Body \<and> at_phase s j d L_Body \<and> Prune_Call \<notin> {c, d} \<longrightarrow> i = j) \<and>
    n \<le> 6 * length cs \<and> (list_all (\<lambda>(_, p). p = L_End) (lk_calls s) \<or> (\<exists>s'. lock_step s s'))"
proof -
  have inv: "lock_inv s" by (rule lock_inv_run [OF assms lock_inv_init])
  have "lk_all s = Some i" if "at_phase s i c L_Body" "c \<noteq> Prune_Call" for i c
    using same_holder [OF _ that(1)] that(2) inv by (cases c) (auto simp: lock_inv_def holds_all_def)
  then have one: "i = j" if "at_phase s i c L_Body" "at_phase s j d L_Body" "Prune_Call \<notin> {c, d}" for i j c d
    using that by (metis insert_iff option.inject)
  have "n \<le> 6 * length cs"
    using calls_left_run [OF assms] by (simp add: calls_left_def locks_init_def comp_def sum_list_triv)
  moreover have "list_all (\<lambda>(_, p). p = L_End) (lk_calls s) \<or> (\<exists>s'. lock_step s s')"
    using no_deadlock [OF inv] by (fastforce simp: list_all_length at_phase_def)
  ultimately show ?thesis using one by blast
qed

text \<open>Pruning is not part of this: it may run while a site's cache is being prepared.\<close>

lemma prune_overlaps:
  "\<exists>n s. lock_run (locks_init [Site_Call site, Prune_Call]) n s \<and> at_phase s 0 (Site_Call site) L_Body \<and> at_phase s 1 Prune_Call L_Body"
proof -
  let ?i = "locks_init [Site_Call site, Prune_Call]"
  have "lock_run ?i 0 ?i" by (rule lock_run_refl)
  note lock_run_step [OF this take_all_site [of _ 0 site]]
  note lock_run_step [OF this take_guard [of _ 0 site]]
  note lock_run_step [OF this find_lock [of _ 0 site]]
  note lock_run_step [OF this take_site [of _ 0 site]]
  note run = lock_run_step [OF this prune_starts [of _ 1]]
  show ?thesis
    by (intro exI conjI, rule run) (simp_all add: locks_init_def at_phase_def goto_def setdefault_lock_def)
qed

theorem cache_calls_exclusive_witness:
  "\<exists>n s. lock_run (locks_init [Site_Call ''a'', All_Call]) n s \<and> n \<noteq> 0 \<and> n \<le> 12 \<and> (\<exists>s'. lock_step s s')"
proof -
  let ?i = "locks_init [Site_Call ''a'', All_Call]"
  let ?s = "goto 0 L_All (?i\<lparr>lk_all := Some 0\<rparr>)"
  have "lock_step ?i ?s" by (rule take_all_site [of _ _ "''a''"]) (simp_all add: locks_init_def at_phase_def)
  then have run: "lock_run ?i (Suc 0) ?s" by (rule lock_run_step [OF lock_run_refl])
  moreover have "\<not> list_all (\<lambda>(_, p). p = L_End) (lk_calls ?s)" by (simp add: locks_init_def goto_def)
  ultimately show ?thesis using cache_calls_exclusive [OF run] by (intro exI [of _ "Suc 0"] exI [of _ ?s]) simp
qed

end
