(* ===== verification/Cache_Dirs.thy ===== *)
theory Cache_Dirs
  imports Cache_Correct
begin

text \<open>
  The directories of a site's cache (\<open>executor/cache.py\<close>: \<open>_remove_empty_dirs\<close>, \<open>touch_site_cache\<close>), which carry no bytes
  and are left out of \<open>Cache\<close>. A path is the list of its names below the site's root; everything that is
  no directory, symbolic links included, is a file here.
\<close>

record dir_tree =
  dt_dirs :: "string list list"
  dt_files :: "string list list"

definition dir_tree_wf :: "dir_tree \<Rightarrow> bool" where
  "dir_tree_wf t \<longleftrightarrow> set (dt_dirs t) \<inter> set (dt_files t) = {} \<and> [] \<notin> set (dt_dirs t) \<and>
     (\<forall>p \<in> set (dt_dirs t) \<union> set (dt_files t). \<forall>d. strict_prefix d p \<and> d \<noteq> [] \<longrightarrow> d \<in> set (dt_dirs t))"

text \<open>\<open>path.rmdir()\<close>, with the \<open>OSError\<close> of a directory that is not empty ignored.\<close>

definition dir_empty :: "string list \<Rightarrow> dir_tree \<Rightarrow> bool" where
  "dir_empty d t \<longleftrightarrow> \<not> list_ex (\<lambda>p. p \<noteq> [] \<and> butlast p = d) (dt_dirs t @ dt_files t)"

definition try_rmdir :: "string list \<Rightarrow> dir_tree \<Rightarrow> dir_tree" where
  "try_rmdir d t = (if dir_empty d t then t\<lparr>dt_dirs := filter (\<lambda>x. x \<noteq> d) (dt_dirs t)\<rparr> else t)"

text \<open>\<open>sorted(..., reverse=True)\<close>: paths are compared name by name, so a directory comes after what it contains.\<close>

definition remove_empty_dirs :: "dir_tree \<Rightarrow> dir_tree" where
  "remove_empty_dirs t = fold try_rmdir (rev (sort (dt_dirs t))) t"

definition touch_site_cache :: "int \<Rightarrow> site_dir \<Rightarrow> site_dir" where
  "touch_site_cache now d = d\<lparr>sd_mtime := now,
     sd_files := map (\<lambda>f. if cf_path f = [METADATA_FILENAME] then f\<lparr>cf_atime := now, cf_mtime := now\<rparr> else f) (sd_files d)\<rparr>"

text \<open>\<open>_prune_children_lru\<close> with the directories: the loop returns as soon as the size is within the limit, and the
  directories are visited only when it has run out of candidates.\<close>

fun lru_returns :: "int \<Rightarrow> int \<Rightarrow> string list list \<Rightarrow> site_dir \<Rightarrow> bool" where
  "lru_returns now limit [] d = False"
| "lru_returns now limit (p # ps) d = (directory_size_bytes d \<le> limit \<or> lru_returns now limit ps (unlink now p d))"

definition lru_candidates :: "site_dir \<Rightarrow> string list list" where
  "lru_candidates d = map cf_path (sort_key cf_atime (filter (\<lambda>f. \<not> bookkeeping f) (sd_files d)))"

definition prune_children_dirs :: "int \<Rightarrow> int \<Rightarrow> site_dir \<Rightarrow> string list list \<Rightarrow> site_dir \<times> string list list" where
  "prune_children_dirs now limit d dirs =
     (let d' = prune_children_lru now limit d in
      (d', if lru_returns now limit (lru_candidates d) d then dirs
           else dt_dirs (remove_empty_dirs \<lparr>dt_dirs = dirs, dt_files = map cf_path (sd_files d')\<rparr>)))"

section \<open>Empty directories\<close>

text \<open>\<open>touch_site_cache\<close> after the metadata has been written changes nothing more.\<close>

lemma touch_after_write: "touch_site_cache now (write_file now METADATA_FILENAME content d) = write_file now METADATA_FILENAME content d"
proof -
  have "map (\<lambda>f. if cf_path f = [METADATA_FILENAME] then f\<lparr>cf_atime := now, cf_mtime := now\<rparr> else f)
      (filter (\<lambda>f. cf_path f \<noteq> [METADATA_FILENAME]) fs) = filter (\<lambda>f. cf_path f \<noteq> [METADATA_FILENAME]) fs" for fs
    by (rule map_idI) auto
  then show ?thesis by (cases d) (simp add: touch_site_cache_def write_file_def)
qed

lemma try_rmdir_files [simp]: "dt_files (try_rmdir d t) = dt_files t"
  by (simp add: try_rmdir_def)

lemma fold_rmdir_files [simp]: "dt_files (fold try_rmdir ds t) = dt_files t"
  by (induction ds arbitrary: t) auto

lemma prefix_less: "strict_prefix d p \<Longrightarrow> d < (p :: 'a::linorder list)"
proof (induction d arbitrary: p)
  case Nil
  then show ?case by (cases p) auto
next
  case (Cons a d)
  then show ?case by (cases p) auto
qed

definition below :: "string list \<Rightarrow> dir_tree \<Rightarrow> bool" where
  "below d t \<longleftrightarrow> (\<exists>f \<in> set (dt_files t). strict_prefix d f)"

text \<open>The tree after the directories \<open>seen\<close> have been visited.\<close>

definition visited :: "dir_tree \<Rightarrow> string list set \<Rightarrow> dir_tree \<Rightarrow> bool" where
  "visited t seen u \<longleftrightarrow> dt_files u = dt_files t \<and> set (dt_dirs u) = {d \<in> set (dt_dirs t). d \<in> seen \<longrightarrow> below d t}"

lemma visit_next:
  assumes wf: "dir_tree_wf t" and u: "visited t seen u" and d: "d \<in> set (dt_dirs t)"
    and seen: "\<And>x. x \<in> set (dt_dirs t) \<Longrightarrow> d < x \<Longrightarrow> x \<in> seen"
  shows "visited t (insert d seen) (try_rmdir d u)"
proof -
  have "d \<noteq> []" using wf d by (auto simp: dir_tree_wf_def)
  have "dir_empty d u \<longleftrightarrow> \<not> below d t"
  proof
    assume empty: "dir_empty d u"
    show "\<not> below d t"
    proof
      assume "below d t"
      then obtain f x r where f: "f \<in> set (dt_files t)" "f = d @ x # r"
        by (auto simp: below_def elim: strict_prefixE')
      show False
      proof (cases "r = []")
        case True
        then have "d @ [x] \<in> set (dt_files u)" using f u by (simp add: visited_def)
        then show False using empty by (force simp: dir_empty_def list_ex_iff)
      next
        case False
        then have "strict_prefix (d @ [x]) f" using f(2) by (auto simp: strict_prefix_def)
        then have "d @ [x] \<in> set (dt_dirs u)"
          using wf f(1) u by (auto simp: dir_tree_wf_def visited_def below_def)
        then show False using empty by (force simp: dir_empty_def list_ex_iff)
      qed
    qed
  next
    assume none: "\<not> below d t"
    show "dir_empty d u"
    proof (rule ccontr)
      assume "\<not> dir_empty d u"
      then obtain p where p: "p \<in> set (dt_dirs u) \<union> set (dt_files t)" "p \<noteq> []" "butlast p = d"
        using u by (auto simp: dir_empty_def list_ex_iff visited_def)
      then have sp: "strict_prefix d p" by (metis append_butlast_last_id strict_prefixI')
      then have "p \<notin> set (dt_files t)" using none unfolding below_def by blast
      then have "p \<in> set (dt_dirs u)" using p(1) by simp
      moreover have "p \<in> seen" using seen prefix_less [OF sp] u calculation by (auto simp: visited_def)
      ultimately have "below p t" using u by (auto simp: visited_def)
      then show False using none sp by (auto simp: below_def dest: prefix_order.less_trans)
    qed
  qed
  then show ?thesis using u by (auto simp: visited_def try_rmdir_def)
qed

lemma visit_all:
  assumes "dir_tree_wf t"
  shows "visited t (set seen) u \<Longrightarrow> sorted_wrt (\<ge>) (seen @ ds) \<Longrightarrow> set (seen @ ds) = set (dt_dirs t) \<Longrightarrow>
    visited t (set (dt_dirs t)) (fold try_rmdir ds u)"
proof (induction ds arbitrary: seen u)
  case (Cons d ds)
  have "x \<in> set seen" if "x \<in> set (dt_dirs t)" "d < x" for x
    using Cons.prems(2,3) that by (force simp: sorted_wrt_append)
  then have "visited t (set (seen @ [d])) (try_rmdir d u)"
    using visit_next [OF assms Cons.prems(1), of d] Cons.prems(3) by auto
  from Cons.IH [OF this] show ?case using Cons.prems by simp
qed simp

text \<open>
  \<open>_remove_empty_dirs\<close> removes exactly the directories without a file below them, however deeply nested,
  although it looks at every directory once and removes it only if it is empty at that moment; files are
  left alone.
\<close>

theorem remove_empty_dirs_exact:
  assumes "dir_tree_wf t"
  shows "set (dt_dirs (remove_empty_dirs t)) = {d \<in> set (dt_dirs t). \<exists>f \<in> set (dt_files t). strict_prefix d f} \<and>
    dt_files (remove_empty_dirs t) = dt_files t"
proof -
  have "sorted_wrt (\<ge>) (rev (sort (dt_dirs t)))" by (simp add: sorted_wrt_rev)
  moreover have "visited t {} t" by (simp add: visited_def)
  ultimately have "visited t (set (dt_dirs t)) (remove_empty_dirs t)"
    using visit_all [OF assms, of "[]" t "rev (sort (dt_dirs t))"] by (simp add: remove_empty_dirs_def)
  then show ?thesis by (auto simp: visited_def below_def)
qed

definition ex_tree :: dir_tree where
  "ex_tree = \<lparr>dt_dirs = [[''a''], [''a'', ''b''], [''a'', ''b'', ''c''], [''k'']], dt_files = [[''k'', ''f'']]\<rparr>"

theorem remove_empty_dirs_exact_witness:
  "set (dt_dirs (remove_empty_dirs ex_tree)) = {[''k'']} \<and> dt_files (remove_empty_dirs ex_tree) = [[''k'', ''f'']]"
proof -
  have "dir_tree_wf ex_tree"
    by (auto simp: dir_tree_wf_def ex_tree_def strict_prefix_def prefix_Cons)
  from remove_empty_dirs_exact [OF this] show ?thesis by (auto simp: ex_tree_def strict_prefix_def prefix_Cons)
qed

text \<open>A pruning that stops early leaves every directory, also those it has just emptied.\<close>

lemma early_return_keeps_dirs:
  "lru_returns now limit (lru_candidates d) d \<Longrightarrow> snd (prune_children_dirs now limit d dirs) = dirs"
  by (simp add: prune_children_dirs_def Let_def)

lemma pruned_files: "fst (prune_children_dirs now limit d dirs) = prune_children_lru now limit d"
  by (simp add: prune_children_dirs_def Let_def)

end
