(* ===== verification/File_Hash.thy ===== *)
theory File_Hash
  imports Prelude
begin

text \<open>
  Hashing a file in pieces (\<open>executor/cache.py\<close> and \<open>executor/artifact.py\<close>: \<open>_sha256_file\<close>). The hash object of \<open>hashlib\<close> is a
  parameter: its initial state, \<open>update\<close> and \<open>hexdigest\<close>. Its documented law, that feeding two pieces in turn is
  feeding their concatenation, is the interface \<open>incremental_hash\<close>.
\<close>

locale incremental_hash =
  fixes update :: "'s \<Rightarrow> string \<Rightarrow> 's"
  assumes update_append: "update (update s a) b = update s (a @ b)"
    and update_nothing: "update s [] = s"
begin

lemma foldl_update: "foldl update s pieces = update s (concat pieces)"
proof (induction pieces arbitrary: s)
  case (Cons a pieces)
  have "foldl update s (a # pieces) = update (update s a) (concat pieces)" by (simp add: Cons.IH)
  also have "\<dots> = update s (concat (a # pieces))" by (simp add: update_append)
  finally show ?case .
qed (simp add: update_nothing)

end

text \<open>\<open>while chunk := handle.read(n)\<close>: pieces of \<open>n\<close> bytes until the end of the file.\<close>

function file_pieces :: "nat \<Rightarrow> string \<Rightarrow> string list" where
  "file_pieces n content = (if content = [] \<or> n = 0 then [] else take n content # file_pieces n (drop n content))"
  by auto
termination
  by (relation "measure (\<lambda>(n, content). length content)") auto

declare file_pieces.simps [simp del]

definition CHUNK_BYTES :: nat where "CHUNK_BYTES = 1024 * 1024"

definition sha256_file :: "'s \<Rightarrow> ('s \<Rightarrow> string \<Rightarrow> 's) \<Rightarrow> ('s \<Rightarrow> string) \<Rightarrow> string \<Rightarrow> string" where
  "sha256_file start update hexdigest content = hexdigest (foldl update start (file_pieces CHUNK_BYTES content))"

lemma concat_file_pieces: "0 < n \<Longrightarrow> concat (file_pieces n content) = content"
  by (induction n content rule: file_pieces.induct) (subst file_pieces.simps, auto)

text \<open>
  The other theories take SHA-256 as a function of the whole content. This is the hash object that
  collects its input; with it the file is hashed as one piece.
\<close>

interpretation collected: incremental_hash "(@)"
  by unfold_locales simp_all

lemma sha256_file_whole: "sha256_file [] (@) sha256 content = sha256 content"
  using collected.foldl_update [of "[]" "file_pieces CHUNK_BYTES content"]
  by (simp add: sha256_file_def concat_file_pieces CHUNK_BYTES_def)

lemma sha256_file_one_update:
  assumes "incremental_hash update"
  shows "sha256_file start update hexdigest content = hexdigest (update start content)"
  using incremental_hash.foldl_update [OF assms, of start "file_pieces CHUNK_BYTES content"]
  by (simp add: sha256_file_def concat_file_pieces CHUNK_BYTES_def)

end
