(* ===== verification/Spec2Isabelle.thy ===== *)
theory Spec2Isabelle
  imports Cache_Correct Framework_Correct Docker_Correct Workspace_Correct Attempt_Life Job_Outcomes
    Config_Correct Cli_Correct Cli_Args_Correct Temp_Files Contract_Sync
    Timestamps Store_Failures Service Cache_Locks Cache_Dirs File_Hash
begin

text \<open>
  Verification of the mincemeat build engine (\<open>src/src/build_engine\<close>).

  \<^bold>\<open>The program.\<close> The engine is an agent that builds static sites for a backend. It keeps one
  websocket to the backend (\<open>agent/uplink.py\<close>, frames of \<open>agent/protocol.py\<close>), records assigned
  build attempts in a SQLite queue (\<open>queue/store.py\<close>, commands in \<open>queue/handlers.py\<close>), and runs a
  pool of workers (\<open>agent/job_loop.py\<close>). A worker leases an attempt, downloads and unpacks its
  source (\<open>executor/workspace.py\<close>), works out how to build it (\<open>detect/\<close>), runs a Docker container
  (\<open>executor/docker_runner.py\<close>, \<open>executor/network.py\<close>) with the site's cache (\<open>executor/cache.py\<close>) and
  redacted logs (\<open>executor/stream.py\<close>), packages and uploads the output (\<open>executor/validate.py\<close>,
  \<open>executor/artifact.py\<close>) and settles the attempt. Everything reported on the way goes through an
  outbox in the same database, which replays unacknowledged events after a reconnect. The operator
  registers the engine once, which stores its credentials (\<open>agent/auth.py\<close>, \<open>config.py\<close>), checks the host
  (\<open>cli/doctor.py\<close>), starts the service and drains or resumes it (\<open>cli/commands.py\<close>).

  \<^bold>\<open>The theories.\<close> Text is the UTF-8 encoding of a Python \<open>str\<close>; exceptions are values of \<^typ>\<open>exn\<close>,
  fallible code returns \<^typ>\<open>'a result\<close>, stateful code takes and returns its state. Times are
  integers in milliseconds, Python's unbounded integers are \<^typ>\<open>int\<close>, floats are kept as decimals.

  \<^item> \<open>Prelude\<close>, \<open>Py_Text\<close>, \<open>Json\<close>, \<open>Json_Round\<close>, \<open>Uuid\<close>, \<open>Url\<close>: exceptions and results, the SQL operations on
    lists of rows, the Python string functions, \<open>shlex\<close>, \<open>json\<close> with its round trip, \<open>uuid.UUID\<close> and
    \<open>urlparse\<close>, as far as the sources use them.
  \<^item> \<open>Queue_Store\<close>: the tables and every operation of \<open>SQLiteQueueStore\<close>. \<open>Queue_Invariants\<close> and \<open>Queue_Ops\<close>
    hold the invariant and one effect lemma per operation, \<open>Queue_Correct\<close> leasing (the oldest attempt
    that can be leased, totality, live leases, fencing of stale workers), \<open>Queue_Outcomes\<close> the other
    operations branch by branch, \<open>Store_Steps\<close> the database as a state machine with its invariant over
    all interleavings, \<open>Attempt_Life\<close> the refinement of an abstract life cycle of an attempt,
    \<open>Store_Failures\<close> that a call that raises changes no table. \<open>Timestamps\<close>: the text form of a time, whose
    order SQLite uses, and the query of \<open>acquire_lease\<close> on texts.
  \<^item> \<open>Event_Outbox\<close>, \<open>Event_Correct\<close>: \<open>SQLiteEventOutbox\<close>: sequence numbers, appending, pruning within the
    byte budget, exact replay.
  \<^item> \<open>Protocol\<close>, \<open>Protocol_Correct\<close>: envelopes, their validation and the frame round trip.
  \<^item> \<open>Handlers\<close>: \<open>SQLiteCommandHandlers\<close>, \<open>queue/leases.py\<close> and \<open>queue/dlq.py\<close>. \<open>Uplink\<close>, \<open>Uplink_Correct\<close>: publishing,
    welcome, hello, replay, every inbound command, one connection and the reconnect loop. The
    outbox the uplink publishes through is a locale there, interpreted on the engine's store.
  \<^item> \<open>Project\<close>, \<open>Framework\<close>, \<open>Framework_Correct\<close>: \<open>package.json\<close>, lockfiles, framework detection, Node
    selection, the static-compatibility rules and the build plan.
  \<^item> \<open>Cache\<close>, \<open>Cache_Correct\<close>: site caches, their metadata, pruning and reset. \<open>Cache_Dirs\<close>: the removal of
    empty directories. \<open>Cache_Locks\<close>: the locks as a state machine. \<open>File_Hash\<close>: hashing in pieces. \<open>Workspace\<close>,
    \<open>Workspace_Correct\<close>: workspaces, download, \<open>Path.resolve()\<close>, extraction. \<open>Config\<close>: the configuration
    record and its validation. \<open>Docker\<close>, \<open>Docker_Correct\<close>: images, command line, environment file, the
    wait for the container. \<open>Temp_Files\<close>: the files around a run and their removal. \<open>Log_Stream\<close>: decoding, redaction and framing of output. \<open>Artifact\<close>: output
    validation, packaging, upload. \<open>Auth\<close>: attempt secrets and credential checks. \<open>Metrics\<close>: counters,
    heartbeats and the Prometheus text.
  \<^item> \<open>Credentials\<close>: the credentials file as a sequence of system calls any of which may fail, its
    reading, sessions, registration and validation. \<open>Credentials_Correct\<close>: the file is replaced as a whole
    or not at all, is read back, and a refresh keeps the engine's identity. \<open>Registration\<close>: registration
    end to end, by the service account and by a privileged process. \<open>Config_Load\<close>, \<open>Config_Correct\<close>: the
    layers of \<open>load_config\<close> over values of unchecked types, the value each setting gets, and the agreement
    of the checks with those of the typed record. \<open>Connection\<close>: session refresh, address and headers, and
    \<open>connect_once\<close> from there on.
  \<^item> \<open>Doctor\<close>, \<open>Cli\<close>, \<open>Cli_Correct\<close>: every check of \<open>doctor\<close>, the commands with their exit codes, the gate
    before the service starts; what a healthy report guarantees, and how \<open>drain\<close> and \<open>resume\<close> reach a
    running service. \<open>Cli_Args\<close>, \<open>Cli_Args_Correct\<close>: the argument parser as data, the reading of the words,
    the logging setup and the arguments of every handler; a request is read back exactly, and what
    \<open>register\<close> does to the configured concurrency.
  \<^item> \<open>Service\<close>: the tasks of the running service (reconnect loop, workers, signal handler, drain task, shutdown) as a
    state machine: the order of the shutdown, that it ends, the stop request that is lost, and the
    drain marker that outlives the process.
  \<^item> \<open>Contract_Sync\<close>: the script that pins the engine's part of the backend's OpenAPI document and checks the
    image-manifest version (\<open>scripts/sync_contracts.py\<close>): what a snapshot holds, that it is a fixed point, and
    what a run changes.
  \<^item> \<open>Job_Loop\<close>: \<open>run_container\<close>, \<open>execute_job\<close> and the worker, composed of all of the above.
    \<open>Job_Correct\<close> states what an attempt does to the queue, in two locales: a view of the database that
    the outbox keeps (\<open>spool_view\<close>), and a pair of views connected by the final transition
    (\<open>attempt_view\<close>). \<open>Lease_Safety\<close> interprets them with the ownership of a lease token and shows that
    a worker's turn gives its lease back whatever happens; \<open>Queue_Drain\<close> interprets them with the
    rows themselves and shows that the queue drains; \<open>Job_Outcomes\<close> says what success and failure of
    an attempt mean. \<open>Fixtures\<close> and \<open>Job_Fixtures\<close> hold the concrete engines of the witnesses.

  \<^bold>\<open>State and interleaving.\<close> The database is the record \<^typ>\<open>store\<close> (one list of rows per table, in
  rowid order, and the payloads kept in memory); the engine adds the drain flag and its marker
  file, the cache directory and the connection; a worker's \<^typ>\<open>world\<close> adds the metrics and the
  directory of workspaces. Every call of the store is one atomic step, as its transactions and
  locks make it; \<open>store_step\<close> lets the calls of all tasks interleave freely. Within the event loop
  tasks interleave at \<open>await\<close>: \<open>je_others\<close> is an arbitrary change made by the other tasks at each
  suspension, restricted in the theorems by what they may do (\<open>other_step\<close>, \<open>quiet\<close>).

  \<^bold>\<open>Loops.\<close> All functions are total. \<open>acquire_loop\<close> decreases the number of leasable rows, the outbox's
  \<open>prune_loop\<close> the number of events, \<open>realpath\<close> the number of links not followed yet, \<open>container_loop\<close> the
  time to the deadline, the frame loop the text left; the polls of \<open>wait_loop\<close> and the turns of
  \<open>worker_run\<close> are lists, \<open>nearest_existing_path\<close> shortens its path, \<open>find_year\<close> counts up to the day searched,
  \<open>file_pieces\<close> consumes the file, \<open>parse_known\<close> the words of the command line, and the theorems say how many are enough (one poll past the deadline,
  three turns for each row). \<open>run_forever\<close> runs over a list of connection outcomes.

  \<^bold>\<open>Parameters.\<close> What is not part of the repository is an argument: the clock and ISO timestamps,
  \<open>uuid4\<close>, SHA-256, the socket, HTTP servers, tar and gzip, the Docker daemon and the container, the
  PEP 440 specifiers of \<open>packaging\<close>, Unicode properties of non-ASCII text, the files of a project, which words \<open>argparse\<close>
  takes for negative numbers.
  Texts of library exceptions are abbreviated.

  \<open>tomllib\<close> is an argument too; the theorems that read back a file assume only that it reads flat
  documents of bare keys and basic strings (\<open>toml_flat\<close>) as TOML defines them.

  \<^bold>\<open>Not modelled.\<close> The texts of help and error messages, and terminal output; the timing of the heartbeat task;
  what a cancelled build leaves in the database (its lease expires, see \<open>Queue_Correct\<close>); file descriptors; permission to read a file
  (the process may read the files it opens).
\<close>

end
